(* ===== verification/Prelude.thy ===== *)
theory Prelude
  imports Main "HOL-Library.Monad_Syntax" "HOL-Library.State_Monad" "HOL-Library.AList"
    "HOL-Library.Sublist" "HOL-Library.Multiset" "HOL-Library.Word"
begin

text \<open>
  What every component shares: Go's error values and panics, Go maps as association lists,
  the pieces of the packages \<open>strings\<close> and \<open>fmt\<close> that the source uses, and a weakest
  precondition calculus for the state monad in which the effectful code is written.

  Effectful code has the type \<open>('s, 'a) state\<close> of \<^verbatim>\<open>HOL-Library.State_Monad\<close>. Go returns an
  error as a value, so a Go function \<open>f() (T, error)\<close> is a computation with result
  \<open>go_error + 'a\<close> and one that returns only an error has result \<open>go_error option\<close>. A run-time
  panic is the value \<open>Panics\<close> of \<open>'a go\<close>; only functions that can panic have that type.
\<close>

section \<open>Collections of rules\<close>

named_theorems wp_simps \<open>weakest preconditions of computations, as rewrite rules\<close>
named_theorems safe_intros \<open>computations whose new events all satisfy a predicate\<close>

section \<open>Errors and panics\<close>

text \<open>
  The dynamic types of the errors the code distinguishes. \<open>StatusError\<close> is
  \<open>*apierrors.StatusError\<close> with its reason; the next three are the error types of
  \<^verbatim>\<open>pkg/controller/machine/create.go\<close>; \<open>Wrapped\<close> is the result of \<open>errors.Wrap\<close> of
  \<^verbatim>\<open>github.com/pkg/errors\<close>; \<open>PlainError\<close> is any other error, by its text.
\<close>

datatype go_error =
    StatusError string string
  | NotReadyError string
  | UnrecoverableError string
  | ReleaseError string go_error
  | Wrapped string go_error
  | PlainError string

datatype 'a go = Returns 'a | Panics

text \<open>\<open>err.Error()\<close>.\<close>

fun errorText :: "go_error \<Rightarrow> string" where
  "errorText (StatusError _ msg) = msg"
| "errorText (NotReadyError msg) = msg"
| "errorText (UnrecoverableError reason) = reason"
| "errorText (ReleaseError _ e) = errorText e"
| "errorText (Wrapped msg e) = msg @ '': '' @ errorText e"
| "errorText (PlainError msg) = msg"

text \<open>\<open>errors.Cause\<close>: unwrap while the error has a \<open>Cause\<close> method. The error types of the
  machine controller have none.\<close>

fun errorCause :: "go_error \<Rightarrow> go_error" where
  "errorCause (Wrapped _ e) = errorCause e"
| "errorCause e = e"

text \<open>\<open>apierrors.ReasonForError\<close> looks at the error itself and never unwraps it, so a wrapped
  not-found error is not a not-found error.\<close>

definition StatusReasonNotFound :: string where
  "StatusReasonNotFound = ''NotFound''"

definition StatusReasonTooManyRequests :: string where
  "StatusReasonTooManyRequests = ''TooManyRequests''"

definition StatusReasonUnknown :: string where
  "StatusReasonUnknown = ''''"

fun reasonForError :: "go_error \<Rightarrow> string" where
  "reasonForError (StatusError r _) = r"
| "reasonForError _ = StatusReasonUnknown"

definition isNotFound :: "go_error \<Rightarrow> bool" where
  "isNotFound e \<longleftrightarrow> reasonForError e = StatusReasonNotFound"

definition isTooManyRequests :: "go_error \<Rightarrow> bool" where
  "isTooManyRequests e \<longleftrightarrow> reasonForError e = StatusReasonTooManyRequests"

lemma isNotFound_simps [simp]:
  "isNotFound (StatusError r m) \<longleftrightarrow> r = StatusReasonNotFound"
  "\<not> isNotFound (NotReadyError m)" "\<not> isNotFound (UnrecoverableError m)"
  "\<not> isNotFound (ReleaseError s e)" "\<not> isNotFound (Wrapped m e)" "\<not> isNotFound (PlainError m)"
  by (auto simp: isNotFound_def StatusReasonNotFound_def StatusReasonUnknown_def)

lemma isNotFound_not_too_many: "isNotFound e \<Longrightarrow> \<not> isTooManyRequests e"
  by (auto simp: isNotFound_def isTooManyRequests_def StatusReasonNotFound_def
      StatusReasonTooManyRequests_def)

lemma errorCause_not_wrapped [simp]: "errorCause e \<noteq> Wrapped m e'"
  by (induction e) auto

text \<open>The error of a result, as the second component of Go's \<open>(T, error)\<close>.\<close>

definition errOf :: "go_error + 'a \<Rightarrow> go_error option" where
  "errOf r = (case r of Inl e \<Rightarrow> Some e | Inr _ \<Rightarrow> None)"

lemma errOf_simps [simp]: "errOf (Inl e) = Some e" "errOf (Inr a) = None"
  by (simp_all add: errOf_def)

lemma errOf_None_iff: "errOf r = None \<longleftrightarrow> (\<exists>a. r = Inr a)"
  by (cases r) simp_all

section \<open>Strings\<close>

text \<open>\<open>strings.Split\<close> with a one-byte separator: the empty string has one, empty, field.\<close>

fun splitOn :: "char \<Rightarrow> string \<Rightarrow> string list" where
  "splitOn c [] = [[]]"
| "splitOn c (x # xs) =
     (if x = c then [] # splitOn c xs
      else case splitOn c xs of [] \<Rightarrow> [[x]] | f # fs \<Rightarrow> (x # f) # fs)"

text \<open>\<open>strings.Join\<close>.\<close>

fun joinWith :: "string \<Rightarrow> string list \<Rightarrow> string" where
  "joinWith sep [] = []"
| "joinWith sep [f] = f"
| "joinWith sep (f # g # fs) = f @ sep @ joinWith sep (g # fs)"

lemma splitOn_not_Nil [simp]: "splitOn c s \<noteq> []"
  by (induction s) (auto split: list.splits)

lemma splitOn_no_sep: "c \<notin> set s \<Longrightarrow> splitOn c s = [s]"
  by (induction s) auto

lemma splitOn_append: "c \<notin> set f \<Longrightarrow> splitOn c (f @ c # s) = f # splitOn c s"
  by (induction f) auto

lemma joinWith_Cons: "fs \<noteq> [] \<Longrightarrow> joinWith sep (f # fs) = f @ sep @ joinWith sep fs"
  by (cases fs) simp_all

text \<open>Splitting undoes joining when no field holds the separator, and joining undoes
  splitting always.\<close>

lemma splitOn_joinWith:
  "fs \<noteq> [] \<Longrightarrow> (\<And>f. f \<in> set fs \<Longrightarrow> c \<notin> set f) \<Longrightarrow> splitOn c (joinWith [c] fs) = fs"
proof (induction fs)
  case Nil
  then show ?case by simp
next
  case (Cons f fs)
  show ?case
  proof (cases "fs = []")
    case True
    with Cons.prems show ?thesis by (simp add: splitOn_no_sep)
  next
    case False
    then have "joinWith [c] (f # fs) = f @ c # joinWith [c] fs"
      by (simp add: joinWith_Cons)
    moreover from Cons.prems(2) have "c \<notin> set f" by simp
    moreover from False Cons have "splitOn c (joinWith [c] fs) = fs" by simp
    ultimately show ?thesis by (simp add: splitOn_append)
  qed
qed

lemma joinWith_splitOn: "joinWith [c] (splitOn c s) = s"
proof (induction s)
  case Nil
  then show ?case by simp
next
  case (Cons x xs)
  then show ?case
    by (cases "splitOn c xs"; cases "tl (splitOn c xs)") (auto simp: joinWith_Cons)
qed

text \<open>\<open>fmt.Sprintf("%x", bytes)\<close>: two lower-case hexadecimal digits per byte.\<close>

definition hexDigit :: "nat \<Rightarrow> char" where
  "hexDigit n = ''0123456789abcdef'' ! (n mod 16)"

definition hexOf :: "string \<Rightarrow> string" where
  "hexOf bs = concat (map (\<lambda>b. [hexDigit (of_char b div 16), hexDigit (of_char b)]) bs)"

lemma length_hexOf [simp]: "length (hexOf bs) = 2 * length bs"
  by (induction bs) (simp_all add: hexOf_def)

section \<open>Go maps\<close>

text \<open>
  A Go map is an association list with distinct keys; the order of the list stands for the
  order in which a \<open>range\<close> loop happens to visit it. \<open>goGet\<close> is \<open>v, ok := m[k]\<close>, \<open>goIndex\<close> is
  \<open>m[k]\<close> at a string-like type (the zero value when the key is absent) and \<open>goPut\<close> is
  \<open>m[k] = v\<close>.
\<close>

type_synonym 'v go_map = "(string \<times> 'v) list"

definition goGet :: "'v go_map \<Rightarrow> string \<Rightarrow> 'v option" where
  "goGet m k = map_of m k"

definition goIndex :: "string go_map \<Rightarrow> string \<Rightarrow> string" where
  "goIndex m k = (case map_of m k of None \<Rightarrow> '''' | Some v \<Rightarrow> v)"

definition goPut :: "string \<Rightarrow> 'v \<Rightarrow> 'v go_map \<Rightarrow> 'v go_map" where
  "goPut k v m = AList.update k v m"

definition go_map_wf :: "'v go_map \<Rightarrow> bool" where
  "go_map_wf m \<longleftrightarrow> distinct (map fst m)"

lemma goGet_goPut [simp]: "goGet (goPut k v m) k' = (if k' = k then Some v else goGet m k')"
  by (simp add: goGet_def goPut_def update_conv')

lemma goIndex_goPut [simp]: "goIndex (goPut k v m) k' = (if k' = k then v else goIndex m k')"
  by (simp add: goIndex_def goPut_def update_conv')

lemma goGet_Nil [simp]: "goGet [] k = None" by (simp add: goGet_def)

lemma goIndex_Nil [simp]: "goIndex [] k = ''''" by (simp add: goIndex_def)

lemma go_map_wf_Nil [simp]: "go_map_wf []" by (simp add: go_map_wf_def)

lemma go_map_wf_goPut [simp]: "go_map_wf m \<Longrightarrow> go_map_wf (goPut k v m)"
  by (simp add: go_map_wf_def goPut_def distinct_update)

section \<open>Weakest preconditions in the state monad\<close>

abbreviation ret :: "'a \<Rightarrow> ('s, 'a) state" where
  "ret \<equiv> State_Monad.return"

definition wp :: "('s, 'a) state \<Rightarrow> ('a \<Rightarrow> 's \<Rightarrow> bool) \<Rightarrow> 's \<Rightarrow> bool" where
  "wp m Q s = (case run_state m s of (a, s') \<Rightarrow> Q a s')"

text \<open>The rules rewrite the weakest precondition as a function of the state, so that they also
  apply under the binder of a continuation.\<close>

lemma wp_return [simp, wp_simps]: "wp (ret a) Q = Q a"
  by (rule ext) (simp add: wp_def)

lemma wp_bind [simp, wp_simps]: "wp (m \<bind> f) Q = wp m (\<lambda>a. wp (f a) Q)"
  by (rule ext) (simp add: wp_def split: prod.splits)

lemma wp_mono: "wp m P s \<Longrightarrow> (\<And>a s'. P a s' \<Longrightarrow> Q a s') \<Longrightarrow> wp m Q s"
  by (simp add: wp_def split: prod.splits)

lemma wp_run: "wp m Q s \<Longrightarrow> run_state m s = (a, s') \<Longrightarrow> Q a s'"
  by (simp add: wp_def)

lemma wpI: "(\<And>a s'. run_state m s = (a, s') \<Longrightarrow> Q a s') \<Longrightarrow> wp m Q s"
  by (simp add: wp_def split: prod.splits)

lemma wp_fst: "wp m (\<lambda>a _. P a) s \<longleftrightarrow> P (fst (run_state m s))"
  by (simp add: wp_def split: prod.splits)

lemma wp_any: "(\<And>a s'. Q a s') \<Longrightarrow> wp m Q s"
  by (simp add: wp_def split: prod.splits)

lemma wp_iff: "wp m Q s \<longleftrightarrow> Q (fst (run_state m s)) (snd (run_state m s))"
  by (simp add: wp_def split: prod.splits)

lemma wp_conj: "wp m (\<lambda>a s'. P a s' \<and> Q a s') s \<longleftrightarrow> wp m P s \<and> wp m Q s"
  by (auto simp: wp_iff)

text \<open>
  The two idioms of early return. \<open>onErr h m f\<close> is
  \<^verbatim>\<open>x, err := m; if err != nil { return h(err) }; f(x)\<close> and \<open>onErrO h m k\<close> is
  \<^verbatim>\<open>if err := m; err != nil { return h(err) }; k\<close>; \<open>h\<close> says what is returned, for example
  \<open>Inl \<circ> Wrapped msg\<close> for \<^verbatim>\<open>return nil, errors.Wrap(err, msg)\<close>.
\<close>

definition onErr :: "(go_error \<Rightarrow> 'r) \<Rightarrow> ('s, go_error + 'a) state \<Rightarrow> ('a \<Rightarrow> ('s, 'r) state) \<Rightarrow> ('s, 'r) state"
  where "onErr h m f = do { r \<leftarrow> m; case r of Inl e \<Rightarrow> ret (h e) | Inr a \<Rightarrow> f a }"

definition onErrO :: "(go_error \<Rightarrow> 'r) \<Rightarrow> ('s, go_error option) state \<Rightarrow> ('s, 'r) state \<Rightarrow> ('s, 'r) state"
  where "onErrO h m k = do { r \<leftarrow> m; case r of Some e \<Rightarrow> ret (h e) | None \<Rightarrow> k }"

lemma wp_case_sum [simp, wp_simps]:
  "wp (case r of Inl a \<Rightarrow> f a | Inr b \<Rightarrow> g b) Q =
     (\<lambda>s. case r of Inl a \<Rightarrow> wp (f a) Q s | Inr b \<Rightarrow> wp (g b) Q s)"
  by (cases r) simp_all

lemma wp_case_option [simp, wp_simps]:
  "wp (case r of None \<Rightarrow> m | Some b \<Rightarrow> g b) Q =
     (\<lambda>s. case r of None \<Rightarrow> wp m Q s | Some b \<Rightarrow> wp (g b) Q s)"
  by (cases r) simp_all

lemma wp_case_go [simp, wp_simps]:
  "wp (case r of Returns a \<Rightarrow> f a | Panics \<Rightarrow> m) Q =
     (\<lambda>s. case r of Returns a \<Rightarrow> wp (f a) Q s | Panics \<Rightarrow> wp m Q s)"
  by (cases r) simp_all

lemma wp_case_prod [simp, wp_simps]:
  "wp (case p of (a, b) \<Rightarrow> f a b) Q = (\<lambda>s. case p of (a, b) \<Rightarrow> wp (f a b) Q s)"
  by (cases p) simp

lemma wp_if [simp, wp_simps]:
  "wp (if b then m else n) Q = (\<lambda>s. if b then wp m Q s else wp n Q s)"
  by simp

lemma wp_onErr [simp, wp_simps]:
  "wp (onErr h m f) Q = wp m (\<lambda>r s'. case r of Inl e \<Rightarrow> Q (h e) s' | Inr a \<Rightarrow> wp (f a) Q s')"
  by (rule ext) (simp add: onErr_def wp_def split: prod.splits sum.splits)

lemma wp_onErrO [simp, wp_simps]:
  "wp (onErrO h m k) Q = wp m (\<lambda>r s'. case r of Some e \<Rightarrow> Q (h e) s' | None \<Rightarrow> wp k Q s')"
  by (rule ext) (simp add: onErrO_def wp_def split: prod.splits option.splits)

section \<open>Calls that leave a trace\<close>

text \<open>
  The state of a computation is the trace of the external calls made so far, oldest first.
  The answer of the environment to a call may depend on the whole trace before it, which is
  as general as an environment with a hidden state of its own. \<open>call f ev\<close> asks for the answer
  \<open>f\<close> and records the event \<open>ev\<close> made from it.
\<close>

definition call :: "('e list \<Rightarrow> 'r) \<Rightarrow> ('r \<Rightarrow> 'e) \<Rightarrow> ('e list, 'r) state" where
  "call f ev = State (\<lambda>t. (f t, t @ [ev (f t)]))"

lemma run_state_call [simp]: "run_state (call f ev) t = (f t, t @ [ev (f t)])"
  by (simp add: call_def)

lemma wp_call [simp, wp_simps]: "wp (call f ev) Q = (\<lambda>t. Q (f t) (t @ [ev (f t)]))"
  by (rule ext) (simp add: wp_def)

text \<open>
  \<open>emits P m\<close>: the computation \<open>m\<close> only appends to the trace, and every event it appends
  satisfies \<open>P\<close>. The rules below follow the structure of a program, so that a footprint of a
  whole handler ("never releases a machine", "only reads") is proved by introduction.
\<close>

definition emits :: "('e \<Rightarrow> bool) \<Rightarrow> ('e list, 'a) state \<Rightarrow> bool" where
  "emits P m \<longleftrightarrow>
     (\<forall>t. \<exists>es. snd (run_state m t) = t @ es \<and> (\<forall>e \<in> set es. P e))"

lemma emitsD:
  assumes "emits P m" and "run_state m t = (a, t')"
  obtains es where "t' = t @ es" and "\<And>e. e \<in> set es \<Longrightarrow> P e"
proof -
  from assms(1) obtain es where "snd (run_state m t) = t @ es" "\<forall>e \<in> set es. P e"
    unfolding emits_def by blast
  with assms(2) show thesis by (intro that [of es]) auto
qed

lemma emitsI:
  "(\<And>t a t'. run_state m t = (a, t') \<Longrightarrow> \<exists>es. t' = t @ es \<and> (\<forall>e \<in> set es. P e)) \<Longrightarrow> emits P m"
  unfolding emits_def by (metis prod.collapse)

lemma emits_return [intro!, simp, safe_intros]: "emits P (ret a)"
  by (simp add: emits_def)

lemma emits_call [safe_intros]: "(\<And>t. P (ev (f t))) \<Longrightarrow> emits P (call f ev)"
  by (simp add: emits_def)

lemma emits_bind [safe_intros]:
  assumes "emits P m" and "\<And>a. emits P (f a)"
  shows "emits P (m \<bind> f)"
proof (rule emitsI)
  fix t b t2 assume run: "run_state (m \<bind> f) t = (b, t2)"
  then obtain a t1 where m: "run_state m t = (a, t1)" and f: "run_state (f a) t1 = (b, t2)"
    by (auto split: prod.splits)
  from assms(1) m obtain es where es: "t1 = t @ es" "\<And>e. e \<in> set es \<Longrightarrow> P e"
    by (rule emitsD) blast
  from assms(2) f obtain es' where es': "t2 = t1 @ es'" "\<And>e. e \<in> set es' \<Longrightarrow> P e"
    by (rule emitsD) blast
  from es es' have "t2 = t @ (es @ es') \<and> (\<forall>e \<in> set (es @ es'). P e)" by auto
  then show "\<exists>es. t2 = t @ es \<and> (\<forall>e \<in> set es. P e)" by blast
qed

lemma emits_case_sum [safe_intros]:
  "(\<And>a. r = Inl a \<Longrightarrow> emits P (f a)) \<Longrightarrow> (\<And>b. r = Inr b \<Longrightarrow> emits P (g b)) \<Longrightarrow>
   emits P (case r of Inl a \<Rightarrow> f a | Inr b \<Rightarrow> g b)"
  by (cases r) simp_all

lemma emits_case_option [safe_intros]:
  "(r = None \<Longrightarrow> emits P m) \<Longrightarrow> (\<And>b. r = Some b \<Longrightarrow> emits P (g b)) \<Longrightarrow>
   emits P (case r of None \<Rightarrow> m | Some b \<Rightarrow> g b)"
  by (cases r) simp_all

lemma emits_case_list [safe_intros]:
  "(r = [] \<Longrightarrow> emits P m) \<Longrightarrow> (\<And>b bs. r = b # bs \<Longrightarrow> emits P (g b bs)) \<Longrightarrow>
   emits P (case r of [] \<Rightarrow> m | b # bs \<Rightarrow> g b bs)"
  by (cases r) simp_all

lemma emits_case_go [safe_intros]:
  "(\<And>a. r = Returns a \<Longrightarrow> emits P (f a)) \<Longrightarrow> (r = Panics \<Longrightarrow> emits P m) \<Longrightarrow>
   emits P (case r of Returns a \<Rightarrow> f a | Panics \<Rightarrow> m)"
  by (cases r) simp_all

lemma emits_case_prod [safe_intros]:
  "(\<And>a b. r = (a, b) \<Longrightarrow> emits P (f a b)) \<Longrightarrow> emits P (case r of (a, b) \<Rightarrow> f a b)"
  by (cases r) simp_all

lemma emits_if [safe_intros]:
  "(b \<Longrightarrow> emits P m) \<Longrightarrow> (\<not> b \<Longrightarrow> emits P n) \<Longrightarrow> emits P (if b then m else n)"
  by simp

lemma emits_let [safe_intros]: "emits P (f a) \<Longrightarrow> emits P (let x = a in f x)"
  by simp

lemma emits_onErr [safe_intros]:
  "emits P m \<Longrightarrow> (\<And>a. emits P (f a)) \<Longrightarrow> emits P (onErr h m f)"
  unfolding onErr_def by (intro safe_intros)

lemma emits_onErrO [safe_intros]: "emits P m \<Longrightarrow> emits P k \<Longrightarrow> emits P (onErrO h m k)"
  unfolding onErrO_def by (intro safe_intros)

lemma emits_weaken: "emits P m \<Longrightarrow> (\<And>e. P e \<Longrightarrow> Q e) \<Longrightarrow> emits Q m"
  unfolding emits_def by meson

text \<open>Only the suffix a computation appends matters to a filter that its events fail.\<close>

lemma emits_filter:
  assumes "emits (\<lambda>e. \<not> Q e) m" and "run_state m t = (a, t')"
  shows "filter Q t' = filter Q t"
proof -
  from assms obtain es where "t' = t @ es" and "\<And>e. e \<in> set es \<Longrightarrow> \<not> Q e"
    by (rule emitsD) blast
  then show ?thesis by (simp add: filter_empty_conv)
qed

text \<open>The trace only ever grows.\<close>

lemma emits_prefix: "emits P m \<Longrightarrow> prefix t (snd (run_state m t))"
  by (cases "run_state m t") (auto simp: prefix_def elim: emitsD)

end
