(* ===== verification/Api_Types.thy ===== *)
theory Api_Types
  imports Prelude
begin

text \<open>
  The data of the API: \<^verbatim>\<open>pkg/apis/cluster/common/consts.go\<close>, the types of
  \<^verbatim>\<open>pkg/apis/cluster/v1alpha1\<close> and \<^verbatim>\<open>pkg/apis/addons/v1alpha1\<close>, and of the Kubernetes
  object metadata (a vendored package) the fields the program reads or writes. Phases, roles and
  reasons are Go strings with named constants, because an object read from the API server can hold
  any string there. A pointer to a value is an \<open>option\<close>; a \<open>*metav1.Time\<close> is an optional
  number of nanoseconds in which 0 stands for Go's zero instant.
\<close>

section \<open>Constants\<close>

type_synonym time = int
type_synonym machine_phase = string
type_synonym machineset_phase = string
type_synonym cluster_phase = string
type_synonym machine_role = string

definition ProvisioningMachinePhase :: machine_phase where
  "ProvisioningMachinePhase = ''CreatingMachine''"

definition UpgradingMachinePhase :: machine_phase where
  "UpgradingMachinePhase = ''UpgradingMachine''"

definition DeletingMachinePhase :: machine_phase where
  "DeletingMachinePhase = ''DeletingMachine''"

definition ReadyMachinePhase :: machine_phase where
  "ReadyMachinePhase = ''ReadyMachine''"

definition ErrorMachinePhase :: machine_phase where
  "ErrorMachinePhase = ''ErrorMachine''"

lemmas machine_phase_defs = ProvisioningMachinePhase_def UpgradingMachinePhase_def
  DeletingMachinePhase_def ReadyMachinePhase_def ErrorMachinePhase_def

lemma machine_phases_distinct:
  "distinct [ProvisioningMachinePhase, UpgradingMachinePhase, DeletingMachinePhase,
     ReadyMachinePhase, ErrorMachinePhase, '''']"
  by (simp add: machine_phase_defs)

lemma machine_phase_neq [simp]:
  "ProvisioningMachinePhase \<noteq> UpgradingMachinePhase" "UpgradingMachinePhase \<noteq> ProvisioningMachinePhase"
  "ProvisioningMachinePhase \<noteq> DeletingMachinePhase" "DeletingMachinePhase \<noteq> ProvisioningMachinePhase"
  "ProvisioningMachinePhase \<noteq> ReadyMachinePhase" "ReadyMachinePhase \<noteq> ProvisioningMachinePhase"
  "ProvisioningMachinePhase \<noteq> ErrorMachinePhase" "ErrorMachinePhase \<noteq> ProvisioningMachinePhase"
  "UpgradingMachinePhase \<noteq> DeletingMachinePhase" "DeletingMachinePhase \<noteq> UpgradingMachinePhase"
  "UpgradingMachinePhase \<noteq> ReadyMachinePhase" "ReadyMachinePhase \<noteq> UpgradingMachinePhase"
  "UpgradingMachinePhase \<noteq> ErrorMachinePhase" "ErrorMachinePhase \<noteq> UpgradingMachinePhase"
  "DeletingMachinePhase \<noteq> ReadyMachinePhase" "ReadyMachinePhase \<noteq> DeletingMachinePhase"
  "DeletingMachinePhase \<noteq> ErrorMachinePhase" "ErrorMachinePhase \<noteq> DeletingMachinePhase"
  "ReadyMachinePhase \<noteq> ErrorMachinePhase" "ErrorMachinePhase \<noteq> ReadyMachinePhase"
  "ProvisioningMachinePhase \<noteq> []" "UpgradingMachinePhase \<noteq> []" "DeletingMachinePhase \<noteq> []"
  "ReadyMachinePhase \<noteq> []" "ErrorMachinePhase \<noteq> []"
  using machine_phases_distinct by auto

definition UnspecifiedMachineSetPhase :: machineset_phase where
  "UnspecifiedMachineSetPhase = ''Unspecified''"

definition ReadyMachineSetPhase :: machineset_phase where
  "ReadyMachineSetPhase = ''ReadyMachineSet''"

definition ReconcilingMachineSetPhase :: machineset_phase where
  "ReconcilingMachineSetPhase = ''ReconcilingMachineSet''"

definition DeletingMachineSetPhase :: machineset_phase where
  "DeletingMachineSetPhase = ''DeletingMachineSet''"

definition ErrorMachineSetPhase :: machineset_phase where
  "ErrorMachineSetPhase = ''ErrorMachineSet''"

lemma machineset_phase_neq [simp]:
  "ReadyMachineSetPhase \<noteq> ErrorMachineSetPhase" "ErrorMachineSetPhase \<noteq> ReadyMachineSetPhase"
  by (simp_all add: ReadyMachineSetPhase_def ErrorMachineSetPhase_def)

definition FailedCreateMachineReason :: string where
  "FailedCreateMachineReason = ''FailedCreate''"

definition SuccessfulCreateMachineReason :: string where
  "SuccessfulCreateMachineReason = ''SuccessfulCreate''"

definition FailedDeleteMachineReason :: string where
  "FailedDeleteMachineReason = ''FailedDelete''"

definition SuccessfulDeleteMachineReason :: string where
  "SuccessfulDeleteMachineReason = ''SuccessfulDelete''"

definition UnspecifiedClusterPhase :: cluster_phase where
  "UnspecifiedClusterPhase = ''Unspecified''"

definition RunningClusterPhase :: cluster_phase where
  "RunningClusterPhase = ''RunningCluster''"

definition ReconcilingClusterPhase :: cluster_phase where
  "ReconcilingClusterPhase = ''ReconcilingCluster''"

definition StoppingClusterPhase :: cluster_phase where
  "StoppingClusterPhase = ''StoppingCluster''"

definition ErrorClusterPhase :: cluster_phase where
  "ErrorClusterPhase = ''ErrorCluster''"

lemmas cluster_phase_defs = UnspecifiedClusterPhase_def RunningClusterPhase_def
  ReconcilingClusterPhase_def StoppingClusterPhase_def ErrorClusterPhase_def

lemma cluster_phases_distinct:
  "distinct [UnspecifiedClusterPhase, RunningClusterPhase, ReconcilingClusterPhase,
     StoppingClusterPhase, ErrorClusterPhase, '''']"
  by (simp add: cluster_phase_defs)

lemma cluster_phase_neq [simp]:
  "RunningClusterPhase \<noteq> ReconcilingClusterPhase" "ReconcilingClusterPhase \<noteq> RunningClusterPhase"
  "UnspecifiedClusterPhase \<noteq> RunningClusterPhase" "RunningClusterPhase \<noteq> UnspecifiedClusterPhase"
  "UnspecifiedClusterPhase \<noteq> ReconcilingClusterPhase" "ReconcilingClusterPhase \<noteq> UnspecifiedClusterPhase"
  "UnspecifiedClusterPhase \<noteq> ErrorClusterPhase" "ErrorClusterPhase \<noteq> UnspecifiedClusterPhase"
  "RunningClusterPhase \<noteq> ErrorClusterPhase" "ErrorClusterPhase \<noteq> RunningClusterPhase"
  "ReconcilingClusterPhase \<noteq> ErrorClusterPhase" "ErrorClusterPhase \<noteq> ReconcilingClusterPhase"
  "StoppingClusterPhase \<noteq> RunningClusterPhase" "RunningClusterPhase \<noteq> StoppingClusterPhase"
  "RunningClusterPhase \<noteq> []" "ReconcilingClusterPhase \<noteq> []" "UnspecifiedClusterPhase \<noteq> []"
  "StoppingClusterPhase \<noteq> []" "ErrorClusterPhase \<noteq> []"
  using cluster_phases_distinct by auto

definition MachineRoleMaster :: machine_role where
  "MachineRoleMaster = ''master''"

definition MachineRoleEtcd :: machine_role where
  "MachineRoleEtcd = ''etcd''"

definition MachineRoleWorker :: machine_role where
  "MachineRoleWorker = ''worker''"

definition ResourceStateChange :: string where
  "ResourceStateChange = ''ResourceStateChange''"

definition MessageResourceStateChange :: string where
  "MessageResourceStateChange = ''Resource %q changed state to %q''"

definition ApiEndpointPort :: string where
  "ApiEndpointPort = ''6443''"

definition MachineFinalizer :: string where
  "MachineFinalizer = ''cnctmachine.cluster.cnct.sds.samsung.com''"

definition ClusterFinalizer :: string where
  "ClusterFinalizer = ''cnctcluster.cluster.cnct.sds.samsung.com''"

section \<open>Object metadata\<close>

record type_meta =
  tmKind :: string
  tmAPIVersion :: string

record owner_reference =
  refAPIVersion :: string
  refKind :: string
  refName :: string
  refUID :: string
  refBlockOwnerDeletion :: "bool option"
  refController :: "bool option"

record object_meta =
  omName :: string
  omGenerateName :: string
  omNamespace :: string
  omUID :: string
  omLabels :: "string go_map"
  omAnnotations :: "string go_map option"
  omOwnerReferences :: "owner_reference list"
  omFinalizers :: "string list"
  omDeletionTimestamp :: "time option"

definition zero_type_meta :: type_meta where
  "zero_type_meta = \<lparr>tmKind = '''', tmAPIVersion = ''''\<rparr>"

definition zero_object_meta :: object_meta where
  "zero_object_meta = \<lparr>omName = '''', omGenerateName = '''', omNamespace = '''', omUID = '''',
     omLabels = [], omAnnotations = None, omOwnerReferences = [], omFinalizers = [],
     omDeletionTimestamp = None\<rparr>"

text \<open>\<open>(t *metav1.Time) IsZero()\<close>.\<close>

definition timeIsZero :: "time option \<Rightarrow> bool" where
  "timeIsZero t = (case t of None \<Rightarrow> True | Some i \<Rightarrow> i = 0)"

lemma timeIsZero_simps [simp]: "timeIsZero None" "timeIsZero (Some i) \<longleftrightarrow> i = 0"
  by (simp_all add: timeIsZero_def)

section \<open>Clusters, machines, machine sets, app bundles\<close>

record cluster_status =
  csLastUpdated :: "time option"
  csAPIEndpoint :: string
  csPhase :: cluster_phase

record cluster =
  clType :: type_meta
  clMeta :: object_meta
  clKubernetesVersion :: string
  clStatus :: cluster_status

record taint =
  taintKey :: string
  taintValue :: string
  taintEffect :: string

record machine_spec =
  mspTaints :: "taint list"
  mspRoles :: "machine_role list"
  mspProviderID :: "string option"
  mspInstanceType :: string

record ssh_config_info =
  sshUsername :: string
  sshHost :: string
  sshPort :: "32 word"

record machine_status =
  mstLastUpdated :: "time option"
  mstPhase :: machine_phase
  mstKubernetesVersion :: string
  mstSshConfig :: ssh_config_info
  mstSystemId :: string

record machine =
  maType :: type_meta
  maMeta :: object_meta
  maSpec :: machine_spec
  maStatus :: machine_status

text \<open>The operators of a label selector expression: the four of the API, or any other string.\<close>

record label_requirement =
  exprKey :: string
  exprOperator :: string
  exprValues :: "string list"

record label_selector =
  lsMatchLabels :: "string go_map"
  lsMatchExpressions :: "label_requirement list"

record machine_template =
  mtMeta :: object_meta
  mtSpec :: machine_spec

record machineset_status =
  mssLastUpdated :: "time option"
  mssPhase :: machineset_phase
  mssReplicas :: "32 word"
  mssFullyLabeledReplicas :: "32 word"
  mssReadyReplicas :: "32 word"
  mssObservedGeneration :: "64 word"
  mssErrorReason :: "string option"
  mssErrorMessage :: "string option"

record machineset =
  msType :: type_meta
  msMeta :: object_meta
  msReplicas :: "64 word"
  msSelector :: label_selector
  msTemplate :: machine_template
  msStatus :: machineset_status

record appbundle =
  abType :: type_meta
  abMeta :: object_meta
  abImage :: string
  abCommand :: string
  abPhase :: string

record secret =
  secName :: string
  secNamespace :: string
  secType :: string
  secData :: "string go_map"

definition zero_cluster_status :: cluster_status where
  "zero_cluster_status = \<lparr>csLastUpdated = None, csAPIEndpoint = '''', csPhase = ''''\<rparr>"

definition zero_cluster :: cluster where
  "zero_cluster = \<lparr>clType = zero_type_meta, clMeta = zero_object_meta,
     clKubernetesVersion = '''', clStatus = zero_cluster_status\<rparr>"

definition zero_machine_spec :: machine_spec where
  "zero_machine_spec = \<lparr>mspTaints = [], mspRoles = [], mspProviderID = None,
     mspInstanceType = ''''\<rparr>"

definition zero_machine_status :: machine_status where
  "zero_machine_status = \<lparr>mstLastUpdated = None, mstPhase = '''', mstKubernetesVersion = '''',
     mstSshConfig = \<lparr>sshUsername = '''', sshHost = '''', sshPort = 0\<rparr>, mstSystemId = ''''\<rparr>"

definition zero_machine :: machine where
  "zero_machine = \<lparr>maType = zero_type_meta, maMeta = zero_object_meta,
     maSpec = zero_machine_spec, maStatus = zero_machine_status\<rparr>"

definition zero_secret :: secret where
  "zero_secret = \<lparr>secName = '''', secNamespace = '''', secType = '''', secData = []\<rparr>"

text \<open>Short names for the accesses the controllers make through embedded structs.\<close>

abbreviation machineName :: "machine \<Rightarrow> string" where "machineName m \<equiv> omName (maMeta m)"
abbreviation machineNamespace :: "machine \<Rightarrow> string" where "machineNamespace m \<equiv> omNamespace (maMeta m)"
abbreviation machineFinalizers :: "machine \<Rightarrow> string list" where
  "machineFinalizers m \<equiv> omFinalizers (maMeta m)"
abbreviation machineOwners :: "machine \<Rightarrow> owner_reference list" where
  "machineOwners m \<equiv> omOwnerReferences (maMeta m)"
abbreviation machinePhase :: "machine \<Rightarrow> machine_phase" where "machinePhase m \<equiv> mstPhase (maStatus m)"
abbreviation machineSystemId :: "machine \<Rightarrow> string" where "machineSystemId m \<equiv> mstSystemId (maStatus m)"
abbreviation clusterName :: "cluster \<Rightarrow> string" where "clusterName c \<equiv> omName (clMeta c)"
abbreviation clusterNamespace :: "cluster \<Rightarrow> string" where "clusterNamespace c \<equiv> omNamespace (clMeta c)"
abbreviation clusterPhase :: "cluster \<Rightarrow> cluster_phase" where "clusterPhase c \<equiv> csPhase (clStatus c)"

definition setMachinePhase :: "machine_phase \<Rightarrow> machine \<Rightarrow> machine" where
  "setMachinePhase p m = m\<lparr>maStatus := (maStatus m)\<lparr>mstPhase := p\<rparr>\<rparr>"

definition setMachineFinalizers :: "string list \<Rightarrow> machine \<Rightarrow> machine" where
  "setMachineFinalizers fs m = m\<lparr>maMeta := (maMeta m)\<lparr>omFinalizers := fs\<rparr>\<rparr>"

definition setMachineOwners :: "owner_reference list \<Rightarrow> machine \<Rightarrow> machine" where
  "setMachineOwners os m = m\<lparr>maMeta := (maMeta m)\<lparr>omOwnerReferences := os\<rparr>\<rparr>"

lemma setMachinePhase_simps [simp]:
  "maStatus (setMachinePhase p m) = (maStatus m)\<lparr>mstPhase := p\<rparr>"
  "maMeta (setMachinePhase p m) = maMeta m" "maSpec (setMachinePhase p m) = maSpec m"
  "maType (setMachinePhase p m) = maType m"
  by (simp_all add: setMachinePhase_def)

lemma setMachineFinalizers_simps [simp]:
  "maMeta (setMachineFinalizers fs m) = (maMeta m)\<lparr>omFinalizers := fs\<rparr>"
  "maStatus (setMachineFinalizers fs m) = maStatus m" "maSpec (setMachineFinalizers fs m) = maSpec m"
  "maType (setMachineFinalizers fs m) = maType m"
  by (simp_all add: setMachineFinalizers_def)

lemma setMachineOwners_simps [simp]:
  "maMeta (setMachineOwners os m) = (maMeta m)\<lparr>omOwnerReferences := os\<rparr>"
  "maStatus (setMachineOwners os m) = maStatus m" "maSpec (setMachineOwners os m) = maSpec m"
  "maType (setMachineOwners os m) = maType m"
  by (simp_all add: setMachineOwners_def)

section \<open>Controller references\<close>

text \<open>The helpers of the vendored \<^verbatim>\<open>meta/v1/controller_ref.go\<close> that the controllers call.\<close>

definition isControllerRef :: "owner_reference \<Rightarrow> bool" where
  "isControllerRef ref \<longleftrightarrow> refController ref = Some True"

definition getControllerOf :: "object_meta \<Rightarrow> owner_reference option" where
  "getControllerOf om = List.find isControllerRef (omOwnerReferences om)"

definition isControlledBy :: "object_meta \<Rightarrow> object_meta \<Rightarrow> bool" where
  "isControlledBy obj owner = (case getControllerOf obj of
     None \<Rightarrow> False | Some ref \<Rightarrow> refUID ref = omUID owner)"

definition newControllerRef :: "object_meta \<Rightarrow> string \<Rightarrow> string \<Rightarrow> owner_reference" where
  "newControllerRef owner apiVersion kind =
     \<lparr>refAPIVersion = apiVersion, refKind = kind, refName = omName owner, refUID = omUID owner,
      refBlockOwnerDeletion = Some True, refController = Some True\<rparr>"

text \<open>An object has at most one controller: the number of owner references marked so.\<close>

definition controllerCount :: "object_meta \<Rightarrow> nat" where
  "controllerCount om = length (filter isControllerRef (omOwnerReferences om))"

lemma isControllerRef_new [simp]: "isControllerRef (newControllerRef o' v k)"
  by (simp add: isControllerRef_def newControllerRef_def)

lemma refUID_newControllerRef [simp]: "refUID (newControllerRef o' v k) = omUID o'"
  by (simp add: newControllerRef_def)

lemma getControllerOf_None_iff: "getControllerOf om = None \<longleftrightarrow> controllerCount om = 0"
  by (auto simp: getControllerOf_def controllerCount_def find_None_iff filter_empty_conv)

lemma getControllerOf_append:
  "getControllerOf (om\<lparr>omOwnerReferences := omOwnerReferences om @ [ref]\<rparr>) =
     (case getControllerOf om of Some r \<Rightarrow> Some r
      | None \<Rightarrow> if isControllerRef ref then Some ref else None)"
proof -
  have "List.find P (xs @ [x]) = (case List.find P xs of Some r \<Rightarrow> Some r
      | None \<Rightarrow> if P x then Some x else None)" for P and xs :: "owner_reference list" and x
    by (induction xs) auto
  then show ?thesis by (simp add: getControllerOf_def)
qed

text \<open>Adopting an object without a controller gives it exactly one, and that is the adopter.\<close>

definition addOwner :: "owner_reference \<Rightarrow> object_meta \<Rightarrow> object_meta" where
  "addOwner ref om = om\<lparr>omOwnerReferences := omOwnerReferences om @ [ref]\<rparr>"

lemma adopt_controls:
  assumes "getControllerOf om = None"
  shows "isControlledBy (addOwner (newControllerRef owner v k) om) owner"
    and "controllerCount (addOwner (newControllerRef owner v k) om) = 1"
proof -
  show "isControlledBy (addOwner (newControllerRef owner v k) om) owner"
    using assms by (simp add: addOwner_def isControlledBy_def getControllerOf_append)
  from assms have "controllerCount om = 0" by (simp add: getControllerOf_None_iff)
  then show "controllerCount (addOwner (newControllerRef owner v k) om) = 1"
    by (simp add: addOwner_def controllerCount_def)
qed

end
