(* ===== verification/World.thy ===== *)
theory World
  imports Api_Types
begin

text \<open>
  The world outside the program: the Kubernetes API server of the management cluster (through
  the controller-runtime client), the API servers of the managed clusters (through client-go
  clientsets), the MaaS controller (through gomaasapi), the clock, the random source, the
  certificate library and the sorting routine. None of it is code of the repository, so
  every answer is a field of the record \<open>env\<close>, a parameter of all definitions that use it. A
  stateful service answers as a function of the trace of all calls made before.

  A client call that sends an object gets the object the server stored in return, because the
  controller-runtime client decodes the server's response into the object it was given.
\<close>

section \<open>Objects of the remote services\<close>

record object_key =
  keyNamespace :: string
  keyName :: string

datatype obj_kind = KMachine | KCluster | KMachineSet | KAppBundle | KSecret | KNamespace

datatype obj = OMachine machine | OCluster cluster | OMachineSet machineset
  | OAppBundle appbundle | OSecret secret | ONamespace string

text \<open>Nodes and pods of a managed cluster, by the fields the machine controller reads.\<close>

record node_condition =
  condReason :: string
  condStatus :: string

record node =
  nodeName :: string
  nodeUnschedulable :: bool
  nodeConditions :: "node_condition list"

record pod =
  podName :: string
  podNamespace :: string
  podUID :: string

text \<open>The objects the app bundle controller creates in a managed cluster, by the fields it sets.\<close>

record role_binding =
  rbName :: string
  rbSubjectKind :: string
  rbSubjectName :: string
  rbSubjectNamespace :: string
  rbRoleKind :: string
  rbRoleName :: string
  rbRoleAPIGroup :: string

record install_job =
  jobName :: string
  jobServiceAccount :: string
  jobContainerName :: string
  jobImage :: string
  jobImagePullPolicy :: string
  jobCommand :: "string list"
  jobRestartPolicy :: string

datatype remote_obj =
    RNamespace string
  | RServiceAccount string string
  | RClusterRoleBinding role_binding
  | RJob string install_job

datatype remote_kind = RkNamespace | RkServiceAccount | RkClusterRoleBinding | RkJob

text \<open>A machine of the MaaS pool and the arguments of \<open>Start\<close>.\<close>

record maas_machine =
  mmSystemID :: string
  mmIPAddresses :: "string list"
  mmHostname :: string

record start_args =
  saUserData :: string
  saDistroSeries :: string

record boot_resource =
  brType :: string
  brName :: string

text \<open>A kubeconfig before it is encoded, a certificate, the header of a file in a tar archive.\<close>

record kube_config =
  kcCluster :: string
  kcServer :: string
  kcCAData :: string
  kcContext :: string
  kcContextCluster :: string
  kcContextUser :: string
  kcUser :: string
  kcClientKey :: string
  kcClientCert :: string
  kcCurrentContext :: string

record x509_certificate =
  xcSerialNumber :: int
  xcCommonName :: string
  xcOrganization :: "string list"
  xcCountry :: "string list"
  xcProvince :: "string list"
  xcLocality :: "string list"
  xcNotBefore :: time
  xcNotAfter :: time
  xcIsCA :: bool
  xcKeyUsage :: "string set"
  xcExtKeyUsage :: "string list"
  xcBasicConstraintsValid :: bool
  xcIPAddresses :: "string list"
  xcDNSNames :: "string list"
  xcRawSubjectPublicKeyInfo :: string

record tar_header =
  thName :: string
  thMode :: nat
  thModTime :: time
  thSize :: nat
  thIsDir :: bool

definition zero_certificate :: x509_certificate where
  "zero_certificate = \<lparr>xcSerialNumber = 0, xcCommonName = '''', xcOrganization = [],
     xcCountry = [], xcProvince = [], xcLocality = [], xcNotBefore = 0, xcNotAfter = 0,
     xcIsCA = False, xcKeyUsage = {}, xcExtKeyUsage = [], xcBasicConstraintsValid = False,
     xcIPAddresses = [], xcDNSNames = [], xcRawSubjectPublicKeyInfo = ''''\<rparr>"

text \<open>Handles of client-go: a parsed client configuration, a REST configuration, a clientset.\<close>

type_synonym client_config = nat
type_synonym rest_config = nat
type_synonym clientset = nat

section \<open>Events\<close>

datatype remote_call =
    RListBootstrapTokens
  | RCreateSecret secret
  | RGetNode string
  | RCordonNode string
  | RDeleteNode string
  | RListPods string
  | RCheckEviction
  | REvictPod pod string
  | RDeletePod pod
  | RGetPod string string
  | RListClusterServices
  | RGetObj remote_kind string string
  | RCreateObj remote_obj

datatype event =
    ENow
  | ERand nat
  | ERandInt int
  | EGenerateKey nat "go_error + string"
  | ECreateCertificate x509_certificate x509_certificate string string "go_error + string"
  | ESleep nat
  | EPoll nat
  | ESpawn clientset "pod list" string
  | ESchedule nat
  | EGet obj_kind object_key "go_error option"
  | EList obj_kind string "go_error option"
  | ECreate obj "go_error option"
  | EUpdate obj "go_error option"
  | EDelete obj "go_error option"
  | ERecord obj string string string
  | EAllocate "string list" "go_error + maas_machine"
  | EStart string start_args "go_error option"
  | ERelease "string list" "go_error option"
  | EBootResources "go_error option"
  | EMachines "string list" "go_error option"
  | ERemote clientset remote_call "go_error option"
  | EGetCrd string "go_error option"
  | ECreateCrd string "go_error option"

type_synonym trace = "event list"

text \<open>\<open>'a io\<close>: a computation that makes external calls.\<close>

type_synonym 'a io = "(trace, 'a) state"

section \<open>The environment\<close>

record env =
  envNow :: "trace \<Rightarrow> time"
  envPollTicks :: "trace \<Rightarrow> nat"
  envPick :: "trace \<Rightarrow> nat"
  envRand :: "trace \<Rightarrow> nat \<Rightarrow> go_error + string"
  envGetMachine :: "trace \<Rightarrow> object_key \<Rightarrow> go_error + machine"
  envGetCluster :: "trace \<Rightarrow> object_key \<Rightarrow> go_error + cluster"
  envGetMachineSet :: "trace \<Rightarrow> object_key \<Rightarrow> go_error + machineset"
  envGetAppBundle :: "trace \<Rightarrow> object_key \<Rightarrow> go_error + appbundle"
  envGetSecret :: "trace \<Rightarrow> object_key \<Rightarrow> go_error + secret"
  envGetNamespace :: "trace \<Rightarrow> object_key \<Rightarrow> go_error + string"
  envListMachines :: "trace \<Rightarrow> string \<Rightarrow> go_error + machine list"
  envListClusters :: "trace \<Rightarrow> string \<Rightarrow> go_error + cluster list"
  envListMachineSets :: "trace \<Rightarrow> string \<Rightarrow> go_error + machineset list"
  envCreateMachine :: "trace \<Rightarrow> machine \<Rightarrow> go_error + machine"
  envCreate :: "trace \<Rightarrow> obj \<Rightarrow> go_error option"
  envUpdateMachine :: "trace \<Rightarrow> machine \<Rightarrow> go_error + machine"
  envUpdateCluster :: "trace \<Rightarrow> cluster \<Rightarrow> go_error + cluster"
  envUpdateMachineSet :: "trace \<Rightarrow> machineset \<Rightarrow> go_error + machineset"
  envUpdateAppBundle :: "trace \<Rightarrow> appbundle \<Rightarrow> go_error + appbundle"
  envUpdateSecret :: "trace \<Rightarrow> secret \<Rightarrow> go_error + secret"
  envDelete :: "trace \<Rightarrow> obj \<Rightarrow> go_error option"
  envAllocate :: "trace \<Rightarrow> string list \<Rightarrow> go_error + maas_machine"
  envStart :: "trace \<Rightarrow> maas_machine \<Rightarrow> start_args \<Rightarrow> go_error + maas_machine"
  envRelease :: "trace \<Rightarrow> string list \<Rightarrow> go_error option"
  envBootResources :: "trace \<Rightarrow> go_error + boot_resource list"
  envMachines :: "trace \<Rightarrow> string list \<Rightarrow> go_error + maas_machine list"
  envClientConfig :: "string \<Rightarrow> go_error + client_config"
  envRestConfig :: "client_config \<Rightarrow> go_error + rest_config"
  envClientset :: "rest_config \<Rightarrow> go_error + clientset"
  envListTokens :: "trace \<Rightarrow> clientset \<Rightarrow> go_error + (string \<times> string go_map) list"
  envRemoteDo :: "trace \<Rightarrow> clientset \<Rightarrow> remote_call \<Rightarrow> go_error option"
  envGetNode :: "trace \<Rightarrow> clientset \<Rightarrow> string \<Rightarrow> go_error + node"
  envPodsOnNode :: "trace \<Rightarrow> clientset \<Rightarrow> string \<Rightarrow> go_error list + pod list"
  envCheckEviction :: "trace \<Rightarrow> clientset \<Rightarrow> go_error + string"
  envGetPod :: "trace \<Rightarrow> clientset \<Rightarrow> string \<Rightarrow> string \<Rightarrow> go_error option \<times> pod"
  envListServices :: "trace \<Rightarrow> clientset \<Rightarrow> go_error + nat"
  envParseTime :: "string \<Rightarrow> time option"
  envFormatTime :: "time \<Rightarrow> string"
  envPemDecode :: "string \<Rightarrow> string option"
  envPemEncode :: "string \<Rightarrow> string \<Rightarrow> string"
  envMarshalKey :: "string \<Rightarrow> string"
  envPublicKey :: "string \<Rightarrow> string"
  envRandInt :: "trace \<Rightarrow> int \<Rightarrow> go_error + int"
  envGenerateKey :: "trace \<Rightarrow> nat \<Rightarrow> go_error + string"
  envCreateCertificate ::
    "trace \<Rightarrow> x509_certificate \<Rightarrow> x509_certificate \<Rightarrow> string \<Rightarrow> string \<Rightarrow> go_error + string"
  envParseCertificate :: "string \<Rightarrow> go_error + x509_certificate"
  envParseIP :: "string \<Rightarrow> string option"
  envSha256 :: "string \<Rightarrow> string"
  envTarHeader :: "string \<Rightarrow> tar_header \<Rightarrow> go_error + string"
  envTarWrite :: "string \<Rightarrow> string \<Rightarrow> go_error + string"
  envTarClose :: "string \<Rightarrow> go_error + string"
  envEncodeConfig :: "kube_config \<Rightarrow> go_error + string"
  envSort :: "(machine \<Rightarrow> machine \<Rightarrow> bool) \<Rightarrow> machine list \<Rightarrow> machine list"
  envLabelKey :: "string \<Rightarrow> go_error option"
  envLabelValue :: "string \<Rightarrow> go_error option"
  envCrdClient :: "go_error option"
  envGetCrd :: "trace \<Rightarrow> string \<Rightarrow> go_error option"
  envCrdFile :: "string \<Rightarrow> go_error + string"
  envDecodeCrd :: "string \<Rightarrow> go_error + string"
  envCreateCrd :: "trace \<Rightarrow> string \<Rightarrow> go_error option"

section \<open>Calls of the management cluster's client\<close>

abbreviation objectKey :: "string \<Rightarrow> string \<Rightarrow> object_key" where
  "objectKey ns name \<equiv> \<lparr>keyNamespace = ns, keyName = name\<rparr>"

definition timeNow :: "env \<Rightarrow> time io" where
  "timeNow E = call (envNow E) (\<lambda>_. ENow)"

definition randRead :: "env \<Rightarrow> nat \<Rightarrow> (go_error + string) io" where
  "randRead E n = call (\<lambda>t. envRand E t n) (\<lambda>_. ERand n)"

definition randInt :: "env \<Rightarrow> int \<Rightarrow> (go_error + int) io" where
  "randInt E n = call (\<lambda>t. envRandInt E t n) (\<lambda>_. ERandInt n)"

definition generateKey :: "env \<Rightarrow> nat \<Rightarrow> (go_error + string) io" where
  "generateKey E bits = call (\<lambda>t. envGenerateKey E t bits) (\<lambda>r. EGenerateKey bits r)"

definition createCertificate :: "env \<Rightarrow> x509_certificate \<Rightarrow> x509_certificate \<Rightarrow> string \<Rightarrow> string
    \<Rightarrow> (go_error + string) io" where
  "createCertificate E template parent pub priv =
     call (\<lambda>t. envCreateCertificate E t template parent pub priv)
       (\<lambda>r. ECreateCertificate template parent pub priv r)"

definition k8sGetMachine :: "env \<Rightarrow> object_key \<Rightarrow> (go_error + machine) io" where
  "k8sGetMachine E k = call (\<lambda>t. envGetMachine E t k) (\<lambda>r. EGet KMachine k (errOf r))"

definition k8sGetCluster :: "env \<Rightarrow> object_key \<Rightarrow> (go_error + cluster) io" where
  "k8sGetCluster E k = call (\<lambda>t. envGetCluster E t k) (\<lambda>r. EGet KCluster k (errOf r))"

definition k8sGetMachineSet :: "env \<Rightarrow> object_key \<Rightarrow> (go_error + machineset) io" where
  "k8sGetMachineSet E k = call (\<lambda>t. envGetMachineSet E t k) (\<lambda>r. EGet KMachineSet k (errOf r))"

definition k8sGetAppBundle :: "env \<Rightarrow> object_key \<Rightarrow> (go_error + appbundle) io" where
  "k8sGetAppBundle E k = call (\<lambda>t. envGetAppBundle E t k) (\<lambda>r. EGet KAppBundle k (errOf r))"

definition k8sGetSecret :: "env \<Rightarrow> object_key \<Rightarrow> (go_error + secret) io" where
  "k8sGetSecret E k = call (\<lambda>t. envGetSecret E t k) (\<lambda>r. EGet KSecret k (errOf r))"

definition k8sGetNamespace :: "env \<Rightarrow> object_key \<Rightarrow> (go_error + string) io" where
  "k8sGetNamespace E k = call (\<lambda>t. envGetNamespace E t k) (\<lambda>r. EGet KNamespace k (errOf r))"

definition k8sListMachines :: "env \<Rightarrow> string \<Rightarrow> (go_error + machine list) io" where
  "k8sListMachines E ns = call (\<lambda>t. envListMachines E t ns) (\<lambda>r. EList KMachine ns (errOf r))"

definition k8sListClusters :: "env \<Rightarrow> string \<Rightarrow> (go_error + cluster list) io" where
  "k8sListClusters E ns = call (\<lambda>t. envListClusters E t ns) (\<lambda>r. EList KCluster ns (errOf r))"

definition k8sListMachineSets :: "env \<Rightarrow> string \<Rightarrow> (go_error + machineset list) io" where
  "k8sListMachineSets E ns =
     call (\<lambda>t. envListMachineSets E t ns) (\<lambda>r. EList KMachineSet ns (errOf r))"

definition k8sCreateMachine :: "env \<Rightarrow> machine \<Rightarrow> (go_error + machine) io" where
  "k8sCreateMachine E m =
     call (\<lambda>t. envCreateMachine E t m) (\<lambda>r. ECreate (OMachine m) (errOf r))"

definition k8sCreate :: "env \<Rightarrow> obj \<Rightarrow> go_error option io" where
  "k8sCreate E ob = call (\<lambda>t. envCreate E t ob) (\<lambda>r. ECreate ob r)"

definition k8sUpdateMachine :: "env \<Rightarrow> machine \<Rightarrow> (go_error + machine) io" where
  "k8sUpdateMachine E m =
     call (\<lambda>t. envUpdateMachine E t m) (\<lambda>r. EUpdate (OMachine m) (errOf r))"

definition k8sUpdateCluster :: "env \<Rightarrow> cluster \<Rightarrow> (go_error + cluster) io" where
  "k8sUpdateCluster E c =
     call (\<lambda>t. envUpdateCluster E t c) (\<lambda>r. EUpdate (OCluster c) (errOf r))"

definition k8sUpdateMachineSet :: "env \<Rightarrow> machineset \<Rightarrow> (go_error + machineset) io" where
  "k8sUpdateMachineSet E s =
     call (\<lambda>t. envUpdateMachineSet E t s) (\<lambda>r. EUpdate (OMachineSet s) (errOf r))"

definition k8sUpdateAppBundle :: "env \<Rightarrow> appbundle \<Rightarrow> (go_error + appbundle) io" where
  "k8sUpdateAppBundle E a =
     call (\<lambda>t. envUpdateAppBundle E t a) (\<lambda>r. EUpdate (OAppBundle a) (errOf r))"

definition k8sUpdateSecret :: "env \<Rightarrow> secret \<Rightarrow> (go_error + secret) io" where
  "k8sUpdateSecret E s =
     call (\<lambda>t. envUpdateSecret E t s) (\<lambda>r. EUpdate (OSecret s) (errOf r))"

definition k8sDelete :: "env \<Rightarrow> obj \<Rightarrow> go_error option io" where
  "k8sDelete E ob = call (\<lambda>t. envDelete E t ob) (\<lambda>r. EDelete ob r)"

definition recordEvent :: "obj \<Rightarrow> string \<Rightarrow> string \<Rightarrow> string \<Rightarrow> unit io" where
  "recordEvent ob ty reason msg = call (\<lambda>_. ()) (\<lambda>_. ERecord ob ty reason msg)"

section \<open>Calls of the MaaS controller\<close>

definition maasAllocate :: "env \<Rightarrow> string list \<Rightarrow> (go_error + maas_machine) io" where
  "maasAllocate E tags = call (\<lambda>t. envAllocate E t tags) (\<lambda>r. EAllocate tags r)"

definition maasStart :: "env \<Rightarrow> maas_machine \<Rightarrow> start_args \<Rightarrow> (go_error + maas_machine) io" where
  "maasStart E m args =
     call (\<lambda>t. envStart E t m args) (\<lambda>r. EStart (mmSystemID m) args (errOf r))"

definition maasRelease :: "env \<Rightarrow> string list \<Rightarrow> go_error option io" where
  "maasRelease E ids = call (\<lambda>t. envRelease E t ids) (\<lambda>r. ERelease ids r)"

definition maasBootResources :: "env \<Rightarrow> (go_error + boot_resource list) io" where
  "maasBootResources E = call (envBootResources E) (\<lambda>r. EBootResources (errOf r))"

definition maasMachines :: "env \<Rightarrow> string list \<Rightarrow> (go_error + maas_machine list) io" where
  "maasMachines E ids = call (\<lambda>t. envMachines E t ids) (\<lambda>r. EMachines ids (errOf r))"

section \<open>Calls of a managed cluster's clientset\<close>

definition remoteDo :: "env \<Rightarrow> clientset \<Rightarrow> remote_call \<Rightarrow> go_error option io" where
  "remoteDo E cs rc = call (\<lambda>t. envRemoteDo E t cs rc) (\<lambda>r. ERemote cs rc r)"

definition remoteListTokens ::
    "env \<Rightarrow> clientset \<Rightarrow> (go_error + (string \<times> string go_map) list) io" where
  "remoteListTokens E cs =
     call (\<lambda>t. envListTokens E t cs) (\<lambda>r. ERemote cs RListBootstrapTokens (errOf r))"

definition remoteGetNode :: "env \<Rightarrow> clientset \<Rightarrow> string \<Rightarrow> (go_error + node) io" where
  "remoteGetNode E cs n =
     call (\<lambda>t. envGetNode E t cs n) (\<lambda>r. ERemote cs (RGetNode n) (errOf r))"

text \<open>\<open>utilerrors.NewAggregate\<close> on a non-empty list: one error by its text, several in brackets.\<close>

definition newAggregate :: "go_error list \<Rightarrow> go_error" where
  "newAggregate es = PlainError (case es of [e] \<Rightarrow> errorText e
     | _ \<Rightarrow> ''['' @ joinWith '', '' (map errorText es) @ '']'')"

definition remotePodsOnNode :: "env \<Rightarrow> clientset \<Rightarrow> string \<Rightarrow> (go_error list + pod list) io" where
  "remotePodsOnNode E cs n = call (\<lambda>t. envPodsOnNode E t cs n)
     (\<lambda>r. ERemote cs (RListPods n) (case r of Inl es \<Rightarrow> Some (newAggregate es) | Inr _ \<Rightarrow> None))"

definition remoteCheckEviction :: "env \<Rightarrow> clientset \<Rightarrow> (go_error + string) io" where
  "remoteCheckEviction E cs =
     call (\<lambda>t. envCheckEviction E t cs) (\<lambda>r. ERemote cs RCheckEviction (errOf r))"

definition remoteGetPod ::
    "env \<Rightarrow> clientset \<Rightarrow> string \<Rightarrow> string \<Rightarrow> (go_error option \<times> pod) io" where
  "remoteGetPod E cs ns n =
     call (\<lambda>t. envGetPod E t cs ns n) (\<lambda>r. ERemote cs (RGetPod ns n) (fst r))"

definition remoteListServices :: "env \<Rightarrow> clientset \<Rightarrow> (go_error + nat) io" where
  "remoteListServices E cs =
     call (\<lambda>t. envListServices E t cs) (\<lambda>r. ERemote cs RListClusterServices (errOf r))"

section \<open>Goroutines and custom resource definitions\<close>

text \<open>Which of \<open>n\<close> runnable goroutines makes the next step.\<close>

definition schedule :: "env \<Rightarrow> nat \<Rightarrow> nat io" where
  "schedule E n = call (\<lambda>t. envPick E t mod n) ESchedule"

definition crdGet :: "env \<Rightarrow> string \<Rightarrow> go_error option io" where
  "crdGet E name = call (\<lambda>t. envGetCrd E t name) (\<lambda>r. EGetCrd name r)"

definition crdCreate :: "env \<Rightarrow> string \<Rightarrow> go_error option io" where
  "crdCreate E crd = call (\<lambda>t. envCreateCrd E t crd) (\<lambda>r. ECreateCrd crd r)"

lemmas world_defs = timeNow_def randRead_def randInt_def generateKey_def createCertificate_def
  k8sGetMachine_def k8sGetCluster_def
  k8sGetMachineSet_def k8sGetAppBundle_def k8sGetSecret_def k8sGetNamespace_def
  k8sListMachines_def k8sListClusters_def k8sListMachineSets_def k8sCreateMachine_def
  k8sCreate_def k8sUpdateMachine_def k8sUpdateCluster_def k8sUpdateMachineSet_def
  k8sUpdateAppBundle_def k8sUpdateSecret_def k8sDelete_def recordEvent_def maasAllocate_def
  maasStart_def maasRelease_def maasBootResources_def maasMachines_def remoteDo_def
  remoteListTokens_def remoteGetNode_def remotePodsOnNode_def remoteCheckEviction_def
  remoteGetPod_def remoteListServices_def schedule_def crdGet_def crdCreate_def

section \<open>An environment without services\<close>

text \<open>
  Every service is unreachable and every library call fails. The witnesses of the theorems
  start from it and give answers to the calls their scenario makes.
\<close>

definition offline :: env where
  "offline = (let no = PlainError ''connection refused'' in \<lparr>
     envNow = (\<lambda>t. 1000 + int (length t)),
     envPollTicks = (\<lambda>_. 2),
     envPick = (\<lambda>_. 0),
     envRand = (\<lambda>_ _. Inl no),
     envGetMachine = (\<lambda>_ _. Inl no),
     envGetCluster = (\<lambda>_ _. Inl no),
     envGetMachineSet = (\<lambda>_ _. Inl no),
     envGetAppBundle = (\<lambda>_ _. Inl no),
     envGetSecret = (\<lambda>_ _. Inl no),
     envGetNamespace = (\<lambda>_ _. Inl no),
     envListMachines = (\<lambda>_ _. Inl no),
     envListClusters = (\<lambda>_ _. Inl no),
     envListMachineSets = (\<lambda>_ _. Inl no),
     envCreateMachine = (\<lambda>_ _. Inl no),
     envCreate = (\<lambda>_ _. Some no),
     envUpdateMachine = (\<lambda>_ _. Inl no),
     envUpdateCluster = (\<lambda>_ _. Inl no),
     envUpdateMachineSet = (\<lambda>_ _. Inl no),
     envUpdateAppBundle = (\<lambda>_ _. Inl no),
     envUpdateSecret = (\<lambda>_ _. Inl no),
     envDelete = (\<lambda>_ _. Some no),
     envAllocate = (\<lambda>_ _. Inl no),
     envStart = (\<lambda>_ _ _. Inl no),
     envRelease = (\<lambda>_ _. Some no),
     envBootResources = (\<lambda>_. Inl no),
     envMachines = (\<lambda>_ _. Inl no),
     envClientConfig = (\<lambda>_. Inl no),
     envRestConfig = (\<lambda>_. Inl no),
     envClientset = (\<lambda>_. Inl no),
     envListTokens = (\<lambda>_ _. Inl no),
     envRemoteDo = (\<lambda>_ _ _. Some no),
     envGetNode = (\<lambda>_ _ _. Inl no),
     envPodsOnNode = (\<lambda>_ _ _. Inl [no]),
     envCheckEviction = (\<lambda>_ _. Inl no),
     envGetPod = (\<lambda>_ _ _ _. (Some no, \<lparr>podName = [], podNamespace = [], podUID = []\<rparr>)),
     envListServices = (\<lambda>_ _. Inl no),
     envParseTime = (\<lambda>_. None),
     envFormatTime = (\<lambda>_. []),
     envPemDecode = (\<lambda>_. None),
     envPemEncode = (\<lambda>ty bs. ty @ '':'' @ bs),
     envMarshalKey = (\<lambda>k. k),
     envPublicKey = (\<lambda>k. ''pub'' @ k),
     envRandInt = (\<lambda>_ _. Inl no),
     envGenerateKey = (\<lambda>_ _. Inl no),
     envCreateCertificate = (\<lambda>_ _ _ _ _. Inl no),
     envParseCertificate = (\<lambda>_. Inl no),
     envParseIP = (\<lambda>_. None),
     envSha256 = (\<lambda>bs. bs),
     envTarHeader = (\<lambda>_ _. Inl no),
     envTarWrite = (\<lambda>_ _. Inl no),
     envTarClose = (\<lambda>_. Inl no),
     envEncodeConfig = (\<lambda>_. Inl no),
     envSort = (\<lambda>_ xs. xs),
     envLabelKey = (\<lambda>_. None),
     envLabelValue = (\<lambda>_. None),
     envCrdClient = Some no,
     envGetCrd = (\<lambda>_ _. Some no),
     envCrdFile = (\<lambda>_. Inl no),
     envDecodeCrd = (\<lambda>_. Inl no),
     envCreateCrd = (\<lambda>_ _. Some no)\<rparr>)"

end
