(* ===== verification/Base64.thy ===== *)
theory Base64
  imports Prelude
begin

text \<open>
  The standard encoding of Go's \<^verbatim>\<open>encoding/base64\<close> with padding, which the MaaS client applies
  to the user data of a machine and the certificate bundle to its tar archive, with a decoder
  that inverts it.
\<close>

definition b64Alphabet :: string where
  "b64Alphabet = ''ABCDEFGHIJKLMNOPQRSTUVWXYZabcdefghijklmnopqrstuvwxyz0123456789+/''"

definition b64Char :: "nat \<Rightarrow> char" where
  "b64Char n = b64Alphabet ! n"

definition b64Value :: "char \<Rightarrow> nat" where
  "b64Value c = length (takeWhile (\<lambda>x. x \<noteq> c) b64Alphabet)"

fun base64Encode :: "string \<Rightarrow> string" where
  "base64Encode [] = []"
| "base64Encode [a] = (let x = of_char a in
     [b64Char (x div 4), b64Char (x mod 4 * 16), CHR ''='', CHR ''=''])"
| "base64Encode [a, b] = (let x = of_char a; y = of_char b in
     [b64Char (x div 4), b64Char (x mod 4 * 16 + y div 16), b64Char (y mod 16 * 4), CHR ''=''])"
| "base64Encode (a # b # c # bs) = (let x = of_char a; y = of_char b; z = of_char c in
     [b64Char (x div 4), b64Char (x mod 4 * 16 + y div 16), b64Char (y mod 16 * 4 + z div 64),
      b64Char (z mod 64)] @ base64Encode bs)"

fun base64Decode :: "string \<Rightarrow> string" where
  "base64Decode (a # b # c # d # s) =
     (let w = b64Value a; x = b64Value b; y = b64Value c; z = b64Value d in
      if c = CHR ''='' then [char_of (w * 4 + x div 16)]
      else if d = CHR ''='' then [char_of (w * 4 + x div 16), char_of (x mod 16 * 16 + y div 4)]
      else [char_of (w * 4 + x div 16), char_of (x mod 16 * 16 + y div 4),
            char_of (y mod 4 * 64 + z)] @ base64Decode s)"
| "base64Decode _ = []"

lemma length_b64Alphabet [simp]: "length b64Alphabet = 64"
  by (simp add: b64Alphabet_def)

lemma distinct_b64Alphabet: "distinct b64Alphabet"
  by (simp add: b64Alphabet_def)

lemma takeWhile_nth_distinct:
  "distinct xs \<Longrightarrow> n < length xs \<Longrightarrow> length (takeWhile (\<lambda>x. x \<noteq> xs ! n) xs) = n"
proof (induction xs arbitrary: n)
  case Nil
  then show ?case by simp
next
  case (Cons x xs)
  then show ?case by (cases n) auto
qed

lemma b64Value_b64Char: "n < 64 \<Longrightarrow> b64Value (b64Char n) = n"
  using takeWhile_nth_distinct [OF distinct_b64Alphabet, of n]
  by (simp add: b64Value_def b64Char_def)

lemma b64Char_no_padding: "n < 64 \<Longrightarrow> b64Char n \<noteq> CHR ''=''"
proof -
  assume "n < 64"
  then have "b64Char n \<in> set b64Alphabet" by (simp add: b64Char_def)
  moreover have "CHR ''='' \<notin> set b64Alphabet" by (simp add: b64Alphabet_def)
  ultimately show ?thesis by metis
qed

lemma join_high: "(b::nat) < k \<Longrightarrow> (a * k + b) div k = a"
  by simp

lemma join_low: "(b::nat) < k \<Longrightarrow> (a * k + b) mod k = b"
  by simp

text \<open>How three bytes split into four sextets and come together again.\<close>

lemma sextet_bounds:
  fixes x y z :: nat
  assumes "x < 256" "y < 256" "z < 256"
  shows "x div 4 < 64" "x mod 4 * 16 < 64" "x mod 4 * 16 + y div 16 < 64"
    "y mod 16 * 4 < 64" "y mod 16 * 4 + z div 64 < 64" "z mod 64 < 64"
proof -
  have "x mod 4 < 4" "y mod 16 < 16" "y div 16 < 16" "z div 64 < 4" using assms by simp_all
  then show "x mod 4 * 16 < 64" "x mod 4 * 16 + y div 16 < 64"
    "y mod 16 * 4 < 64" "y mod 16 * 4 + z div 64 < 64" by linarith+
  show "x div 4 < 64" "z mod 64 < 64" using assms by simp_all
qed

lemma sextet_join:
  fixes x y z :: nat
  assumes "x < 256" "y < 256" "z < 256"
  shows "x div 4 * 4 + x mod 4 * 16 div 16 = x"
    "x div 4 * 4 + (x mod 4 * 16 + y div 16) div 16 = x"
    "(x mod 4 * 16 + y div 16) mod 16 * 16 + y mod 16 * 4 div 4 = y"
    "(x mod 4 * 16 + y div 16) mod 16 * 16 + (y mod 16 * 4 + z div 64) div 4 = y"
    "(y mod 16 * 4 + z div 64) mod 4 * 64 + z mod 64 = z"
proof -
  have yz: "y div 16 < 16" "z div 64 < 4" using assms by simp_all
  have "(x mod 4 * 16 + y div 16) div 16 = x mod 4" "(x mod 4 * 16 + y div 16) mod 16 = y div 16"
    "(y mod 16 * 4 + z div 64) div 4 = y mod 16" "(y mod 16 * 4 + z div 64) mod 4 = z div 64"
    using join_high join_low yz by blast+
  then show "x div 4 * 4 + x mod 4 * 16 div 16 = x"
    "x div 4 * 4 + (x mod 4 * 16 + y div 16) div 16 = x"
    "(x mod 4 * 16 + y div 16) mod 16 * 16 + y mod 16 * 4 div 4 = y"
    "(x mod 4 * 16 + y div 16) mod 16 * 16 + (y mod 16 * 4 + z div 64) div 4 = y"
    "(y mod 16 * 4 + z div 64) mod 4 * 64 + z mod 64 = z"
    by simp_all
qed

lemma base64_roundtrip: "base64Decode (base64Encode s) = s"
proof (induction s rule: base64Encode.induct)
  case 1
  show ?case by simp
next
  case (2 a)
  note lt = nat_of_char_less_256 [of a]
  show ?case using sextet_bounds [OF lt lt lt] sextet_join [OF lt lt lt]
    by (simp add: Let_def b64Value_b64Char)
next
  case (3 a b)
  note lt = nat_of_char_less_256 [of a] nat_of_char_less_256 [of b]
  show ?case using sextet_bounds [OF lt(1) lt(2) lt(1)] sextet_join [OF lt(1) lt(2) lt(1)]
    by (simp add: Let_def b64Value_b64Char b64Char_no_padding)
next
  case (4 a b c bs)
  note lt = nat_of_char_less_256 [of a] nat_of_char_less_256 [of b] nat_of_char_less_256 [of c]
  show ?case using sextet_bounds [OF lt] sextet_join [OF lt] 4
    by (simp add: Let_def b64Value_b64Char b64Char_no_padding)
qed

end
