(* ===== verification/Cert.thy ===== *)
theory Cert
  imports World Base64
begin

text \<open>
  \<^verbatim>\<open>pkg/cert/gen_cert.go\<close>: the bundle of certificates and keys of a managed cluster, its
  storage in the data of a secret, the tar archive that cloud-init unpacks on a master, the
  kubeconfig of the administrator, and the generation of the bundle. The cryptography, the PEM
  and tar formats and the kubeconfig codec are fields of the environment.
\<close>

section \<open>The bundle and its map form\<close>

record ca_bundle =
  caRoot :: string
  caRootKey :: string
  caK8s :: string
  caK8sKey :: string
  caEtcd :: string
  caEtcdKey :: string
  caFrontProxy :: string
  caFrontProxyKey :: string
  caK8sClient :: string
  caK8sClientKey :: string

definition zero_bundle :: ca_bundle where
  "zero_bundle = \<lparr>caRoot = '''', caRootKey = '''', caK8s = '''', caK8sKey = '''', caEtcd = '''',
     caEtcdKey = '''', caFrontProxy = '''', caFrontProxyKey = '''', caK8sClient = '''',
     caK8sClientKey = ''''\<rparr>"

abbreviation mapKeyRoot :: string where "mapKeyRoot \<equiv> ''root.crt''"
abbreviation mapKeyRootKey :: string where "mapKeyRootKey \<equiv> ''root.key''"
abbreviation mapKeyK8s :: string where "mapKeyK8s \<equiv> ''ca.crt''"
abbreviation mapKeyK8sKey :: string where "mapKeyK8sKey \<equiv> ''ca.key''"
abbreviation mapKeyEtcd :: string where "mapKeyEtcd \<equiv> ''etcd.crt''"
abbreviation mapKeyEtcdKey :: string where "mapKeyEtcdKey \<equiv> ''etcd.key''"
abbreviation mapKeyFrontProxy :: string where "mapKeyFrontProxy \<equiv> ''front-proxy.crt''"
abbreviation mapKeyFrontProxyKey :: string where "mapKeyFrontProxyKey \<equiv> ''front-proxy.key''"
abbreviation mapKeyK8sClient :: string where "mapKeyK8sClient \<equiv> ''k8s-client.crt''"
abbreviation mapKeyK8sClientKey :: string where "mapKeyK8sClientKey \<equiv> ''k8s-client.key''"

definition bundleSet :: "string \<Rightarrow> string \<Rightarrow> ca_bundle \<Rightarrow> ca_bundle" where
  "bundleSet key val c =
     (if key = mapKeyRoot then c\<lparr>caRoot := val\<rparr>
      else if key = mapKeyRootKey then c\<lparr>caRootKey := val\<rparr>
      else if key = mapKeyK8s then c\<lparr>caK8s := val\<rparr>
      else if key = mapKeyK8sKey then c\<lparr>caK8sKey := val\<rparr>
      else if key = mapKeyEtcd then c\<lparr>caEtcd := val\<rparr>
      else if key = mapKeyEtcdKey then c\<lparr>caEtcdKey := val\<rparr>
      else if key = mapKeyFrontProxy then c\<lparr>caFrontProxy := val\<rparr>
      else if key = mapKeyFrontProxyKey then c\<lparr>caFrontProxyKey := val\<rparr>
      else if key = mapKeyK8sClient then c\<lparr>caK8sClient := val\<rparr>
      else if key = mapKeyK8sClientKey then c\<lparr>caK8sClientKey := val\<rparr>
      else c)"

definition bundleKeys :: "string list" where
  "bundleKeys = [mapKeyRoot, mapKeyRootKey, mapKeyK8s, mapKeyK8sKey, mapKeyEtcd, mapKeyEtcdKey,
     mapKeyFrontProxy, mapKeyFrontProxyKey, mapKeyK8sClient, mapKeyK8sClientKey]"

fun bundleFromMapLoop :: "string go_map \<Rightarrow> string list \<Rightarrow> ca_bundle \<Rightarrow> go_error + ca_bundle" where
  "bundleFromMapLoop m [] bundle = Inr bundle"
| "bundleFromMapLoop m (key # keys) bundle = (case goGet m key of
       None \<Rightarrow> Inl (PlainError (''key '' @ key @ '' not found in data''))
     | Some val \<Rightarrow> bundleFromMapLoop m keys (bundleSet key val bundle))"

definition CABundleFromMap :: "string go_map \<Rightarrow> go_error + ca_bundle" where
  "CABundleFromMap m = bundleFromMapLoop m bundleKeys zero_bundle"

definition MergeWithMap :: "ca_bundle \<Rightarrow> string go_map \<Rightarrow> string go_map" where
  "MergeWithMap c m =
     goPut mapKeyK8sClientKey (caK8sClientKey c) (goPut mapKeyK8sClient (caK8sClient c)
     (goPut mapKeyFrontProxyKey (caFrontProxyKey c) (goPut mapKeyFrontProxy (caFrontProxy c)
     (goPut mapKeyEtcdKey (caEtcdKey c) (goPut mapKeyEtcd (caEtcd c)
     (goPut mapKeyK8sKey (caK8sKey c) (goPut mapKeyK8s (caK8s c)
     (goPut mapKeyRootKey (caRootKey c) (goPut mapKeyRoot (caRoot c) m)))))))))"

section \<open>The contract of a bundle store\<close>

text \<open>
  What the controllers rely on. The cluster controller stores a new bundle in the data of a
  secret; the machine controller loads it, adds the kubeconfig under a key of its own, and later
  reconciles load it again. \<open>own\<close> are the keys the bundle occupies.
\<close>

locale bundle_store =
  fixes store :: "'b \<Rightarrow> 'v go_map \<Rightarrow> 'v go_map"
    and load :: "'v go_map \<Rightarrow> 'e + 'b"
    and own :: "string list"
  assumes load_store: "load (store b m) = Inr b"
    and store_other: "k \<notin> set own \<Longrightarrow> goGet (store b m) k = goGet m k"
    and load_cong: "(\<And>k. k \<in> set own \<Longrightarrow> goGet m k = goGet m' k) \<Longrightarrow> load m = load m'"
begin

lemma load_put_other: "k \<notin> set own \<Longrightarrow> load (goPut k v m) = load m"
  by (rule load_cong) auto

lemma load_store_put: "k \<notin> set own \<Longrightarrow> load (goPut k v (store b m)) = Inr b"
  by (simp add: load_put_other load_store)

lemma store_put_get: "k \<notin> set own \<Longrightarrow> goGet (store b (goPut k v m)) k = Some v"
  by (simp add: store_other)

lemma store_injective: "store b m = store b' m' \<Longrightarrow> b = b'"
  using load_store [of b m] load_store [of b' m'] by simp

end

lemma bundleFromMapLoop_cong:
  "(\<And>k. k \<in> set keys \<Longrightarrow> goGet m k = goGet m' k) \<Longrightarrow>
   bundleFromMapLoop m keys b = bundleFromMapLoop m' keys b"
  by (induction keys arbitrary: b) (auto split: option.split)

lemma bundleFromMapLoop_ok_iff:
  "(\<exists>c. bundleFromMapLoop m keys b = Inr c) \<longleftrightarrow> (\<forall>k \<in> set keys. goGet m k \<noteq> None)"
  by (induction keys arbitrary: b) (auto split: option.splits)

lemma goGet_MergeWithMap_other: "k \<notin> set bundleKeys \<Longrightarrow> goGet (MergeWithMap c m) k = goGet m k"
  by (simp add: MergeWithMap_def bundleKeys_def)

lemma CABundleFromMap_MergeWithMap: "CABundleFromMap (MergeWithMap c m) = Inr c"
  by (cases c) (simp add: CABundleFromMap_def MergeWithMap_def bundleKeys_def bundleSet_def
      zero_bundle_def)

interpretation cab: bundle_store MergeWithMap CABundleFromMap bundleKeys
proof unfold_locales
  show "CABundleFromMap (MergeWithMap b m) = Inr b" for b m
    by (rule CABundleFromMap_MergeWithMap)
  show "k \<notin> set bundleKeys \<Longrightarrow> goGet (MergeWithMap b m) k = goGet m k" for k b m
    by (rule goGet_MergeWithMap_other)
  show "(\<And>k. k \<in> set bundleKeys \<Longrightarrow> goGet m k = goGet m' k) \<Longrightarrow>
      CABundleFromMap m = CABundleFromMap m'" for m m'
    unfolding CABundleFromMap_def by (rule bundleFromMapLoop_cong)
qed

text \<open>The key of the kubeconfig in the same secret is not one of the bundle's.\<close>

definition ServiceAccountKubeconfigKey :: string where
  "ServiceAccountKubeconfigKey = ''kubernetes.kubeconfig''"

lemma kubeconfig_key_not_own: "ServiceAccountKubeconfigKey \<notin> set bundleKeys"
  by (simp add: ServiceAccountKubeconfigKey_def bundleKeys_def)

text \<open>C29: what the cluster controller stores, the machine controller reads back, with whatever
  else the secret held before and after the kubeconfig was added to it; and the kubeconfig
  survives too.\<close>

theorem bundle_roundtrip:
  "CABundleFromMap (goPut ServiceAccountKubeconfigKey cfg (MergeWithMap c m)) = Inr c \<and>
   goGet (goPut ServiceAccountKubeconfigKey cfg (MergeWithMap c m)) ServiceAccountKubeconfigKey
     = Some cfg"
  by (simp add: cab.load_store_put kubeconfig_key_not_own)

text \<open>a bundle loads exactly from the maps that hold all ten keys.\<close>

theorem CABundleFromMap_total:
  "(\<exists>c. CABundleFromMap m = Inr c) \<longleftrightarrow> (\<exists>vs. map (goGet m) bundleKeys = map Some vs)"
proof -
  have "(\<forall>k \<in> set keys. goGet m k \<noteq> None) \<longleftrightarrow> (\<exists>vs. map (goGet m) keys = map Some vs)" for keys
    by (induction keys) (auto simp: Cons_eq_map_conv)
  then show ?thesis
    unfolding CABundleFromMap_def bundleFromMapLoop_ok_iff by blast
qed

section \<open>The archive for cloud-init\<close>

definition tarFiles :: "ca_bundle \<Rightarrow> (string \<times> string \<times> nat) list" where
  "tarFiles c =
     [(''etcd/ca.crt'', caEtcd c, 420),
      (''etcd/ca.key'', caEtcdKey c, 384),
      (''ca.crt'', caK8s c, 420),
      (''ca.key'', caK8sKey c, 384),
      (''front-proxy-ca.crt'', caFrontProxy c, 420),
      (''front-proxy-ca.key'', caFrontProxyKey c, 384)]"

fun tarLoop :: "env \<Rightarrow> (string \<times> string \<times> nat) list \<Rightarrow> string \<Rightarrow> (go_error + string) io" where
  "tarLoop E [] tw = ret (Inr tw)"
| "tarLoop E ((name, body, mode) # files) tw = do {
     now \<leftarrow> timeNow E;
     case envTarHeader E tw \<lparr>thName = name, thMode = mode, thModTime = now,
         thSize = length body, thIsDir = False\<rparr> of
       Inl err \<Rightarrow> ret (Inl (Wrapped ''could not write tar header'' err))
     | Inr tw1 \<Rightarrow> (case envTarWrite E tw1 body of
           Inl err \<Rightarrow> ret (Inl (Wrapped ''could not write tar body'' err))
         | Inr tw2 \<Rightarrow> tarLoop E files tw2)
   }"

definition ToTar :: "env \<Rightarrow> ca_bundle \<Rightarrow> (go_error + string) io" where
  "ToTar E c = do {
     now \<leftarrow> timeNow E;
     case envTarHeader E '''' \<lparr>thName = ''etcd/'', thMode = 493, thModTime = now, thSize = 0,
         thIsDir = True\<rparr> of
       Inl err \<Rightarrow> ret (Inl (Wrapped ''could not write etcd dir tar header'' err))
     | Inr tw \<Rightarrow> onErr Inl (tarLoop E (tarFiles c) tw) (\<lambda>tw.
         case envTarClose E tw of
           Inl err \<Rightarrow> ret (Inl (Wrapped ''could not close tar writer'' err))
         | Inr tarball \<Rightarrow> ret (Inr (base64Encode tarball)))
   }"

lemma emits_tarLoop [safe_intros]: "P ENow \<Longrightarrow> emits P (tarLoop E files tw)"
  by (induction files arbitrary: tw) (auto simp: timeNow_def intro!: safe_intros split: prod.splits)

lemma emits_ToTar [safe_intros]: "P ENow \<Longrightarrow> emits P (ToTar E c)"
  unfolding ToTar_def timeNow_def by (intro safe_intros) simp_all

section \<open>The kubeconfig\<close>

definition bundleKubeconfig :: "env \<Rightarrow> ca_bundle \<Rightarrow> string \<Rightarrow> string \<Rightarrow> go_error + string" where
  "bundleKubeconfig E c name apiserverAddress =
     (let userName = ''kubernetes-admin''; contextName = userName @ ''@'' @ name in
      case envEncodeConfig E \<lparr>kcCluster = name, kcServer = apiserverAddress, kcCAData = caK8s c,
          kcContext = contextName, kcContextCluster = name, kcContextUser = ''kubernetes-admin'',
          kcUser = userName, kcClientKey = caK8sClientKey c, kcClientCert = caK8sClient c,
          kcCurrentContext = contextName\<rparr> of
        Inl err \<Rightarrow> Inl err
      | Inr kubeconfig \<Rightarrow> Inr kubeconfig)"

end
