(* ===== verification/Cert_Gen.thy ===== *)
theory Cert_Gen
  imports Cert
begin

text \<open>
  The generation of a bundle in \<^verbatim>\<open>pkg/cert/gen_cert.go\<close>: the two certificate templates and
  \<open>NewCABundle\<close>, with the chain of trust it establishes.
\<close>

section \<open>Templates\<close>

text \<open>Durations are nanoseconds, as in package \<open>time\<close>.\<close>

definition hours :: "int \<Rightarrow> time" where
  "hours n = n * 3600 * 1000000000"

definition FromCATemplate :: "env \<Rightarrow> string \<Rightarrow> (go_error + x509_certificate) io" where
  "FromCATemplate E commonName = do {
     notBefore \<leftarrow> timeNow E;
     onErr (Inl \<circ> Wrapped ''failed to generate serial number'') (randInt E (2 ^ 128))
       (\<lambda>serialNumber. ret (Inr \<lparr>
          xcSerialNumber = serialNumber,
          xcCommonName = commonName,
          xcOrganization = [''Samsung CNCT''],
          xcCountry = [''US''],
          xcProvince = [''Washington''],
          xcLocality = [''Seattle''],
          xcNotBefore = notBefore,
          xcNotAfter = notBefore + hours (10 * 365 * 24),
          xcIsCA = True,
          xcKeyUsage = {''CertSign'', ''KeyEncipherment'', ''DigitalSignature''},
          xcExtKeyUsage = [''ServerAuth'', ''ClientAuth''],
          xcBasicConstraintsValid = True,
          xcIPAddresses = [],
          xcDNSNames = [],
          xcRawSubjectPublicKeyInfo = ''''\<rparr>))
   }"

fun addHosts :: "env \<Rightarrow> string list \<Rightarrow> x509_certificate \<Rightarrow> x509_certificate" where
  "addHosts E [] template = template"
| "addHosts E (h # hosts) template = addHosts E hosts (case envParseIP E h of
       Some ip \<Rightarrow> template\<lparr>xcIPAddresses := xcIPAddresses template @ [ip]\<rparr>
     | None \<Rightarrow> template\<lparr>xcDNSNames := xcDNSNames template @ [h]\<rparr>)"

definition FromCertTemplate :: "env \<Rightarrow> string \<Rightarrow> string list \<Rightarrow> string list \<Rightarrow> bool \<Rightarrow> bool
    \<Rightarrow> (go_error + x509_certificate) io" where
  "FromCertTemplate E cn org hosts serverAuth clientAuth =
     (if length hosts = 0 \<and> serverAuth then ret (Inl (PlainError ''no hosts provided''))
      else do {
        notBefore \<leftarrow> timeNow E;
        onErr (Inl \<circ> Wrapped ''failed to generate serial number'') (randInt E (2 ^ 128))
          (\<lambda>serialNumber. ret (Inr (addHosts E hosts \<lparr>
             xcSerialNumber = serialNumber,
             xcCommonName = cn,
             xcOrganization = org,
             xcCountry = [''US''],
             xcProvince = [''Washington''],
             xcLocality = [''Seattle''],
             xcNotBefore = notBefore,
             xcNotAfter = notBefore + hours (365 * 24),
             xcIsCA = True,
             xcKeyUsage = {''KeyEncipherment'', ''DigitalSignature''},
             xcExtKeyUsage = (if serverAuth then [''ServerAuth''] else [])
               @ (if clientAuth then [''ClientAuth''] else []),
             xcBasicConstraintsValid = True,
             xcIPAddresses = [],
             xcDNSNames = [],
             xcRawSubjectPublicKeyInfo = ''''\<rparr>)))
      })"

section \<open>NewCABundle\<close>

definition rsaBits :: nat where
  "rsaBits = 2048"

definition keyPem :: "env \<Rightarrow> string \<Rightarrow> string" where
  "keyPem E key = envPemEncode E ''RSA PRIVATE KEY'' (envMarshalKey E key)"

definition certPem :: "env \<Rightarrow> string \<Rightarrow> string" where
  "certPem E der = envPemEncode E ''CERTIFICATE'' der"

abbreviation parseCertificate :: "env \<Rightarrow> string \<Rightarrow> (go_error + x509_certificate) io" where
  "parseCertificate E der \<equiv> ret (envParseCertificate E der)"

definition NewCABundle :: "env \<Rightarrow> (go_error + ca_bundle) io" where
  "NewCABundle E =
     onErr (Inl \<circ> Wrapped ''could not generate root ca'')
       (FromCATemplate E ''samsung-cnct'') (\<lambda>rootTemplate.
     onErr (Inl \<circ> Wrapped ''could not create root ca key'')
       (generateKey E rsaBits) (\<lambda>rootCAKey.
     onErr (Inl \<circ> Wrapped ''could not create der bytes for root ca'')
       (createCertificate E rootTemplate rootTemplate (envPublicKey E rootCAKey) rootCAKey) (\<lambda>rootDer.
     onErr (Inl \<circ> Wrapped ''could not reparse certificate for root ca'')
       (parseCertificate E rootDer) (\<lambda>rootCA.
     onErr (Inl \<circ> Wrapped ''could not generate kubernetes-ca'')
       (FromCATemplate E ''kubernetes-ca'') (\<lambda>k8sTemplate.
     onErr (Inl \<circ> Wrapped ''could not create k8s ca key'')
       (generateKey E rsaBits) (\<lambda>k8sCAKey.
     onErr (Inl \<circ> Wrapped ''could not create der bytes for k8s ca'')
       (createCertificate E k8sTemplate rootCA (envPublicKey E k8sCAKey) rootCAKey) (\<lambda>k8sDer.
     onErr (Inl \<circ> Wrapped ''could not reparse certificate for k8s ca'')
       (parseCertificate E k8sDer) (\<lambda>k8sCA.
     onErr (Inl \<circ> Wrapped ''could not generate etcd-ca'')
       (FromCATemplate E ''etcd-ca'') (\<lambda>etcdCA.
     onErr (Inl \<circ> Wrapped ''could not create etcd ca key'')
       (generateKey E rsaBits) (\<lambda>etcdCAKey.
     onErr (Inl \<circ> Wrapped ''could not create der bytes for etcd ca'')
       (createCertificate E etcdCA rootCA (envPublicKey E etcdCAKey) rootCAKey) (\<lambda>etcdDer.
     onErr (Inl \<circ> Wrapped ''could not generate kubernetes-front-proxy-ca'')
       (FromCATemplate E ''kubernetes-front-proxy-ca'') (\<lambda>k8sFrontProxyCA.
     onErr (Inl \<circ> Wrapped ''could not create kubernetes front proxy ca key'')
       (generateKey E rsaBits) (\<lambda>k8sFrontProxyCAKey.
     onErr (Inl \<circ> Wrapped ''could not create der bytes for k8s front proxy ca'')
       (createCertificate E k8sFrontProxyCA rootCA (envPublicKey E k8sFrontProxyCAKey) rootCAKey)
         (\<lambda>k8sFrontProxyDer.
     onErr (Inl \<circ> Wrapped ''could not create kubeconfig client cert'')
       (FromCertTemplate E ''kubernetes-admin'' [''system:masters''] [] False True) (\<lambda>kubeconfig.
     onErr (Inl \<circ> Wrapped ''could not create kubeconfig client key'')
       (generateKey E rsaBits) (\<lambda>kubeconfigKey.
     onErr (Inl \<circ> Wrapped ''could not write der bytes for kubeconfig'')
       (createCertificate E kubeconfig k8sCA (envPublicKey E kubeconfigKey) k8sCAKey)
         (\<lambda>kubeconfigDer.
     ret (Inr \<lparr>
       caRoot = certPem E rootDer,
       caRootKey = keyPem E rootCAKey,
       caK8s = certPem E k8sDer,
       caK8sKey = keyPem E k8sCAKey,
       caEtcd = certPem E etcdDer,
       caEtcdKey = keyPem E etcdCAKey,
       caFrontProxy = certPem E k8sFrontProxyDer,
       caFrontProxyKey = keyPem E k8sFrontProxyCAKey,
       caK8sClient = certPem E kubeconfigDer,
       caK8sClientKey = keyPem E kubeconfigKey\<rparr>))))))))))))))))))"

section \<open>The chain of trust\<close>

text \<open>The certificates issued during a run, oldest first.\<close>

fun issued :: "trace \<Rightarrow> (x509_certificate \<times> x509_certificate \<times> string \<times> string \<times> string) list" where
  "issued [] = []"
| "issued (ECreateCertificate template parent pub priv (Inr der) # t) =
     (template, parent, pub, priv, der) # issued t"
| "issued (_ # t) = issued t"

lemma issued_append [simp]: "issued (t @ t') = issued t @ issued t'"
  by (induction t rule: issued.induct) simp_all

lemma wp_FromCATemplate:
  assumes "\<And>e r. Q (Inl e) (t @ [ENow, ERandInt r])"
    and "\<And>tpl r. xcCommonName tpl = cn \<Longrightarrow> xcIsCA tpl \<Longrightarrow> ''CertSign'' \<in> xcKeyUsage tpl \<Longrightarrow>
      Q (Inr tpl) (t @ [ENow, ERandInt r])"
  shows "wp (FromCATemplate E cn) Q t"
  using assms by (auto simp: FromCATemplate_def timeNow_def randInt_def split: sum.split)

lemma wp_client_template:
  assumes "\<And>e r. Q (Inl e) (t @ [ENow, ERandInt r])"
    and "\<And>tpl r. xcCommonName tpl = cn \<Longrightarrow> xcOrganization tpl = org \<Longrightarrow>
      xcExtKeyUsage tpl = [''ClientAuth''] \<Longrightarrow> ''CertSign'' \<notin> xcKeyUsage tpl \<Longrightarrow>
      Q (Inr tpl) (t @ [ENow, ERandInt r])"
  shows "wp (FromCertTemplate E cn org [] False True) Q t"
  using assms by (auto simp: FromCertTemplate_def timeNow_def randInt_def split: sum.split)

lemma wp_generateKey:
  assumes "\<And>e. Q (Inl e) (t @ [EGenerateKey n (Inl e)])"
    and "\<And>k. Q (Inr k) (t @ [EGenerateKey n (Inr k)])"
  shows "wp (generateKey E n) Q t"
  using assms by (cases "envGenerateKey E t n") (auto simp: generateKey_def)

lemma wp_createCertificate:
  assumes "\<And>e. Q (Inl e) (t @ [ECreateCertificate tpl par pub priv (Inl e)])"
    and "\<And>der. Q (Inr der) (t @ [ECreateCertificate tpl par pub priv (Inr der)])"
  shows "wp (createCertificate E tpl par pub priv) Q t"
  using assms
  by (cases "envCreateCertificate E t tpl par pub priv") (auto simp: createCertificate_def)

text \<open>What a successful run guarantees of the certificates it issued, in order.\<close>

definition trustChain :: "env \<Rightarrow> ca_bundle \<Rightarrow>
    (x509_certificate \<times> x509_certificate \<times> string \<times> string \<times> string) list \<Rightarrow> bool" where
  "trustChain E b certs \<longleftrightarrow>
     (\<exists>rt kt et ft ct rootCA k8sCA rk kk ek fk ck rd kd ed fd cd.
        certs = [(rt, rt, envPublicKey E rk, rk, rd),
                 (kt, rootCA, envPublicKey E kk, rk, kd),
                 (et, rootCA, envPublicKey E ek, rk, ed),
                 (ft, rootCA, envPublicKey E fk, rk, fd),
                 (ct, k8sCA, envPublicKey E ck, kk, cd)]
        \<and> envParseCertificate E rd = Inr rootCA \<and> envParseCertificate E kd = Inr k8sCA
        \<and> map xcCommonName [rt, kt, et, ft, ct] = [''samsung-cnct'', ''kubernetes-ca'', ''etcd-ca'',
            ''kubernetes-front-proxy-ca'', ''kubernetes-admin'']
        \<and> list_all (\<lambda>tpl. xcIsCA tpl \<and> ''CertSign'' \<in> xcKeyUsage tpl) [rt, kt, et, ft]
        \<and> xcOrganization ct = [''system:masters''] \<and> xcExtKeyUsage ct = [''ClientAuth'']
        \<and> ''CertSign'' \<notin> xcKeyUsage ct
        \<and> b = \<lparr>caRoot = certPem E rd, caRootKey = keyPem E rk, caK8s = certPem E kd,
               caK8sKey = keyPem E kk, caEtcd = certPem E ed, caEtcdKey = keyPem E ek,
               caFrontProxy = certPem E fd, caFrontProxyKey = keyPem E fk,
               caK8sClient = certPem E cd, caK8sClientKey = keyPem E ck\<rparr>)"

lemma NewCABundle_law:
  "wp (NewCABundle E) (\<lambda>r t'. case r of
      Inl e \<Rightarrow> (\<exists>msg e'. e = Wrapped msg e')
    | Inr b \<Rightarrow> (\<exists>certs. issued t' = issued t @ certs \<and> trustChain E b certs)) t"
  unfolding NewCABundle_def
  by simp ((rule wp_FromCATemplate wp_generateKey wp_createCertificate wp_client_template;
      clarsimp split: sum.split)+, simp add: trustChain_def,
      (intro exI conjI; (rule refl | assumption)?)+)

text \<open>a bundle holds a chain of trust: the root certificate is signed by its own key, the
  Kubernetes, etcd and front-proxy authorities by the root key under the root certificate, the
  administrator's client certificate by the Kubernetes authority; every authority may sign, the
  client certificate may not; and each key in the bundle belongs to the certificate beside it.\<close>

theorem NewCABundle_chain:
  "wp (NewCABundle E) (\<lambda>r t'. case r of
      Inl e \<Rightarrow> (\<exists>msg e'. e = Wrapped msg e')
    | Inr b \<Rightarrow> (\<exists>certs. issued t' = issued t @ certs \<and> trustChain E b certs)) t"
  by (rule NewCABundle_law)

end
