(* ===== verification/Util.thy ===== *)
theory Util
  imports World
begin

text \<open>
  \<^verbatim>\<open>pkg/util\<close>: list searches, the status of a cluster computed from its machines, the two
  guards on deletion and upgrade, cluster look-up, and the mappers that turn a watched object
  into reconcile requests.
\<close>

section \<open>Lists of strings and roles\<close>

fun ContainsString :: "string list \<Rightarrow> string \<Rightarrow> bool" where
  "ContainsString [] s = False"
| "ContainsString (item # items) s = (if item = s then True else ContainsString items s)"

fun ContainsRole :: "machine_role list \<Rightarrow> machine_role \<Rightarrow> bool" where
  "ContainsRole [] s = False"
| "ContainsRole (item # items) s = (if item = s then True else ContainsRole items s)"

fun RemoveString :: "string list \<Rightarrow> string \<Rightarrow> string list" where
  "RemoveString [] s = []"
| "RemoveString (item # items) s =
     (if item = s then RemoveString items s else item # RemoveString items s)"

lemma ContainsString_iff [simp]: "ContainsString xs s \<longleftrightarrow> s \<in> set xs"
  by (induction xs) auto

lemma ContainsRole_iff [simp]: "ContainsRole xs s \<longleftrightarrow> s \<in> set xs"
  by (induction xs) auto

lemma RemoveString_filter [simp]: "RemoveString xs s = filter (\<lambda>x. x \<noteq> s) xs"
  by (induction xs) auto

section \<open>The state of a cluster\<close>

definition kubernetesVersions :: string where
  "kubernetesVersions = ''1.12.6 1.13.4''"

definition KubernetesVersions :: "string list" where
  "KubernetesVersions = splitOn CHR '' '' kubernetesVersions"

lemma KubernetesVersions_eq: "KubernetesVersions = [''1.12.6'', ''1.13.4'']"
  by (simp add: KubernetesVersions_def kubernetesVersions_def)

fun phaseIn :: "machine_phase \<Rightarrow> machine_phase list \<Rightarrow> bool" where
  "phaseIn p [] = False"
| "phaseIn p (ssItem # ss) = (if p = ssItem then True else phaseIn p ss)"

fun ContainsStatuses :: "machine list \<Rightarrow> machine_phase list \<Rightarrow> bool" where
  "ContainsStatuses [] ss = False"
| "ContainsStatuses (item # machines) ss =
     (if phaseIn (machinePhase item) ss then True else ContainsStatuses machines ss)"

lemma phaseIn_iff [simp]: "phaseIn p ss \<longleftrightarrow> p \<in> set ss"
  by (induction ss) auto

lemma ContainsStatuses_iff: "ContainsStatuses ms ss \<longleftrightarrow> (\<exists>m \<in> set ms. machinePhase m \<in> set ss)"
  by (induction ms) auto

fun apiEndpointOf :: "string \<Rightarrow> machine list \<Rightarrow> string" where
  "apiEndpointOf apiEndpoint [] = apiEndpoint"
| "apiEndpointOf apiEndpoint (machine # machines) =
     apiEndpointOf
       (if machinePhase machine = ReadyMachinePhase
           \<and> ContainsRole (mspRoles (maSpec machine)) MachineRoleMaster
        then sshHost (mstSshConfig (maStatus machine)) @ '':'' @ ApiEndpointPort
        else apiEndpoint) machines"

definition GetStatus :: "machine list \<Rightarrow> cluster_phase \<times> string" where
  "GetStatus machines =
     (if length machines = 0 then (UnspecifiedClusterPhase, '''')
      else let apiEndpoint = apiEndpointOf '''' machines in
        if ContainsStatuses machines [ErrorMachinePhase] then (ErrorClusterPhase, apiEndpoint)
        else if ContainsStatuses machines
            [DeletingMachinePhase, ProvisioningMachinePhase, UpgradingMachinePhase, '''']
          then (ReconcilingClusterPhase, apiEndpoint)
        else (RunningClusterPhase, apiEndpoint))"

definition IsReadyForDeletion :: "machine list \<Rightarrow> bool" where
  "IsReadyForDeletion machines =
     (if length machines = 0 then True
      else if ContainsStatuses machines [ProvisioningMachinePhase, UpgradingMachinePhase, '''']
        then False
      else True)"

definition IsReadyForUpgrade :: "machine list \<Rightarrow> bool \<times> go_error option" where
  "IsReadyForUpgrade machines =
     (if length machines = 0 then (True, None)
      else if ContainsStatuses machines [ProvisioningMachinePhase, ''''] then (False, None)
      else if ContainsStatuses machines [ErrorMachinePhase] then
        (False, Some (PlainError
           ''cannot upgrade, some of the cluster machines are in error state''))
      else (True, None))"

text \<open>The guards say what their names promise, and the three views agree.\<close>

lemma IsReadyForDeletion_iff:
  "IsReadyForDeletion ms \<longleftrightarrow>
     (\<forall>m \<in> set ms. machinePhase m \<notin> {ProvisioningMachinePhase, UpgradingMachinePhase, ''''})"
  by (auto simp: IsReadyForDeletion_def ContainsStatuses_iff)

lemma GetStatus_phase:
  "fst (GetStatus ms) =
     (if ms = [] then UnspecifiedClusterPhase
      else if \<exists>m \<in> set ms. machinePhase m = ErrorMachinePhase then ErrorClusterPhase
      else if \<exists>m \<in> set ms. machinePhase m \<in>
          {DeletingMachinePhase, ProvisioningMachinePhase, UpgradingMachinePhase, ''''}
        then ReconcilingClusterPhase
      else RunningClusterPhase)"
  by (simp add: GetStatus_def Let_def ContainsStatuses_iff)

text \<open>a cluster that \<open>GetStatus\<close> calls running is ready both for deletion and for upgrade,
  and its reported API endpoint is empty or names port 6443 of the host of one of its ready
  masters.\<close>

theorem running_cluster_is_ready:
  assumes "GetStatus ms = (RunningClusterPhase, ep)"
  shows "IsReadyForDeletion ms \<and> IsReadyForUpgrade ms = (True, None)
    \<and> (ep = '''' \<or> (\<exists>m \<in> set ms. machinePhase m = ReadyMachinePhase
      \<and> MachineRoleMaster \<in> set (mspRoles (maSpec m))
      \<and> ep = sshHost (mstSshConfig (maStatus m)) @ '':6443''))"
proof -
  from assms have "fst (GetStatus ms) = RunningClusterPhase" by simp
  then have none: "\<forall>m \<in> set ms. machinePhase m \<notin> {DeletingMachinePhase, ProvisioningMachinePhase,
      UpgradingMachinePhase, ErrorMachinePhase, ''''}"
    by (auto simp: GetStatus_phase split: if_splits)
  moreover have "apiEndpointOf e ms = e \<or> (\<exists>m \<in> set ms. machinePhase m = ReadyMachinePhase
      \<and> MachineRoleMaster \<in> set (mspRoles (maSpec m))
      \<and> apiEndpointOf e ms = sshHost (mstSshConfig (maStatus m)) @ '':6443'')" for e
    by (induction ms arbitrary: e) (fastforce simp: ApiEndpointPort_def)+
  moreover from assms have "ep = apiEndpointOf '''' ms"
    by (auto simp: GetStatus_def Let_def split: if_splits)
  ultimately show ?thesis
    by (auto simp: IsReadyForDeletion_iff IsReadyForUpgrade_def ContainsStatuses_iff)
qed

definition readyMaster :: machine where
  "readyMaster = zero_machine\<lparr>
     maMeta := zero_object_meta\<lparr>omName := ''m0'', omNamespace := ''ns'', omOwnerReferences :=
       [\<lparr>refAPIVersion = ''cluster.cnct.sds.samsung.com/v1alpha1'', refKind = ''CnctCluster'',
         refName = ''c0'', refUID = ''u0'', refBlockOwnerDeletion = None,
         refController = Some True\<rparr>]\<rparr>,
     maSpec := zero_machine_spec\<lparr>mspRoles := [MachineRoleMaster]\<rparr>,
     maStatus := zero_machine_status\<lparr>mstPhase := ReadyMachinePhase,
       mstSshConfig := \<lparr>sshUsername = '''', sshHost = ''10.0.0.1'', sshPort = 0\<rparr>\<rparr>\<rparr>"

theorem running_cluster_is_ready_witness:
  "GetStatus [readyMaster] = (RunningClusterPhase, ''10.0.0.1:6443'')
   \<and> IsReadyForDeletion [readyMaster] \<and> IsReadyForUpgrade [readyMaster] = (True, None)"
proof -
  have st: "GetStatus [readyMaster] = (RunningClusterPhase, ''10.0.0.1:6443'')"
    by (simp add: GetStatus_def readyMaster_def ContainsStatuses_iff ApiEndpointPort_def)
  with running_cluster_is_ready [OF st] show ?thesis by blast
qed

section \<open>Clusters and machines\<close>

definition ClusterKind :: string where
  "ClusterKind = ''CnctCluster''"

fun clusterNameOfRefs :: "owner_reference list \<Rightarrow> string" where
  "clusterNameOfRefs [] = ''''"
| "clusterNameOfRefs (ref # refs) =
     (if refKind ref = ClusterKind then refName ref else clusterNameOfRefs refs)"

definition GetClusterNameFromMachineOwnerRef :: "machine \<Rightarrow> string" where
  "GetClusterNameFromMachineOwnerRef m = clusterNameOfRefs (machineOwners m)"

definition GetClusterFromNamespace :: "env \<Rightarrow> string \<Rightarrow> (go_error + cluster) io" where
  "GetClusterFromNamespace E namespace = do {
     r \<leftarrow> k8sListClusters E namespace;
     ret (case r of
         Inl err \<Rightarrow> Inl err
       | Inr items \<Rightarrow>
           if length items = 0 then Inl (PlainError ''No cluster Items found'')
           else if length items > 1
             then Inl (PlainError ''Found more than one cluster in namespace'')
           else Inr (items ! 0))
   }"

fun clusterMachinesLoop :: "string \<Rightarrow> machine list \<Rightarrow> machine list" where
  "clusterMachinesLoop clName [] = []"
| "clusterMachinesLoop clName (item # items) =
     (if GetClusterNameFromMachineOwnerRef item = clName
      then item # clusterMachinesLoop clName items else clusterMachinesLoop clName items)"

definition GetClusterMachineList :: "env \<Rightarrow> string \<Rightarrow> (go_error + machine list) io" where
  "GetClusterMachineList E clName = do {
     r \<leftarrow> k8sListMachines E '''';
     ret (case r of Inl err \<Rightarrow> Inl err | Inr items \<Rightarrow> Inr (clusterMachinesLoop clName items))
   }"

lemma clusterMachinesLoop_filter:
  "clusterMachinesLoop n ms = filter (\<lambda>m. GetClusterNameFromMachineOwnerRef m = n) ms"
  by (induction ms) auto

section \<open>Mappers from watched objects to reconcile requests\<close>

fun requestsForMachines :: "string \<Rightarrow> machine list \<Rightarrow> object_key list" where
  "requestsForMachines clName [] = []"
| "requestsForMachines clName (machine # machines) =
     (if GetClusterNameFromMachineOwnerRef machine = clName
      then objectKey (machineNamespace machine) (machineName machine)
             # requestsForMachines clName machines
      else requestsForMachines clName machines)"

definition ClusterToMachineMap :: "env \<Rightarrow> obj \<Rightarrow> object_key list io" where
  "ClusterToMachineMap E ob = (case ob of
       OCluster cl \<Rightarrow> do {
         r \<leftarrow> k8sListMachines E '''';
         ret (case r of Inl _ \<Rightarrow> [] | Inr machines \<Rightarrow> requestsForMachines (clusterName cl) machines)
       }
     | _ \<Rightarrow> ret [])"

fun requestsForClusters :: "machine \<Rightarrow> cluster list \<Rightarrow> object_key list" where
  "requestsForClusters machine [] = []"
| "requestsForClusters machine (cl # clusters) =
     (if clusterName cl = GetClusterNameFromMachineOwnerRef machine
      then objectKey (clusterNamespace cl) (clusterName cl) # requestsForClusters machine clusters
      else requestsForClusters machine clusters)"

definition MachineToClusterMap :: "env \<Rightarrow> obj \<Rightarrow> object_key list io" where
  "MachineToClusterMap E ob = (case ob of
       OMachine machine \<Rightarrow> do {
         r \<leftarrow> k8sListClusters E '''';
         ret (case r of Inl _ \<Rightarrow> [] | Inr clusters \<Rightarrow> requestsForClusters machine clusters)
       }
     | _ \<Rightarrow> ret [])"

lemma requestsForMachines_set:
  "k \<in> set (requestsForMachines n ms) \<longleftrightarrow> (\<exists>m \<in> set ms. GetClusterNameFromMachineOwnerRef m = n
     \<and> k = objectKey (machineNamespace m) (machineName m))"
  by (induction ms) auto

lemma requestsForClusters_set:
  "k \<in> set (requestsForClusters m cs) \<longleftrightarrow> (\<exists>c \<in> set cs. clusterName c = GetClusterNameFromMachineOwnerRef m
     \<and> k = objectKey (clusterNamespace c) (clusterName c))"
  by (induction cs) auto

abbreviation machineKey :: "machine \<Rightarrow> object_key" where
  "machineKey m \<equiv> objectKey (machineNamespace m) (machineName m)"

abbreviation clusterKey :: "cluster \<Rightarrow> object_key" where
  "clusterKey c \<equiv> objectKey (clusterNamespace c) (clusterName c)"

text \<open>the two mappers are inverse to each other: when no two machines share namespace and
  name, a machine is woken by a cluster exactly when that cluster is woken by the machine.\<close>

theorem mappers_inverse:
  assumes "envListMachines E t '''' = Inr ms" and "envListClusters E t' '''' = Inr cs"
    and "m \<in> set ms" and "c \<in> set cs" and "inj_on machineKey (set ms)"
  shows "wp (ClusterToMachineMap E (OCluster c)) (\<lambda>rs _. machineKey m \<in> set rs) t
     \<longleftrightarrow> wp (MachineToClusterMap E (OMachine m)) (\<lambda>rs _. clusterKey c \<in> set rs) t'"
proof -
  have "m' = m" if "m' \<in> set ms" "machineKey m' = machineKey m" for m'
    using that assms(3,5) by (auto dest: inj_onD)
  then show ?thesis using assms
    by (fastforce simp: ClusterToMachineMap_def MachineToClusterMap_def k8sListMachines_def
        k8sListClusters_def requestsForMachines_set requestsForClusters_set)
qed

theorem mappers_inverse_witness:
  "wp (ClusterToMachineMap (offline\<lparr>envListMachines := \<lambda>_ _. Inr [readyMaster],
        envListClusters := \<lambda>_ _. Inr [zero_cluster\<lparr>clMeta := zero_object_meta\<lparr>omName := ''c0''\<rparr>\<rparr>]\<rparr>)
      (OCluster (zero_cluster\<lparr>clMeta := zero_object_meta\<lparr>omName := ''c0''\<rparr>\<rparr>)))
      (\<lambda>rs _. machineKey readyMaster \<in> set rs) []
   \<longleftrightarrow> wp (MachineToClusterMap (offline\<lparr>envListMachines := \<lambda>_ _. Inr [readyMaster],
        envListClusters := \<lambda>_ _. Inr [zero_cluster\<lparr>clMeta := zero_object_meta\<lparr>omName := ''c0''\<rparr>\<rparr>]\<rparr>)
      (OMachine readyMaster))
      (\<lambda>rs _. clusterKey (zero_cluster\<lparr>clMeta := zero_object_meta\<lparr>omName := ''c0''\<rparr>\<rparr>) \<in> set rs) []"
  by (rule mappers_inverse [of _ _ "[readyMaster]" _
        "[zero_cluster\<lparr>clMeta := zero_object_meta\<lparr>omName := ''c0''\<rparr>\<rparr>]"]) simp_all

end
