(* ===== verification/Maas.thy ===== *)
theory Maas
  imports World Base64
begin

text \<open>
  \<^verbatim>\<open>pkg/maas/client.go\<close>: the client that allocates, deploys and releases machines of a MaaS
  pool, with the accounting of machines that the machine controller relies on, stated as the
  contract of a machine provider.
\<close>

section \<open>Requests and operations\<close>

record new_client_params =
  npApiURL :: string
  npApiVersion :: string
  npApiKey :: string

record create_request =
  crProviderID :: string
  crDistro :: string
  crInstanceType :: string
  crUserdata :: string

record create_response =
  rsProviderID :: string
  rsIPAddresses :: "string list"
  rsSystemID :: string
  rsHostname :: string

record delete_request =
  drProviderID :: string
  drSystemID :: string

definition zero_create_request :: create_request where
  "zero_create_request =
     \<lparr>crProviderID = '''', crDistro = '''', crInstanceType = '''', crUserdata = ''''\<rparr>"

definition zero_create_response :: create_response where
  "zero_create_response =
     \<lparr>rsProviderID = '''', rsIPAddresses = [], rsSystemID = '''', rsHostname = ''''\<rparr>"

text \<open>\<open>gomaasapi.NewController\<close> is the parameter \<open>newController\<close>, of a base URL and an API key.\<close>

definition NewClient :: "(string \<Rightarrow> string \<Rightarrow> go_error + 'c) \<Rightarrow> new_client_params \<Rightarrow> go_error + 'c" where
  "NewClient newController params = (case newController (npApiURL params) (npApiKey params) of
       Inl err \<Rightarrow> Inl (PlainError (''error creating controller with version: '' @ errorText err))
     | Inr controller \<Rightarrow> Inr controller)"

definition Delete :: "env \<Rightarrow> delete_request \<Rightarrow> go_error option io" where
  "Delete E request =
     (if drSystemID request = '''' then
        ret (Some (PlainError (''machine '' @ drProviderID request @ '' has not been created'')))
      else do {
        err \<leftarrow> maasRelease E [drSystemID request];
        case err of Some _ \<Rightarrow> ret None | None \<Rightarrow> ret None
      })"

definition Create :: "env \<Rightarrow> create_request \<Rightarrow> (go_error + create_response) io" where
  "Create E request =
     onErr (\<lambda>err. Inl (PlainError
         (''error allocating machine '' @ crProviderID request @ '': '' @ errorText err)))
       (maasAllocate E [crInstanceType request]) (\<lambda>m. do {
     started \<leftarrow> maasStart E m \<lparr>saUserData = base64Encode (crUserdata request),
       saDistroSeries = crDistro request\<rparr>;
     case started of
       Inl err \<Rightarrow> do {
         errDelete \<leftarrow> Delete E \<lparr>drProviderID = crProviderID request, drSystemID = mmSystemID m\<rparr>;
         ret (Inl err)
       }
     | Inr m \<Rightarrow> ret (Inr \<lparr>rsProviderID = crProviderID request, rsIPAddresses = mmIPAddresses m,
         rsSystemID = mmSystemID m, rsHostname = mmHostname m\<rparr>)
     })"

definition Update :: "env \<Rightarrow> string \<Rightarrow> go_error option io" where
  "Update E providerID = ret None"

definition Exist :: "env \<Rightarrow> string \<Rightarrow> (go_error + bool) io" where
  "Exist E providerID =
     (if providerID = '''' then ret (Inr False)
      else onErr (\<lambda>err. Inl (PlainError
          (''error listing machine '' @ providerID @ '': '' @ errorText err)))
        (maasMachines E [providerID]) (\<lambda>machines.
        if length machines \<noteq> 1 then
          ret (Inl (PlainError (''expected 1 machine '' @ providerID)))
        else ret (Inr True)))"

section \<open>Accounting\<close>

text \<open>
  The machines allocated so far for which no release has been requested since. A machine is
  leaked when it stays in this list and no object of the cluster records its system id.
\<close>

fun outstandingStep :: "string list \<Rightarrow> event \<Rightarrow> string list" where
  "outstandingStep ids (EAllocate _ (Inr m)) = ids @ [mmSystemID m]"
| "outstandingStep ids (ERelease released _) = filter (\<lambda>i. i \<notin> set released) ids"
| "outstandingStep ids _ = ids"

definition outstanding :: "trace \<Rightarrow> string list" where
  "outstanding t = foldl outstandingStep [] t"

lemma outstanding_Nil [simp]: "outstanding [] = []"
  by (simp add: outstanding_def)

lemma outstanding_append [simp]: "outstanding (t @ es) = foldl outstandingStep (outstanding t) es"
  by (simp add: outstanding_def)

text \<open>Events that do not touch the accounting.\<close>

fun keepsMachines :: "event \<Rightarrow> bool" where
  "keepsMachines (EAllocate _ _) = False"
| "keepsMachines (ERelease _ _) = False"
| "keepsMachines _ = True"

lemma outstandingStep_keeps: "keepsMachines e \<Longrightarrow> outstandingStep ids e = ids"
  by (cases "(ids, e)" rule: outstandingStep.cases) auto

lemma outstanding_keeps: "(\<And>e. e \<in> set es \<Longrightarrow> keepsMachines e) \<Longrightarrow> foldl outstandingStep ids es = ids"
  by (induction es) (auto simp: outstandingStep_keeps)

lemma emits_outstanding:
  assumes "emits keepsMachines m"
  shows "wp m (\<lambda>_ t'. outstanding t' = outstanding t) t"
proof (rule wpI)
  fix a t' assume "run_state m t = (a, t')"
  with assms obtain es where "t' = t @ es" "\<And>e. e \<in> set es \<Longrightarrow> keepsMachines e"
    by (rule emitsD) blast
  then show "outstanding t' = outstanding t" by (simp add: outstanding_keeps)
qed

text \<open>What MaaS documents: an allocated machine has a system id, which is nobody else's, and
  deploying it does not change the id.\<close>

definition maasSound :: "env \<Rightarrow> bool" where
  "maasSound E \<longleftrightarrow>
     (\<forall>t tags m. envAllocate E t tags = Inr m \<longrightarrow>
        mmSystemID m \<noteq> '''' \<and> mmSystemID m \<notin> set (outstanding t)) \<and>
     (\<forall>t m args m'. envStart E t m args = Inr m' \<longrightarrow> mmSystemID m' = mmSystemID m)"

section \<open>The contract of a machine provider\<close>

locale machine_provider =
  fixes create :: "env \<Rightarrow> 'req \<Rightarrow> (go_error + 'resp) io"
    and release :: "env \<Rightarrow> string \<Rightarrow> string \<Rightarrow> go_error option io"
    and idOf :: "'resp \<Rightarrow> string"
    and sound :: "env \<Rightarrow> bool"
  assumes create_law: "sound E \<Longrightarrow> wp (create E req) (\<lambda>r t'. case r of
        Inl e \<Rightarrow> outstanding t' = outstanding t
      | Inr resp \<Rightarrow> outstanding t' = outstanding t @ [idOf resp]
          \<and> idOf resp \<noteq> '''' \<and> idOf resp \<notin> set (outstanding t)) t"
    and release_law: "i \<noteq> '''' \<Longrightarrow> wp (release E p i) (\<lambda>r t'.
        r = None \<and> outstanding t' = filter (\<lambda>j. j \<noteq> i) (outstanding t)) t"
begin

text \<open>Giving back what was created restores the books.\<close>

lemma create_release:
  assumes "sound E"
  shows "wp (onErr Some (create E req) (\<lambda>resp. release E p (idOf resp)))
    (\<lambda>_ t'. outstanding t' = outstanding t) t"
  unfolding wp_onErr
proof (rule wp_mono [OF create_law [OF assms]])
  fix r t'
  assume r: "case r of
        Inl e \<Rightarrow> outstanding t' = outstanding t
      | Inr resp \<Rightarrow> outstanding t' = outstanding t @ [idOf resp]
          \<and> idOf resp \<noteq> '''' \<and> idOf resp \<notin> set (outstanding t)"
  show "case r of Inl e \<Rightarrow> outstanding t' = outstanding t
      | Inr resp \<Rightarrow> wp (release E p (idOf resp)) (\<lambda>_ t''. outstanding t'' = outstanding t) t'"
  proof (cases r)
    case (Inl e)
    with r show ?thesis by simp
  next
    case (Inr resp)
    with r have o: "outstanding t' = outstanding t @ [idOf resp]" "idOf resp \<noteq> ''''"
      "idOf resp \<notin> set (outstanding t)" by simp_all
    then have "filter (\<lambda>j. j \<noteq> idOf resp) (outstanding t) = outstanding t"
      by (auto simp: filter_id_conv)
    with o Inr show ?thesis by (auto intro: wp_mono [OF release_law])
  qed
qed

end

definition releaseById :: "env \<Rightarrow> string \<Rightarrow> string \<Rightarrow> go_error option io" where
  "releaseById E providerID systemID =
     Delete E \<lparr>drProviderID = providerID, drSystemID = systemID\<rparr>"

lemma wp_Delete [wp_simps]:
  "wp (Delete E req) Q t \<longleftrightarrow>
     (if drSystemID req = ''''
      then Q (Some (PlainError (''machine '' @ drProviderID req @ '' has not been created''))) t
      else Q None (t @ [ERelease [drSystemID req] (envRelease E t [drSystemID req])]))"
  by (simp add: Delete_def maasRelease_def split: option.split)

lemma Create_law:
  assumes "maasSound E"
  shows "wp (Create E req) (\<lambda>r t'. case r of
        Inl e \<Rightarrow> outstanding t' = outstanding t
      | Inr resp \<Rightarrow> outstanding t' = outstanding t @ [rsSystemID resp]
          \<and> rsSystemID resp \<noteq> '''' \<and> rsSystemID resp \<notin> set (outstanding t)) t"
proof (cases "envAllocate E t [crInstanceType req]")
  case (Inl e)
  then show ?thesis by (simp add: Create_def maasAllocate_def)
next
  case (Inr m)
  then have m: "mmSystemID m \<noteq> ''''" "mmSystemID m \<notin> set (outstanding t)"
    using assms by (auto simp: maasSound_def)
  then have "filter (\<lambda>i. i \<noteq> mmSystemID m) (outstanding t) = outstanding t"
    by (auto simp: filter_id_conv)
  with assms Inr m show ?thesis
    by (auto simp: Create_def maasAllocate_def maasStart_def wp_Delete maasSound_def
        split: sum.split)
qed

interpretation maas: machine_provider Create releaseById rsSystemID maasSound
proof unfold_locales
  show "maasSound E \<Longrightarrow> wp (Create E req) (\<lambda>r t'. case r of
        Inl e \<Rightarrow> outstanding t' = outstanding t
      | Inr resp \<Rightarrow> outstanding t' = outstanding t @ [rsSystemID resp]
          \<and> rsSystemID resp \<noteq> '''' \<and> rsSystemID resp \<notin> set (outstanding t)) t" for E req t
    by (rule Create_law)
  show "i \<noteq> '''' \<Longrightarrow> wp (releaseById E p i) (\<lambda>r t'.
        r = None \<and> outstanding t' = filter (\<lambda>j. j \<noteq> i) (outstanding t)) t" for i E p t
    by (simp add: releaseById_def wp_Delete)
qed

section \<open>Properties\<close>


definition poolMachine :: maas_machine where
  "poolMachine = \<lparr>mmSystemID = ''abc123'', mmIPAddresses = [''10.0.0.5''], mmHostname = ''node5''\<rparr>"

text \<open>An environment with one machine, handed out only while nobody holds it.\<close>

definition onePool :: env where
  "onePool = offline\<lparr>
     envAllocate := \<lambda>t _. if ''abc123'' \<in> set (outstanding t) then Inl (PlainError ''no machine'')
       else Inr poolMachine,
     envStart := \<lambda>_ m _. Inr m\<rparr>"

lemma onePool_sound: "maasSound onePool"
  by (simp add: maasSound_def onePool_def poolMachine_def)


text \<open>\<open>Delete\<close> of a machine with a system id asks MaaS for its release exactly once and never
  fails, also when MaaS refuses; without a system id it fails and asks nothing.\<close>

theorem Delete_total:
  "wp (Delete E req) (\<lambda>err t'.
     if drSystemID req = '''' then t' = t \<and> (\<exists>msg. err = Some (PlainError msg))
     else err = None
       \<and> t' = t @ [ERelease [drSystemID req] (envRelease E t [drSystemID req])]) t"
  by (simp add: wp_Delete)

text \<open>whatever \<open>Create\<close> hands out can be given back: creating a machine and releasing what was
  created leaves no machine outstanding that was not so before, on every path.\<close>

theorem create_then_release_balanced:
  assumes "maasSound E"
  shows "wp (onErr Some (Create E req) (\<lambda>resp. releaseById E p (rsSystemID resp)))
    (\<lambda>_ t'. outstanding t' = outstanding t) t"
  by (rule maas.create_release [OF assms])

theorem create_then_release_balanced_witness:
  "wp (onErr Some (Create onePool zero_create_request)
     (\<lambda>resp. releaseById onePool '''' (rsSystemID resp))) (\<lambda>_ t'. outstanding t' = []) []"
  using create_then_release_balanced [OF onePool_sound, of zero_create_request "''''" "[]"] by simp

lemma emits_Delete [safe_intros]:
  "(\<And>i r. P (ERelease [i] r)) \<Longrightarrow> emits P (Delete E req)"
  by (auto simp: Delete_def maasRelease_def intro!: safe_intros)

lemma emits_Create [safe_intros]:
  "(\<And>i r. P (EAllocate [i] r)) \<Longrightarrow> (\<And>i a r. P (EStart i a r)) \<Longrightarrow> (\<And>i r. P (ERelease [i] r)) \<Longrightarrow>
   emits P (Create E req)"
  unfolding Create_def maasAllocate_def maasStart_def by (intro safe_intros) auto

end
