(* ===== verification/Requests.thy ===== *)
theory Requests
  imports World
begin

text \<open>
  What the reconcilers of all controllers share: the \<open>reconcile.Result\<close> of controller-runtime, the
  format of \<open>Eventf\<close>, the group of the API, and the outcome of a call that may never return.
\<close>

section \<open>Results\<close>

record reconcile_result =
  rrRequeue :: bool
  rrRequeueAfter :: nat

text \<open>\<open>RequeueAfter\<close> in seconds.\<close>

definition noResult :: reconcile_result where
  "noResult = \<lparr>rrRequeue = False, rrRequeueAfter = 0\<rparr>"

definition requeueAfter :: "nat \<Rightarrow> reconcile_result" where
  "requeueAfter s = \<lparr>rrRequeue = False, rrRequeueAfter = s\<rparr>"

definition requeueNow :: reconcile_result where
  "requeueNow = \<lparr>rrRequeue = True, rrRequeueAfter = 0\<rparr>"

type_synonym reconciled = "(reconcile_result \<times> go_error option) go"

lemma reconcile_results_neq [simp]:
  "requeueNow \<noteq> noResult" "noResult \<noteq> requeueNow"
  "requeueAfter s = noResult \<longleftrightarrow> s = 0" "noResult = requeueAfter s \<longleftrightarrow> s = 0"
  "requeueNow \<noteq> requeueAfter s" "requeueAfter s \<noteq> requeueNow"
  by (auto simp: requeueNow_def noResult_def requeueAfter_def)

text \<open>\<open>Eventf\<close> replaces each \<open>%q\<close> of the message by an argument in quotes.\<close>

fun formatQ :: "string \<Rightarrow> string list \<Rightarrow> string" where
  "formatQ (a # b # s) (arg # args) =
     (if a = CHR ''%'' \<and> b = CHR ''q'' then CHR 0x22 # arg @ CHR 0x22 # formatQ s args
      else a # formatQ (b # s) (arg # args))"
| "formatQ s _ = s"

definition SchemeGroupVersion :: string where
  "SchemeGroupVersion = ''cluster.cnct.sds.samsung.com/v1alpha1''"

section \<open>Calls that may never return\<close>

text \<open>\<open>None\<close>: the goroutine is blocked for ever. A panic ends what follows as well.\<close>

type_synonym 'a blocking = "'a go option"

abbreviation finishes :: "'a \<Rightarrow> 'a blocking" where
  "finishes a \<equiv> Some (Returns a)"

definition onReturn :: "'a blocking io \<Rightarrow> ('a \<Rightarrow> 'b blocking io) \<Rightarrow> 'b blocking io" where
  "onReturn m f = do { r \<leftarrow> m; case r of None \<Rightarrow> ret None
     | Some g \<Rightarrow> (case g of Panics \<Rightarrow> ret (Some Panics) | Returns a \<Rightarrow> f a) }"

lemma wp_onReturn [simp, wp_simps]:
  "wp (onReturn m f) Q = wp m (\<lambda>r t. case r of None \<Rightarrow> Q None t
     | Some g \<Rightarrow> (case g of Panics \<Rightarrow> Q (Some Panics) t | Returns a \<Rightarrow> wp (f a) Q t))"
  by (rule ext) (simp add: onReturn_def wp_def split: prod.splits option.splits go.splits)

lemma emits_onReturn [safe_intros]:
  "emits P m \<Longrightarrow> (\<And>a. emits P (f a)) \<Longrightarrow> emits P (onReturn m f)"
  unfolding onReturn_def by (intro safe_intros)

section \<open>The secret of a cluster\<close>

abbreviation privateKeySecret :: "string \<Rightarrow> object_key" where
  "privateKeySecret ns \<equiv> objectKey ns ''cluster-private-key''"

text \<open>From the kubeconfig in the secret to a clientset; each step wraps its error in a message of the
  caller.\<close>

definition clientsetWrapped :: "env \<Rightarrow> string \<Rightarrow> string \<Rightarrow> string \<Rightarrow> string \<Rightarrow> go_error + clientset" where
  "clientsetWrapped E m1 m2 m3 configData = (case envClientConfig E configData of
       Inl err \<Rightarrow> Inl (Wrapped m1 err)
     | Inr config \<Rightarrow> (case envRestConfig E config of
         Inl err \<Rightarrow> Inl (Wrapped m2 err)
       | Inr restConfig \<Rightarrow> (case envClientset E restConfig of
           Inl err \<Rightarrow> Inl (Wrapped m3 err)
         | Inr cs \<Rightarrow> Inr cs)))"

end
