(* ===== verification/Images.thy ===== *)
theory Images
  imports World
begin

text \<open>
  \<^verbatim>\<open>pkg/controller/machine/images.go\<close>: the name of an uploaded MaaS boot resource is parsed as a
  comma-separated list of \<open>key=value\<close> fields into an operating system, a Kubernetes version and
  an instance type; a machine is deployed with the first image that has the three wanted values.
\<close>

section \<open>Parsing an image name\<close>

record image =
  imOs :: string
  imK8sVersion :: string
  imInstanceType :: string
  imRaw :: string

definition zero_image :: image where
  "zero_image = \<lparr>imOs = '''', imK8sVersion = '''', imInstanceType = '''', imRaw = ''''\<rparr>"

definition imageSet :: "string \<Rightarrow> string \<Rightarrow> image \<Rightarrow> image" where
  "imageSet key val i =
     (if key = ''os'' then i\<lparr>imOs := val\<rparr>
      else if key = ''k8s'' then i\<lparr>imK8sVersion := val\<rparr>
      else if key = ''type'' then i\<lparr>imInstanceType := val\<rparr>
      else if key = ''standard'' then i\<lparr>imInstanceType := key\<rparr>
      else if key = ''gpu'' then i\<lparr>imInstanceType := key\<rparr>
      else i)"

text \<open>One pass of the loop body of \<open>parse\<close>: a field with two or more \<open>=\<close> is skipped.\<close>

definition parseField :: "image \<Rightarrow> string \<Rightarrow> image" where
  "parseField i field = (case splitOn CHR ''='' field of
       [key] \<Rightarrow> imageSet key '''' i
     | [key, val] \<Rightarrow> imageSet key val i
     | _ \<Rightarrow> i)"

definition imageComplete :: "image \<Rightarrow> bool" where
  "imageComplete i \<longleftrightarrow> \<not> (imOs i = '''' \<or> imK8sVersion i = '''' \<or> imInstanceType i = '''')"

definition parse :: "string \<Rightarrow> image \<times> bool" where
  "parse raw = (let i = foldl parseField (zero_image\<lparr>imRaw := raw\<rparr>) (splitOn CHR '','' raw)
     in if imageComplete i then (i, True) else (zero_image, False))"

section \<open>Finding an image\<close>

fun getImagesLoop :: "boot_resource list \<Rightarrow> image list" where
  "getImagesLoop [] = []"
| "getImagesLoop (v # br) =
     (if brType v \<noteq> ''Uploaded'' then getImagesLoop br
      else case parse (brName v) of (i, ok) \<Rightarrow> if ok then i # getImagesLoop br else getImagesLoop br)"

definition getImages :: "env \<Rightarrow> image list io" where
  "getImages E = do {
     r \<leftarrow> maasBootResources E;
     ret (case r of Inl _ \<Rightarrow> [] | Inr br \<Rightarrow> getImagesLoop br)
   }"

text \<open>\<open>findIn\<close> has a pointer receiver: it returns the image with the raw name it found, too.\<close>

definition imageMatches :: "image \<Rightarrow> image \<Rightarrow> bool" where
  "imageMatches img i \<longleftrightarrow>
     imOs img = imOs i \<and> imK8sVersion img = imK8sVersion i \<and> imInstanceType img = imInstanceType i"

fun findInLoop :: "image \<Rightarrow> image list \<Rightarrow> image \<times> bool" where
  "findInLoop i [] = (i, False)"
| "findInLoop i (img # images) =
     (if imageMatches img i then (i\<lparr>imRaw := imRaw img\<rparr>, True) else findInLoop i images)"

definition findIn :: "image \<Rightarrow> image list \<Rightarrow> image \<times> bool" where
  "findIn i images = (if \<not> imageComplete i then (i, False) else findInLoop i images)"

definition getImage :: "env \<Rightarrow> string \<Rightarrow> string \<Rightarrow> string \<Rightarrow> string io" where
  "getImage E osVersion k8sVersion instanceType = do {
     images \<leftarrow> getImages E;
     ret (case findIn \<lparr>imOs = osVersion, imK8sVersion = k8sVersion,
                       imInstanceType = instanceType, imRaw = ''''\<rparr> images of
            (i, found) \<Rightarrow> if found then imRaw i else '''')
   }"

section \<open>Facts about parsing\<close>

lemma imageSet_raw [simp]: "imRaw (imageSet k v i) = imRaw i"
  by (simp add: imageSet_def)

lemma parseField_raw [simp]: "imRaw (parseField i f) = imRaw i"
  by (simp add: parseField_def split: list.split)

lemma foldl_parseField_raw [simp]: "imRaw (foldl parseField i fs) = imRaw i"
  by (induction fs arbitrary: i) simp_all

lemma parse_ok: "parse raw = (i, True) \<Longrightarrow> imRaw i = raw \<and> imageComplete i"
  by (auto simp: parse_def Let_def split: if_splits)

lemma parse_fails: "parse raw = (i, False) \<Longrightarrow> i = zero_image"
  by (auto simp: parse_def Let_def split: if_splits)

lemma parse_Nil: "parse '''' = (zero_image, False)"
  by (simp add: parse_def parseField_def imageSet_def zero_image_def imageComplete_def)

text \<open>A field \<open>key=value\<close> whose parts hold no separator sets exactly its own attribute.\<close>

lemma parseField_pair:
  assumes "CHR ''='' \<notin> set k" and "CHR ''='' \<notin> set v"
  shows "parseField i (k @ CHR ''='' # v) = imageSet k v i"
  using assms by (simp add: parseField_def splitOn_append splitOn_no_sep)

text \<open>The name of an image, as the packer scripts write it.\<close>

definition imageName :: "string \<Rightarrow> string \<Rightarrow> string \<Rightarrow> string" where
  "imageName osv k8s ty =
     joinWith '','' [''os='' @ osv, ''k8s='' @ k8s, ''type='' @ ty]"

definition fieldSafe :: "string \<Rightarrow> bool" where
  "fieldSafe s \<longleftrightarrow> s \<noteq> [] \<and> CHR ''='' \<notin> set s \<and> CHR '','' \<notin> set s"

lemma imageName_fields:
  assumes "fieldSafe osv" "fieldSafe k8s" "fieldSafe ty"
  shows "splitOn CHR '','' (imageName osv k8s ty) = [''os='' @ osv, ''k8s='' @ k8s, ''type='' @ ty]"
  unfolding imageName_def using assms
  by (intro splitOn_joinWith) (auto simp: fieldSafe_def)

text \<open>parsing inverts naming: an image named from an operating system, a Kubernetes version
  and an instance type, none of them empty or holding a separator, is parsed back to these three
  values and keeps its name.\<close>

theorem parse_imageName:
  assumes "fieldSafe osv" and "fieldSafe k8s" and "fieldSafe ty"
  shows "parse (imageName osv k8s ty) =
    (\<lparr>imOs = osv, imK8sVersion = k8s, imInstanceType = ty, imRaw = imageName osv k8s ty\<rparr>, True)"
proof -
  have fields: "parseField i (''os='' @ osv) = i\<lparr>imOs := osv\<rparr>"
    "parseField i (''k8s='' @ k8s) = i\<lparr>imK8sVersion := k8s\<rparr>"
    "parseField i (''type='' @ ty) = i\<lparr>imInstanceType := ty\<rparr>" for i
    using assms parseField_pair [of "''os''" osv i] parseField_pair [of "''k8s''" k8s i]
      parseField_pair [of "''type''" ty i]
    by (simp_all add: fieldSafe_def imageSet_def)
  have "foldl parseField (zero_image\<lparr>imRaw := imageName osv k8s ty\<rparr>)
      (splitOn CHR '','' (imageName osv k8s ty)) =
      \<lparr>imOs = osv, imK8sVersion = k8s, imInstanceType = ty, imRaw = imageName osv k8s ty\<rparr>"
    unfolding imageName_fields [OF assms] foldl.simps fields by (simp add: zero_image_def)
  with assms show ?thesis
    unfolding parse_def by (simp add: imageComplete_def fieldSafe_def)
qed

theorem parse_imageName_witness:
  "parse (imageName ''ubuntu-xenial'' ''1.13.5'' ''gpu'') =
    (\<lparr>imOs = ''ubuntu-xenial'', imK8sVersion = ''1.13.5'', imInstanceType = ''gpu'',
      imRaw = ''os=ubuntu-xenial,k8s=1.13.5,type=gpu''\<rparr>, True)"
  using parse_imageName [of "''ubuntu-xenial''" "''1.13.5''" "''gpu''"]
  by (simp add: fieldSafe_def imageName_def)

section \<open>Facts about finding\<close>

lemma getImagesLoop_set:
  "i \<in> set (getImagesLoop br) \<longleftrightarrow>
     (\<exists>v \<in> set br. brType v = ''Uploaded'' \<and> parse (brName v) = (i, True))"
proof (induction br)
  case Nil
  then show ?case by simp
next
  case (Cons v br)
  then show ?case by (cases "parse (brName v)") auto
qed

lemma findInLoop_found:
  "findInLoop i images = (j, True) \<Longrightarrow>
     \<exists>img \<in> set images. imageMatches img i \<and> j = i\<lparr>imRaw := imRaw img\<rparr>"
  by (induction images) (auto split: if_splits)

lemma findInLoop_not_found:
  "findInLoop i images = (j, False) \<Longrightarrow> j = i \<and> (\<forall>img \<in> set images. \<not> imageMatches img i)"
  by (induction images) (auto split: if_splits)

lemma imageMatches_complete: "imageMatches img i \<Longrightarrow> imageComplete img = imageComplete i"
  by (simp add: imageMatches_def imageComplete_def)

text \<open>A boot resource that can serve a request.\<close>

definition servesImage :: "string \<Rightarrow> string \<Rightarrow> string \<Rightarrow> boot_resource \<Rightarrow> bool" where
  "servesImage osv k8s ty v \<longleftrightarrow> brType v = ''Uploaded'' \<and>
     (\<exists>i. parse (brName v) = (i, True) \<and> imOs i = osv \<and> imK8sVersion i = k8s \<and> imInstanceType i = ty)"

lemma getImage_law:
  "wp (getImage E osv k8s ty)
     (\<lambda>name t'. case envBootResources E t of
        Inl _ \<Rightarrow> name = ''''
      | Inr br \<Rightarrow> if (\<exists>v \<in> set br. servesImage osv k8s ty v)
          then (\<exists>v \<in> set br. servesImage osv k8s ty v \<and> brName v = name) \<and> name \<noteq> ''''
          else name = '''') t"
proof -
  let ?i = "\<lparr>imOs = osv, imK8sVersion = k8s, imInstanceType = ty, imRaw = ''''\<rparr>"
  have hit: "(\<exists>v \<in> set br. servesImage osv k8s ty v \<and> brName v = imRaw img) \<and> imRaw img \<noteq> ''''"
    if "img \<in> set (getImagesLoop br)" "imageMatches img ?i" for img br
    using that parse_Nil parse_ok
    by (fastforce simp: getImagesLoop_set servesImage_def imageMatches_def)
  have miss: "\<not> (\<exists>v \<in> set br. servesImage osv k8s ty v)"
    if "\<forall>img \<in> set (getImagesLoop br). \<not> imageMatches img ?i" for br
    using that by (auto simp: getImagesLoop_set servesImage_def imageMatches_def)
  have incomplete: "\<not> servesImage osv k8s ty v" if "\<not> imageComplete ?i" for v
    using that parse_ok by (fastforce simp: servesImage_def imageComplete_def)
  show ?thesis
  proof (cases "envBootResources E t")
    case (Inl e)
    then show ?thesis
      by (simp add: getImage_def getImages_def maasBootResources_def findIn_def)
  next
    case (Inr br)
    obtain j found where f: "findIn ?i (getImagesLoop br) = (j, found)" by fastforce
    have "if (\<exists>v \<in> set br. servesImage osv k8s ty v)
        then (\<exists>v \<in> set br. servesImage osv k8s ty v \<and> brName v = (if found then imRaw j else ''''))
          \<and> (if found then imRaw j else '''') \<noteq> ''''
        else (if found then imRaw j else '''') = ''''"
    proof (cases found)
      case True
      with f obtain img where "img \<in> set (getImagesLoop br)" "imageMatches img ?i"
        "imRaw j = imRaw img"
        by (auto simp: findIn_def dest!: findInLoop_found split: if_splits)
      with hit True show ?thesis by auto
    next
      case False
      with f have "\<not> (\<exists>v \<in> set br. servesImage osv k8s ty v)"
        using miss incomplete
        by (auto simp: findIn_def dest!: findInLoop_not_found split: if_splits)
      with False show ?thesis by simp
    qed
    with Inr f show ?thesis
      by (simp add: getImage_def getImages_def maasBootResources_def)
  qed
qed

text \<open>\<open>getImage\<close> returns the name of an uploaded boot resource that parses to the wanted
  operating system, version and instance type; it returns the empty string exactly when there is
  no such resource or the resources could not be read.\<close>

theorem getImage_correct:
  "wp (getImage E osv k8s ty)
     (\<lambda>name t'. case envBootResources E t of
        Inl _ \<Rightarrow> name = ''''
      | Inr br \<Rightarrow> if (\<exists>v \<in> set br. servesImage osv k8s ty v)
          then (\<exists>v \<in> set br. servesImage osv k8s ty v \<and> brName v = name) \<and> name \<noteq> ''''
          else name = '''') t"
  by (rule getImage_law)

text \<open>The instance type of a machine that asks for none never resolves to an image.\<close>

lemma getImage_no_instance_type: "wp (getImage E osv k8s '''') (\<lambda>name _. name = '''') t"
  by (simp add: getImage_def getImages_def maasBootResources_def findIn_def imageComplete_def)

lemma emits_getImage [safe_intros]:
  "(\<And>r. P (EBootResources r)) \<Longrightarrow> emits P (getImage E osv k8s ty)"
  by (simp add: getImage_def getImages_def maasBootResources_def emits_call emits_bind)

end
