(* ===== verification/Userdata.thy ===== *)
theory Userdata
  imports World
begin

text \<open>
  The cloud-init user data of \<^verbatim>\<open>pkg/controller/machine/create.go\<close>: the node labels and the two
  \<open>text/template\<close> texts, whose actions only insert a field. A text is the list of its lines, each
  ended by a newline.
\<close>

section \<open>Node labels\<close>

definition InstanceTypeNodeLabelKey :: string where
  "InstanceTypeNodeLabelKey = ''beta.kubernetes.io/instance-type=''"

fun nodeLabelsLoop :: "string go_map \<Rightarrow> string" where
  "nodeLabelsLoop [] = ''''"
| "nodeLabelsLoop ((k, v) # labels) = k @ ''='' @ v @ '','' @ nodeLabelsLoop labels"

definition getNodeLabels :: "machine \<Rightarrow> string" where
  "getNodeLabels machine = nodeLabelsLoop (omLabels (maMeta machine))
     @ InstanceTypeNodeLabelKey @ mspInstanceType (maSpec machine)"

section \<open>Templates\<close>

definition endLine :: char where
  "endLine = CHR 0x0A"

definition masterLines :: "string \<Rightarrow> string \<Rightarrow> string \<Rightarrow> string list" where
  \<open>masterLines name tar nodeLabels = [
      ''#cloud-config'',
      ''write_files:'',
      '' - encoding: b64'',
      ''   content: '' @ tar,
      ''   owner: root:root'',
      ''   path: /etc/kubernetes/pki/certs.tar'',
      ''   permissions: '' @ [CHR 0x27] @ ''0600'' @ [CHR 0x27],
      '' - owner: root:root'',
      ''   path: /var/tmp/masterconfig.yaml'',
      ''   permissions: '' @ [CHR 0x27] @ ''0644'' @ [CHR 0x27],
      ''   content: |'',
      ''     apiVersion: kubeadm.k8s.io/v1beta1'',
      ''     kind: InitConfiguration'',
      ''     nodeRegistration:'',
      ''       kubeletExtraArgs:'',
      ''         node-labels: '' @ nodeLabels,
      ''     ---'',
      ''     apiVersion: kubeadm.k8s.io/v1beta1'',
      ''     kind: ClusterConfiguration'',
      ''     networking:'',
      ''       podSubnet: "10.244.0.0/16"'',
      '''',
      ''runcmd:'',
      '' - [ sh, -c, "swapoff -a" ]'',
      '' - [ sh, -c, "sed -ri.bak '/ swap / s/^(.*)$/#'' @ [CHR 0x5C, CHR 0x5C] @ ''1/g' /etc/fstab" ]'',
      '' - [ sh, -c, "tar xf /etc/kubernetes/pki/certs.tar -C /etc/kubernetes/pki" ]'',
      '' - [ sh, -c, "kubeadm init --node-name '' @ name @ ''  --config /var/tmp/masterconfig.yaml" ]'',
      '' - [ sh, -c, "kubectl --kubeconfig /etc/kubernetes/admin.conf apply -f https://raw.githubusercontent.com/coreos/flannel/master/Documentation/kube-flannel.yml" ]'',
      '' - [ sh, -c, "kubectl --kubeconfig /etc/kubernetes/admin.conf taint node '' @ name @ '' node-role.kubernetes.io/master:NoSchedule-" ]'',
      '''',
      ''output : { all : '| tee -a /var/log/cloud-init-output.log' }'']\<close>

definition workerLines :: "string \<Rightarrow> string \<Rightarrow> string \<Rightarrow> string \<Rightarrow> string \<Rightarrow> string list" where
  \<open>workerLines name token certHash apiEndpoint nodeLabels = [
      ''#cloud-config'',
      ''write_files:'',
      '' - owner: root:root'',
      ''   path: /var/tmp/workerconfig.yaml'',
      ''   permissions: '' @ [CHR 0x27] @ ''0644'' @ [CHR 0x27],
      ''   content: |'',
      ''     apiVersion: kubeadm.k8s.io/v1beta1'',
      ''     kind: JoinConfiguration'',
      ''     caCertPath: /etc/kubernetes/pki/ca.crt'',
      ''     discovery:'',
      ''       bootstrapToken:'',
      ''         apiServerEndpoint: '' @ apiEndpoint,
      ''         token: '' @ token,
      ''         caCertHashes:'',
      ''         - '' @ certHash,
      ''       tlsBootstrapToken: '' @ token,
      ''     nodeRegistration:'',
      ''       kubeletExtraArgs:'',
      ''         node-labels: '' @ nodeLabels,
      '''',
      ''runcmd:'',
      '' - [ sh, -c, "swapoff -a" ]'',
      '' - [ sh, -c, "sed -ri.bak '/ swap / s/^(.*)$/#'' @ [CHR 0x5C, CHR 0x5C] @ ''1/g' /etc/fstab" ]'',
      '' - [ sh, -c, "kubeadm join --node-name '' @ name @ '' --config /var/tmp/workerconfig.yaml" ]'',
      '''',
      ''output : { all : '| tee -a /var/log/cloud-init-output.log' }'']\<close>

definition renderLines :: "string list \<Rightarrow> string" where
  "renderLines ls = concat (map (\<lambda>l. l @ [endLine]) ls)"

definition masterUserdataTmpl :: "string \<Rightarrow> string \<Rightarrow> string \<Rightarrow> string" where
  "masterUserdataTmpl name tar nodeLabels = renderLines (masterLines name tar nodeLabels)"

definition workerUserdataTmpl ::
    "string \<Rightarrow> string \<Rightarrow> string \<Rightarrow> string \<Rightarrow> string \<Rightarrow> string" where
  "workerUserdataTmpl name token certHash apiEndpoint nodeLabels =
     renderLines (workerLines name token certHash apiEndpoint nodeLabels)"

section \<open>Reading the texts back\<close>

definition oneLine :: "string \<Rightarrow> bool" where
  "oneLine s \<longleftrightarrow> endLine \<notin> set s"

lemma splitOn_renderLines:
  "list_all oneLine ls \<Longrightarrow> splitOn endLine (renderLines ls) = ls @ [[]]"
  by (induction ls) (simp_all add: renderLines_def splitOn_append oneLine_def)

lemma splitOn_nodeLabelsLoop:
  "(\<And>k v. (k, v) \<in> set labels \<Longrightarrow> CHR '','' \<notin> set k \<and> CHR '','' \<notin> set v) \<Longrightarrow>
   splitOn CHR '','' (nodeLabelsLoop labels @ s)
     = map (\<lambda>(k, v). k @ ''='' @ v) labels @ splitOn CHR '','' s"
proof (induction labels)
  case Nil
  then show ?case by simp
next
  case (Cons kv labels)
  obtain k v where kv: "kv = (k, v)" by fastforce
  have "CHR '','' \<notin> set (k @ ''='' @ v)" using Cons.prems [of k v] by (simp add: kv)
  then have "splitOn CHR '','' ((k @ ''='' @ v) @ CHR '','' # (nodeLabelsLoop labels @ s))
      = (k @ ''='' @ v) # splitOn CHR '','' (nodeLabelsLoop labels @ s)"
    by (rule splitOn_append)
  moreover from Cons.prems have "splitOn CHR '','' (nodeLabelsLoop labels @ s)
      = map (\<lambda>(k, v). k @ ''='' @ v) labels @ splitOn CHR '','' s"
    by (intro Cons.IH) auto
  ultimately show ?case by (simp add: kv)
qed

text \<open>the node labels of a machine are its labels, one \<open>key=value\<close> each, and its instance
  type, separated by commas, whenever no label holds a comma (Kubernetes allows none).\<close>

theorem getNodeLabels_fields:
  assumes "\<And>k v. (k, v) \<in> set (omLabels (maMeta m)) \<Longrightarrow> CHR '','' \<notin> set k \<and> CHR '','' \<notin> set v"
    and "CHR '','' \<notin> set (mspInstanceType (maSpec m))"
  shows "splitOn CHR '','' (getNodeLabels m) = map (\<lambda>(k, v). k @ ''='' @ v) (omLabels (maMeta m))
    @ [''beta.kubernetes.io/instance-type='' @ mspInstanceType (maSpec m)]"
  unfolding getNodeLabels_def
  using assms splitOn_no_sep [of "CHR '',''"
      "''beta.kubernetes.io/instance-type='' @ mspInstanceType (maSpec m)"]
  by (subst splitOn_nodeLabelsLoop) (auto simp: InstanceTypeNodeLabelKey_def)

theorem getNodeLabels_fields_witness:
  "splitOn CHR '','' (getNodeLabels (zero_machine\<lparr>
     maMeta := zero_object_meta\<lparr>omLabels := [(''a'', ''1''), (''b'', ''2'')]\<rparr>,
     maSpec := zero_machine_spec\<lparr>mspInstanceType := ''gpu''\<rparr>\<rparr>)) =
   [''a=1'', ''b=2'', ''beta.kubernetes.io/instance-type=gpu'']"
  by (subst getNodeLabels_fields) auto

text \<open>no field can break out of its line: rendered with one-line values, the user data of a
  worker has exactly the lines of the template, the API endpoint, the token and the hash of the
  cluster's authority among them at their places.\<close>

theorem workerUserdata_lines:
  assumes "list_all oneLine [name, token, certHash, apiEndpoint, nodeLabels]"
  shows "\<exists>ls. splitOn endLine (workerUserdataTmpl name token certHash apiEndpoint nodeLabels) = ls
    \<and> length ls = 27
    \<and> ls ! 11 = ''         apiServerEndpoint: '' @ apiEndpoint
    \<and> ls ! 12 = ''         token: '' @ token
    \<and> ls ! 14 = ''         - '' @ certHash
    \<and> ls ! 15 = ''       tlsBootstrapToken: '' @ token
    \<and> ls ! 18 = ''         node-labels: '' @ nodeLabels"
proof -
  have "splitOn endLine (workerUserdataTmpl name token certHash apiEndpoint nodeLabels)
      = workerLines name token certHash apiEndpoint nodeLabels @ [[]]"
    unfolding workerUserdataTmpl_def
    by (rule splitOn_renderLines)
      (use assms in \<open>simp add: workerLines_def oneLine_def endLine_def\<close>)
  then show ?thesis by (simp add: workerLines_def)
qed

theorem workerUserdata_lines_witness:
  "\<exists>ls. splitOn endLine (workerUserdataTmpl ''n1'' ''t.s'' ''sha256:00'' ''10.0.0.1:6443'' ''a=1'') = ls
    \<and> length ls = 27
    \<and> ls ! 11 = ''         apiServerEndpoint: '' @ ''10.0.0.1:6443''
    \<and> ls ! 12 = ''         token: '' @ ''t.s''
    \<and> ls ! 14 = ''         - '' @ ''sha256:00''
    \<and> ls ! 15 = ''       tlsBootstrapToken: '' @ ''t.s''
    \<and> ls ! 18 = ''         node-labels: '' @ ''a=1''"
  by (rule workerUserdata_lines) (simp add: oneLine_def endLine_def)

end
