(* ===== verification/Pipeline.thy ===== *)
theory Pipeline
  imports World
begin

text \<open>
  The shape of the machine creator: a list of steps on a shared object, each of which does
  nothing once the object holds an error, run one after the other without looking at the error
  in between. The contract of such steps is a locale; what it gives is that the pipeline behaves
  like a chain of early returns.
\<close>

fun runSteps :: "('c \<Rightarrow> ('s, 'c go) state) list \<Rightarrow> 'c \<Rightarrow> ('s, 'c go) state" where
  "runSteps [] c = ret (Returns c)"
| "runSteps (f # fs) c = do {
     r \<leftarrow> f c;
     case r of Panics \<Rightarrow> ret Panics | Returns c' \<Rightarrow> runSteps fs c'
   }"

lemma emits_runSteps [safe_intros]:
  "(\<And>f c. f \<in> set fs \<Longrightarrow> emits P (f c)) \<Longrightarrow> emits P (runSteps fs c)"
proof (induction fs arbitrary: c)
  case Nil
  then show ?case by simp
next
  case (Cons f fs)
  have "emits P (runSteps (f # fs) c)"
    unfolding runSteps.simps
    by (intro safe_intros Cons.IH) (use Cons.prems in auto)
  then show ?case .
qed

lemma wp_case_go_simp: "wp (case r of Panics \<Rightarrow> ret Panics | Returns c \<Rightarrow> f c) Q s \<longleftrightarrow>
   (case r of Panics \<Rightarrow> Q Panics s | Returns c \<Rightarrow> wp (f c) Q s)"
  by (cases r) simp_all

lemma wp_runSteps_append:
  "wp (runSteps (fs @ gs) c) Q s \<longleftrightarrow>
   wp (runSteps fs c) (\<lambda>r s'. case r of Panics \<Rightarrow> Q Panics s' | Returns c' \<Rightarrow> wp (runSteps gs c') Q s') s"
proof (induction fs arbitrary: c s)
  case Nil
  then show ?case by simp
next
  case (Cons f fs)
  obtain r s' where "run_state (f c) s = (r, s')" by fastforce
  with Cons.IH show ?case by (cases r) (simp_all add: wp_iff)
qed

lemma wp_runSteps_single: "wp (runSteps [f] c) Q s \<longleftrightarrow> wp (f c) Q s"
proof -
  obtain r s' where "run_state (f c) s = (r, s')" by fastforce
  then show ?thesis by (cases r) (simp_all add: wp_iff)
qed

lemma wp_runSteps_inv:
  assumes "\<And>f c t. f \<in> set fs \<Longrightarrow> I (Returns c) t \<Longrightarrow> wp (f c) I t" and "I (Returns c) t"
  shows "wp (runSteps fs c) I t"
  using assms
proof (induction fs arbitrary: c t)
  case Nil
  then show ?case by simp
next
  case (Cons f fs)
  have step: "wp (case r of Panics \<Rightarrow> ret Panics | Returns c' \<Rightarrow> runSteps fs c') I t'"
    if "I r t'" for r t'
  proof (cases r)
    case (Returns c')
    with that Cons.IH [of c' t'] Cons.prems(1) show ?thesis by simp
  qed (use that in simp)
  from Cons.prems have "wp (f c) I t" by simp
  then show ?case unfolding runSteps.simps wp_bind by (rule wp_mono) (rule step)
qed

locale sticky_steps =
  fixes failed :: "'c \<Rightarrow> bool"
    and isStep :: "('c \<Rightarrow> ('s, 'c go) state) \<Rightarrow> bool"
  assumes skips: "isStep f \<Longrightarrow> failed c \<Longrightarrow> f c = ret (Returns c)"
begin

lemma runSteps_failed:
  "list_all isStep fs \<Longrightarrow> failed c \<Longrightarrow> runSteps fs c = ret (Returns c)"
  by (induction fs) (simp_all add: skips)

text \<open>The rule of a chain of early returns: after a step, either the run is over or the next
  step starts without an error.\<close>

lemma wp_step:
  assumes "list_all isStep fs"
    and "wp (f c) (\<lambda>r s'. case r of Panics \<Rightarrow> Q Panics s'
      | Returns c' \<Rightarrow> if failed c' then Q (Returns c') s' else wp (runSteps fs c') Q s') s"
  shows "wp (runSteps (f # fs) c) Q s"
  unfolding runSteps.simps wp_bind
proof (rule wp_mono [OF assms(2)])
  fix r s'
  assume "case r of Panics \<Rightarrow> Q Panics s'
    | Returns c' \<Rightarrow> if failed c' then Q (Returns c') s' else wp (runSteps fs c') Q s'"
  then show "wp (case r of Panics \<Rightarrow> ret Panics | Returns c' \<Rightarrow> runSteps fs c') Q s'"
    using runSteps_failed [OF assms(1)] by (cases r) (auto split: if_splits)
qed

text \<open>A result without an error: no step before it left one.\<close>

lemma prefix_ok:
  assumes "list_all isStep (fs @ gs)" and "run_state (runSteps (fs @ gs) c) s = (Returns c', s')"
    and "\<not> failed c'"
  shows "\<exists>d s1. run_state (runSteps fs c) s = (Returns d, s1) \<and> \<not> failed d
    \<and> run_state (runSteps gs d) s1 = (Returns c', s')"
proof -
  have "wp (runSteps (fs @ gs) c) (\<lambda>r t. r = Returns c' \<and> t = s') s"
    using assms(2) by (simp add: wp_def)
  then have w: "wp (runSteps fs c) (\<lambda>r t. case r of Panics \<Rightarrow> False
      | Returns d \<Rightarrow> wp (runSteps gs d) (\<lambda>r t. r = Returns c' \<and> t = s') t) s"
    unfolding wp_runSteps_append by (rule wp_mono) (auto split: go.splits)
  obtain r s1 where r: "run_state (runSteps fs c) s = (r, s1)" by fastforce
  with w obtain d where d: "r = Returns d"
    "wp (runSteps gs d) (\<lambda>r t. r = Returns c' \<and> t = s') s1"
    by (auto simp: wp_def split: go.splits)
  have "\<not> failed d"
  proof
    assume "failed d"
    moreover from assms(1) have "list_all isStep gs" by simp
    ultimately show False using d(2) assms(3) by (simp add: runSteps_failed)
  qed
  with r d show ?thesis by (auto simp: wp_def split: prod.splits)
qed

end

end
