(* ===== verification/Machine_Create.thy ===== *)
theory Machine_Create
  imports Requests Util Cert Maas Images Userdata Pipeline
begin

text \<open>
  \<^verbatim>\<open>pkg/controller/machine/create.go\<close>: the creation of a machine as a pipeline of steps on a
  \<open>creator\<close> with a sticky error. A step that dereferences a nil pointer or indexes an empty list
  panics.
\<close>

section \<open>The creator\<close>

record creator =
  cMachine :: machine
  cErr :: "go_error option"
  cIsMaster :: bool
  cCluster :: cluster
  cClientset :: "clientset option"
  cSecret :: secret
  cToken :: string
  cCreateRequest :: create_request
  cCreateResponse :: create_response

type_synonym step = "creator \<Rightarrow> creator go io"

definition newCreator :: "machine \<Rightarrow> bool \<Rightarrow> creator" where
  "newCreator machine isMaster = \<lparr>cMachine = machine, cErr = None, cIsMaster = isMaster,
     cCluster = zero_cluster, cClientset = None, cSecret = zero_secret, cToken = '''',
     cCreateRequest = zero_create_request, cCreateResponse = zero_create_response\<rparr>"

abbreviation failWith :: "creator \<Rightarrow> go_error \<Rightarrow> creator" where
  "failWith c e \<equiv> c\<lparr>cErr := Some e\<rparr>"

abbreviation stop :: "creator \<Rightarrow> creator go io" where
  "stop c \<equiv> ret (Returns c)"

definition isMasterRole :: "machine_role list \<Rightarrow> bool" where
  "isMasterRole roles = list_ex (\<lambda>v. v = MachineRoleMaster) roles"

section \<open>Reading the cluster\<close>

definition getCluster :: "env \<Rightarrow> step" where
  "getCluster E c = (if cErr c \<noteq> None then stop c else do {
     clusters \<leftarrow> k8sListClusters E (machineNamespace (cMachine c));
     case clusters of
       Inl err \<Rightarrow> stop (failWith c err)
     | Inr items \<Rightarrow>
         if length items = 0 then stop (failWith c (NotReadyError ''no cluster in namespace''))
         else stop (c\<lparr>cCluster := items ! 0\<rparr>)
   })"

definition getSecret :: "env \<Rightarrow> step" where
  "getSecret E c = (if cErr c \<noteq> None then stop c else do {
     r \<leftarrow> k8sGetSecret E (privateKeySecret (machineNamespace (cMachine c)));
     case r of
       Inl err \<Rightarrow> stop (failWith c err)
     | Inr secret \<Rightarrow> stop (c\<lparr>cSecret := secret\<rparr>)
   })"

text \<open>The three client-go calls that make a clientset of a kubeconfig.\<close>

definition clientsetFor :: "env \<Rightarrow> string \<Rightarrow> go_error + clientset" where
  "clientsetFor E configData = (case envClientConfig E configData of
       Inl err \<Rightarrow> Inl err
     | Inr config \<Rightarrow> (case envRestConfig E config of
         Inl err \<Rightarrow> Inl err
       | Inr restConfig \<Rightarrow> envClientset E restConfig))"

definition createClientsetFromSecret :: "env \<Rightarrow> step" where
  "createClientsetFromSecret E c = (if cErr c \<noteq> None \<or> cIsMaster c then stop c else
     case goGet (secData (cSecret c)) ServiceAccountKubeconfigKey of
       None \<Rightarrow> stop (failWith c (NotReadyError ''no kubeconfig in secret''))
     | Some configData \<Rightarrow>
         if length configData = 0
         then stop (failWith c (NotReadyError ''no kubeconfig in secret''))
         else case clientsetFor E configData of
             Inl err \<Rightarrow> stop (failWith c err)
           | Inr clientset \<Rightarrow> stop (c\<lparr>cClientset := Some clientset\<rparr>))"

section \<open>Join tokens\<close>

definition minutes :: "int \<Rightarrow> time" where
  "minutes n = n * 60 * 1000000000"

text \<open>A token without an expiration never expires; one that cannot be read counts as expired.\<close>

fun findToken :: "env \<Rightarrow> (string \<times> string go_map) list \<Rightarrow> string option io" where
  "findToken E [] = ret None"
| "findToken E ((name, data) # items) = (
     let found = Some (goIndex data ''token-id'' @ ''.'' @ goIndex data ''token-secret'') in
     case goGet data ''expiration'' of
       None \<Rightarrow> ret found
     | Some expires \<Rightarrow>
         if length expires = 0 then ret found
         else case envParseTime E expires of
             None \<Rightarrow> findToken E items
           | Some t \<Rightarrow> do {
               now \<leftarrow> timeNow E;
               if t < now + minutes 30 then findToken E items else ret found
             })"

definition checkIfTokenExists :: "env \<Rightarrow> step" where
  "checkIfTokenExists E c = (if cErr c \<noteq> None \<or> cIsMaster c then stop c else
     case cClientset c of
       None \<Rightarrow> ret Panics
     | Some clientset \<Rightarrow> do {
         r \<leftarrow> remoteListTokens E clientset;
         case r of
           Inl err \<Rightarrow> stop (failWith c (case err of
               StatusError reason msg \<Rightarrow> StatusError reason msg
             | _ \<Rightarrow> NotReadyError (errorText err)))
         | Inr items \<Rightarrow> do {
             found \<leftarrow> findToken E items;
             case found of None \<Rightarrow> stop c | Some token \<Rightarrow> stop (c\<lparr>cToken := token\<rparr>)
           }
       })"

definition bootstrapTokenSecret :: "env \<Rightarrow> time \<Rightarrow> string \<Rightarrow> string \<Rightarrow> secret" where
  "bootstrapTokenSecret E now tokenID tokenSecret = \<lparr>
     secName = ''bootstrap-token-'' @ tokenID,
     secNamespace = ''kube-system'',
     secType = ''bootstrap.kubernetes.io/token'',
     secData = [
       (''description'', ''Bootstrap token created by cma-ssh''),
       (''token-id'', tokenID),
       (''token-secret'', tokenSecret),
       (''expiration'', envFormatTime E (now + minutes 60)),
       (''usage-bootstrap-authentication'', ''true''),
       (''usage-bootstrap-signing'', ''true''),
       (''auth-extra-groups'', ''system:bootstrappers:kubeadm:default-node-token'')]\<rparr>"

definition createBootstrapToken :: "env \<Rightarrow> clientset \<Rightarrow> string \<Rightarrow> string \<Rightarrow> go_error option io" where
  "createBootstrapToken E clientset tokenID tokenSecret = do {
     now \<leftarrow> timeNow E;
     onErrO (Some \<circ> Wrapped ''could not create token secret'')
       (remoteDo E clientset (RCreateSecret (bootstrapTokenSecret E now tokenID tokenSecret)))
       (ret None)
   }"

definition createToken :: "env \<Rightarrow> step" where
  "createToken E c = (if cErr c \<noteq> None \<or> cIsMaster c \<or> cToken c \<noteq> '''' then stop c else
     onErr (Returns \<circ> failWith c) (randRead E 3) (\<lambda>tokBuf.
     onErr (Returns \<circ> failWith c) (randRead E 8) (\<lambda>tokSecBuf.
     case cClientset c of
       None \<Rightarrow> ret Panics
     | Some clientset \<Rightarrow>
         onErrO (Returns \<circ> failWith c)
           (createBootstrapToken E clientset (hexOf tokBuf) (hexOf tokSecBuf))
           (stop (c\<lparr>cToken := hexOf tokBuf @ ''.'' @ hexOf tokSecBuf\<rparr>)))))"

definition checkApiserverAddress :: "env \<Rightarrow> step" where
  "checkApiserverAddress E c = (if cErr c \<noteq> None \<or> cIsMaster c then stop c else
     (let apiserverAddress = csAPIEndpoint (clStatus (cCluster c)) in
      if apiserverAddress = '''' then
        stop (failWith c (NotReadyError (clusterName (cCluster c) @ '' cluster APIEndpoint is not set'')))
      else stop c))"

section \<open>The request to MaaS\<close>

definition masterUserdata :: "env \<Rightarrow> creator \<Rightarrow> ca_bundle \<Rightarrow> (go_error + string) io" where
  "masterUserdata E c bundle = onErr Inl (ToTar E bundle) (\<lambda>caTar.
     ret (Inr (masterUserdataTmpl (machineName (cMachine c)) caTar (getNodeLabels (cMachine c)))))"

definition caHashOf :: "env \<Rightarrow> x509_certificate \<Rightarrow> string" where
  "caHashOf E certificate =
     ''sha256:'' @ hexOf (envSha256 E (xcRawSubjectPublicKeyInfo certificate))"

definition workerUserdata :: "env \<Rightarrow> creator \<Rightarrow> ca_bundle \<Rightarrow> (go_error + string) go" where
  "workerUserdata E c bundle = (case envPemDecode E (caK8s bundle) of
       None \<Rightarrow> Panics
     | Some certBytes \<Rightarrow> (case envParseCertificate E certBytes of
           Inl err \<Rightarrow> Returns (Inl (Wrapped ''could not parse k8s certificate for public key'' err))
         | Inr certificate \<Rightarrow> Returns (Inr (workerUserdataTmpl (machineName (cMachine c)) (cToken c)
             (caHashOf E certificate) (csAPIEndpoint (clStatus (cCluster c)))
             (getNodeLabels (cMachine c))))))"

definition osVersion :: string where
  "osVersion = ''ubuntu-xenial''"

definition noImage :: "string \<Rightarrow> string \<Rightarrow> go_error" where
  "noImage k8sVersion instanceType = UnrecoverableError
     (''there is no matching image in MaaS: osVersion='' @ osVersion @ '', k8sVersion=''
       @ k8sVersion @ '', instanceType='' @ instanceType)"

text \<open>The part after the user data: \<open>u\<close> is the pair \<open>userdata, c.err\<close>. An error of the user data
  stays in \<open>c.err\<close> unless no image matches, which overwrites it.\<close>

definition finishMaasRequest :: "env \<Rightarrow> creator \<Rightarrow> go_error + string \<Rightarrow> creator go io" where
  "finishMaasRequest E c u = do {
     let c = c\<lparr>cErr := errOf u\<rparr>;
     let userdata = (case u of Inl _ \<Rightarrow> '''' | Inr s \<Rightarrow> s);
     let providerID = clusterName (cCluster c) @ ''-'' @ machineName (cMachine c);
     let k8sVersion = clKubernetesVersion (cCluster c);
     let instanceType = mspInstanceType (maSpec (cMachine c));
     distro \<leftarrow> getImage E osVersion k8sVersion instanceType;
     if distro = '''' then stop (failWith c (noImage k8sVersion instanceType))
     else stop (c\<lparr>cCreateRequest := \<lparr>crProviderID = providerID, crDistro = distro,
       crInstanceType = instanceType, crUserdata = userdata\<rparr>\<rparr>)
   }"

definition prepareMaasRequest :: "env \<Rightarrow> step" where
  "prepareMaasRequest E c = (if cErr c \<noteq> None then stop c else
     case CABundleFromMap (secData (cSecret c)) of
       Inl err \<Rightarrow> stop (failWith c err)
     | Inr bundle \<Rightarrow>
         if cIsMaster c then do {
           u \<leftarrow> masterUserdata E c bundle;
           finishMaasRequest E c u
         } else (case workerUserdata E c bundle of
             Panics \<Rightarrow> ret Panics
           | Returns u \<Rightarrow> finishMaasRequest E c u))"

section \<open>Allocation and the updates after it\<close>

definition doMaasCreate :: "env \<Rightarrow> step" where
  "doMaasCreate E c = (if cErr c \<noteq> None then stop c else
     onErr (Returns \<circ> failWith c) (Create E (cCreateRequest c)) (\<lambda>createResponse.
       if length (rsIPAddresses createResponse) = 0 then do {
         err \<leftarrow> Delete E \<lparr>drProviderID = rsProviderID createResponse,
           drSystemID = rsSystemID createResponse\<rparr>;
         stop (c\<lparr>cErr := err\<rparr>)
       }
       else stop (c\<lparr>cCreateResponse := createResponse\<rparr>)))"

definition createKubeconfig :: "env \<Rightarrow> step" where
  "createKubeconfig E c = (if cErr c \<noteq> None \<or> \<not> cIsMaster c then stop c else
     case CABundleFromMap (secData (cSecret c)) of
       Inl err \<Rightarrow> stop (failWith c err)
     | Inr bundle \<Rightarrow> (case rsIPAddresses (cCreateResponse c) of
           [] \<Rightarrow> ret Panics
         | ip # _ \<Rightarrow> (case bundleKubeconfig E bundle (clusterName (cCluster c))
                 (''https://'' @ ip @ '':6443'') of
               Inl err \<Rightarrow> stop (failWith c err)
             | Inr kubeconfig \<Rightarrow> do {
                 let secret = (cSecret c)\<lparr>secData :=
                   goPut ServiceAccountKubeconfigKey kubeconfig (secData (cSecret c))\<rparr>;
                 r \<leftarrow> k8sUpdateSecret E secret;
                 case r of
                   Inl err \<Rightarrow> stop (c\<lparr>cSecret := secret, cErr := Some err\<rparr>)
                 | Inr stored \<Rightarrow> stop (c\<lparr>cSecret := stored\<rparr>)
               })))"

definition updateCluster :: "env \<Rightarrow> step" where
  "updateCluster E c = (if cErr c \<noteq> None \<or> \<not> cIsMaster c then stop c else do {
     let systemID = rsSystemID (cCreateResponse c);
     r \<leftarrow> k8sGetCluster E (objectKey (clusterNamespace (cCluster c)) (clusterName (cCluster c)));
     let fresh = (case r of Inl _ \<Rightarrow> zero_cluster | Inr cl \<Rightarrow> cl);
     let c = (case r of Inl err \<Rightarrow> failWith c (ReleaseError systemID err) | Inr _ \<Rightarrow> c);
     case rsIPAddresses (cCreateResponse c) of
       [] \<Rightarrow> ret Panics
     | ip # _ \<Rightarrow> do {
         now \<leftarrow> timeNow E;
         let fresh = fresh\<lparr>clStatus := (clStatus fresh)\<lparr>csAPIEndpoint := ip @ '':6443'',
           csLastUpdated := Some now\<rparr>\<rparr>;
         u \<leftarrow> k8sUpdateCluster E fresh;
         case u of
           Inl err \<Rightarrow> stop (failWith c (ReleaseError systemID err))
         | Inr fresh \<Rightarrow> do {
             _ \<leftarrow> recordEvent (OCluster fresh) ''Normal'' ''ResourceStateChange''
               ''set cluster APIEndpoint'';
             stop c
           }
       }
   })"

text \<open>The fields of the machine that \<open>updateMachine\<close> sets before it stores it.\<close>

definition markCreated :: "creator \<Rightarrow> string \<Rightarrow> machine" where
  "markCreated c ip =
     (let machine = cMachine c; response = cCreateResponse c;
          finalizers = machineFinalizers machine;
          annotations = (case omAnnotations (maMeta machine) of None \<Rightarrow> [] | Some a \<Rightarrow> a) in
      machine\<lparr>
        maMeta := (maMeta machine)\<lparr>
          omFinalizers := (if \<not> ContainsString finalizers MachineFinalizer
            then finalizers @ [MachineFinalizer] else finalizers),
          omAnnotations := Some
            (goPut ''maas-hostname'' (rsHostname response)
            (goPut ''maas-system-id'' (rsSystemID response)
            (goPut ''maas-ip'' ip annotations)))\<rparr>,
        maStatus := (maStatus machine)\<lparr>
          mstPhase := ProvisioningMachinePhase,
          mstKubernetesVersion := clKubernetesVersion (cCluster c),
          mstSystemId := rsSystemID response,
          mstSshConfig := (mstSshConfig (maStatus machine))\<lparr>sshHost := ip\<rparr>\<rparr>\<rparr>)"

definition updateMachine :: "env \<Rightarrow> step" where
  "updateMachine E c = (if cErr c \<noteq> None then stop c else
     case rsIPAddresses (cCreateResponse c) of
       [] \<Rightarrow> ret Panics
     | ip # _ \<Rightarrow> do {
         let machine = markCreated c ip;
         r \<leftarrow> k8sUpdateMachine E machine;
         case r of
           Inl err \<Rightarrow> stop (c\<lparr>cMachine := machine,
             cErr := Some (ReleaseError (rsSystemID (cCreateResponse c)) err)\<rparr>)
         | Inr stored \<Rightarrow> do {
             _ \<leftarrow> recordEvent (OMachine stored) ''Normal'' ''ResourceStateChange''
               ''set Finalizer and OwnerReferences'';
             stop (c\<lparr>cMachine := stored\<rparr>)
           }
       })"

section \<open>The pipeline\<close>

definition masterSteps :: "env \<Rightarrow> step list" where
  "masterSteps E = [getCluster E, getSecret E, prepareMaasRequest E, doMaasCreate E,
     createKubeconfig E, updateCluster E, updateMachine E]"

definition workerSteps :: "env \<Rightarrow> step list" where
  "workerSteps E = [getCluster E, getSecret E, createClientsetFromSecret E, checkIfTokenExists E,
     createToken E, checkApiserverAddress E, prepareMaasRequest E, doMaasCreate E, updateMachine E]"

text \<open>\<open>create\<close> returns \<open>c.err\<close>; it may have changed the machine its caller passed by pointer.\<close>

definition create :: "env \<Rightarrow> machine \<Rightarrow> (go_error option \<times> machine) go io" where
  "create E machine = do {
     let isMaster = isMasterRole (mspRoles (maSpec machine));
     let c = newCreator machine isMaster;
     r \<leftarrow> runSteps (if isMaster then masterSteps E else workerSteps E) c;
     ret (case r of Panics \<Rightarrow> Panics | Returns c \<Rightarrow> Returns (cErr c, cMachine c))
   }"

end
