(* ===== verification/Polling.thy ===== *)
theory Polling
  imports World
begin

text \<open>
  \<open>wait.PollImmediate\<close> of the vendored \<^verbatim>\<open>k8s.io/apimachinery/pkg/util/wait\<close>, which both the machine
  and the machine set controllers call: the condition is checked at once, then once per tick of a
  timer (its interval in milliseconds) until the timeout closes the channel, and a last time when it does. How many ticks arrive
  before the timeout depends on the clock and on how long the checks take: it is an answer of the
  environment. The condition may keep a state of its own, as the closures of the source do.
\<close>

type_synonym 'a condition = "'a \<Rightarrow> (go_error + bool \<times> 'a) io"

definition ErrWaitTimeout :: go_error where
  "ErrWaitTimeout = PlainError ''timed out waiting for the condition''"

definition tick :: "nat \<Rightarrow> unit io" where
  "tick interval = call (\<lambda>_. ()) (\<lambda>_. ESleep interval)"

definition startTimer :: "env \<Rightarrow> nat \<Rightarrow> nat io" where
  "startTimer E interval = call (envPollTicks E) (\<lambda>_. EPoll interval)"

fun pollTicks :: "nat \<Rightarrow> 'a condition \<Rightarrow> nat \<Rightarrow> 'a \<Rightarrow> go_error option io" where
  "pollTicks interval cond 0 a = do {
     _ \<leftarrow> tick interval;
     r \<leftarrow> cond a;
     case r of Inl err \<Rightarrow> ret (Some err)
     | Inr (ok, _) \<Rightarrow> if ok then ret None else ret (Some ErrWaitTimeout)
   }"
| "pollTicks interval cond (Suc n) a = do {
     _ \<leftarrow> tick interval;
     r \<leftarrow> cond a;
     case r of Inl err \<Rightarrow> ret (Some err)
     | Inr (ok, a') \<Rightarrow> if ok then ret None else pollTicks interval cond n a'
   }"

definition PollImmediate :: "env \<Rightarrow> nat \<Rightarrow> 'a condition \<Rightarrow> 'a \<Rightarrow> go_error option io" where
  "PollImmediate E interval cond a = do {
     r \<leftarrow> cond a;
     case r of Inl err \<Rightarrow> ret (Some err)
     | Inr (ok, a') \<Rightarrow>
         if ok then ret None
         else do { n \<leftarrow> startTimer E interval; pollTicks interval cond n a' }
   }"

text \<open>The rule of the loop: \<open>I\<close> holds before every check, whatever time passes in between.\<close>

lemma wp_PollImmediate:
  assumes check: "\<And>a t. I a t \<Longrightarrow> wp (cond a) (\<lambda>r t'. case r of
      Inl err \<Rightarrow> Q (Some err) t' | Inr (ok, a') \<Rightarrow> if ok then Q None t' else I a' t') t"
    and timeout: "\<And>a t. I a t \<Longrightarrow> Q (Some ErrWaitTimeout) t"
    and waiting: "\<And>a t. I a t \<Longrightarrow> I a (t @ [ESleep interval])" "\<And>a t. I a t \<Longrightarrow> I a (t @ [EPoll interval])"
    and "I a t"
  shows "wp (PollImmediate E interval cond a) Q t"
proof -
  have ticks: "wp (pollTicks interval cond n a) Q t" if "I a t" for n a t
    using that
  proof (induction n arbitrary: a t)
    case 0
    from waiting(1) [OF 0] have "wp (cond a) (\<lambda>r t'. case r of
      Inl err \<Rightarrow> Q (Some err) t' | Inr (ok, a') \<Rightarrow> if ok then Q None t' else I a' t') (t @ [ESleep interval])"
      by (rule check)
    then show ?case
      using timeout
      by (simp add: tick_def) (erule wp_mono, auto split: sum.splits if_splits)
  next
    case (Suc n)
    from waiting(1) [OF Suc.prems] have "wp (cond a) (\<lambda>r t'. case r of
      Inl err \<Rightarrow> Q (Some err) t' | Inr (ok, a') \<Rightarrow> if ok then Q None t' else I a' t') (t @ [ESleep interval])"
      by (rule check)
    then show ?case
      using Suc.IH
      by (simp add: tick_def) (erule wp_mono, auto split: sum.splits if_splits)
  qed
  from check [OF assms(5)] ticks waiting(2) show ?thesis
    by (simp add: PollImmediate_def) (erule wp_mono, auto simp: startTimer_def split: sum.splits if_splits)
qed

lemma emits_PollImmediate [safe_intros]:
  assumes "\<And>a. emits P (cond a)" "P (ESleep interval)" "P (EPoll interval)"
  shows "emits P (PollImmediate E interval cond a)"
proof -
  have "emits P (pollTicks interval cond n a)" for n a
    using assms
    by (induction n arbitrary: a) (auto simp: tick_def intro!: safe_intros)
  with assms show ?thesis
    unfolding PollImmediate_def startTimer_def by (intro safe_intros)
qed

end
