(* ===== verification/Machine_Delete.thy ===== *)
theory Machine_Delete
  imports Util Cert Maas Machine_Create Polling
begin

text \<open>
  \<^verbatim>\<open>pkg/controller/machine/delete.go\<close>: the deletion of a machine. The node is cordoned and
  drained and removed from its cluster, the machine given back to MaaS and the finalizer taken
  off. Handlers that receive the machine by pointer return it with their error.
\<close>

type_synonym handled = "(go_error option \<times> machine) go"

abbreviation failing :: "machine \<Rightarrow> go_error \<Rightarrow> handled" where
  "failing machine err \<equiv> Returns (Some err, machine)"

abbreviation finished :: "machine \<Rightarrow> handled" where
  "finished machine \<equiv> Returns (None, machine)"

section \<open>deleteMachine\<close>

text \<open>The message of a failed release dereferences \<open>machine.Spec.ProviderID\<close>.\<close>

definition deleteMachine :: "env \<Rightarrow> machine \<Rightarrow> handled io" where
  "deleteMachine E machine = do {
     let systemID = machineSystemId machine;
     released \<leftarrow> (if systemID \<noteq> '''' then Delete E \<lparr>drProviderID = '''', drSystemID = systemID\<rparr>
       else ret None);
     case released of
       Some err \<Rightarrow> (case mspProviderID (maSpec machine) of
           None \<Rightarrow> ret Panics
         | Some providerID \<Rightarrow> ret (failing machine (Wrapped (''could not delete machine ''
             @ machineName machine @ '' with system id '' @ providerID) err)))
     | None \<Rightarrow> do {
         let machine = setMachineFinalizers
           (RemoveString (machineFinalizers machine) MachineFinalizer) machine;
         r \<leftarrow> k8sUpdateMachine E machine;
         case r of
           Inl err \<Rightarrow> ret (failing machine (Wrapped ''could not remove finalizer'' err))
         | Inr stored \<Rightarrow> ret (finished stored)
       }
   }"

definition deleteObject :: "env \<Rightarrow> machine \<Rightarrow> handled io" where
  "deleteObject E machine = do {
     r \<leftarrow> deleteMachine E machine;
     ret (case r of
         Returns (Some err, machine) \<Rightarrow> failing machine (Wrapped ''could not delete machine object'' err)
       | other \<Rightarrow> other)
   }"

section \<open>Draining\<close>

definition podGone :: "pod \<Rightarrow> go_error option \<times> pod \<Rightarrow> bool" where
  "podGone p got \<longleftrightarrow> (case fst got of Some err \<Rightarrow> isNotFound err | None \<Rightarrow> False)
     \<or> podUID (snd got) \<noteq> podUID p"

fun deletePods :: "env \<Rightarrow> clientset \<Rightarrow> pod list \<Rightarrow> go_error option io" where
  "deletePods E cs [] = ret None"
| "deletePods E cs (pod # pods) = do {
     err \<leftarrow> remoteDo E cs (RDeletePod pod);
     case err of
       None \<Rightarrow> deletePods E cs pods
     | Some e \<Rightarrow> if isNotFound e then deletePods E cs pods
         else ret (Some (Wrapped ''could not delete pods'' e))
   }"

text \<open>One check of the pods that are still there. The pod kept for the next check is taken from the
  full list \<open>all\<close>, at the index \<open>i\<close> the pod has among those still waited for.\<close>

fun pendingLoop :: "env \<Rightarrow> clientset \<Rightarrow> pod list \<Rightarrow> nat \<Rightarrow> pod list \<Rightarrow> pod list
    \<Rightarrow> (go_error + pod list) io" where
  "pendingLoop E cs all i [] pendingPods = ret (Inr pendingPods)"
| "pendingLoop E cs all i (pod # pods) pendingPods = do {
     got \<leftarrow> remoteGetPod E cs (podNamespace pod) (podName pod);
     if podGone pod got then pendingLoop E cs all (Suc i) pods pendingPods
     else case fst got of
         Some err \<Rightarrow> ret (Inl err)
       | None \<Rightarrow> pendingLoop E cs all (Suc i) pods (pendingPods @ [all ! i])
   }"

definition podsDeleted :: "env \<Rightarrow> clientset \<Rightarrow> pod list \<Rightarrow> pod list condition" where
  "podsDeleted E cs all pods = onErr Inl (pendingLoop E cs all 0 pods []) (\<lambda>pendingPods.
     ret (Inr (length pendingPods = 0, pendingPods)))"

text \<open>The eviction of the pods runs in goroutines that nobody waits for: the call is recorded as
  one event. What a goroutine does is in theory \<^verbatim>\<open>Eviction\<close>.\<close>

definition spawnEvictions :: "clientset \<Rightarrow> pod list \<Rightarrow> string \<Rightarrow> unit io" where
  "spawnEvictions cs pods policyGroupVersion =
     call (\<lambda>_. ()) (\<lambda>_. ESpawn cs pods policyGroupVersion)"

definition drainNode :: "env \<Rightarrow> clientset \<Rightarrow> node \<Rightarrow> go_error option io" where
  "drainNode E cs n = do {
     list \<leftarrow> remotePodsOnNode E cs (nodeName n);
     case list of
       Inl errs \<Rightarrow> ret (Some (Wrapped ''could not list pods on node for eviction'' (newAggregate errs)))
     | Inr pods \<Rightarrow> onErr Some (remoteCheckEviction E cs) (\<lambda>policyGroupVersion.
         if length policyGroupVersion > 0 then do {
           _ \<leftarrow> spawnEvictions cs pods policyGroupVersion;
           ret None
         } else onErrO Some (deletePods E cs pods)
           (onErrO (Some \<circ> Wrapped ''error while polling for deleted pods'')
             (PollImmediate E 1000 (podsDeleted E cs pods) pods) (ret None)))
   }"

definition cordonNode :: "env \<Rightarrow> clientset \<Rightarrow> node \<Rightarrow> go_error option io" where
  "cordonNode E cs n = (if nodeUnschedulable n = True then ret None
     else remoteDo E cs (RCordonNode (nodeName n)))"

section \<open>handleDelete\<close>

text \<open>From the clientset on: \<open>err\<close> says what is returned for an error.\<close>

definition removeNode :: "env \<Rightarrow> clientset \<Rightarrow> machine \<Rightarrow> handled io" where
  "removeNode E cs machine = do {
     r \<leftarrow> remoteGetNode E cs (machineName machine);
     case r of
       Inl err \<Rightarrow> if isNotFound err then deleteObject E machine
         else ret (failing machine (Wrapped (''could not get node '' @ machineName machine) err))
     | Inr node \<Rightarrow>
         onErrO (failing machine \<circ> Wrapped ''could not cordon node'') (cordonNode E cs node) (
         onErrO (failing machine) (drainNode E cs node) (do {
           err \<leftarrow> remoteDo E cs (RDeleteNode (machineName machine));
           case err of
             None \<Rightarrow> deleteObject E machine
           | Some e \<Rightarrow> if isNotFound e then deleteObject E machine
               else ret (failing machine (Wrapped ''could not delete node'' e))
         }))
   }"

definition handleDelete :: "env \<Rightarrow> machine \<Rightarrow> handled io" where
  "handleDelete E machine =
     onErr (failing machine \<circ> Wrapped ''could not list clusters'')
       (k8sListClusters E (machineNamespace machine)) (\<lambda>items.
     if length items = 0 then deleteObject E machine
     else if length items > 1 then
       ret (failing machine (PlainError ''expected the number of clusters to be 1''))
     else let cluster = items ! 0 in
       if machineSystemId machine = '''' \<or> \<not> timeIsZero (omDeletionTimestamp (clMeta cluster))
       then deleteObject E machine
       else do {
         r \<leftarrow> k8sGetSecret E (privateKeySecret (clusterNamespace cluster));
         case r of
           Inl err \<Rightarrow> if isNotFound err then deleteObject E machine
             else ret (failing machine (Wrapped ''could not get cluster secret'' err))
         | Inr secret \<Rightarrow> (case goGet (secData secret) ServiceAccountKubeconfigKey of
               None \<Rightarrow> ret (failing machine (NotReadyError ''no kubeconfig in secret''))
             | Some configData \<Rightarrow>
                 if length configData = 0
                 then ret (failing machine (NotReadyError ''no kubeconfig in secret''))
                 else case clientsetWrapped E ''could not create client config''
                     ''could not create rest config'' ''could not create clientset'' configData of
                   Inl err \<Rightarrow> ret (failing machine err)
                 | Inr cs \<Rightarrow> removeNode E cs machine)
       })"

end
