(* ===== verification/Eviction.thy ===== *)
theory Eviction
  imports Machine_Delete
begin

text \<open>
  The goroutines of \<^verbatim>\<open>handleDelete\<close> in \<^verbatim>\<open>pkg/controller/machine/delete.go\<close>, one per pod, as a step
  relation on the point each has reached and on the buffer of \<open>returnCh\<close>, a channel of capacity
  one from which nobody receives. The answers of the API server are the labels of the steps.
\<close>

section \<open>The step relation\<close>

text \<open>A goroutine is in its eviction loop, about to send (with what it does after: loop again or
  end), polling for the pod to go, or at its end.\<close>

datatype evictor =
    Evicting
  | Sending "go_error option" bool
  | PollingPod
  | Ended

record eviction_state =
  evWorkers :: "evictor list"
  evBuffer :: "go_error option list"

definition channelCapacity :: nat where
  "channelCapacity = 1"

text \<open>One pass of the \<open>for\<close> loop with the answer of \<open>EvictPod\<close>; only success leaves it.\<close>

definition afterEvict :: "go_error option \<Rightarrow> evictor" where
  "afterEvict answer = (case answer of
       None \<Rightarrow> PollingPod
     | Some err \<Rightarrow>
         if isNotFound err then Sending None True
         else if isTooManyRequests err then Evicting
         else Sending (Some (Wrapped ''could not evict pod'' err)) True)"

definition afterSend :: "bool \<Rightarrow> evictor" where
  "afterSend again = (if again then Evicting else Ended)"

definition setWorker :: "nat \<Rightarrow> evictor \<Rightarrow> eviction_state \<Rightarrow> eviction_state" where
  "setWorker i w s = s\<lparr>evWorkers := (evWorkers s)[i := w]\<rparr>"

datatype evict_label = Evict nat "go_error option" | Send nat | PollEnds nat "go_error option"

inductive evict_step :: "eviction_state \<Rightarrow> evict_label \<Rightarrow> eviction_state \<Rightarrow> bool" where
  evict: "i < length (evWorkers s) \<Longrightarrow> evWorkers s ! i = Evicting \<Longrightarrow>
    evict_step s (Evict i answer) (setWorker i (afterEvict answer) s)"
| send: "i < length (evWorkers s) \<Longrightarrow> evWorkers s ! i = Sending v again \<Longrightarrow>
    length (evBuffer s) < channelCapacity \<Longrightarrow>
    evict_step s (Send i) ((setWorker i (afterSend again) s)\<lparr>evBuffer := evBuffer s @ [v]\<rparr>)"
| polled: "i < length (evWorkers s) \<Longrightarrow> evWorkers s ! i = PollingPod \<Longrightarrow>
    evict_step s (PollEnds i err) (setWorker i (Sending err False) s)"

inductive_cases evict_stepE: "evict_step s l s'"
inductive_cases evict_sendE: "evict_step s (Send i) s'"

definition evictionsOf :: "pod list \<Rightarrow> eviction_state" where
  "evictionsOf pods = \<lparr>evWorkers = map (\<lambda>_. Evicting) pods, evBuffer = []\<rparr>"

inductive evict_run :: "eviction_state \<Rightarrow> evict_label list \<Rightarrow> eviction_state \<Rightarrow> bool" where
  start: "evict_run s [] s"
| next_step: "evict_run s ls s1 \<Longrightarrow> evict_step s1 l s2 \<Longrightarrow> evict_run s (ls @ [l]) s2"

section \<open>What the channel allows\<close>

definition ended :: "eviction_state \<Rightarrow> nat" where
  "ended s = length (filter (\<lambda>w. w = Ended) (evWorkers s))"

text \<open>Every goroutine that ended has filled a place of the buffer, and the buffer has one.\<close>

definition evictInv :: "eviction_state \<Rightarrow> bool" where
  "evictInv s \<longleftrightarrow> ended s \<le> length (evBuffer s) \<and> length (evBuffer s) \<le> channelCapacity"

lemma count_update:
  assumes "i < length ws"
  shows "length (filter P (ws[i := w])) \<le> length (filter P ws) + (if P w then 1 else 0)"
  using assms
proof (induction ws arbitrary: i)
  case Nil
  then show ?case by simp
next
  case (Cons x ws)
  then show ?case
  proof (cases i)
    case (Suc j)
    with Cons.prems Cons.IH [of j] show ?thesis by auto
  qed auto
qed

lemma ended_setWorker:
  "i < length (evWorkers s) \<Longrightarrow> ended (setWorker i w s) \<le> ended s + (if w = Ended then 1 else 0)"
  using count_update [of i "evWorkers s" "\<lambda>w. w = Ended" w] by (simp add: ended_def setWorker_def)

lemma evictInv_step:
  assumes "evict_step s l s'" and "evictInv s"
  shows "evictInv s'"
  using assms(1)
proof cases
  case (evict i answer)
  have "afterEvict answer \<noteq> Ended" by (simp add: afterEvict_def split: option.split)
  with evict ended_setWorker [of i s "afterEvict answer"] assms(2) show ?thesis
    by (simp add: evictInv_def setWorker_def)
next
  case (send i v again)
  with ended_setWorker [of i s "afterSend again"] assms(2) show ?thesis
    by (auto simp: evictInv_def channelCapacity_def ended_def split: if_splits)
next
  case (polled i err)
  with ended_setWorker [of i s "Sending err False"] assms(2) show ?thesis
    by (simp add: evictInv_def setWorker_def)
qed

lemma evictInv_run: "evict_run s ls s' \<Longrightarrow> evictInv s \<Longrightarrow> evictInv s'"
  by (induction rule: evict_run.induct) (auto intro: evictInv_step)

lemma evictInv_start: "evictInv (evictionsOf pods)"
  by (simp add: evictInv_def evictionsOf_def ended_def)

text \<open>C33: whatever the API server answers, at most one of the goroutines that evict the pods of a
  node ever ends: once a value is in the channel every other goroutine that has something to say
  waits for a receiver that does not exist, and every step from there on leaves it waiting.\<close>

theorem evictors_leak:
  assumes "evict_run (evictionsOf pods) ls s"
  shows "ended s \<le> 1 \<and> (evBuffer s \<noteq> [] \<longrightarrow> (\<forall>i v again l s'.
     i < length (evWorkers s) \<and> evWorkers s ! i = Sending v again \<and> evict_step s l s' \<longrightarrow>
     evWorkers s' ! i = Sending v again \<and> evBuffer s' = evBuffer s))"
proof -
  have inv: "evictInv s" using evictInv_run [OF assms evictInv_start] .
  then have one: "ended s \<le> 1" by (simp add: evictInv_def channelCapacity_def)
  have stay: "evWorkers s' ! i = Sending v again \<and> evBuffer s' = evBuffer s"
    if "evBuffer s \<noteq> []" "evWorkers s ! i = Sending v again" "evict_step s l s'" for i v again l s'
    using that(3)
  proof cases
    case (evict j answer)
    with that show ?thesis by (cases "i = j") (auto simp: setWorker_def)
  next
    case (send j w a)
    with inv that(1) show ?thesis by (cases "evBuffer s") (auto simp: evictInv_def channelCapacity_def)
  next
    case (polled j err)
    with that show ?thesis by (cases "i = j") (auto simp: setWorker_def)
  qed
  show ?thesis
  proof (intro conjI [OF one] impI allI)
    fix i v again l s'
    assume "evBuffer s \<noteq> []"
      and "i < length (evWorkers s) \<and> evWorkers s ! i = Sending v again \<and> evict_step s l s'"
    then show "evWorkers s' ! i = Sending v again \<and> evBuffer s' = evBuffer s"
      by (intro stay [of i v again l s']) simp_all
  qed
qed

definition twoPods :: "pod list" where
  "twoPods = [\<lparr>podName = ''a'', podNamespace = ''ns'', podUID = ''1''\<rparr>,
     \<lparr>podName = ''b'', podNamespace = ''ns'', podUID = ''2''\<rparr>]"

text \<open>A run in which both pods go and one goroutine is left behind.\<close>

definition stuckState :: eviction_state where
  "stuckState = \<lparr>evWorkers = [Ended, Sending None False], evBuffer = [None]\<rparr>"

lemma stuck_run: "\<exists>ls. evict_run (evictionsOf twoPods) ls stuckState"
proof -
  let ?s1 = "setWorker 0 (afterEvict None) (evictionsOf twoPods)"
  let ?s2 = "setWorker 1 (afterEvict None) ?s1"
  let ?s3 = "setWorker 0 (Sending None False) ?s2"
  let ?s4 = "setWorker 1 (Sending None False) ?s3"
  let ?s5 = "(setWorker 0 (afterSend False) ?s4)\<lparr>evBuffer := evBuffer ?s4 @ [None]\<rparr>"
  have "evict_step (evictionsOf twoPods) (Evict 0 None) ?s1"
    by (rule evict_step.evict) (simp_all add: evictionsOf_def twoPods_def)
  moreover have "evict_step ?s1 (Evict 1 None) ?s2"
    by (rule evict_step.evict) (simp_all add: evictionsOf_def twoPods_def setWorker_def)
  moreover have "evict_step ?s2 (PollEnds 0 None) ?s3"
    by (rule evict_step.polled) (simp_all add: evictionsOf_def twoPods_def setWorker_def afterEvict_def)
  moreover have "evict_step ?s3 (PollEnds 1 None) ?s4"
    by (rule evict_step.polled) (simp_all add: evictionsOf_def twoPods_def setWorker_def afterEvict_def)
  moreover have "evict_step ?s4 (Send 0) ?s5"
    by (rule evict_step.send) (simp_all add: evictionsOf_def twoPods_def setWorker_def
        channelCapacity_def)
  moreover have "?s5 = stuckState"
    by (simp add: stuckState_def evictionsOf_def twoPods_def setWorker_def afterSend_def)
  ultimately show ?thesis by (metis evict_run.intros)
qed

theorem evictors_leak_witness:
  "(\<exists>ls. evict_run (evictionsOf twoPods) ls stuckState) \<and> ended stuckState \<le> 1
   \<and> \<not> (\<exists>s'. evict_step stuckState (Send 1) s')"
proof -
  from stuck_run obtain ls where run: "evict_run (evictionsOf twoPods) ls stuckState" by blast
  have "\<not> evict_step stuckState (Send 1) s'" for s'
    by (auto simp: stuckState_def channelCapacity_def elim!: evict_sendE)
  with run evictors_leak [OF run] show ?thesis by blast
qed

end
