(* ===== verification/Selectors.thy ===== *)
theory Selectors
  imports World
begin

text \<open>
  Label selectors, as the machine set controller uses them: \<open>metav1.LabelSelectorAsSelector\<close>,
  \<open>labels.NewRequirement\<close>, \<open>Selector.Matches\<close>, \<open>Selector.Empty\<close> and
  \<open>labels.Set.AsSelectorPreValidated\<close> of the vendored apimachinery. The syntax checks of keys and
  values are answers of the environment. The meaning of a selector is stated apart, by \<open>selects\<close>.
\<close>

section \<open>Requirements\<close>

datatype sel_operator = SelEquals | SelIn | SelNotIn | SelExists | SelDoesNotExist

record requirement =
  rqKey :: string
  rqOperator :: sel_operator
  rqValues :: "string list"

definition operatorCheck :: "sel_operator \<Rightarrow> string list \<Rightarrow> go_error option" where
  "operatorCheck op vals = (case op of
       SelIn \<Rightarrow> if vals = [] then Some (PlainError ''for 'in', 'notin' operators, values set can't be empty'') else None
     | SelNotIn \<Rightarrow> if vals = [] then Some (PlainError ''for 'in', 'notin' operators, values set can't be empty'') else None
     | SelEquals \<Rightarrow> if length vals \<noteq> 1 then Some (PlainError ''exact-match compatibility requires one single value'') else None
     | _ \<Rightarrow> if vals \<noteq> [] then Some (PlainError ''values set must be empty for exists and does not exist'') else None)"

fun firstError :: "('a \<Rightarrow> go_error option) \<Rightarrow> 'a list \<Rightarrow> go_error option" where
  "firstError f [] = None"
| "firstError f (v # vs) = (case f v of Some err \<Rightarrow> Some err | None \<Rightarrow> firstError f vs)"

definition NewRequirement :: "env \<Rightarrow> string \<Rightarrow> sel_operator \<Rightarrow> string list \<Rightarrow> go_error + requirement" where
  "NewRequirement E key op vals = (case envLabelKey E key of Some err \<Rightarrow> Inl err
     | None \<Rightarrow> (case operatorCheck op vals of Some err \<Rightarrow> Inl err
     | None \<Rightarrow> (case firstError (envLabelValue E) vals of Some err \<Rightarrow> Inl err
     | None \<Rightarrow> Inr \<lparr>rqKey = key, rqOperator = op, rqValues = vals\<rparr>)))"

definition requirementMatches :: "requirement \<Rightarrow> string go_map \<Rightarrow> bool" where
  "requirementMatches r ls = (case rqOperator r of
       SelEquals \<Rightarrow> goGet ls (rqKey r) \<noteq> None \<and> goIndex ls (rqKey r) \<in> set (rqValues r)
     | SelIn \<Rightarrow> goGet ls (rqKey r) \<noteq> None \<and> goIndex ls (rqKey r) \<in> set (rqValues r)
     | SelNotIn \<Rightarrow> (if goGet ls (rqKey r) = None then True else goIndex ls (rqKey r) \<notin> set (rqValues r))
     | SelExists \<Rightarrow> goGet ls (rqKey r) \<noteq> None
     | SelDoesNotExist \<Rightarrow> goGet ls (rqKey r) = None)"

section \<open>Selectors\<close>

type_synonym selector = "requirement list"

definition selectorEmpty :: "selector \<Rightarrow> bool" where
  "selectorEmpty sel \<longleftrightarrow> length sel = 0"

definition selectorMatches :: "selector \<Rightarrow> string go_map \<Rightarrow> bool" where
  "selectorMatches sel ls \<longleftrightarrow> list_all (\<lambda>r. requirementMatches r ls) sel"

definition selOperatorOf :: "string \<Rightarrow> go_error + sel_operator" where
  "selOperatorOf op =
     (if op = ''In'' then Inr SelIn else if op = ''NotIn'' then Inr SelNotIn
      else if op = ''Exists'' then Inr SelExists else if op = ''DoesNotExist'' then Inr SelDoesNotExist
      else Inl (PlainError (CHR 0x22 # op @ CHR 0x22 # '' is not a valid pod selector operator'')))"

fun addMatchLabels :: "env \<Rightarrow> string go_map \<Rightarrow> selector \<Rightarrow> go_error + selector" where
  "addMatchLabels E [] sel = Inr sel"
| "addMatchLabels E ((k, v) # kvs) sel = (case NewRequirement E k SelEquals [v] of
       Inl err \<Rightarrow> Inl err
     | Inr r \<Rightarrow> addMatchLabels E kvs (sel @ [r]))"

fun addExpressions :: "env \<Rightarrow> label_requirement list \<Rightarrow> selector \<Rightarrow> go_error + selector" where
  "addExpressions E [] sel = Inr sel"
| "addExpressions E (e # es) sel = (case selOperatorOf (exprOperator e) of
       Inl err \<Rightarrow> Inl err
     | Inr op \<Rightarrow> (case NewRequirement E (exprKey e) op (exprValues e) of
           Inl err \<Rightarrow> Inl err
         | Inr r \<Rightarrow> addExpressions E es (sel @ [r])))"

definition LabelSelectorAsSelector :: "env \<Rightarrow> label_selector \<Rightarrow> go_error + selector" where
  "LabelSelectorAsSelector E ps =
     (if length (lsMatchLabels ps) + length (lsMatchExpressions ps) = 0 then Inr []
      else case addMatchLabels E (lsMatchLabels ps) [] of
          Inl err \<Rightarrow> Inl err
        | Inr sel \<Rightarrow> addExpressions E (lsMatchExpressions ps) sel)"

text \<open>The requirements of \<open>SelectorFromValidatedSet\<close> are sorted by key, which matters to their text
  alone.\<close>

definition selectorFromValidatedSet :: "string go_map \<Rightarrow> selector" where
  "selectorFromValidatedSet ls =
     map (\<lambda>(k, v). \<lparr>rqKey = k, rqOperator = SelEquals, rqValues = [v]\<rparr>) ls"

section \<open>What a selector means\<close>

definition exprHolds :: "string go_map \<Rightarrow> label_requirement \<Rightarrow> bool" where
  "exprHolds ls e = (case goGet ls (exprKey e) of
       Some v \<Rightarrow> exprOperator e = ''In'' \<and> v \<in> set (exprValues e)
         \<or> exprOperator e = ''NotIn'' \<and> v \<notin> set (exprValues e) \<or> exprOperator e = ''Exists''
     | None \<Rightarrow> exprOperator e = ''NotIn'' \<or> exprOperator e = ''DoesNotExist'')"

definition selects :: "label_selector \<Rightarrow> string go_map \<Rightarrow> bool" where
  "selects ps ls \<longleftrightarrow> (\<forall>(k, v) \<in> set (lsMatchLabels ps). goGet ls k = Some v)
     \<and> (\<forall>e \<in> set (lsMatchExpressions ps). exprHolds ls e)"

lemma requirementMatches_Equals [simp]:
  "requirementMatches \<lparr>rqKey = k, rqOperator = SelEquals, rqValues = [v]\<rparr> ls \<longleftrightarrow> goGet ls k = Some v"
  by (auto simp: requirementMatches_def goGet_def goIndex_def)

lemma selectorMatches_append [simp]:
  "selectorMatches (sel @ sel') ls \<longleftrightarrow> selectorMatches sel ls \<and> selectorMatches sel' ls"
  by (simp add: selectorMatches_def)

lemma selectorMatches_simps [simp]:
  "selectorMatches [] ls" "selectorMatches (r # rs) ls \<longleftrightarrow> requirementMatches r ls \<and> selectorMatches rs ls"
  by (simp_all add: selectorMatches_def)

lemma NewRequirement_ok:
  "NewRequirement E k op vs = Inr r \<Longrightarrow> r = \<lparr>rqKey = k, rqOperator = op, rqValues = vs\<rparr>"
  by (auto simp: NewRequirement_def split: option.splits)

lemma addMatchLabels_ok:
  "addMatchLabels E kvs sel = Inr sel' \<Longrightarrow> length sel' = length sel + length kvs \<and>
     (selectorMatches sel' ls \<longleftrightarrow> selectorMatches sel ls \<and> (\<forall>(k, v) \<in> set kvs. goGet ls k = Some v))"
  by (induction E kvs sel rule: addMatchLabels.induct)
     (auto split: sum.splits dest!: NewRequirement_ok)

lemma requirementMatches_expr:
  "selOperatorOf (exprOperator e) = Inr op \<Longrightarrow>
     requirementMatches \<lparr>rqKey = exprKey e, rqOperator = op, rqValues = exprValues e\<rparr> ls \<longleftrightarrow> exprHolds ls e"
  by (auto simp: selOperatorOf_def requirementMatches_def exprHolds_def goGet_def goIndex_def
      split: if_splits option.splits)

lemma addExpressions_ok:
  "addExpressions E es sel = Inr sel' \<Longrightarrow> length sel' = length sel + length es \<and>
     (selectorMatches sel' ls \<longleftrightarrow> selectorMatches sel ls \<and> (\<forall>e \<in> set es. exprHolds ls e))"
  by (induction E es sel rule: addExpressions.induct)
     (auto split: sum.splits dest!: NewRequirement_ok simp: requirementMatches_expr)

text \<open>A selector that is accepted matches exactly the labels it means, and it is empty only if it
  is written so.\<close>

lemma LabelSelectorAsSelector_ok:
  assumes "LabelSelectorAsSelector E ps = Inr sel"
  shows "selectorMatches sel ls \<longleftrightarrow> selects ps ls"
    and "selectorEmpty sel \<longleftrightarrow> lsMatchLabels ps = [] \<and> lsMatchExpressions ps = []"
proof -
  have "(selectorMatches sel ls \<longleftrightarrow> selects ps ls)
    \<and> (selectorEmpty sel \<longleftrightarrow> lsMatchLabels ps = [] \<and> lsMatchExpressions ps = [])"
    using assms
    by (auto simp: LabelSelectorAsSelector_def selects_def selectorEmpty_def
        split: if_splits sum.splits dest!: addMatchLabels_ok [where ls = ls] addExpressions_ok [where ls = ls])
  then show "selectorMatches sel ls \<longleftrightarrow> selects ps ls"
    and "selectorEmpty sel \<longleftrightarrow> lsMatchLabels ps = [] \<and> lsMatchExpressions ps = []" by blast+
qed

lemma selectorFromValidatedSet_matches:
  "selectorMatches (selectorFromValidatedSet kvs) ls \<longleftrightarrow> (\<forall>(k, v) \<in> set kvs. goGet ls k = Some v)"
  by (induction kvs) (auto simp: selectorFromValidatedSet_def)

text \<open>A map of labels matches the selector made from it.\<close>

lemma selectorFromValidatedSet_self:
  "go_map_wf ls \<Longrightarrow> selectorMatches (selectorFromValidatedSet ls) ls"
  by (auto simp: selectorFromValidatedSet_matches go_map_wf_def goGet_def)

end
