(* ===== verification/Delete_Policy.thy ===== *)
theory Delete_Policy
  imports World
begin

text \<open>
  \<^verbatim>\<open>pkg/controller/machineset/delete_policy.go\<close>: which machines a machine set gives up when it
  scales down. The priorities are floating point constants without a fraction, kept as integers.
  The routine behind \<open>sort.Sort\<close> is an answer of the environment, because it is not stable: what the
  code relies on is \<open>sorts\<close>.
\<close>

type_synonym deletePriority = int
type_synonym deletePriorityFunc = "machine \<Rightarrow> deletePriority"

definition mustDelete :: deletePriority where "mustDelete = 100"
definition betterDelete :: deletePriority where "betterDelete = 50"
definition couldDelete :: deletePriority where "couldDelete = 20"

definition DeleteNodeAnnotation :: string where
  "DeleteNodeAnnotation = ''cluster.k8s.io/delete-machine''"

definition randomDeletePolicy :: deletePriorityFunc where
  "randomDeletePolicy machine =
     (if omDeletionTimestamp (maMeta machine) \<noteq> None \<and> \<not> timeIsZero (omDeletionTimestamp (maMeta machine))
      then mustDelete
      else if (case omAnnotations (maMeta machine) of None \<Rightarrow> False
        | Some annotations \<Rightarrow> goIndex annotations DeleteNodeAnnotation \<noteq> '''')
      then betterDelete
      else couldDelete)"

definition sortableLess :: "deletePriorityFunc \<Rightarrow> machine \<Rightarrow> machine \<Rightarrow> bool" where
  "sortableLess priority mi mj \<longleftrightarrow> priority mj < priority mi"

definition getMachinesToDeletePrioritized :: "env \<Rightarrow> machine list \<Rightarrow> int \<Rightarrow> deletePriorityFunc \<Rightarrow> machine list" where
  "getMachinesToDeletePrioritized E filteredMachines diff fun =
     (if diff \<ge> int (length filteredMachines) then filteredMachines
      else if diff \<le> 0 then []
      else take (nat diff) (envSort E (sortableLess fun) filteredMachines))"

section \<open>What the sorting routine promises\<close>

text \<open>For an order by a priority the result is a rearrangement in which no machine comes after one of
  lower priority.\<close>

definition sorts :: "env \<Rightarrow> bool" where
  "sorts E \<longleftrightarrow> (\<forall>(f :: deletePriorityFunc) ms. mset (envSort E (sortableLess f) ms) = mset ms
     \<and> sorted_wrt (\<lambda>a b. f b \<le> f a) (envSort E (sortableLess f) ms))"

text \<open>Insertion sort keeps the promise.\<close>

fun insertBy :: "(machine \<Rightarrow> machine \<Rightarrow> bool) \<Rightarrow> machine \<Rightarrow> machine list \<Rightarrow> machine list" where
  "insertBy lt m [] = [m]"
| "insertBy lt m (x # xs) = (if lt x m then x # insertBy lt m xs else m # x # xs)"

definition insertionSort :: "(machine \<Rightarrow> machine \<Rightarrow> bool) \<Rightarrow> machine list \<Rightarrow> machine list" where
  "insertionSort lt ms = foldr (insertBy lt) ms []"

lemma mset_insertBy [simp]: "mset (insertBy lt m xs) = add_mset m (mset xs)"
  by (induction xs) auto

lemma set_insertBy [simp]: "set (insertBy lt m xs) = insert m (set xs)"
  by (induction xs) auto

lemma sorted_insertBy:
  "sorted_wrt (\<lambda>a b. f b \<le> f a) xs \<Longrightarrow> sorted_wrt (\<lambda>a b. f b \<le> f a) (insertBy (sortableLess f) m xs)"
  by (induction xs) (auto simp: sortableLess_def)

lemma insertionSort_sorts: "sorts (E\<lparr>envSort := insertionSort\<rparr>)"
proof -
  have "mset (insertionSort (sortableLess f) ms) = mset ms
    \<and> sorted_wrt (\<lambda>a b. f b \<le> f a) (insertionSort (sortableLess f) ms)" for f ms
    unfolding insertionSort_def by (induction ms) (simp_all add: sorted_insertBy)
  then show ?thesis by (simp add: sorts_def)
qed

section \<open>The choice\<close>

lemma sorted_take_drop:
  "sorted_wrt P xs \<Longrightarrow> d \<in> set (take n xs) \<Longrightarrow> k \<in> set (drop n xs) \<Longrightarrow> P d k"
proof -
  assume "sorted_wrt P xs" and "d \<in> set (take n xs)" and "k \<in> set (drop n xs)"
  moreover have "sorted_wrt P (take n xs @ drop n xs)" using \<open>sorted_wrt P xs\<close> by simp
  ultimately show "P d k" unfolding sorted_wrt_append by blast
qed

lemma length_getMachinesToDelete:
  assumes "sorts E"
  shows "length (getMachinesToDeletePrioritized E ms diff f) = min (nat diff) (length ms)"
proof -
  from assms have "length (envSort E (sortableLess f) ms) = length ms"
    unfolding sorts_def by (metis mset_eq_length)
  then show ?thesis by (auto simp: getMachinesToDeletePrioritized_def)
qed

text \<open>The chosen machines and the others make up the whole, and none of the others should have gone
  first.\<close>

lemma getMachinesToDelete_split:
  assumes "sorts E"
  obtains kept where "mset ms = mset (getMachinesToDeletePrioritized E ms diff f) + mset kept"
    and "\<And>d k. d \<in> set (getMachinesToDeletePrioritized E ms diff f) \<Longrightarrow> k \<in> set kept \<Longrightarrow> f k \<le> f d"
proof -
  let ?s = "envSort E (sortableLess f) ms"
  from assms have "mset ?s = mset ms" and sorted: "sorted_wrt (\<lambda>a b. f b \<le> f a) ?s"
    unfolding sorts_def by blast+
  then have split: "mset ms = mset (take (nat diff) ?s) + mset (drop (nat diff) ?s)"
    by (metis append_take_drop_id mset_append)
  consider "diff \<ge> int (length ms)" | "diff < int (length ms)" "diff \<le> 0"
    | "diff < int (length ms)" "diff > 0" by linarith
  then show thesis
  proof cases
    case 1
    then show thesis by (intro that [of "[]"]) (simp_all add: getMachinesToDeletePrioritized_def)
  next
    case 2
    then show thesis by (intro that [of ms]) (simp_all add: getMachinesToDeletePrioritized_def)
  next
    case 3
    then show thesis
      using split sorted_take_drop [OF sorted]
      by (intro that [of "drop (nat diff) ?s"]) (simp_all add: getMachinesToDeletePrioritized_def)
  qed
qed

lemma set_getMachinesToDelete:
  "sorts E \<Longrightarrow> set (getMachinesToDeletePrioritized E ms diff f) \<subseteq> set ms"
  by (metis Un_upper1 getMachinesToDelete_split set_mset_mset set_mset_union)

text \<open>Scaling down by \<open>diff\<close> gives up exactly \<open>diff\<close> of the machines, or all when there are
  fewer; a machine marked for deletion is kept only when each of those given up is marked or is
  going already.\<close>

theorem marked_machines_go_first:
  assumes "sorts E" and "k \<in># mset ms - mset (getMachinesToDeletePrioritized E ms diff randomDeletePolicy)"
    and "goIndex annotations DeleteNodeAnnotation \<noteq> ''''" and "omAnnotations (maMeta k) = Some annotations"
  shows "length (getMachinesToDeletePrioritized E ms diff randomDeletePolicy) = min (nat diff) (length ms)
    \<and> set (getMachinesToDeletePrioritized E ms diff randomDeletePolicy) \<subseteq> set ms
    \<and> (\<forall>d \<in> set (getMachinesToDeletePrioritized E ms diff randomDeletePolicy).
         \<not> timeIsZero (omDeletionTimestamp (maMeta d))
       \<or> (\<exists>a. omAnnotations (maMeta d) = Some a \<and> goIndex a DeleteNodeAnnotation \<noteq> ''''))"
proof -
  from assms(1) obtain kept
    where "mset ms = mset (getMachinesToDeletePrioritized E ms diff randomDeletePolicy) + mset kept"
      and le: "\<And>d k. d \<in> set (getMachinesToDeletePrioritized E ms diff randomDeletePolicy) \<Longrightarrow>
        k \<in> set kept \<Longrightarrow> randomDeletePolicy k \<le> randomDeletePolicy d"
    by (rule getMachinesToDelete_split [where ms = ms and diff = diff and f = randomDeletePolicy]) blast
  with assms(2) have "k \<in> set kept" by simp
  moreover from assms(3,4) have "betterDelete \<le> randomDeletePolicy k"
    by (simp add: randomDeletePolicy_def mustDelete_def betterDelete_def)
  ultimately have "betterDelete \<le> randomDeletePolicy d"
    if "d \<in> set (getMachinesToDeletePrioritized E ms diff randomDeletePolicy)" for d
    using le [OF that] by force
  moreover have "\<not> timeIsZero (omDeletionTimestamp (maMeta d))
      \<or> (\<exists>a. omAnnotations (maMeta d) = Some a \<and> goIndex a DeleteNodeAnnotation \<noteq> '''')"
    if "betterDelete \<le> randomDeletePolicy d" for d
    using that by (auto simp: randomDeletePolicy_def betterDelete_def couldDelete_def split: if_splits option.splits)
  ultimately show ?thesis
    using assms(1) by (simp add: length_getMachinesToDelete set_getMachinesToDelete)
qed

definition markedMachine :: "string \<Rightarrow> string \<Rightarrow> machine" where
  "markedMachine name mark = zero_machine\<lparr>maMeta := zero_object_meta\<lparr>omName := name,
     omAnnotations := Some [(DeleteNodeAnnotation, mark)]\<rparr>\<rparr>"

lemma markedMachine_meta [simp]:
  "omName (maMeta (markedMachine n v)) = n" "omDeletionTimestamp (maMeta (markedMachine n v)) = None"
  "omAnnotations (maMeta (markedMachine n v)) = Some [(DeleteNodeAnnotation, v)]"
  by (simp_all add: markedMachine_def zero_object_meta_def)

lemma markedMachine_eq [simp]: "markedMachine n v = markedMachine n' v' \<longleftrightarrow> n = n' \<and> v = v'"
  by (metis markedMachine_meta(1,3) list.inject option.inject prod.inject)

theorem marked_machines_go_first_witness:
  "\<exists>E. getMachinesToDeletePrioritized E [markedMachine ''a'' '''', markedMachine ''b'' ''yes'',
        markedMachine ''c'' ''yes''] 1 randomDeletePolicy = [markedMachine ''b'' ''yes'']
     \<and> (\<forall>d \<in> set (getMachinesToDeletePrioritized E [markedMachine ''a'' '''', markedMachine ''b'' ''yes'',
        markedMachine ''c'' ''yes''] 1 randomDeletePolicy). \<not> timeIsZero (omDeletionTimestamp (maMeta d))
       \<or> (\<exists>a. omAnnotations (maMeta d) = Some a \<and> goIndex a DeleteNodeAnnotation \<noteq> ''''))"
proof (rule exI, rule conjI)
  let ?E = "offline\<lparr>envSort := insertionSort\<rparr>"
  let ?ms = "[markedMachine ''a'' '''', markedMachine ''b'' ''yes'', markedMachine ''c'' ''yes'']"
  show chosen: "getMachinesToDeletePrioritized ?E ?ms 1 randomDeletePolicy = [markedMachine ''b'' ''yes'']"
    by (simp add: getMachinesToDeletePrioritized_def insertionSort_def sortableLess_def
        randomDeletePolicy_def goIndex_def betterDelete_def couldDelete_def)
  have "markedMachine ''c'' ''yes'' \<in># mset ?ms - mset (getMachinesToDeletePrioritized ?E ?ms 1 randomDeletePolicy)"
    unfolding chosen by simp
  from marked_machines_go_first [OF insertionSort_sorts this, of "[(DeleteNodeAnnotation, ''yes'')]"]
  show "\<forall>d \<in> set (getMachinesToDeletePrioritized ?E ?ms 1 randomDeletePolicy).
      \<not> timeIsZero (omDeletionTimestamp (maMeta d))
       \<or> (\<exists>a. omAnnotations (maMeta d) = Some a \<and> goIndex a DeleteNodeAnnotation \<noteq> '''')"
    by (simp add: goIndex_def)
qed

end
