(* ===== verification/MachineSet.thy ===== *)
theory MachineSet
  imports Requests Util Selectors Delete_Policy Polling
begin

text \<open>
  \<^verbatim>\<open>pkg/controller/machineset\<close>: the machine set controller. A machine set claims the machines of its
  namespace whose labels it selects, creates machines from its template when there are too few and
  deletes some when there are too many. Deletions run in goroutines; a call that waits for them for
  ever has the outcome \<open>None\<close>.
\<close>

abbreviation machineSetName :: "machineset \<Rightarrow> string" where "machineSetName ms \<equiv> omName (msMeta ms)"
abbreviation machineSetNamespace :: "machineset \<Rightarrow> string" where
  "machineSetNamespace ms \<equiv> omNamespace (msMeta ms)"
abbreviation templateLabels :: "machineset \<Rightarrow> string go_map" where
  "templateLabels ms \<equiv> omLabels (mtMeta (msTemplate ms))"

section \<open>Which machines belong to a machine set\<close>

definition quoted :: "string \<Rightarrow> string" where
  "quoted s = CHR 0x22 # s @ [CHR 0x22]"

definition ValidateMachineSet :: "env \<Rightarrow> machineset \<Rightarrow> bool \<times> go_error option" where
  "ValidateMachineSet E machineSet = (case LabelSelectorAsSelector E (msSelector machineSet) of
       Inl err \<Rightarrow> (False, Some (Wrapped (''Failed to parse MachineSet '' @ quoted (machineSetName machineSet)
         @ '' label selector'') err))
     | Inr selector \<Rightarrow>
         if \<not> selectorMatches selector (templateLabels machineSet)
         then (False, Some (PlainError (''Failed validation on MachineSet '' @ quoted (machineSetName machineSet)
           @ '' label selector does not match machine template label'')))
         else (True, None))"

definition hasMatchingLabels :: "env \<Rightarrow> machineset \<Rightarrow> machine \<Rightarrow> bool" where
  "hasMatchingLabels E machineSet machine = (case LabelSelectorAsSelector E (msSelector machineSet) of
       Inl err \<Rightarrow> False
     | Inr selector \<Rightarrow>
         if selectorEmpty selector then False
         else if \<not> selectorMatches selector (omLabels (maMeta machine)) then False
         else True)"

definition shouldExcludeMachine :: "env \<Rightarrow> machineset \<Rightarrow> machine \<Rightarrow> bool" where
  "shouldExcludeMachine E machineSet machine =
     (if getControllerOf (maMeta machine) \<noteq> None \<and> \<not> isControlledBy (maMeta machine) (msMeta machineSet)
      then True
      else if omDeletionTimestamp (maMeta machine) \<noteq> None then True
      else if \<not> hasMatchingLabels E machineSet machine then True
      else False)"

definition machineSetRef :: "machineset \<Rightarrow> owner_reference" where
  "machineSetRef machineSet = newControllerRef (msMeta machineSet) SchemeGroupVersion ''CnctMachineSet''"

definition adoptOrphan :: "env \<Rightarrow> machineset \<Rightarrow> machine \<Rightarrow> (go_error + machine) io" where
  "adoptOrphan E machineSet machine =
     k8sUpdateMachine E (machine\<lparr>maMeta := addOwner (machineSetRef machineSet) (maMeta machine)\<rparr>)"

fun filterMachines :: "env \<Rightarrow> machineset \<Rightarrow> machine list \<Rightarrow> machine list io" where
  "filterMachines E machineSet [] = ret []"
| "filterMachines E machineSet (machine # machines) =
     (if shouldExcludeMachine E machineSet machine then filterMachines E machineSet machines
      else if getControllerOf (maMeta machine) = None then do {
        r \<leftarrow> adoptOrphan E machineSet machine;
        case r of
          Inl err \<Rightarrow> filterMachines E machineSet machines
        | Inr adopted \<Rightarrow> do {
            rest \<leftarrow> filterMachines E machineSet machines;
            ret (adopted # rest)
          }
      } else do {
        rest \<leftarrow> filterMachines E machineSet machines;
        ret (machine # rest)
      })"

section \<open>Creating and deleting machines\<close>

definition createMachine :: "machineset \<Rightarrow> machine" where
  "createMachine machineSet = \<lparr>
     maType = \<lparr>tmKind = ''CnctMachine'', tmAPIVersion = SchemeGroupVersion\<rparr>,
     maMeta = (mtMeta (msTemplate machineSet))\<lparr>
       omGenerateName := machineSetName machineSet @ ''-'',
       omOwnerReferences := [machineSetRef machineSet],
       omNamespace := machineSetNamespace machineSet\<rparr>,
     maSpec = mtSpec (msTemplate machineSet),
     maStatus = zero_machine_status\<rparr>"

fun createLoop :: "env \<Rightarrow> machineset \<Rightarrow> nat \<Rightarrow> machine list \<Rightarrow> string list \<Rightarrow> (machine list \<times> string list) io" where
  "createLoop E ms 0 machineList errstrings = ret (machineList, errstrings)"
| "createLoop E ms (Suc n) machineList errstrings = do {
     let machine = createMachine ms;
     r \<leftarrow> k8sCreateMachine E machine;
     case r of
       Inl err \<Rightarrow> do {
         _ \<leftarrow> recordEvent (OMachineSet ms) ''Warning'' FailedCreateMachineReason
           (''Error Creating cnctmachine: '' @ machineName machine);
         createLoop E ms n machineList (errstrings @ [errorText err])
       }
     | Inr stored \<Rightarrow> do {
         _ \<leftarrow> recordEvent (OMachineSet ms) ''Normal'' SuccessfulCreateMachineReason
           (''Created cnctmachine: '' @ machineName stored);
         createLoop E ms n (machineList @ [stored]) errstrings
       }
   }"

text \<open>In milliseconds.\<close>

definition stateConfirmationInterval :: nat where
  "stateConfirmationInterval = 100"

definition machineCreated :: "env \<Rightarrow> machine \<Rightarrow> unit condition" where
  "machineCreated E machine = (\<lambda>_. do {
     r \<leftarrow> k8sGetMachine E (machineKey machine);
     ret (case r of
       Inl err \<Rightarrow> if isNotFound err then Inr (False, ()) else Inl err
     | Inr _ \<Rightarrow> Inr (True, ()))
   })"

fun waitForMachineCreation :: "env \<Rightarrow> machine list \<Rightarrow> go_error option io" where
  "waitForMachineCreation E [] = ret None"
| "waitForMachineCreation E (machine # machineList) =
     onErrO (Some \<circ> Wrapped ''failed waiting for machine object to be created'')
       (PollImmediate E stateConfirmationInterval (machineCreated E machine) ())
       (waitForMachineCreation E machineList)"

text \<open>When \<open>Get\<close> fails the machine it should fill is still the zero value.\<close>

definition machineDeleted :: "env \<Rightarrow> machine \<Rightarrow> unit condition" where
  "machineDeleted E machine = (\<lambda>_. do {
     r \<leftarrow> k8sGetMachine E (machineKey machine);
     let m = (case r of Inl _ \<Rightarrow> zero_machine | Inr m \<Rightarrow> m);
     ret (if (case r of Inl err \<Rightarrow> isNotFound err | Inr _ \<Rightarrow> False)
           \<or> \<not> timeIsZero (omDeletionTimestamp (maMeta m))
         then Inr (True, ())
         else case r of Inl err \<Rightarrow> Inl err | Inr _ \<Rightarrow> Inr (False, ()))
   })"

fun waitForMachineDeletion :: "env \<Rightarrow> machine list \<Rightarrow> go_error option io" where
  "waitForMachineDeletion E [] = ret None"
| "waitForMachineDeletion E (machine # machineList) =
     onErrO (Some \<circ> Wrapped ''failed waiting for machine object to be deleted'')
       (PollImmediate E stateConfirmationInterval (machineDeleted E machine) ())
       (waitForMachineDeletion E machineList)"

text \<open>
  The goroutines that delete: each deletes its machine, then records an event, sends its error if it
  has one into the buffered channel and ends. The channel never fills up, having one place per
  goroutine. \<open>envPick\<close> says whose step is next; each goroutine makes two.
\<close>

datatype deleter = Deleting machine | Reporting machine "go_error option"

definition without :: "nat \<Rightarrow> 'a list \<Rightarrow> 'a list" where
  "without i xs = take i xs @ drop (Suc i) xs"

fun deleters :: "env \<Rightarrow> machineset \<Rightarrow> nat \<Rightarrow> deleter list \<Rightarrow> go_error list \<Rightarrow> go_error list io" where
  "deleters E ms 0 gs errCh = ret errCh"
| "deleters E ms (Suc steps) gs errCh = do {
     i \<leftarrow> schedule E (length gs);
     case gs ! i of
       Deleting targetMachine \<Rightarrow> do {
         err \<leftarrow> k8sDelete E (OMachine targetMachine);
         deleters E ms steps (gs[i := Reporting targetMachine err]) errCh
       }
     | Reporting targetMachine result \<Rightarrow> (case result of
           Some err \<Rightarrow> do {
             _ \<leftarrow> recordEvent (OMachineSet ms) ''Warning'' FailedDeleteMachineReason
               (''Error Deleting cnctmachine: '' @ machineName targetMachine);
             deleters E ms steps (without i gs) (errCh @ [err])
           }
         | None \<Rightarrow> do {
             _ \<leftarrow> recordEvent (OMachineSet ms) ''Normal'' SuccessfulDeleteMachineReason
               (''Deleted cnctmachine: '' @ machineName targetMachine);
             deleters E ms steps (without i gs) errCh
           })
   }"

definition runDeleters :: "env \<Rightarrow> machineset \<Rightarrow> machine list \<Rightarrow> go_error list io" where
  "runDeleters E ms machines = deleters E ms (2 * length machines) (map Deleting machines) []"

text \<open>\<open>make(chan error, diff)\<close> panics when the buffer, 16 bytes for each error, exceeds the address
  space (48 bits on amd64, less the header of the channel). A \<open>WaitGroup\<close> counts in 32 bits and
  panics below zero; \<open>Wait\<close> returns at zero. \<open>n\<close> goroutines call \<open>Done\<close>.\<close>

definition chanTooLarge :: "64 word \<Rightarrow> bool" where
  "chanTooLarge diff \<longleftrightarrow> 2 ^ 48 - 96 < sint diff * 16"

definition waitGroup :: "64 word \<Rightarrow> nat \<Rightarrow> unit blocking" where
  "waitGroup diff n = (let counter = sint (ucast diff :: 32 word) in
     if counter < int n then Some Panics
     else if counter > int n then None
     else finishes ())"

definition deleteReplicas :: "env \<Rightarrow> machineset \<Rightarrow> machine list \<Rightarrow> 64 word \<Rightarrow> go_error option blocking io" where
  "deleteReplicas E ms machinesToDelete diff =
     (if chanTooLarge diff \<or> sint (ucast diff :: 32 word) < 0 then ret (Some Panics)
      else do {
        errCh \<leftarrow> runDeleters E ms machinesToDelete;
        onReturn (ret (waitGroup diff (length machinesToDelete))) (\<lambda>_.
          case errCh of
            err # _ \<Rightarrow> ret (finishes (Some err))
          | [] \<Rightarrow> do { r \<leftarrow> waitForMachineDeletion E machinesToDelete; ret (finishes r) })
      })"

definition syncReplicas :: "env \<Rightarrow> machineset \<Rightarrow> machine list \<Rightarrow> go_error option blocking io" where
  "syncReplicas E ms machines = (let diff = of_nat (length machines) - msReplicas ms in
     if sint diff < 0 then (let diff = diff * (- 1) in do {
         (machineList, errstrings) \<leftarrow> createLoop E ms (nat (sint diff)) [] [];
         if length errstrings > 0 then ret (finishes (Some (PlainError (joinWith ''; '' errstrings))))
         else do { r \<leftarrow> waitForMachineCreation E machineList; ret (finishes r) }
       })
     else if sint diff > 0 then
       deleteReplicas E ms (getMachinesToDeletePrioritized E machines (sint diff) randomDeletePolicy) diff
     else ret (finishes None))"

section \<open>Status\<close>

definition calculateStatus :: "machineset \<Rightarrow> machine list \<Rightarrow> machineset_status" where
  "calculateStatus ms filteredMachines = (let
       templateLabel = selectorFromValidatedSet (templateLabels ms);
       fullyLabeledReplicasCount = length (filter (\<lambda>machine.
         selectorMatches templateLabel (omLabels (maMeta machine))) filteredMachines)
     in (msStatus ms)\<lparr>mssReplicas := of_nat (length filteredMachines),
          mssFullyLabeledReplicas := of_nat fullyLabeledReplicasCount\<rparr>)"

definition updateMachineSetStatus :: "env \<Rightarrow> machineset \<Rightarrow> string \<Rightarrow> string \<Rightarrow> string \<Rightarrow> string list
    \<Rightarrow> go_error option io" where
  "updateMachineSetStatus E machineSetInstance eventType event eventMessage args =
     onErr Some (k8sGetMachineSet E (objectKey (machineSetNamespace machineSetInstance)
       (machineSetName machineSetInstance))) (\<lambda>fresh. do {
       now \<leftarrow> timeNow E;
       onErr Some (k8sUpdateMachineSet E (fresh\<lparr>msStatus := (msStatus fresh)\<lparr>
           mssPhase := mssPhase (msStatus machineSetInstance),
           mssLastUpdated := Some now,
           mssReplicas := mssReplicas (msStatus machineSetInstance),
           mssFullyLabeledReplicas := mssFullyLabeledReplicas (msStatus machineSetInstance)\<rparr>\<rparr>)) (\<lambda>stored.
         if eventType \<noteq> '''' then do {
           _ \<leftarrow> recordEvent (OMachineSet stored) eventType event (formatQ eventMessage args);
           ret None
         } else ret None)
     })"

section \<open>Reconcile\<close>

definition FinalizerDeleteDependents :: string where
  "FinalizerDeleteDependents = ''foregroundDeletion''"

definition getClusterOfSet :: "env \<Rightarrow> string \<Rightarrow> string \<Rightarrow> (go_error + cluster) io" where
  "getClusterOfSet E name namespace = do {
     r \<leftarrow> k8sGetCluster E (objectKey namespace name);
     ret (case r of Inl err \<Rightarrow> Inl err | Inr cluster \<Rightarrow> Inr cluster)
   }"

definition setOwner :: "cluster \<Rightarrow> machineset \<Rightarrow> machineset" where
  "setOwner cluster machineSet =
     (if length (omOwnerReferences (msMeta machineSet)) = 0
      then machineSet\<lparr>msMeta := addOwner \<lparr>refAPIVersion = tmAPIVersion (clType cluster),
          refKind = tmKind (clType cluster), refName = clusterName cluster,
          refUID = omUID (clMeta cluster), refBlockOwnerDeletion = Some True, refController = None\<rparr>
          (msMeta machineSet)\<rparr>
      else machineSet)"

definition addFinalizer :: "machineset \<Rightarrow> machineset" where
  "addFinalizer machineSet = machineSet\<lparr>msMeta := (msMeta machineSet)\<lparr>
     omFinalizers := omFinalizers (msMeta machineSet) @ [FinalizerDeleteDependents]\<rparr>\<rparr>"

definition setPhase :: "machineset_phase \<Rightarrow> machineset \<Rightarrow> machineset" where
  "setPhase p machineSet = machineSet\<lparr>msStatus := (msStatus machineSet)\<lparr>mssPhase := p\<rparr>\<rparr>"

text \<open>The machine set is passed by pointer: it is returned with the result.\<close>

type_synonym set_reconciled = "(machineset \<times> reconcile_result \<times> go_error option) blocking"

definition syncAndReport :: "env \<Rightarrow> machineset \<Rightarrow> machine list \<Rightarrow> set_reconciled io" where
  "syncAndReport E machineSet filteredMachines =
     onReturn (syncReplicas E machineSet filteredMachines) (\<lambda>syncErr. do {
       let machineSet = setPhase (if syncErr = None then ReadyMachineSetPhase else ErrorMachineSetPhase) machineSet;
       let machineSet = machineSet\<lparr>msStatus := calculateStatus machineSet filteredMachines\<rparr>;
       updateErr \<leftarrow> updateMachineSetStatus E machineSet '''' ResourceStateChange MessageResourceStateChange
         [machineSetName machineSet, ReadyMachineSetPhase];
       case syncErr of
         Some err \<Rightarrow> ret (finishes (machineSet, noResult, Some (Wrapped ''failed to sync Machineset replicas'' err)))
       | None \<Rightarrow> (case updateErr of
             Some err \<Rightarrow> ret (finishes (machineSet, noResult, Some err))
           | None \<Rightarrow> ret (finishes (machineSet, noResult, None)))
     })"

definition reconcileMachineSet :: "env \<Rightarrow> machineset \<Rightarrow> set_reconciled io" where
  "reconcileMachineSet E machineSet = (let fails = (\<lambda>err. finishes (machineSet, noResult, Some err)) in
     onErr (fails \<circ> Wrapped ''failed to list machines'') (k8sListMachines E (machineSetNamespace machineSet))
       (\<lambda>allMachines.
     case ValidateMachineSet E machineSet of (validMachineSet, err) \<Rightarrow>
     if \<not> validMachineSet then ret (finishes (machineSet, noResult, err))
     else onErr fails (GetClusterFromNamespace E (machineSetNamespace machineSet)) (\<lambda>named.
     onErr fails (getClusterOfSet E (clusterName named) (machineSetNamespace machineSet)) (\<lambda>cluster.
     let machineSet = setOwner cluster machineSet in
     if timeIsZero (omDeletionTimestamp (msMeta machineSet))
       \<and> \<not> ContainsString (omFinalizers (msMeta machineSet)) FinalizerDeleteDependents
     then onErr (\<lambda>err. finishes (addFinalizer machineSet, noResult, Some err))
       (k8sUpdateMachineSet E (addFinalizer machineSet)) (\<lambda>stored. ret (finishes (stored, requeueNow, None)))
     else if \<not> timeIsZero (omDeletionTimestamp (msMeta machineSet))
     then ret (finishes (machineSet, noResult, None))
     else do {
       filteredMachines \<leftarrow> filterMachines E machineSet allMachines;
       syncAndReport E machineSet filteredMachines
     }))))"

definition ReconcileMachineSet :: "env \<Rightarrow> object_key \<Rightarrow> (reconcile_result \<times> go_error option) blocking io" where
  "ReconcileMachineSet E request = do {
     r \<leftarrow> k8sGetMachineSet E request;
     case r of
       Inl err \<Rightarrow> if isNotFound err then ret (finishes (noResult, None)) else ret (finishes (noResult, Some err))
     | Inr machineSet \<Rightarrow> onReturn (reconcileMachineSet E machineSet) (\<lambda>(machineSet, recResult, recErr).
         case recErr of
           None \<Rightarrow> ret (finishes (recResult, None))
         | Some err \<Rightarrow> do {
             _ \<leftarrow> recordEvent (OMachineSet machineSet) ''Warning'' ''ReconcileError''
               (''Reconcile Error: '' @ errorText err);
             ret (finishes (recResult, Some err))
           })
   }"

section \<open>The watch on machines\<close>

definition getMachineSetsForMachine :: "env \<Rightarrow> machine \<Rightarrow> machineset list io" where
  "getMachineSetsForMachine E m =
     (if length (omLabels (maMeta m)) = 0 then ret []
      else do {
        r \<leftarrow> k8sListMachineSets E (machineNamespace m);
        ret (case r of Inl err \<Rightarrow> [] | Inr items \<Rightarrow> filter (\<lambda>ms. hasMatchingLabels E ms m) items)
      })"

definition MachineToMachineSets :: "env \<Rightarrow> object_key \<Rightarrow> object_key list io" where
  "MachineToMachineSets E o' = do {
     r \<leftarrow> k8sGetMachine E o';
     case r of
       Inl err \<Rightarrow> ret []
     | Inr m \<Rightarrow>
         if list_ex (\<lambda>ref. refController ref = Some True) (machineOwners m) then ret []
         else do {
           mss \<leftarrow> getMachineSetsForMachine E m;
           ret (map (\<lambda>ms. objectKey (machineSetNamespace ms) (machineSetName ms)) mss)
         }
   }"

end
