(* ===== verification/Footprints.thy ===== *)
theory Footprints
  imports World
begin

text \<open>
  What a program adds to the trace, inside weakest preconditions: \<open>extends P t t'\<close> says that \<open>t'\<close> is
  \<open>t\<close> followed by events that all satisfy \<open>P\<close>.
\<close>

lemma wp_emits:
  assumes "emits P m"
  shows "wp m (\<lambda>_ t'. \<exists>es. t' = t @ es \<and> list_all P es) t"
proof (rule wpI)
  fix a t' assume "run_state m t = (a, t')"
  with assms obtain es where "t' = t @ es" "\<And>e. e \<in> set es \<Longrightarrow> P e" by (rule emitsD) blast
  then show "\<exists>es. t' = t @ es \<and> list_all P es" by (auto simp: list_all_iff)
qed

lemma wp_quiet:
  assumes "emits (\<lambda>e. \<not> P e) m"
  shows "wp m (\<lambda>_ t'. filter P t' = filter P t) t"
  by (rule wpI) (rule emits_filter [OF assms])

definition extends :: "(event \<Rightarrow> bool) \<Rightarrow> trace \<Rightarrow> trace \<Rightarrow> bool" where
  "extends P t t' \<longleftrightarrow> (\<exists>es. t' = t @ es \<and> list_all P es)"

lemma extends_refl [simp]: "extends P t t"
  by (simp add: extends_def)

lemma extends_append [simp]: "extends P t (t @ es) \<longleftrightarrow> list_all P es"
  by (simp add: extends_def)

lemma extends_snoc [simp]: "P e \<Longrightarrow> extends P t t' \<Longrightarrow> extends P t (t' @ [e])"
  by (auto simp: extends_def)

lemma extends_more: "extends P t t1 \<Longrightarrow> list_all P es \<Longrightarrow> extends P t (t1 @ es)"
  by (auto simp: extends_def)

lemma extends_mono: "extends P t t' \<Longrightarrow> (\<And>e. P e \<Longrightarrow> Q e) \<Longrightarrow> extends Q t t'"
  by (auto simp: extends_def elim!: list.pred_mono_strong)

lemma extends_trans: "extends P t t1 \<Longrightarrow> extends P t1 t2 \<Longrightarrow> extends P t t2"
  by (auto simp: extends_def)

lemma wp_extends: "emits P m \<Longrightarrow> extends P t t1 \<Longrightarrow> wp m (\<lambda>_. extends P t) t1"
  using wp_emits [of P m t1] by (auto simp: extends_def elim!: wp_mono)

text \<open>A program whose own events satisfy \<open>P\<close>, in front of the rest.\<close>

lemma wp_passing:
  "emits P m \<Longrightarrow> extends P t t1 \<Longrightarrow> (\<And>r t2. extends P t t2 \<Longrightarrow> Q r t2) \<Longrightarrow> wp m Q t1"
  by (rule wp_mono [OF wp_extends])

section \<open>Writes\<close>

fun isWrite :: "event \<Rightarrow> bool" where
  "isWrite (ECreate _ _) = True"
| "isWrite (EUpdate _ _) = True"
| "isWrite (EDelete _ _) = True"
| "isWrite _ = False"

abbreviation writes :: "trace \<Rightarrow> event list" where
  "writes t \<equiv> filter isWrite t"

lemma wp_noWrites:
  assumes "emits (\<lambda>e. \<not> isWrite e) m" and "\<And>r t'. writes t' = writes t \<Longrightarrow> Q r t'"
  shows "wp m Q t"
  by (rule wp_mono [OF wp_quiet [OF assms(1)]]) (rule assms(2))

end
