(* ===== verification/Adoption.thy ===== *)
theory Adoption
  imports Footprints
begin

text \<open>
  Adoption: the cluster controller and the machine set controller both take over machines that have
  no controller, by adding a controller reference to themselves and storing the machine. The locale
  states what both rely on.
\<close>

text \<open>The API server keeps the metadata it is sent.\<close>

definition storesMeta :: "env \<Rightarrow> bool" where
  "storesMeta E \<longleftrightarrow> (\<forall>t m m'. envUpdateMachine E t m = Inr m' \<longrightarrow> maMeta m' = maMeta m)"

definition adoptedBy :: "owner_reference \<Rightarrow> machine \<Rightarrow> machine" where
  "adoptedBy ref m = m\<lparr>maMeta := addOwner ref (maMeta m)\<rparr>"

lemma adoptedBy_meta [simp]:
  "maMeta (adoptedBy ref m) = addOwner ref (maMeta m)" "maStatus (adoptedBy ref m) = maStatus m"
  "maSpec (adoptedBy ref m) = maSpec m"
  by (simp_all add: adoptedBy_def)

lemma addOwner_simps [simp]:
  "omLabels (addOwner ref om) = omLabels om" "omDeletionTimestamp (addOwner ref om) = omDeletionTimestamp om"
  "omName (addOwner ref om) = omName om" "omNamespace (addOwner ref om) = omNamespace om"
  "omUID (addOwner ref om) = omUID om" "omFinalizers (addOwner ref om) = omFinalizers om"
  by (simp_all add: addOwner_def)

text \<open>The writes of an adopter: only machines of the list that have no controller, each with the
  one reference added.\<close>

fun adoptionOf :: "owner_reference \<Rightarrow> machine list \<Rightarrow> event \<Rightarrow> bool" where
  "adoptionOf ref ms (EUpdate ob _) \<longleftrightarrow>
     (\<exists>m \<in> set ms. getControllerOf (maMeta m) = None \<and> ob = OMachine (adoptedBy ref m))"
| "adoptionOf ref ms _ \<longleftrightarrow> False"

lemma adoptionOf_mono: "adoptionOf ref ms e \<Longrightarrow> set ms \<subseteq> set ms' \<Longrightarrow> adoptionOf ref ms' e"
  by (cases e) auto

locale adopter =
  fixes E :: env and owner :: object_meta and ref :: owner_reference
    and adopt :: "machine \<Rightarrow> (go_error + machine) io"
  assumes ref_controls: "isControllerRef ref" and ref_owner: "refUID ref = omUID owner"
    and adopt_stores: "adopt m = k8sUpdateMachine E (adoptedBy ref m)"
begin

lemma adopted_controlled:
  "getControllerOf (maMeta m) = None \<Longrightarrow> getControllerOf (maMeta (adoptedBy ref m)) = Some ref"
  using ref_controls by (simp add: addOwner_def getControllerOf_append)

lemma adopted_owned:
  "getControllerOf (maMeta m) = None \<Longrightarrow> isControlledBy (maMeta (adoptedBy ref m)) owner"
  using adopted_controlled [of m] ref_owner by (simp add: isControlledBy_def)

lemma wp_adopt:
  assumes "storesMeta E" and "getControllerOf (maMeta m) = None" and "m \<in> set ms" and "extends (adoptionOf ref ms) t t1"
  shows "wp (adopt m) (\<lambda>r t'. extends (adoptionOf ref ms) t t'
     \<and> (\<forall>m'. r = Inr m' \<longrightarrow> maMeta m' = addOwner ref (maMeta m) \<and> isControlledBy (maMeta m') owner)) t1"
proof -
  have "adoptionOf ref ms (EUpdate (OMachine (adoptedBy ref m)) u)" for u
    using assms(2,3) by auto
  then show ?thesis
    using assms(1,2,4) adopted_owned [of m]
    by (simp add: adopt_stores k8sUpdateMachine_def storesMeta_def)
qed

text \<open>Two adopters never fight over a machine: what one has adopted is no orphan for the other.\<close>

lemma adopted_is_no_orphan:
  "getControllerOf (maMeta m) = None \<Longrightarrow> getControllerOf (maMeta (adoptedBy ref m)) \<noteq> None"
  by (simp add: adopted_controlled del: adoptedBy_meta)

end

end
