(* ===== verification/MachineSet_Claims.thy ===== *)
theory MachineSet_Claims
  imports MachineSet Adoption
begin

text \<open>
  Which machines a machine set counts, adopts and creates: the filter keeps what belongs to the set,
  it never takes a machine from another controller, and the machines the set creates are among those
  it will count, unless its selector is empty.
\<close>

interpretation set_adopter: adopter E "msMeta ms" "machineSetRef ms" "adoptOrphan E ms" for E ms
  by unfold_locales (simp_all add: machineSetRef_def adoptOrphan_def adoptedBy_def)

section \<open>Matching\<close>

lemma hasMatchingLabels_iff:
  "hasMatchingLabels E ms m \<longleftrightarrow> (\<exists>sel. LabelSelectorAsSelector E (msSelector ms) = Inr sel)
     \<and> (lsMatchLabels (msSelector ms) \<noteq> [] \<or> lsMatchExpressions (msSelector ms) \<noteq> [])
     \<and> selects (msSelector ms) (omLabels (maMeta m))"
  by (auto simp: hasMatchingLabels_def LabelSelectorAsSelector_ok split: sum.split)

lemma ValidateMachineSet_iff:
  "fst (ValidateMachineSet E ms) \<longleftrightarrow> (\<exists>sel. LabelSelectorAsSelector E (msSelector ms) = Inr sel)
     \<and> selects (msSelector ms) (templateLabels ms)"
  "snd (ValidateMachineSet E ms) = None \<longleftrightarrow> fst (ValidateMachineSet E ms)"
  by (auto simp: ValidateMachineSet_def LabelSelectorAsSelector_ok split: sum.split)

definition belongs :: "env \<Rightarrow> machineset \<Rightarrow> machine \<Rightarrow> bool" where
  "belongs E ms m \<longleftrightarrow> isControlledBy (maMeta m) (msMeta ms) \<and> omDeletionTimestamp (maMeta m) = None
     \<and> hasMatchingLabels E ms m"

lemma not_excluded_iff:
  "\<not> shouldExcludeMachine E ms m \<longleftrightarrow>
     (getControllerOf (maMeta m) = None \<or> isControlledBy (maMeta m) (msMeta ms))
     \<and> omDeletionTimestamp (maMeta m) = None \<and> hasMatchingLabels E ms m"
  by (auto simp: shouldExcludeMachine_def)

lemma hasMatchingLabels_cong:
  "omLabels (maMeta m) = omLabels (maMeta m') \<Longrightarrow> hasMatchingLabels E ms m = hasMatchingLabels E ms m'"
  by (simp add: hasMatchingLabels_def cong: sum.case_cong)

section \<open>Claiming\<close>

lemma filterMachines_law:
  assumes E: "storesMeta E"
  shows "set machines \<subseteq> set ms' \<Longrightarrow> extends (adoptionOf (machineSetRef ms) ms') t t1 \<Longrightarrow>
    wp (filterMachines E ms machines) (\<lambda>r t'. list_all (belongs E ms) r
      \<and> length r \<le> length machines
      \<and> extends (adoptionOf (machineSetRef ms) ms') t t') t1"
proof (induction machines arbitrary: t1)
  case Nil
  then show ?case by simp
next
  case (Cons m machines)
  let ?P = "adoptionOf (machineSetRef ms) ms'"
  have IH: "wp (filterMachines E ms machines) (\<lambda>r t'. list_all (belongs E ms) r \<and> length r \<le> length machines
      \<and> extends ?P t t') t2" if "extends ?P t t2" for t2
    using Cons that by simp
  have skip: "wp (filterMachines E ms machines) (\<lambda>r t'. list_all (belongs E ms) r
      \<and> length r \<le> length (m # machines) \<and> extends ?P t t') t2" if "extends ?P t t2" for t2
    by (rule wp_mono [OF IH [OF that]]) simp
  have keep: "wp (filterMachines E ms machines) (\<lambda>r t'. list_all (belongs E ms) (m' # r)
      \<and> length (m' # r) \<le> length (m # machines) \<and> extends ?P t t') t2"
    if "extends ?P t t2" and "belongs E ms m'" for t2 m'
    by (rule wp_mono [OF IH [OF that(1)]]) (use that in simp)
  show ?case
  proof (cases "shouldExcludeMachine E ms m")
    case True
    with skip [OF Cons.prems(2)] show ?thesis by simp
  next
    case False
    show ?thesis
    proof (cases "getControllerOf (maMeta m) = None")
      case True
      with Cons.prems have "wp (adoptOrphan E ms m) (\<lambda>r t'. extends ?P t t'
         \<and> (\<forall>m'. r = Inr m' \<longrightarrow> maMeta m' = addOwner (machineSetRef ms) (maMeta m)
              \<and> isControlledBy (maMeta m') (msMeta ms))) t1"
        by (intro set_adopter.wp_adopt [OF E]) simp_all
      moreover have "belongs E ms m'" if "maMeta m' = addOwner (machineSetRef ms) (maMeta m)"
        "isControlledBy (maMeta m') (msMeta ms)" for m'
        using that False hasMatchingLabels_cong [of m' m E ms] by (simp add: belongs_def not_excluded_iff)
      ultimately show ?thesis
        using False True skip IH
        by simp (erule wp_mono, auto split: sum.split)
    next
      case controlled: False
      with False have "belongs E ms m" by (auto simp: belongs_def not_excluded_iff)
      with False controlled keep [OF Cons.prems(2)] show ?thesis by auto
    qed
  qed
qed

text \<open>The machines a machine set counts as its replicas are controlled by it, carry labels that its
  selector matches and are not being deleted; to get there it stores machines only to add its own
  controller reference to some that had no controller: it takes none from another owner.\<close>

theorem filterMachines_claims:
  assumes "storesMeta E"
  shows "wp (filterMachines E ms machines) (\<lambda>r t'. list_all (belongs E ms) r
      \<and> length r \<le> length machines
      \<and> extends (adoptionOf (machineSetRef ms) machines) t t') t"
  by (rule filterMachines_law [OF assms]) simp_all

section \<open>Creating\<close>

text \<open>A machine that a validated machine set creates is one it will count, if its template is not
  marked as deleted; a machine set whose selector is empty passes validation too, but counts
  nothing.\<close>

lemma createMachine_belongs:
  assumes "fst (ValidateMachineSet E ms)" and "omDeletionTimestamp (mtMeta (msTemplate ms)) = None"
    and "lsMatchLabels (msSelector ms) \<noteq> [] \<or> lsMatchExpressions (msSelector ms) \<noteq> []"
  shows "belongs E ms (createMachine ms)" and "\<not> shouldExcludeMachine E ms (createMachine ms)"
proof -
  have "getControllerOf (maMeta (createMachine ms)) = Some (machineSetRef ms)"
    by (simp add: createMachine_def getControllerOf_def machineSetRef_def)
  then have "isControlledBy (maMeta (createMachine ms)) (msMeta ms)"
    by (simp add: isControlledBy_def machineSetRef_def)
  with assms show "belongs E ms (createMachine ms)"
    by (simp add: belongs_def hasMatchingLabels_iff ValidateMachineSet_iff createMachine_def)
  then show "\<not> shouldExcludeMachine E ms (createMachine ms)"
    by (simp add: belongs_def not_excluded_iff)
qed

definition emptySelector :: "machineset \<Rightarrow> bool" where
  "emptySelector ms \<longleftrightarrow> lsMatchLabels (msSelector ms) = [] \<and> lsMatchExpressions (msSelector ms) = []"

lemma emptySelector_valid: "emptySelector ms \<Longrightarrow> ValidateMachineSet E ms = (True, None)"
  by (simp add: ValidateMachineSet_def LabelSelectorAsSelector_def emptySelector_def)

lemma emptySelector_counts_nothing: "emptySelector ms \<Longrightarrow> filterMachines E ms machines = ret []"
  by (induction machines) (auto simp: shouldExcludeMachine_def hasMatchingLabels_iff emptySelector_def)

section \<open>A machine set\<close>

text \<open>A pool of workers with the given selector and number of replicas, for the witnesses.\<close>

definition workerPool :: "string go_map \<Rightarrow> 64 word \<Rightarrow> machineset" where
  "workerPool sel replicas = \<lparr>msType = zero_type_meta,
     msMeta = zero_object_meta\<lparr>omName := ''pool'', omNamespace := ''ns'', omUID := ''7'',
       omFinalizers := [''foregroundDeletion'']\<rparr>,
     msReplicas = replicas, msSelector = \<lparr>lsMatchLabels = sel, lsMatchExpressions = []\<rparr>,
     msTemplate = \<lparr>mtMeta = zero_object_meta\<lparr>omLabels := [(''node-pool'', ''pool'')]\<rparr>, mtSpec = zero_machine_spec\<rparr>,
     msStatus = \<lparr>mssLastUpdated = None, mssPhase = '''', mssReplicas = 0, mssFullyLabeledReplicas = 0,
       mssReadyReplicas = 0, mssObservedGeneration = 0, mssErrorReason = None, mssErrorMessage = None\<rparr>\<rparr>"

lemma workerPool_simps [simp]:
  "msReplicas (workerPool sel n) = n" "msSelector (workerPool sel n) = \<lparr>lsMatchLabels = sel, lsMatchExpressions = []\<rparr>"
  "omDeletionTimestamp (msMeta (workerPool sel n)) = None" "machineSetNamespace (workerPool sel n) = ''ns''"
  "machineSetName (workerPool sel n) = ''pool''" "omFinalizers (msMeta (workerPool sel n)) = [''foregroundDeletion'']"
  by (simp_all add: workerPool_def zero_object_meta_def)

definition poolWorker :: machine where
  "poolWorker = zero_machine\<lparr>maMeta := zero_object_meta\<lparr>omName := ''w'', omNamespace := ''ns'',
     omLabels := [(''node-pool'', ''pool'')]\<rparr>\<rparr>"

text \<open>A store that keeps what it is sent.\<close>

definition keeping :: env where
  "keeping = offline\<lparr>envUpdateMachine := \<lambda>_ m. Inr m, envSort := insertionSort\<rparr>"

lemma keeping_laws [simp]: "storesMeta keeping" "sorts keeping"
  by (simp add: storesMeta_def keeping_def, unfold keeping_def, rule insertionSort_sorts)

lemma workerPool_matches:
  assumes "envLabelKey E = (\<lambda>_. None)" and "envLabelValue E = (\<lambda>_. None)"
  shows "hasMatchingLabels E (workerPool [(''node-pool'', ''pool'')] n) poolWorker"
  using assms
  by (simp add: hasMatchingLabels_iff LabelSelectorAsSelector_def NewRequirement_def operatorCheck_def
      selects_def poolWorker_def zero_object_meta_def goGet_def)

theorem filterMachines_claims_witness:
  "wp (filterMachines keeping (workerPool [(''node-pool'', ''pool'')] 1) [poolWorker])
     (\<lambda>r t'. list_all (belongs keeping (workerPool [(''node-pool'', ''pool'')] 1)) r \<and> length r \<le> 1
      \<and> extends (adoptionOf (machineSetRef (workerPool [(''node-pool'', ''pool'')] 1)) [poolWorker]) [] t') []"
  using filterMachines_claims [of keeping "workerPool [(''node-pool'', ''pool'')] 1" "[poolWorker]" "[]"] by simp

end
