(* ===== verification/MachineSet_Scaling.thy ===== *)
theory MachineSet_Scaling
  imports MachineSet_Claims
begin

text \<open>
  Scaling: how many machines a machine set creates or deletes, that its goroutines delete each of
  the chosen machines exactly once in every interleaving, when the call returns, and the replica
  counts it reports.
\<close>

section \<open>Counting\<close>

abbreviation creationsOf :: "machineset \<Rightarrow> go_error option list \<Rightarrow> event list" where
  "creationsOf ms us \<equiv> map (ECreate (OMachine (createMachine ms))) us"

abbreviation deletionsOf :: "(machine \<times> go_error option) list \<Rightarrow> event list" where
  "deletionsOf ds \<equiv> map (\<lambda>(m, u). EDelete (OMachine m) u) ds"

fun failures :: "go_error option list \<Rightarrow> nat" where
  "failures [] = 0"
| "failures (None # us) = failures us"
| "failures (Some _ # us) = Suc (failures us)"

lemma failures_0_iff: "failures us = 0 \<longleftrightarrow> set us \<subseteq> {None}"
  by (induction us rule: failures.induct) auto

lemma waits_write_nothing [safe_intros]:
  "emits (\<lambda>e. \<not> isWrite e) (waitForMachineCreation E ml)"
  "emits (\<lambda>e. \<not> isWrite e) (waitForMachineDeletion E ml)"
  by (induction ml)
     (auto simp: machineCreated_def machineDeleted_def k8sGetMachine_def Let_def intro!: safe_intros)

section \<open>Creating\<close>

lemma createLoop_law:
  "wp (createLoop E ms n ml es) (\<lambda>(ml', es') t'. \<exists>us. writes t' = writes t @ creationsOf ms us
     \<and> length us = n \<and> length es' = length es + failures us) t"
proof (induction n arbitrary: ml es t)
  case 0
  then show ?case by simp
next
  case (Suc n)
  have step: "wp (createLoop E ms n ml' es') (\<lambda>(ml', es'') t'. \<exists>us. writes t' = writes t @ creationsOf ms us
     \<and> length us = Suc n \<and> length es'' = length es + failures us) t1"
    if "writes t1 = writes t @ [ECreate (OMachine (createMachine ms)) u]"
      and "length es' = length es + failures [u]" for t1 u ml' es'
  proof (rule wp_mono [OF Suc.IH [of ml' es' t1]], clarify)
    fix ml'' es'' t' and us :: "go_error option list"
    assume "writes t' = writes t1 @ creationsOf ms us"
      and "length es'' = length es' + failures us"
    with that show "\<exists>vs. writes t' = writes t @ creationsOf ms vs \<and> length vs = Suc (length us)
      \<and> length es'' = length es + failures vs"
      by (intro exI [of _ "u # us"]) (cases u; simp)
  qed
  show ?case
    by (auto simp: k8sCreateMachine_def recordEvent_def Let_def split: sum.split intro!: step)
qed

section \<open>Deleting\<close>

text \<open>What the goroutines still have to do: their steps, the machines not yet deleted, the errors not
  yet sent.\<close>

fun stepsOf :: "deleter \<Rightarrow> nat" where
  "stepsOf (Deleting _) = 2"
| "stepsOf (Reporting _ _) = 1"

fun machineOf :: "deleter \<Rightarrow> machine multiset" where
  "machineOf (Deleting m) = {#m#}"
| "machineOf (Reporting _ _) = {#}"

fun errorOf :: "deleter \<Rightarrow> go_error multiset" where
  "errorOf (Reporting _ (Some err)) = {#err#}"
| "errorOf _ = {#}"

lemma sum_list_split:
  fixes f :: "'a \<Rightarrow> 'b :: comm_monoid_add"
  assumes "i < length gs"
  shows "sum_list (map f gs) = f (gs ! i) + sum_list (map f (without i gs))"
    and "sum_list (map f (gs[i := x])) = f x + sum_list (map f (without i gs))"
proof -
  have "gs = take i gs @ gs ! i # drop (Suc i) gs" using assms by (rule id_take_nth_drop)
  then have "sum_list (map f gs) = sum_list (map f (take i gs @ gs ! i # drop (Suc i) gs))" by simp
  then show "sum_list (map f gs) = f (gs ! i) + sum_list (map f (without i gs))"
    by (simp add: without_def ac_simps del: append_take_drop_id)
  show "sum_list (map f (gs[i := x])) = f x + sum_list (map f (without i gs))"
    using assms by (simp add: without_def upd_conv_take_nth_drop ac_simps)
qed

lemma deleters_law:
  "steps = sum_list (map stepsOf gs) \<Longrightarrow>
   wp (deleters E ms steps gs errCh) (\<lambda>r t'. \<exists>ds. writes t' = writes t @ deletionsOf ds
     \<and> image_mset fst (mset ds) = sum_list (map machineOf gs)
     \<and> mset r = mset errCh + sum_list (map errorOf gs) + mset (List.map_filter snd ds)) t"
proof (induction steps arbitrary: gs errCh t)
  case 0
  then have "gs = []" by (cases gs; cases "hd gs") auto
  then show ?case by simp
next
  case (Suc steps)
  then have "gs \<noteq> []" by auto
  let ?i = "envPick E t mod length gs"
  have i: "?i < length gs" using \<open>gs \<noteq> []\<close> by simp
  have left: "steps = stepsOf (gs ! ?i) + sum_list (map stepsOf (without ?i gs)) - 1"
    using Suc.prems sum_list_split(1) [OF i, of stepsOf] by simp
  show ?case
  proof (cases "gs ! ?i")
    case (Deleting m)
    let ?t = "t @ [ESchedule ?i]"
    let ?u = "envDelete E ?t (OMachine m)"
    let ?gs = "gs[?i := Reporting m ?u]"
    have "steps = sum_list (map stepsOf ?gs)"
      using left Deleting by (simp add: sum_list_split(2) [OF i])
    then have "wp (deleters E ms steps ?gs errCh) (\<lambda>r t'. \<exists>ds. writes t' = writes (?t @ [EDelete (OMachine m) ?u]) @ deletionsOf ds
        \<and> image_mset fst (mset ds) = sum_list (map machineOf ?gs)
        \<and> mset r = mset errCh + sum_list (map errorOf ?gs) + mset (List.map_filter snd ds)) (?t @ [EDelete (OMachine m) ?u])"
      by (rule Suc.IH)
    then have "wp (deleters E ms steps ?gs errCh) (\<lambda>r t'. \<exists>ds. writes t' = writes t @ deletionsOf ds
        \<and> image_mset fst (mset ds) = sum_list (map machineOf gs)
        \<and> mset r = mset errCh + sum_list (map errorOf gs) + mset (List.map_filter snd ds)) (?t @ [EDelete (OMachine m) ?u])"
    proof (rule wp_mono, clarify)
      fix r t' ds
      assume "writes t' = writes (?t @ [EDelete (OMachine m) ?u]) @ deletionsOf ds"
        and "image_mset fst (mset ds) = sum_list (map machineOf ?gs)"
        and "mset r = mset errCh + sum_list (map errorOf ?gs) + mset (List.map_filter snd ds)"
      then show "\<exists>ds. writes t' = writes t @ deletionsOf ds
        \<and> image_mset fst (mset ds) = sum_list (map machineOf gs)
        \<and> mset r = mset errCh + sum_list (map errorOf gs) + mset (List.map_filter snd ds)"
        using Deleting
        by (intro exI [of _ "(m, ?u) # ds"])
           (cases ?u; simp add: sum_list_split [OF i] List.map_filter_simps)
    qed
    with Deleting show ?thesis by (simp add: schedule_def k8sDelete_def)
  next
    case (Reporting m u)
    have steps: "steps = sum_list (map stepsOf (without ?i gs))"
      using left Reporting by simp
    have step: "wp (deleters E ms steps (without ?i gs) errCh') (\<lambda>r t'. \<exists>ds. writes t' = writes t @ deletionsOf ds
        \<and> image_mset fst (mset ds) = sum_list (map machineOf gs)
        \<and> mset r = mset errCh + sum_list (map errorOf gs) + mset (List.map_filter snd ds)) t1"
      if "writes t1 = writes t" "mset errCh' = mset errCh + errorOf (Reporting m u)" for t1 errCh'
      using Suc.IH [OF steps, of errCh' t1] that Reporting
      by (simp add: sum_list_split(1) [OF i] ac_simps)
    show ?thesis
      using Reporting
      by (cases u) (auto simp: schedule_def recordEvent_def intro!: step)
  qed
qed

text \<open>Every interleaving deletes each machine exactly once, ends, and leaves in the channel exactly
  the errors of the deletions that failed.\<close>

lemma runDeleters_law:
  "wp (runDeleters E ms machines) (\<lambda>r t'. \<exists>ds. writes t' = writes t @ deletionsOf ds
     \<and> image_mset fst (mset ds) = mset machines \<and> mset r = mset (List.map_filter snd ds)) t"
proof -
  have "2 * length machines = sum_list (map stepsOf (map Deleting machines))"
    by (induction machines) simp_all
  moreover have "sum_list (map machineOf (map Deleting machines)) = mset machines"
    by (induction machines) simp_all
  moreover have "sum_list (map errorOf (map Deleting machines)) = {#}"
    by (induction machines) simp_all
  ultimately show ?thesis
    unfolding runDeleters_def using deleters_law [of "2 * length machines" "map Deleting machines" E ms "[]" t]
    by simp
qed

section \<open>Words\<close>

lemma sint_diff:
  assumes "- (2 ^ 63) \<le> int n - sint r" and "int n - sint r < 2 ^ 63"
  shows "sint (of_nat n - r :: 64 word) = int n - sint r"
proof -
  have "of_nat n - r = (word_of_int (int n - sint r) :: 64 word)" by simp
  with assms show ?thesis
    by (simp only: sint_sbintrunc') (simp add: signed_take_bit_int_eq_self)
qed

lemma sint_neg:
  assumes "- (2 ^ 63) < sint d"
  shows "sint (d * (- 1) :: 64 word) = - sint d"
proof -
  have "sint d < 2 ^ 63" using sint_lt [of d] by simp
  have "d * (- 1) = (word_of_int (- sint d) :: 64 word)" by simp
  with assms \<open>sint d < 2 ^ 63\<close> show ?thesis
    by (simp only: sint_sbintrunc') (simp add: signed_take_bit_int_eq_self)
qed

lemma sint_count:
  assumes "0 < sint (d :: 64 word)" and "sint d < 2 ^ 31"
  shows "sint (ucast d :: 32 word) = sint d"
proof -
  have "ucast d = (word_of_int (sint d) :: 32 word)"
    by transfer (simp add: take_bit_signed_take_bit)
  with assms show ?thesis
    by (simp only: sint_sbintrunc') (simp add: signed_take_bit_int_eq_self)
qed

section \<open>Scaling\<close>

text \<open>What a machine set that has \<open>machines\<close> writes to come to its number of replicas.\<close>

definition scaled :: "env \<Rightarrow> machineset \<Rightarrow> machine list \<Rightarrow> go_error option \<Rightarrow> event list \<Rightarrow> bool" where
  "scaled E ms machines err ws = (let n = int (length machines); replicas = sint (msReplicas ms) in
     if n < replicas
     then \<exists>us. ws = creationsOf ms us \<and> int (length us) = replicas - n \<and> (err = None \<longrightarrow> set us \<subseteq> {None})
     else \<exists>ds. ws = deletionsOf ds \<and> int (length ds) = n - replicas
       \<and> image_mset fst (mset ds) = mset (getMachinesToDeletePrioritized E machines (n - replicas) randomDeletePolicy)
       \<and> (err = None \<longrightarrow> set (map snd ds) \<subseteq> {None}))"

lemma map_filter_snd_Nil: "List.map_filter snd ds = [] \<longleftrightarrow> set (map snd ds) \<subseteq> {None}"
  by (induction ds) (auto simp: List.map_filter_simps split: option.splits)

lemma scaled_up:
  assumes "int (length machines) < sint (msReplicas ms)"
    and "length us = nat (sint (msReplicas ms) - int (length machines))" and "err = None \<Longrightarrow> failures us = 0"
  shows "scaled E ms machines err (creationsOf ms us)"
  using assms unfolding scaled_def Let_def failures_0_iff
  by (simp only: if_True) (intro exI [of _ us], simp)

lemma scaled_down:
  assumes "sint (msReplicas ms) \<le> int (length machines)"
    and "int (length ds) = int (length machines) - sint (msReplicas ms)"
    and "image_mset fst (mset ds) = mset (getMachinesToDeletePrioritized E machines
      (int (length machines) - sint (msReplicas ms)) randomDeletePolicy)"
    and "err = None \<Longrightarrow> set (map snd ds) \<subseteq> {None}"
  shows "scaled E ms machines err (deletionsOf ds)"
  using assms unfolding scaled_def Let_def
  by (simp only: linorder_not_less [THEN iffD2] if_False) (intro exI [of _ ds], simp)

lemma deleteReplicas_law:
  assumes d: "0 < sint diff" "sint diff < 2 ^ 31" and n: "int (length machines) \<le> sint diff"
  shows "wp (deleteReplicas E ms machines diff) (\<lambda>r t'. \<exists>ds. writes t' = writes t @ deletionsOf ds
     \<and> image_mset fst (mset ds) = mset machines
     \<and> (if int (length machines) = sint diff
        then \<exists>err. r = finishes err \<and> (err = None \<longrightarrow> set (map snd ds) \<subseteq> {None})
        else r = None)) t"
proof -
  have count: "sint (ucast diff :: 32 word) = sint diff" by (rule sint_count [OF d])
  have small: "\<not> chanTooLarge diff" using d by (simp add: chanTooLarge_def)
  have wait: "wp (waitForMachineDeletion E machines) (\<lambda>r t'. \<exists>ds. writes t' = writes t @ deletionsOf ds
      \<and> image_mset fst (mset ds) = mset machines \<and> set (map snd ds) \<subseteq> {None}) t1"
    if "writes t1 = writes t @ deletionsOf ds" "image_mset fst (mset ds) = mset machines"
      "set (map snd ds) \<subseteq> {None}" for t1 ds
    by (rule wp_noWrites [OF waits_write_nothing(2)]) (use that in auto)
  show ?thesis
  proof (cases "int (length machines) = sint diff")
    case True
    then have wg: "waitGroup diff (length machines) = finishes ()" by (simp add: waitGroup_def count)
    have "wp (case errCh of [] \<Rightarrow> waitForMachineDeletion E machines \<bind> (\<lambda>r. ret (finishes r))
          | err # _ \<Rightarrow> ret (finishes (Some err)))
        (\<lambda>r t'. \<exists>ds. writes t' = writes t @ deletionsOf ds \<and> image_mset fst (mset ds) = mset machines
          \<and> (\<exists>err. r = finishes err \<and> (err = None \<longrightarrow> set (map snd ds) \<subseteq> {None}))) t1"
      if "writes t1 = writes t @ deletionsOf ds" "image_mset fst (mset ds) = mset machines"
        "mset errCh = mset (List.map_filter snd ds)" for errCh t1 ds
    proof (cases errCh)
      case Nil
      with that(3) have "List.map_filter snd ds = []" by simp
      then have "set (map snd ds) \<subseteq> {None}" by (simp only: map_filter_snd_Nil)
      from wait [OF that(1,2) this] Nil show ?thesis by simp (erule wp_mono, blast)
    next
      case (Cons err errs)
      with that(1,2) show ?thesis by simp blast
    qed
    with True d small count wg show ?thesis
      unfolding deleteReplicas_def
      by simp (rule wp_mono [OF runDeleters_law], blast)
  next
    case False
    with n have "waitGroup diff (length machines) = None" by (simp add: waitGroup_def count)
    with False d small count show ?thesis
      unfolding deleteReplicas_def
      by simp (rule wp_mono [OF runDeleters_law], blast)
  qed
qed

lemma syncReplicas_up:
  assumes less: "int (length machines) < sint (msReplicas ms)"
  shows "wp (syncReplicas E ms machines)
     (\<lambda>r t'. \<exists>err ws. r = finishes err \<and> writes t' = writes t @ ws \<and> scaled E ms machines err ws) t"
proof -
  let ?n = "int (length machines)" and ?R = "sint (msReplicas ms)"
  let ?diff = "of_nat (length machines) - msReplicas ms :: 64 word"
  have R: "?R < 2 ^ 63" using sint_lt [of "msReplicas ms"] by simp
  have diff: "sint ?diff = ?n - ?R" by (rule sint_diff) (use R less in auto)
  then have neg: "sint (?diff * (- 1)) = ?R - ?n" using R by (subst sint_neg) auto
  have wait: "wp (waitForMachineCreation E ml) (\<lambda>r t'. \<exists>ws. writes t' = writes t @ ws \<and> scaled E ms machines r ws) t1"
    if "writes t1 = writes t @ creationsOf ms us" "length us = nat (?R - ?n)" "failures us = 0" for t1 us ml
    by (rule wp_noWrites [OF waits_write_nothing(1)])
       (use that less in \<open>auto intro!: scaled_up\<close>)
  have loop: "wp (createLoop E ms (nat (?R - ?n)) [] []) (\<lambda>(ml', es') t'. \<exists>us. writes t' = writes t @ creationsOf ms us
     \<and> length us = nat (?R - ?n) \<and> length es' = failures us) t"
    by (rule wp_mono [OF createLoop_law]) auto
  have "wp (syncReplicas E ms machines) (\<lambda>r t'. \<exists>err. r = finishes err
      \<and> (\<exists>ws. writes t' = writes t @ ws \<and> scaled E ms machines err ws)) t"
    using less diff neg
    unfolding syncReplicas_def Let_def
    by simp (rule wp_mono [OF loop], auto intro!: wp_mono [OF wait] scaled_up)
  then show ?thesis by (rule wp_mono) blast
qed

lemma syncReplicas_law:
  assumes sorts: "sorts E" and replicas: "0 \<le> sint (msReplicas ms)" and len: "length machines < 2 ^ 31"
  shows "wp (syncReplicas E ms machines)
     (\<lambda>r t'. \<exists>err ws. r = finishes err \<and> writes t' = writes t @ ws \<and> scaled E ms machines err ws) t"
proof -
  let ?n = "int (length machines)" and ?R = "sint (msReplicas ms)"
  let ?diff = "of_nat (length machines) - msReplicas ms :: 64 word"
  have R: "?R < 2 ^ 63" using sint_lt [of "msReplicas ms"] by simp
  have diff: "sint ?diff = ?n - ?R" by (rule sint_diff) (use R replicas len in auto)
  consider "?n < ?R" | "?n = ?R" | "?R < ?n" by linarith
  then show ?thesis
  proof cases
    case 1
    then show ?thesis by (rule syncReplicas_up)
  next
    case 2
    moreover from 2 have "machines = []" if "?R \<le> 0" using that by (cases machines) auto
    ultimately show ?thesis using diff
      by (simp add: syncReplicas_def scaled_def getMachinesToDeletePrioritized_def Let_def)
  next
    case 3
    let ?del = "getMachinesToDeletePrioritized E machines (?n - ?R) randomDeletePolicy"
    have del: "length ?del = nat (?n - ?R)" using replicas 3 by (simp add: length_getMachinesToDelete [OF sorts])
    have "wp (deleteReplicas E ms ?del ?diff) (\<lambda>r t'. \<exists>ds. writes t' = writes t @ deletionsOf ds
       \<and> image_mset fst (mset ds) = mset ?del
       \<and> (if int (length ?del) = sint ?diff
          then \<exists>err. r = finishes err \<and> (err = None \<longrightarrow> set (map snd ds) \<subseteq> {None}) else r = None)) t"
      by (rule deleteReplicas_law) (use 3 diff replicas len del in auto)
    then have "wp (deleteReplicas E ms ?del ?diff) (\<lambda>r t'. \<exists>err ws. r = finishes err \<and> writes t' = writes t @ ws
        \<and> scaled E ms machines err ws) t"
    proof (rule wp_mono, clarify)
      fix r :: "go_error option blocking" and t' ds
      assume "image_mset fst (mset ds) = mset ?del" and w: "writes t' = writes t @ deletionsOf ds"
        and r: "if int (length ?del) = sint ?diff
          then \<exists>err. r = finishes err \<and> (err = None \<longrightarrow> set (map snd ds) \<subseteq> {None}) else r = None"
      moreover from this(1) have "length ds = length ?del" by (metis size_image_mset size_mset)
      ultimately show "\<exists>err ws. r = finishes err \<and> writes t' = writes t @ ws \<and> scaled E ms machines err ws"
        using 3 diff del by (fastforce intro!: scaled_down)
    qed
    with 3 diff show ?thesis by (simp add: syncReplicas_def)
  qed
qed


text \<open>C5: A machine set with a number of replicas that is not negative comes to it: when it has too few
  machines it sends exactly the missing ones to the API server, each made from its template; when it
  has too many it deletes exactly as many as it must, the ones its policy chooses, each once,
  whatever the order in which the goroutines run. The call always returns, and without an error only
  if every one of these calls succeeded.\<close>

theorem syncReplicas_converges:
  assumes "sorts E" and "0 \<le> sint (msReplicas ms)" and "length machines < 2 ^ 31"
  shows "wp (syncReplicas E ms machines)
     (\<lambda>r t'. \<exists>err ws. r = finishes err \<and> writes t' = writes t @ ws \<and> scaled E ms machines err ws) t"
  by (rule syncReplicas_law [OF assms])

theorem syncReplicas_converges_witness:
  "wp (syncReplicas keeping (workerPool [] 1) [poolWorker, poolWorker])
     (\<lambda>r t'. \<exists>err ws. r = finishes err \<and> writes t' = writes [] @ ws
        \<and> scaled keeping (workerPool [] 1) [poolWorker, poolWorker] err ws) []"
  by (rule syncReplicas_converges) simp_all

text \<open>A machine set with a negative number of replicas gives all its machines up, and its reconciler
  then never returns: the wait group counts more goroutines than there are machines to delete.\<close>

lemma negative_replicas_law:
  assumes "sint (msReplicas ms) < 0" and "int (length machines) - sint (msReplicas ms) < 2 ^ 31"
  shows "wp (syncReplicas E ms machines) (\<lambda>r t'. r = None \<and> (\<exists>ds. writes t' = writes t @ deletionsOf ds
     \<and> image_mset fst (mset ds) = mset machines)) t"
proof -
  let ?diff = "of_nat (length machines) - msReplicas ms :: 64 word"
  have diff: "sint ?diff = int (length machines) - sint (msReplicas ms)"
    by (rule sint_diff) (use assms in auto)
  have all: "getMachinesToDeletePrioritized E machines (sint ?diff) randomDeletePolicy = machines"
    using assms(1) diff by (simp add: getMachinesToDeletePrioritized_def)
  have "wp (deleteReplicas E ms machines ?diff) (\<lambda>r t'. \<exists>ds. writes t' = writes t @ deletionsOf ds
     \<and> image_mset fst (mset ds) = mset machines
     \<and> (if int (length machines) = sint ?diff
        then \<exists>err. r = finishes err \<and> (err = None \<longrightarrow> set (map snd ds) \<subseteq> {None}) else r = None)) t"
    by (rule deleteReplicas_law) (use assms diff in auto)
  then have "wp (deleteReplicas E ms machines ?diff) (\<lambda>r t'. r = None \<and> (\<exists>ds. writes t' = writes t @ deletionsOf ds
     \<and> image_mset fst (mset ds) = mset machines)) t"
    by (rule wp_mono) (use assms(1) diff in auto)
  with assms(1) diff all show ?thesis by (simp add: syncReplicas_def)
qed

theorem negative_replicas_block:
  assumes "sint (msReplicas ms) < 0" and "int (length machines) - sint (msReplicas ms) < 2 ^ 31"
  shows "wp (syncReplicas E ms machines) (\<lambda>r t'. r = None \<and> (\<exists>ds. writes t' = writes t @ deletionsOf ds
     \<and> image_mset fst (mset ds) = mset machines)) t"
  by (rule negative_replicas_law [OF assms])

theorem negative_replicas_block_witness:
  "wp (syncReplicas keeping (workerPool [] (- 1)) [poolWorker]) (\<lambda>r t'. r = None
     \<and> (\<exists>ds. writes t' = writes [] @ deletionsOf ds \<and> image_mset fst (mset ds) = mset [poolWorker])) []"
  by (rule negative_replicas_block) simp_all

end
