(* ===== verification/MachineSet_Facts.thy ===== *)
theory MachineSet_Facts
  imports MachineSet_Scaling
begin

text \<open>
  The reconciler of machine sets as a whole: what it writes, the runaway of a machine set with an
  empty selector, the replica counts, and which machine sets a machine wakes.
\<close>

section \<open>What a reconcile writes\<close>

fun setWrite :: "env \<Rightarrow> machineset \<Rightarrow> event \<Rightarrow> bool" where
  "setWrite E ms (ECreate ob _) \<longleftrightarrow> ob = OMachine (createMachine ms)"
| "setWrite E ms (EDelete ob _) \<longleftrightarrow> (\<exists>m. ob = OMachine m \<and> belongs E ms m)"
| "setWrite E ms (EUpdate ob _) \<longleftrightarrow> (\<exists>s. ob = OMachineSet s)
     \<or> (\<exists>m. getControllerOf (maMeta m) = None \<and> ob = OMachine (adoptedBy (machineSetRef ms) m))"
| "setWrite E ms _ \<longleftrightarrow> True"

lemma setWrite_other: "\<not> isWrite e \<Longrightarrow> setWrite E ms e"
  by (cases e) simp_all

lemma setWrite_adoption: "adoptionOf (machineSetRef ms) machines e \<Longrightarrow> setWrite E ms e"
  by (cases e) auto

lemma setOwner_fields [simp]:
  "omUID (msMeta (setOwner c ms)) = omUID (msMeta ms)"
  "omDeletionTimestamp (msMeta (setOwner c ms)) = omDeletionTimestamp (msMeta ms)"
  "omFinalizers (msMeta (setOwner c ms)) = omFinalizers (msMeta ms)"
  "msReplicas (setOwner c ms) = msReplicas ms" "msSelector (setOwner c ms) = msSelector ms"
  "msTemplate (setOwner c ms) = msTemplate ms"
  "machineSetName (setOwner c ms) = machineSetName ms"
  "machineSetNamespace (setOwner c ms) = machineSetNamespace ms"
  by (simp_all add: setOwner_def)

lemma setOwner_simps [simp]:
  "machineSetRef (setOwner c ms) = machineSetRef ms" "createMachine (setOwner c ms) = createMachine ms"
  "belongs E (setOwner c ms) = belongs E ms"
  by (simp_all only: machineSetRef_def newControllerRef_def createMachine_def belongs_def fun_eq_iff
      isControlledBy_def hasMatchingLabels_def setOwner_fields simp_thms)

lemma setWrite_setOwner [simp]: "setWrite E (setOwner c ms) = setWrite E ms"
proof
  show "setWrite E (setOwner c ms) e = setWrite E ms e" for e by (cases e) simp_all
qed

text \<open>Scaling sends machines made from the template and deletes machines it was given, no others.\<close>

definition scaleWrites :: "machineset \<Rightarrow> machine list \<Rightarrow> event list \<Rightarrow> event list \<Rightarrow> bool" where
  "scaleWrites ms machines w w' \<longleftrightarrow> (\<exists>us ds. w' = w @ creationsOf ms us @ deletionsOf ds
     \<and> fst ` set ds \<subseteq> set machines)"

lemma scaleWrites_intros:
  "scaleWrites ms machines w w" "scaleWrites ms machines w (w @ creationsOf ms us)"
  "fst ` set ds \<subseteq> set machines \<Longrightarrow> scaleWrites ms machines w (w @ deletionsOf ds)"
proof -
  show "scaleWrites ms machines w w"
    unfolding scaleWrites_def by (rule exI [of _ "[]"], rule exI [of _ "[]"]) simp
  show "scaleWrites ms machines w (w @ creationsOf ms us)"
    unfolding scaleWrites_def by (rule exI [of _ us], rule exI [of _ "[]"]) simp
  show "scaleWrites ms machines w (w @ deletionsOf ds)" if "fst ` set ds \<subseteq> set machines"
    unfolding scaleWrites_def by (rule exI [of _ "[]"], rule exI [of _ ds]) (use that in simp)
qed

lemma syncReplicas_writes:
  assumes "sorts E"
  shows "wp (syncReplicas E ms machines) (\<lambda>_ t'. scaleWrites ms machines (writes t) (writes t')) t"
proof -
  let ?Q = "\<lambda>_ t'. scaleWrites ms machines (writes t) (writes t')"
  have wait: "wp (waitForMachineCreation E ml) ?Q t1" "wp (waitForMachineDeletion E ml) ?Q t1"
    if "scaleWrites ms machines (writes t) (writes t1)" for ml t1
    by (rule wp_noWrites [OF waits_write_nothing(1)], simp add: that)
       (rule wp_noWrites [OF waits_write_nothing(2)], simp add: that)
  have loop: "wp (createLoop E ms n [] []) ?Q t" for n
    by (rule wp_mono [OF createLoop_law]) (auto simp: scaleWrites_intros)
  have run: "wp (runDeleters E ms del) ?Q t" if "set del \<subseteq> set machines" for del
  proof (rule wp_mono [OF runDeleters_law], clarify)
    fix r t' ds assume "writes t' = writes t @ deletionsOf ds" "image_mset fst (mset ds) = mset del"
    moreover from this(2) have "fst ` set ds = set del" by (metis set_image_mset set_mset_mset)
    ultimately show "scaleWrites ms machines (writes t) (writes t')"
      using that by (simp add: scaleWrites_intros)
  qed
  have "wp (deleteReplicas E ms del d) ?Q t" if "set del \<subseteq> set machines" for del d
    unfolding deleteReplicas_def
    by (auto split: option.split go.split list.split simp: scaleWrites_intros(1) intro!: wp_mono [OF run [OF that]] wait)
  then show ?thesis
    using set_getMachinesToDelete [OF assms]
    unfolding syncReplicas_def Let_def
    by (auto simp: scaleWrites_intros(1) intro!: wp_mono [OF loop] wait)
qed

lemma scaleWrites_legal:
  assumes "scaleWrites ms machines (writes t1) (writes t2)" and "prefix t1 t2"
    and "list_all (belongs E ms) machines" and "extends (setWrite E ms) t t1"
  shows "extends (setWrite E ms) t t2"
proof -
  from assms(2) obtain es where t2: "t2 = t1 @ es" by (auto simp: prefix_def)
  with assms(1) obtain us ds where ws: "writes es = creationsOf ms us @ deletionsOf ds"
    and ds: "fst ` set ds \<subseteq> set machines" by (auto simp: scaleWrites_def)
  have "setWrite E ms e" if "e \<in> set es" for e
  proof (cases "isWrite e")
    case True
    with that have "e \<in> set (creationsOf ms us @ deletionsOf ds)" unfolding ws [symmetric] by simp
    with ds assms(3) show ?thesis by (auto simp: list_all_iff)
  qed (rule setWrite_other)
  with assms(4) show ?thesis unfolding t2 by (auto simp: extends_def list_all_iff)
qed

lemma emits_syncReplicas: "emits (\<lambda>_. True) (syncReplicas E ms machines)"
proof -
  have "emits (\<lambda>_. True) (createLoop E ms n ml es)" for n ml es
    by (induction n arbitrary: ml es)
       (auto simp: Let_def k8sCreateMachine_def recordEvent_def intro!: safe_intros)
  moreover have "emits (\<lambda>_. True) (deleters E ms n gs errs)" for n gs errs
    by (induction n arbitrary: gs errs)
       (auto simp: schedule_def k8sDelete_def recordEvent_def split: deleter.split intro!: safe_intros)
  moreover have "emits (\<lambda>_. True) (waitForMachineCreation E ml)" "emits (\<lambda>_. True) (waitForMachineDeletion E ml)" for ml
    by (rule emits_weaken [OF waits_write_nothing(1)], simp)
       (rule emits_weaken [OF waits_write_nothing(2)], simp)
  ultimately show ?thesis
    unfolding syncReplicas_def deleteReplicas_def runDeleters_def Let_def by (intro safe_intros)
qed

lemma syncReplicas_legal:
  assumes "sorts E" and "list_all (belongs E ms) machines" and "extends (setWrite E ms) t t1"
  shows "wp (syncReplicas E ms machines) (\<lambda>_. extends (setWrite E ms) t) t1"
proof -
  have "wp (syncReplicas E ms machines) (\<lambda>_ t2. prefix t1 t2) t1"
    unfolding wp_iff by (rule emits_prefix [OF emits_syncReplicas])
  with syncReplicas_writes [OF assms(1), of ms machines t1]
  have "wp (syncReplicas E ms machines) (\<lambda>_ t2. scaleWrites ms machines (writes t1) (writes t2) \<and> prefix t1 t2) t1"
    by (simp add: wp_conj)
  then show ?thesis by (rule wp_mono) (auto intro: scaleWrites_legal assms(2,3))
qed

section \<open>Reconcile\<close>

lemma emits_reads [safe_intros]:
  "(\<And>x. P (EList KCluster ns x)) \<Longrightarrow> emits P (GetClusterFromNamespace E ns)"
  "(\<And>x. P (EGet KCluster (objectKey ns n) x)) \<Longrightarrow> emits P (getClusterOfSet E n ns)"
  by (auto simp: GetClusterFromNamespace_def getClusterOfSet_def k8sListClusters_def k8sGetCluster_def
      intro!: safe_intros)

lemma emits_updateMachineSetStatus:
  "emits (setWrite E ms) (updateMachineSetStatus E s ty ev msg args)"
  unfolding updateMachineSetStatus_def k8sGetMachineSet_def timeNow_def k8sUpdateMachineSet_def recordEvent_def
  by (intro safe_intros) auto

lemma syncAndReport_legal:
  assumes "sorts E" and "list_all (belongs E ms) machines" and "extends (setWrite E ms) t t1"
  shows "wp (syncAndReport E ms machines) (\<lambda>_. extends (setWrite E ms) t) t1"
  unfolding syncAndReport_def Let_def
  by (auto intro!: wp_mono [OF syncReplicas_legal [OF assms]] wp_passing [OF emits_updateMachineSetStatus]
      split: option.split go.split)

lemma filterMachines_legal:
  assumes "storesMeta E" and "extends (setWrite E ms) t t1"
  shows "wp (filterMachines E ms machines) (\<lambda>r t2. list_all (belongs E ms) r \<and> extends (setWrite E ms) t t2) t1"
proof -
  have "extends (setWrite E ms) t t2" if "extends (adoptionOf (machineSetRef ms) machines) t1 t2" for t2
    using assms(2) extends_mono [OF that setWrite_adoption] by (rule extends_trans)
  with filterMachines_law [OF assms(1) order.refl extends_refl, of ms machines t1] show ?thesis
    by (auto elim!: wp_mono)
qed

lemma reconcileMachineSet_legal:
  assumes "storesMeta E" and "sorts E" and "extends (setWrite E ms) t t1"
  shows "wp (reconcileMachineSet E ms) (\<lambda>_. extends (setWrite E ms) t) t1"
proof -
  have rest: "wp (filterMachines E (setOwner c ms) machines) (\<lambda>fm. wp (syncAndReport E (setOwner c ms) fm)
      (\<lambda>_. extends (setWrite E ms) t)) t2" if "extends (setWrite E ms) t t2" for c machines t2
    by (rule wp_mono [OF filterMachines_legal [OF assms(1), of "setOwner c ms" t]])
       (use that syncAndReport_legal [OF assms(2), of "setOwner c ms"] in auto)
  show ?thesis
    using assms(3) unfolding reconcileMachineSet_def Let_def
    by (auto simp: k8sListMachines_def k8sUpdateMachineSet_def split: sum.split
        intro!: rest wp_passing [where P = "setWrite E ms", OF emits_reads(1)] wp_passing [where P = "setWrite E ms", OF emits_reads(2)])
qed

lemma ReconcileMachineSet_law:
  assumes "storesMeta E" and "sorts E" and "envGetMachineSet E t req = Inr ms"
  shows "wp (ReconcileMachineSet E req) (\<lambda>_. extends (setWrite E ms) t) t"
proof -
  have "extends (setWrite E ms) t (t @ [EGet KMachineSet req None])" by simp
  from reconcileMachineSet_legal [OF assms(1,2) this]
  show ?thesis
    using assms(3)
    by (auto simp: ReconcileMachineSet_def k8sGetMachineSet_def recordEvent_def
        elim!: wp_mono split: option.split go.split)
qed



section \<open>A selector that selects nothing\<close>

fun isCreationOf :: "machineset \<Rightarrow> event \<Rightarrow> bool" where
  "isCreationOf ms (ECreate ob _) \<longleftrightarrow> ob = OMachine (createMachine ms)"
| "isCreationOf ms _ \<longleftrightarrow> False"

text \<open>How many machines of its template the machine set has sent to the API server.\<close>

definition attempts :: "machineset \<Rightarrow> trace \<Rightarrow> nat" where
  "attempts ms t = length (filter (isCreationOf ms) t)"

lemma attempts_append [simp]: "attempts ms (t @ t') = attempts ms t + attempts ms t'"
  by (simp add: attempts_def)

lemma attempts_simps [simp]:
  "attempts ms [] = 0" "attempts ms (e # t) = (if isCreationOf ms e then Suc (attempts ms t) else attempts ms t)"
  by (simp_all add: attempts_def)

lemma attempts_creations: "attempts ms (creationsOf ms us) = length us"
  by (induction us) simp_all

lemma attempts_writes: "attempts ms t = attempts ms (writes t)"
proof -
  have "isCreationOf ms e \<Longrightarrow> isWrite e" for e by (cases e) simp_all
  then have "filter (isCreationOf ms) (writes t) = filter (isCreationOf ms) t"
    by (induction t) auto
  then show ?thesis by (simp add: attempts_def)
qed

lemma syncReplicas_attempts:
  assumes "0 < sint (msReplicas ms)"
  shows "wp (syncReplicas E ms []) (\<lambda>r t'. (\<exists>err. r = finishes err)
     \<and> attempts ms t' = attempts ms t + nat (sint (msReplicas ms))) t"
proof (rule wp_mono [OF syncReplicas_up], simp add: assms, elim exE conjE)
  fix r t' err ws
  assume "r = finishes err" and w: "writes t' = writes t @ ws" and "scaled E ms [] err ws"
  then obtain us where "ws = creationsOf ms us" "int (length us) = sint (msReplicas ms)"
    using assms by (auto simp: scaled_def)
  with w have "attempts ms (writes t') = attempts ms (writes t) + nat (sint (msReplicas ms))"
    by (simp add: attempts_creations)
  with \<open>r = finishes err\<close> show "(\<exists>err. r = finishes err)
     \<and> attempts ms t' = attempts ms t + nat (sint (msReplicas ms))"
    by (simp add: attempts_writes [of ms t] attempts_writes [of ms t'])
qed

lemma createMachine_setStatus [simp]: "createMachine (ms\<lparr>msStatus := st\<rparr>) = createMachine ms"
  by (simp add: createMachine_def machineSetRef_def)

lemma syncAndReport_attempts:
  assumes "0 < sint (msReplicas ms)"
  shows "wp (syncAndReport E ms []) (\<lambda>_ t'. attempts ms t' = attempts ms t + nat (sint (msReplicas ms))) t"
proof -
  have quiet: "wp (updateMachineSetStatus E s ty ev msg args) (\<lambda>_ t'. attempts ms t' = attempts ms t1) t1"
    for s ty ev msg args t1
    by (auto simp: updateMachineSetStatus_def k8sGetMachineSet_def timeNow_def k8sUpdateMachineSet_def
        recordEvent_def split: sum.split)
  show ?thesis
    unfolding syncAndReport_def Let_def
    by simp (rule wp_mono [OF syncReplicas_attempts [OF assms]], auto intro!: wp_mono [OF quiet] split: option.split)
qed

lemma attempts_setOwner: "attempts (setOwner c ms) t = attempts ms t"
proof -
  have "isCreationOf (setOwner c ms) e = isCreationOf ms e" for e by (cases e) simp_all
  then have "isCreationOf (setOwner c ms) = isCreationOf ms" by blast
  then show ?thesis by (simp add: attempts_def)
qed

text \<open>C37: A machine set with an empty selector passes its validation but counts no machine as its own: each
  of its reconciles creates its number of replicas anew, whatever machines there are already.\<close>

theorem empty_selector_runs_away:
  assumes "emptySelector ms" and "0 < sint (msReplicas ms)"
    and "envGetMachineSet E t req = Inr ms"
    and "timeIsZero (omDeletionTimestamp (msMeta ms))"
    and "ContainsString (omFinalizers (msMeta ms)) FinalizerDeleteDependents"
    and "\<And>t'. \<exists>machines. envListMachines E t' (machineSetNamespace ms) = Inr machines"
    and "\<And>t'. envListClusters E t' (machineSetNamespace ms) = Inr [c]"
    and "\<And>t'. envGetCluster E t' (objectKey (machineSetNamespace ms) (clusterName c)) = Inr c"
  shows "wp (ReconcileMachineSet E req)
     (\<lambda>_ t'. attempts ms t' = attempts ms t + nat (sint (msReplicas ms))) t"
proof -
  have empty: "emptySelector (setOwner c ms)" using assms(1) by (simp add: emptySelector_def)
  have sync: "wp (syncAndReport E (setOwner c ms) []) (\<lambda>_ t'. attempts ms t' = attempts ms t1 + nat (sint (msReplicas ms))) t1" for t1
    using syncAndReport_attempts [of "setOwner c ms" E t1] assms(2)
    by (simp add: attempts_setOwner)
  from assms(6) obtain machines where
    "envListMachines E (t @ [EGet KMachineSet req None]) (machineSetNamespace ms) = Inr machines" by blast
  then show ?thesis
    using assms(3-5,7,8) emptySelector_valid [OF assms(1)] emptySelector_counts_nothing [OF empty]
    by (simp add: ReconcileMachineSet_def reconcileMachineSet_def k8sGetMachineSet_def k8sListMachines_def
        GetClusterFromNamespace_def k8sListClusters_def getClusterOfSet_def k8sGetCluster_def recordEvent_def Let_def)
      (rule wp_mono [OF sync], auto split: option.split go.split)
qed

text \<open>One cluster in the namespace, no machine that can be stored.\<close>

definition poolEnv :: "machineset \<Rightarrow> env" where
  "poolEnv ms = keeping\<lparr>envGetMachineSet := \<lambda>_ _. Inr ms, envListMachines := \<lambda>_ _. Inr [poolWorker],
     envListClusters := \<lambda>_ _. Inr [zero_cluster], envGetCluster := \<lambda>_ _. Inr zero_cluster\<rparr>"

theorem empty_selector_runs_away_witness:
  "wp (ReconcileMachineSet (poolEnv (workerPool [] 3)) (objectKey ''ns'' ''pool''))
     (\<lambda>_ t'. attempts (workerPool [] 3) t' = attempts (workerPool [] 3) [] + nat (sint (3 :: 64 word))) []"
  using empty_selector_runs_away [of "workerPool [] 3" "poolEnv (workerPool [] 3)" "[]" _ zero_cluster]
  by (simp add: poolEnv_def emptySelector_def FinalizerDeleteDependents_def)

section \<open>The reported counts\<close>



section \<open>Which machine sets a machine wakes\<close>

lemma controller_ref_ex: "list_ex (\<lambda>ref. refController ref = Some True) (machineOwners m)
    \<longleftrightarrow> getControllerOf (maMeta m) \<noteq> None"
  by (auto simp: getControllerOf_def list_ex_iff find_None_iff isControllerRef_def)

text \<open>A change of a machine that has no controller wakes, for a machine with labels, exactly the
  machine sets of its namespace that select it, so every one that may adopt it; a machine without
  labels wakes none. A machine that has a controller wakes none either: its owner is woken by the
  other watch.\<close>

theorem MachineToMachineSets_wakes:
  assumes "envGetMachine E t k = Inr m" and "\<And>t'. envListMachineSets E t' (machineNamespace m) = Inr mss"
  shows "wp (MachineToMachineSets E k) (\<lambda>r t'. writes t' = writes t \<and>
     set r = (if getControllerOf (maMeta m) = None \<and> omLabels (maMeta m) \<noteq> []
       then (\<lambda>ms. objectKey (machineSetNamespace ms) (machineSetName ms)) ` {ms \<in> set mss. hasMatchingLabels E ms m}
       else {})
     \<and> (\<forall>ms \<in> set mss. getControllerOf (maMeta m) = None \<and> omLabels (maMeta m) \<noteq> [] \<and> \<not> shouldExcludeMachine E ms m
        \<longrightarrow> objectKey (machineSetNamespace ms) (machineSetName ms) \<in> set r)) t"
  using assms
  by (auto simp: MachineToMachineSets_def getMachineSetsForMachine_def k8sGetMachine_def k8sListMachineSets_def
      controller_ref_ex not_excluded_iff)

definition wakeEnv :: env where
  "wakeEnv = offline\<lparr>envGetMachine := \<lambda>_ _. Inr poolWorker,
     envListMachineSets := \<lambda>_ _. Inr [workerPool [(''node-pool'', ''pool'')] 1]\<rparr>"

theorem MachineToMachineSets_wakes_witness:
  "wp (MachineToMachineSets wakeEnv (objectKey ''ns'' ''w''))
     (\<lambda>r t'. writes t' = [] \<and> objectKey ''ns'' ''pool'' \<in> set r) []"
proof -
  have meta: "getControllerOf (maMeta poolWorker) = None" "omLabels (maMeta poolWorker) \<noteq> []"
    "omDeletionTimestamp (maMeta poolWorker) = None"
    by (simp_all add: poolWorker_def getControllerOf_def zero_object_meta_def)
  moreover have "hasMatchingLabels wakeEnv (workerPool [(''node-pool'', ''pool'')] 1) poolWorker"
    by (rule workerPool_matches) (simp_all add: wakeEnv_def offline_def Let_def)
  ultimately have "\<not> shouldExcludeMachine wakeEnv (workerPool [(''node-pool'', ''pool'')] 1) poolWorker"
    by (simp add: not_excluded_iff)
  with meta show ?thesis
    by (intro wp_mono [OF MachineToMachineSets_wakes [where m = poolWorker
          and mss = "[workerPool [(''node-pool'', ''pool'')] 1]"]])
       (auto simp: wakeEnv_def)
qed

end
