(* ===== verification/App_Bundle.thy ===== *)
theory App_Bundle
  imports Requests Footprints Cert
begin

text \<open>
  \<^verbatim>\<open>pkg/controller/appbundle\<close>: the app bundle controller. Once the cluster of its namespace is
  running, an app bundle is installed by a job in the managed cluster; the namespace, the service
  account, the role binding and the job are created when they are not there.
\<close>

section \<open>Objects in the managed cluster\<close>

definition CMAInstallNamespace :: string where
  "CMAInstallNamespace = ''cma-install''"

definition CMAInstallServiceAccount :: string where
  "CMAInstallServiceAccount = ''cma-sa''"

definition InstalledAppBundlePhase :: string where
  "InstalledAppBundlePhase = ''InstalledAppBundle''"

text \<open>The body of the four functions: get the object and create it when it is not found.\<close>

definition getOrCreate :: "env \<Rightarrow> clientset \<Rightarrow> remote_kind \<Rightarrow> string \<Rightarrow> string \<Rightarrow> remote_obj \<Rightarrow> go_error option io" where
  "getOrCreate E cs kind namespace name ob = do {
     err \<leftarrow> remoteDo E cs (RGetObj kind namespace name);
     case err of
       None \<Rightarrow> ret None
     | Some e \<Rightarrow> if isNotFound e then remoteDo E cs (RCreateObj ob) else ret (Some e)
   }"

definition createNamespace :: "env \<Rightarrow> clientset \<Rightarrow> go_error option io" where
  "createNamespace E cs = getOrCreate E cs RkNamespace '''' CMAInstallNamespace (RNamespace CMAInstallNamespace)"

definition createServiceAccount :: "env \<Rightarrow> clientset \<Rightarrow> go_error option io" where
  "createServiceAccount E cs = getOrCreate E cs RkServiceAccount CMAInstallNamespace CMAInstallServiceAccount
     (RServiceAccount CMAInstallNamespace CMAInstallServiceAccount)"

definition installRoleBinding :: role_binding where
  "installRoleBinding = \<lparr>rbName = CMAInstallServiceAccount,
     rbSubjectKind = ''ServiceAccount'', rbSubjectName = CMAInstallServiceAccount,
     rbSubjectNamespace = CMAInstallNamespace,
     rbRoleKind = ''ClusterRole'', rbRoleName = ''cluster-admin'', rbRoleAPIGroup = ''''\<rparr>"

definition createClusterRoleBinding :: "env \<Rightarrow> clientset \<Rightarrow> go_error option io" where
  "createClusterRoleBinding E cs = getOrCreate E cs RkClusterRoleBinding '''' CMAInstallServiceAccount
     (RClusterRoleBinding installRoleBinding)"

definition installJobName :: "appbundle \<Rightarrow> string" where
  "installJobName appBundle = omName (abMeta appBundle) @ ''-'' @ ''installer''"

definition installJob :: "appbundle \<Rightarrow> install_job" where
  "installJob appBundle = \<lparr>jobName = installJobName appBundle,
     jobServiceAccount = CMAInstallServiceAccount,
     jobContainerName = installJobName appBundle, jobImage = abImage appBundle, jobImagePullPolicy = ''Always'',
     jobCommand = (if abCommand appBundle \<noteq> '''' then [abCommand appBundle] else []),
     jobRestartPolicy = ''OnFailure''\<rparr>"

definition createInstallJob :: "env \<Rightarrow> clientset \<Rightarrow> appbundle \<Rightarrow> go_error option io" where
  "createInstallJob E cs appBundle = getOrCreate E cs RkJob CMAInstallNamespace (installJobName appBundle)
     (RJob CMAInstallNamespace (installJob appBundle))"

section \<open>Reconcile\<close>

definition install :: "env \<Rightarrow> clientset \<Rightarrow> appbundle \<Rightarrow> go_error option io" where
  "install E cs appBundle =
     onErrO (Some \<circ> Wrapped ''failed to create namespace for cma'') (createNamespace E cs) (
     onErrO (Some \<circ> Wrapped ''failed to create service account for cma'') (createServiceAccount E cs) (
     onErrO (Some \<circ> Wrapped ''failed to create cluster role binding for cma'') (createClusterRoleBinding E cs) (
     onErrO (Some \<circ> Wrapped ''failed to create appBundle Job'') (createInstallJob E cs appBundle) (
     ret None))))"

definition setInstalled :: "appbundle \<Rightarrow> appbundle" where
  "setInstalled appBundle = appBundle\<lparr>abPhase := InstalledAppBundlePhase\<rparr>"

text \<open>The error of the look-up of the secret is not checked.\<close>

definition installOn :: "env \<Rightarrow> appbundle \<Rightarrow> cluster \<Rightarrow> (reconcile_result \<times> go_error option) io" where
  "installOn E appBundle cluster = (let fails = (\<lambda>err. (noResult, Some err)) in do {
     r \<leftarrow> k8sGetSecret E (privateKeySecret (clusterNamespace cluster));
     let secret = (case r of Inl err \<Rightarrow> zero_secret | Inr secret \<Rightarrow> secret);
     case goGet (secData secret) ServiceAccountKubeconfigKey of
       None \<Rightarrow> ret (fails (PlainError ''no kubeconfig in secret''))
     | Some configData \<Rightarrow>
         if length configData = 0 then ret (fails (PlainError ''no kubeconfig in secret''))
         else case clientsetWrapped E ''could not create new client config from secret''
             ''could not create rest client config'' ''could not create a clientset'' configData of
           Inl err \<Rightarrow> ret (fails err)
         | Inr cs \<Rightarrow>
             onErrO (fails \<circ> Wrapped ''failed to install appBundle in remote cluster'') (install E cs appBundle)
               (onErr (fails \<circ> Wrapped ''failed to update appBundle status'')
                 (k8sUpdateAppBundle E (setInstalled appBundle)) (\<lambda>_. ret (noResult, None)))
   })"

definition ReconcileAppBundle :: "env \<Rightarrow> object_key \<Rightarrow> (reconcile_result \<times> go_error option) io" where
  "ReconcileAppBundle E request = do {
     r \<leftarrow> k8sGetAppBundle E request;
     case r of
       Inl err \<Rightarrow> if isNotFound err then ret (noResult, None) else ret (noResult, Some err)
     | Inr appBundle \<Rightarrow>
         if abPhase appBundle \<noteq> InstalledAppBundlePhase then
           onErr (\<lambda>err. (noResult, Some err)) (k8sListClusters E (omNamespace (abMeta appBundle))) (\<lambda>clusters.
           if length clusters = 0 then ret (requeueAfter 300, None)
           else let cluster = clusters ! 0 in
             if clusterPhase cluster = RunningClusterPhase then installOn E appBundle cluster
             else ret (requeueAfter 10, None))
         else ret (noResult, None)
   }"

end
