(* ===== verification/Ensure.thy ===== *)
theory Ensure
  imports Footprints
begin

text \<open>
  Get or create: the app bundle controller makes sure of four objects in the managed cluster, the
  start-up of the operator of four custom resource definitions. The locale is the contract of one
  such operation; its lemma is what a sequence of them gives.
\<close>

fun ensureAll :: "('i \<Rightarrow> go_error option io) \<Rightarrow> ('i \<Rightarrow> go_error \<Rightarrow> go_error) \<Rightarrow> 'i list \<Rightarrow> go_error option io" where
  "ensureAll op wrap [] = ret None"
| "ensureAll op wrap (i # is) = onErrO (Some \<circ> wrap i) (op i) (ensureAll op wrap is)"

text \<open>What one operation does: the object is there; it cannot be looked up; it is not found and
  created, or not even that.\<close>

definition ensures :: "(go_error option \<Rightarrow> event) \<Rightarrow> (go_error option \<Rightarrow> event) \<Rightarrow> go_error option \<Rightarrow> event list \<Rightarrow> bool" where
  "ensures asks creates r es \<longleftrightarrow> (case r of
       None \<Rightarrow> es = [asks None] \<or> (\<exists>e. isNotFound e \<and> es = [asks (Some e), creates None])
     | Some err \<Rightarrow> (\<exists>e. es = [asks (Some e)] \<or> isNotFound e \<and> es = [asks (Some e), creates (Some err)]))"

lemma ensures_rules:
  "ensures asks creates None [asks None]"
  "ensures asks creates (Some err) [asks (Some e)]"
  "isNotFound e \<Longrightarrow> ensures asks creates r [asks (Some e), creates r]"
  by (auto simp: ensures_def split: option.split)

text \<open>What a sequence has done: everything is there if it succeeded, and nothing was created that was
  not asked for and not found.\<close>

definition ensuredAll :: "('i \<Rightarrow> go_error option \<Rightarrow> event) \<Rightarrow> ('i \<Rightarrow> go_error option \<Rightarrow> event) \<Rightarrow> 'i list
    \<Rightarrow> go_error option \<Rightarrow> event list \<Rightarrow> bool" where
  "ensuredAll asks creates is r es \<longleftrightarrow>
     (r = None \<longrightarrow> (\<forall>i \<in> set is. asks i None \<in> set es \<or> creates i None \<in> set es))
     \<and> (\<forall>ev \<in> set es. \<exists>i \<in> set is. (\<exists>u. ev = asks i u)
          \<or> (\<exists>u e. ev = creates i u \<and> isNotFound e \<and> asks i (Some e) \<in> set es))"

lemma ensuredAll_Cons:
  assumes "ensures (asks i) (creates i) None es" and "ensuredAll asks creates is r es'"
  shows "ensuredAll asks creates (i # is) r (es @ es')"
proof -
  have "\<forall>ev \<in> set es'. \<exists>j \<in> set (i # is). (\<exists>u. ev = asks j u)
      \<or> (\<exists>u e. ev = creates j u \<and> isNotFound e \<and> asks j (Some e) \<in> set (es @ es'))"
    using assms(2) unfolding ensuredAll_def by fastforce
  moreover have "\<forall>ev \<in> set es. \<exists>j \<in> set (i # is). (\<exists>u. ev = asks j u)
      \<or> (\<exists>u e. ev = creates j u \<and> isNotFound e \<and> asks j (Some e) \<in> set (es @ es'))"
    using assms(1) unfolding ensures_def by auto
  moreover have "asks i None \<in> set es \<or> creates i None \<in> set es"
    using assms(1) unfolding ensures_def by auto
  ultimately show ?thesis
    using assms(2) unfolding ensuredAll_def by auto
qed

lemma ensuredAll_stop:
  "ensures (asks i) (creates i) (Some err) es \<Longrightarrow> ensuredAll asks creates (i # is) (Some err') es"
  unfolding ensures_def ensuredAll_def by auto

locale ensurer =
  fixes op :: "'i \<Rightarrow> go_error option io" and asks creates :: "'i \<Rightarrow> go_error option \<Rightarrow> event"
  assumes op_ensures: "wp (op i) (\<lambda>r t'. \<exists>es. t' = t @ es \<and> ensures (asks i) (creates i) r es) t"
begin

lemma wp_ensureAll:
  "wp (ensureAll op wrap is) (\<lambda>r t'. \<exists>es. t' = t @ es \<and> ensuredAll asks creates is r es) t"
proof (induction "is" arbitrary: t)
  case Nil
  then show ?case by (simp add: ensuredAll_def)
next
  case (Cons i "is")
  have rest: "wp (ensureAll op wrap is) (\<lambda>r t'. \<exists>es. t' = t @ es \<and> ensuredAll asks creates (i # is) r es) (t @ es)"
    if "ensures (asks i) (creates i) None es" for es
    by (rule wp_mono [OF Cons.IH]) (use that in \<open>auto intro: ensuredAll_Cons\<close>)
  show ?case
    by simp (rule wp_mono [OF op_ensures], auto split: option.split intro: rest ensuredAll_stop)
qed

end

end
