(* ===== verification/App_Bundle_Facts.thy ===== *)
theory App_Bundle_Facts
  imports App_Bundle Ensure
begin

text \<open>
  Correctness of the app bundle controller: an app bundle is stored as installed only after all that
  its installation needs is there in a running cluster, and an installation creates nothing twice.
\<close>

section \<open>The objects of an installation\<close>

datatype install_object = InstallNamespace | InstallAccount | InstallBinding | InstallJob appbundle

fun objectGet :: "install_object \<Rightarrow> remote_call" where
  "objectGet InstallNamespace = RGetObj RkNamespace '''' CMAInstallNamespace"
| "objectGet InstallAccount = RGetObj RkServiceAccount CMAInstallNamespace CMAInstallServiceAccount"
| "objectGet InstallBinding = RGetObj RkClusterRoleBinding '''' CMAInstallServiceAccount"
| "objectGet (InstallJob a) = RGetObj RkJob CMAInstallNamespace (installJobName a)"

fun objectMade :: "install_object \<Rightarrow> remote_obj" where
  "objectMade InstallNamespace = RNamespace CMAInstallNamespace"
| "objectMade InstallAccount = RServiceAccount CMAInstallNamespace CMAInstallServiceAccount"
| "objectMade InstallBinding = RClusterRoleBinding installRoleBinding"
| "objectMade (InstallJob a) = RJob CMAInstallNamespace (installJob a)"

fun createObject :: "env \<Rightarrow> clientset \<Rightarrow> install_object \<Rightarrow> go_error option io" where
  "createObject E cs InstallNamespace = createNamespace E cs"
| "createObject E cs InstallAccount = createServiceAccount E cs"
| "createObject E cs InstallBinding = createClusterRoleBinding E cs"
| "createObject E cs (InstallJob a) = createInstallJob E cs a"

fun installMessage :: "install_object \<Rightarrow> string" where
  "installMessage InstallNamespace = ''failed to create namespace for cma''"
| "installMessage InstallAccount = ''failed to create service account for cma''"
| "installMessage InstallBinding = ''failed to create cluster role binding for cma''"
| "installMessage (InstallJob a) = ''failed to create appBundle Job''"

abbreviation installObjects :: "appbundle \<Rightarrow> install_object list" where
  "installObjects a \<equiv> [InstallNamespace, InstallAccount, InstallBinding, InstallJob a]"

lemma install_ensureAll:
  "install E cs a = ensureAll (createObject E cs) (Wrapped \<circ> installMessage) (installObjects a)"
  by (simp add: install_def comp_def)

lemma createObject_getOrCreate:
  "createObject E cs i = (case objectGet i of RGetObj kind ns name \<Rightarrow> getOrCreate E cs kind ns name (objectMade i)
     | _ \<Rightarrow> ret None)"
  by (cases i) (simp_all add: createNamespace_def createServiceAccount_def createClusterRoleBinding_def createInstallJob_def)

interpretation install_objects: ensurer "createObject E cs" "\<lambda>i. ERemote cs (objectGet i)"
  "\<lambda>i. ERemote cs (RCreateObj (objectMade i))" for E cs
proof
  fix i t
  show "wp (createObject E cs i) (\<lambda>r t'. \<exists>es. t' = t @ es
      \<and> ensures (ERemote cs (objectGet i)) (ERemote cs (RCreateObj (objectMade i))) r es) t"
    by (cases i) (auto simp: createObject_getOrCreate getOrCreate_def remoteDo_def ensures_def split: option.split)
qed

section \<open>Installed means installed\<close>

text \<open>The reconcile that stores an app bundle as installed, \<open>t\<close> being the trace when it asked for the
  clusters: the first cluster of the answer is running, and in the cluster that the kubeconfig in its
  secret leads to, each of the four objects was found or created, those created having been looked
  for and not found.\<close>

definition remoteOf :: "env \<Rightarrow> trace \<Rightarrow> cluster \<Rightarrow> clientset \<Rightarrow> bool" where
  "remoteOf E t c cs \<longleftrightarrow> (\<exists>secret configData. envGetSecret E t (privateKeySecret (clusterNamespace c)) = Inr secret
     \<and> goGet (secData secret) ServiceAccountKubeconfigKey = Some configData
     \<and> clientsetWrapped E ''could not create new client config from secret'' ''could not create rest client config''
         ''could not create a clientset'' configData = Inr cs)"

definition installedProperly :: "env \<Rightarrow> trace \<Rightarrow> appbundle \<Rightarrow> event list \<Rightarrow> bool" where
  "installedProperly E t a new \<longleftrightarrow> (\<exists>c items cs es. envListClusters E t (omNamespace (abMeta a)) = Inr (c # items)
     \<and> clusterPhase c = RunningClusterPhase \<and> remoteOf E (t @ [EList KCluster (omNamespace (abMeta a)) None]) c cs
     \<and> set es \<subseteq> set new
     \<and> ensuredAll (\<lambda>i. ERemote cs (objectGet i)) (\<lambda>i. ERemote cs (RCreateObj (objectMade i))) (installObjects a) None es)"

lemma installedProperlyI:
  assumes "envListClusters E t (omNamespace (abMeta a)) = Inr (c # items)" and "clusterPhase c = RunningClusterPhase"
    and "remoteOf E (t @ [EList KCluster (omNamespace (abMeta a)) None]) c cs"
    and "ensuredAll (\<lambda>i. ERemote cs (objectGet i)) (\<lambda>i. ERemote cs (RCreateObj (objectMade i))) (installObjects a) None es"
    and "set es \<subseteq> set new"
  shows "installedProperly E t a new"
  unfolding installedProperly_def using assms by blast

lemma installedProperly_mono:
  assumes "installedProperly E t a es" and "set es \<subseteq> set es'"
  shows "installedProperly E t a es'"
proof -
  from assms(1) obtain c items cs es0
    where c: "envListClusters E t (omNamespace (abMeta a)) = Inr (c # items)" "clusterPhase c = RunningClusterPhase"
        "remoteOf E (t @ [EList KCluster (omNamespace (abMeta a)) None]) c cs"
      and es0: "set es0 \<subseteq> set es"
        "ensuredAll (\<lambda>i. ERemote cs (objectGet i)) (\<lambda>i. ERemote cs (RCreateObj (objectMade i))) (installObjects a) None es0"
    unfolding installedProperly_def by blast
  show ?thesis
    by (rule installedProperlyI [OF c es0(2) subset_trans [OF es0(1) assms(2)]])
qed

fun bundleStored :: "event \<Rightarrow> bool" where
  "bundleStored (EUpdate _ _) \<longleftrightarrow> True"
| "bundleStored _ \<longleftrightarrow> False"

text \<open>What a reconcile of the app bundle \<open>a\<close> has done: it stored nothing, and is then not finished
  unless the bundle was installed before; or it stored the bundle as installed, properly, and is
  finished exactly when that update succeeded.\<close>

definition bundleOutcome :: "env \<Rightarrow> trace \<Rightarrow> appbundle \<Rightarrow> reconcile_result \<times> go_error option \<Rightarrow> event list \<Rightarrow> bool" where
  "bundleOutcome E t0 a r es \<longleftrightarrow>
     filter bundleStored es = [] \<and> (r = (noResult, None) \<longrightarrow> abPhase a = InstalledAppBundlePhase)
     \<or> (\<exists>u. filter bundleStored es = [EUpdate (OAppBundle (setInstalled a)) u] \<and> installedProperly E t0 a es
          \<and> (r = (noResult, None) \<longleftrightarrow> u = None))"

lemma bundleOutcome_quiet:
  "filter bundleStored es = [] \<Longrightarrow> r \<noteq> (noResult, None) \<Longrightarrow> bundleOutcome E t0 a r es"
  by (simp add: bundleOutcome_def)

lemma bundleOutcome_stored:
  assumes "installedProperly E t0 a es" and "filter bundleStored es = []" and "r = (noResult, None) \<longleftrightarrow> u = None"
  shows "bundleOutcome E t0 a r (es @ [EUpdate (OAppBundle (setInstalled a)) u])"
proof -
  have "installedProperly E t0 a (es @ [EUpdate (OAppBundle (setInstalled a)) u])"
    by (rule installedProperly_mono [OF assms(1)]) auto
  then show ?thesis
    using assms(2,3) by (auto simp: bundleOutcome_def)
qed

lemma ensuredAll_not_stored:
  "ensuredAll (\<lambda>i. ERemote cs (objectGet i)) (\<lambda>i. ERemote cs (RCreateObj (objectMade i))) is r es
   \<Longrightarrow> filter bundleStored es = []"
  unfolding ensuredAll_def by (fastforce simp: filter_empty_conv)

lemma bundleOutcome_prefix:
  assumes "bundleOutcome E t0 a r es" and "filter bundleStored es0 = []"
  shows "bundleOutcome E t0 a r (es0 @ es)"
proof -
  have "installedProperly E t0 a es \<Longrightarrow> installedProperly E t0 a (es0 @ es)"
    by (erule installedProperly_mono) simp
  with assms show ?thesis
    by (auto simp: bundleOutcome_def)
qed

lemma storeInstalled_law:
  assumes "installedProperly E t0 a es" and "filter bundleStored es = []" and "\<And>err. fails err \<noteq> (noResult, None)"
  shows "wp (onErr fails (k8sUpdateAppBundle E (setInstalled a)) (\<lambda>_. ret (noResult, None)))
    (\<lambda>r t'. \<exists>es. t' = t @ es \<and> bundleOutcome E t0 a r es) (t @ es)"
  using bundleOutcome_stored [OF assms(1,2)] assms(3)
  by (simp add: k8sUpdateAppBundle_def split: sum.split)

lemma installOn_law:
  assumes c: "envListClusters E t0 (omNamespace (abMeta a)) = Inr (c # items)" "clusterPhase c = RunningClusterPhase"
    and t: "t = t0 @ [EList KCluster (omNamespace (abMeta a)) None]"
  shows "wp (installOn E a c) (\<lambda>r t'. \<exists>es. t' = t @ es \<and> bundleOutcome E t0 a r es) t"
proof -
  let ?Q = "\<lambda>r t'. \<exists>es. t' = t @ es \<and> bundleOutcome E t0 a r es"
  have remote: "wp (onErrO h (install E cs a) (onErr fails (k8sUpdateAppBundle E (setInstalled a)) (\<lambda>_. ret (noResult, None))))
      ?Q (t @ [e])"
    if e: "\<not> bundleStored e" and cs: "remoteOf E t c cs" and h: "\<And>err. h err \<noteq> (noResult, None)"
      and fails: "\<And>err. fails err \<noteq> (noResult, None)" for cs h fails e
    unfolding wp_onErrO install_ensureAll
  proof (rule wp_mono [OF install_objects.wp_ensureAll], clarify)
    fix r es
    assume es: "ensuredAll (\<lambda>i. ERemote cs (objectGet i)) (\<lambda>i. ERemote cs (RCreateObj (objectMade i))) (installObjects a) r es"
    have quiet: "filter bundleStored (e # es) = []"
      using e ensuredAll_not_stored [OF es] by simp
    show "case r of Some err \<Rightarrow> ?Q (h err) ((t @ [e]) @ es)
      | None \<Rightarrow> wp (onErr fails (k8sUpdateAppBundle E (setInstalled a)) (\<lambda>_. ret (noResult, None))) ?Q ((t @ [e]) @ es)"
    proof (cases r)
      case None
      with es have "installedProperly E t0 a (e # es)"
        by (intro installedProperlyI [OF c cs [unfolded t]]) auto
      from storeInstalled_law [OF this quiet fails, where t = t] show ?thesis
        by (simp add: None del: wp_onErr)
    next
      case (Some err)
      then show ?thesis
        using bundleOutcome_quiet [OF quiet h] by simp
    qed
  qed
  have "remoteOf E t c cs"
    if "envGetSecret E t (privateKeySecret (clusterNamespace c)) = Inr secret"
      "goGet (secData secret) ServiceAccountKubeconfigKey = Some configData"
      "clientsetWrapped E ''could not create new client config from secret'' ''could not create rest client config''
         ''could not create a clientset'' configData = Inr cs" for cs secret configData
    unfolding remoteOf_def using that by blast
  then show ?thesis
    unfolding installOn_def Let_def k8sGetSecret_def
    by (auto simp: zero_secret_def simp del: wp_onErr wp_onErrO split: option.split sum.split intro!: bundleOutcome_quiet remote)
qed

text \<open>C12: An app bundle is recorded as installed only when its cluster runs and the namespace, the
  service account, the role binding and the job of its installation are all there, in that cluster, found or newly
  created, and nothing is created that was not looked for and not found; and the controller stops
  coming back to a bundle only when that record has been stored.\<close>

theorem installed_means_installed:
  "wp (ReconcileAppBundle E req) (\<lambda>r t'. \<exists>es. t' = t @ es \<and> (case envGetAppBundle E t req of
       Inl err \<Rightarrow> filter bundleStored es = []
     | Inr a \<Rightarrow> bundleOutcome E (t @ [EGet KAppBundle req None]) a r es)) t"
proof (cases "envGetAppBundle E t req")
  case (Inl err)
  then show ?thesis
    by (simp add: ReconcileAppBundle_def k8sGetAppBundle_def)
next
  case (Inr a)
  have later: "requeueAfter n \<noteq> noResult" if "0 < n" for n
    using that by (simp add: requeueAfter_def noResult_def)
  let ?t0 = "t @ [EGet KAppBundle req None]"
  have run: "wp (installOn E a c) (\<lambda>r t'. \<exists>es. t' = t @ es \<and> bundleOutcome E ?t0 a r es)
      (t @ [EGet KAppBundle req None, EList KCluster (omNamespace (abMeta a)) None])"
    if "envListClusters E ?t0 (omNamespace (abMeta a)) = Inr (c # items)" "clusterPhase c = RunningClusterPhase" for c items
    by (rule wp_mono [OF installOn_law [OF that]])
      (auto intro!: bundleOutcome_prefix [of _ _ _ _ _ "[EGet KAppBundle req None, EList KCluster (omNamespace (abMeta a)) None]", simplified])
  show ?thesis
  proof (cases "abPhase a = InstalledAppBundlePhase")
    case True
    with Inr show ?thesis
      by (simp add: ReconcileAppBundle_def k8sGetAppBundle_def bundleOutcome_def)
  next
    case False
    with Inr show ?thesis
      by (auto simp: ReconcileAppBundle_def k8sGetAppBundle_def k8sListClusters_def Let_def later neq_Nil_conv
          split: sum.split intro!: run bundleOutcome_quiet)
  qed
qed

end
