(* ===== verification/Api_Server.thy ===== *)
theory Api_Server
  imports MachineSet Cert
begin

text \<open>
  \<^verbatim>\<open>internal/apiserver\<close>: the gRPC service by which users create, read, scale and delete clusters; and
  the cross-origin rule of the HTTP gateway in \<^verbatim>\<open>pkg/apiserver\<close>. A handler returns an error or its
  reply; \<open>Grpc code msg\<close> is \<open>status.Error\<close>. The messages are those of \<^verbatim>\<open>api/api.proto\<close>, with the
  fields the handlers read; a message field that may be absent is an option.
\<close>

section \<open>Messages\<close>

datatype grpc_code = Internal | NotFound

datatype rpc_error = Grpc grpc_code string | Raw go_error

datatype api_cluster_status = STATUS_UNSPECIFIED | PROVISIONING | RUNNING | RECONCILING | STOPPING | ERROR | DEGRADED

type_synonym kubernetes_label = "string \<times> string"

record control_plane_spec =
  cpLabels :: "kubernetes_label list"
  cpInstanceType :: string
  cpCount :: "32 word"

record machine_spec_msg =
  mcName :: string
  mcLabels :: "kubernetes_label list"
  mcInstanceType :: string
  mcCount :: "32 word"

record create_cluster_msg =
  ccName :: string
  ccK8SVersion :: string
  ccControlPlaneNodes :: "control_plane_spec option"
  ccWorkerNodePools :: "machine_spec_msg list"

record cluster_item =
  ciName :: string
  ciStatus :: api_cluster_status

record cluster_detail_item =
  cdName :: string
  cdStatus :: api_cluster_status
  cdKubeconfig :: string

record node_status =
  nsMaasSystemId :: string
  nsK8SVersion :: string
  nsMaasIPAddr :: string
  nsK8SNodeStatus :: string
  nsMaasHostname :: string

record nodes_status_reply =
  nrName :: string
  nrCount :: "32 word"
  nrMachines :: "node_status list"

text \<open>The reply of a handler, or a panic, which ends the whole operator.\<close>

type_synonym 'a rpc = "(rpc_error + 'a) go io"

abbreviation replies :: "'a \<Rightarrow> (rpc_error + 'a) go" where "replies a \<equiv> Returns (Inr a)"
abbreviation refuses :: "rpc_error \<Rightarrow> (rpc_error + 'a) go" where "refuses e \<equiv> Returns (Inl e)"

definition internalError :: "go_error \<Rightarrow> rpc_error" where
  "internalError err = Grpc Internal (errorText err)"

text \<open>After a \<open>Get\<close>: a missing object is told apart.\<close>

definition lookupError :: "go_error \<Rightarrow> rpc_error" where
  "lookupError err = (if isNotFound err then Grpc NotFound (errorText err) else Grpc Internal (errorText err))"

section \<open>Helpers\<close>

definition TranslateClusterStatus :: "cluster_phase \<Rightarrow> api_cluster_status" where
  "TranslateClusterStatus crStatus =
     (if crStatus = UnspecifiedClusterPhase then STATUS_UNSPECIFIED
      else if crStatus = ErrorClusterPhase then ERROR
      else if crStatus = RunningClusterPhase then RUNNING
      else if crStatus = StoppingClusterPhase then STOPPING
      else if crStatus = ReconcilingClusterPhase then RECONCILING
      else STATUS_UNSPECIFIED)"

definition GetKubeConfig :: "env \<Rightarrow> string \<Rightarrow> (go_error + string) io" where
  "GetKubeConfig E clName = do {
     r \<leftarrow> k8sGetSecret E (privateKeySecret clName);
     ret (case r of Inl err \<Rightarrow> Inl err
       | Inr clusterSecret \<Rightarrow> Inr (goIndex (secData clusterSecret) ServiceAccountKubeconfigKey))
   }"

fun machineOnHost :: "string \<Rightarrow> machine list \<Rightarrow> string" where
  "machineOnHost hostIp [] = ''''"
| "machineOnHost hostIp (machine # machines) =
     (if sshHost (mstSshConfig (maStatus machine)) = hostIp then machineName machine
      else machineOnHost hostIp machines)"

definition GetMachineName :: "env \<Rightarrow> string \<Rightarrow> string \<Rightarrow> (go_error + string) io" where
  "GetMachineName E clName hostIp = onErr Inl (GetClusterMachineList E clName) (\<lambda>machineList.
     ret (Inr (machineOnHost hostIp machineList)))"

section \<open>The objects of a new cluster\<close>

definition labelMap :: "kubernetes_label list \<Rightarrow> string go_map" where
  "labelMap ls = goPut ''controller-tools.k8s.io'' ''1.0'' (foldl (\<lambda>m (name, v). goPut name v m) [] ls)"

definition clusterObject :: "create_cluster_msg \<Rightarrow> cluster" where
  "clusterObject msg = zero_cluster\<lparr>
     clMeta := zero_object_meta\<lparr>omName := ccName msg, omNamespace := ccName msg,
       omLabels := [(''controller-tools.k8s.io'', ''1.0'')]\<rparr>,
     clKubernetesVersion := ccK8SVersion msg\<rparr>"

definition controlPlaneObject :: "string \<Rightarrow> control_plane_spec \<Rightarrow> machine" where
  "controlPlaneObject name machineConfig = zero_machine\<lparr>
     maMeta := zero_object_meta\<lparr>omGenerateName := ''control-plane-'', omNamespace := name,
       omLabels := labelMap (cpLabels machineConfig)\<rparr>,
     maSpec := zero_machine_spec\<lparr>mspRoles := [MachineRoleMaster, MachineRoleEtcd],
       mspInstanceType := cpInstanceType machineConfig\<rparr>\<rparr>"

definition zero_machineset_status :: machineset_status where
  "zero_machineset_status = \<lparr>mssLastUpdated = None, mssPhase = '''', mssReplicas = 0,
     mssFullyLabeledReplicas = 0, mssReadyReplicas = 0, mssObservedGeneration = 0,
     mssErrorReason = None, mssErrorMessage = None\<rparr>"

text \<open>\<open>int(machineSetConfig.Count)\<close> extends the sign.\<close>

definition workerPoolObject :: "string \<Rightarrow> machine_spec_msg \<Rightarrow> machineset" where
  "workerPoolObject name machineSetConfig = (let
       machineLabels = goPut ''node-pool'' (mcName machineSetConfig) (labelMap (mcLabels machineSetConfig))
     in \<lparr>msType = zero_type_meta,
       msMeta = zero_object_meta\<lparr>omName := mcName machineSetConfig, omNamespace := name, omLabels := machineLabels\<rparr>,
       msReplicas = scast (mcCount machineSetConfig),
       msSelector = \<lparr>lsMatchLabels = [(''node-pool'', mcName machineSetConfig)], lsMatchExpressions = []\<rparr>,
       msTemplate = \<lparr>mtMeta = zero_object_meta\<lparr>omLabels := machineLabels\<rparr>,
         mtSpec = zero_machine_spec\<lparr>mspRoles := [MachineRoleWorker],
           mspInstanceType := mcInstanceType machineSetConfig\<rparr>\<rparr>,
       msStatus = zero_machineset_status\<rparr>)"

text \<open>\<open>err.Error()\<close> of an invalid machine set without an error would be a nil dereference.\<close>

fun createWorkerPools :: "env \<Rightarrow> string \<Rightarrow> machine_spec_msg list \<Rightarrow> rpc_error option go io" where
  "createWorkerPools E name [] = ret (Returns None)"
| "createWorkerPools E name (machineSetConfig # pools) = (let
       machineSetObject = workerPoolObject name machineSetConfig
     in case ValidateMachineSet E machineSetObject of (isValid, err) \<Rightarrow>
       if \<not> isValid \<or> err \<noteq> None then
         ret (case err of None \<Rightarrow> Panics | Some err \<Rightarrow> Returns (Some (internalError err)))
       else onErrO (Returns \<circ> Some \<circ> internalError) (k8sCreate E (OMachineSet machineSetObject))
         (createWorkerPools E name pools))"

definition prometheusBundle :: "string \<Rightarrow> appbundle" where
  "prometheusBundle name = \<lparr>abType = zero_type_meta,
     abMeta = zero_object_meta\<lparr>omName := ''prometheus-addons-appbundle'', omNamespace := name\<rparr>,
     abImage = ''quay.io/samsung_cnct/cma-prometheus-installer:latest'', abCommand = '''', abPhase = ''''\<rparr>"

section \<open>The handlers for clusters\<close>

definition CreateCluster :: "env \<Rightarrow> create_cluster_msg \<Rightarrow> cluster_item rpc" where
  "CreateCluster E msg =
     onErrO (refuses \<circ> internalError) (k8sCreate E (ONamespace (ccName msg))) (
     onErrO (refuses \<circ> internalError) (k8sCreate E (OCluster (clusterObject msg))) (
     case ccControlPlaneNodes msg of
       None \<Rightarrow> ret Panics
     | Some machineConfig \<Rightarrow>
         onErrO (refuses \<circ> internalError) (k8sCreate E (OMachine (controlPlaneObject (ccName msg) machineConfig))) (do {
           pools \<leftarrow> createWorkerPools E (ccName msg) (ccWorkerNodePools msg);
           case pools of
             Panics \<Rightarrow> ret Panics
           | Returns res \<Rightarrow> (case res of
                 Some err \<Rightarrow> ret (refuses err)
               | None \<Rightarrow> do {
                   errAppBundle \<leftarrow> k8sCreate E (OAppBundle (prometheusBundle (ccName msg)));
                   ret (replies \<lparr>ciName = ccName msg, ciStatus = PROVISIONING\<rparr>)
                 })
         })))"

definition GetCluster :: "env \<Rightarrow> string \<Rightarrow> cluster_detail_item rpc" where
  "GetCluster E name = do {
     kubeconfig \<leftarrow> GetKubeConfig E name;
     let kubeconfigBytes = (case kubeconfig of Inl err \<Rightarrow> '''' | Inr bytes \<Rightarrow> bytes);
     onErr (refuses \<circ> lookupError) (k8sGetCluster E (objectKey name name)) (\<lambda>clusterInstance.
       ret (replies \<lparr>cdName = name, cdStatus = TranslateClusterStatus (clusterPhase clusterInstance),
         cdKubeconfig = kubeconfigBytes\<rparr>))
   }"

definition nodeStatusOf :: "machine \<Rightarrow> node_status" where
  "nodeStatusOf clusterMachine = \<lparr>
     nsMaasSystemId = (if machineSystemId clusterMachine = '''' then ''Waiting for Machine Instantiation...''
       else machineSystemId clusterMachine),
     nsK8SVersion = mstKubernetesVersion (maStatus clusterMachine),
     nsMaasIPAddr = sshHost (mstSshConfig (maStatus clusterMachine)),
     nsK8SNodeStatus = machinePhase clusterMachine,
     nsMaasHostname = (case omAnnotations (maMeta clusterMachine) of None \<Rightarrow> ''''
       | Some annotations \<Rightarrow> goIndex annotations ''maas-hostname'')\<rparr>"

definition GetClusterNodesStatus :: "env \<Rightarrow> string \<Rightarrow> nodes_status_reply rpc" where
  "GetClusterNodesStatus E clName =
     onErr (refuses \<circ> lookupError) (k8sGetCluster E (objectKey clName clName)) (\<lambda>clusterInstance.
     onErr (refuses \<circ> lookupError) (k8sListMachines E (clusterNamespace clusterInstance)) (\<lambda>machineList.
       ret (replies \<lparr>nrName = clusterName clusterInstance, nrCount = of_nat (length machineList),
         nrMachines = map nodeStatusOf machineList\<rparr>)))"

text \<open>The reply is \<open>(Ok, Status)\<close>.\<close>

definition DeleteCluster :: "env \<Rightarrow> string \<Rightarrow> (bool \<times> string) rpc" where
  "DeleteCluster E name =
     onErr (refuses \<circ> lookupError) (k8sGetCluster E (objectKey name name)) (\<lambda>clusterInstance.
     onErrO (refuses \<circ> internalError) (k8sDelete E (OCluster clusterInstance)) (do {
       r \<leftarrow> k8sGetNamespace E (objectKey '''' name);
       case r of
         Inl err \<Rightarrow> ret (replies (True, ''Deleted''))
       | Inr namespace \<Rightarrow> onErrO (refuses \<circ> internalError) (k8sDelete E (ONamespace namespace))
           (ret (replies (True, ''Deleted'')))
     }))"

text \<open>On an error the reply \<open>Ok = false\<close> goes with the raw error, which is what the client gets.\<close>

definition GetClusterList :: "env \<Rightarrow> (bool \<times> cluster_item list) rpc" where
  "GetClusterList E = onErr (refuses \<circ> Raw) (k8sListClusters E '''') (\<lambda>items.
     if length items = 0 then ret (replies (True, []))
     else ret (replies (True, map (\<lambda>cluster. \<lparr>ciName = clusterName cluster,
       ciStatus = TranslateClusterStatus (clusterPhase cluster)\<rparr>) items)))"

text \<open>The reply is \<open>(Ok, Versions)\<close>.\<close>

definition GetUpgradeClusterInformation :: "(bool \<times> string list) rpc" where
  "GetUpgradeClusterInformation = ret (replies (False, KubernetesVersions))"

definition UpgradeCluster :: "env \<Rightarrow> string \<Rightarrow> string \<Rightarrow> bool rpc" where
  "UpgradeCluster E name version =
     onErr (refuses \<circ> lookupError) (k8sGetCluster E (objectKey name name)) (\<lambda>clusterInstance.
     onErr (refuses \<circ> internalError) (k8sUpdateCluster E (clusterInstance\<lparr>clKubernetesVersion := version\<rparr>))
       (\<lambda>_. ret (replies True)))"

section \<open>The handlers for node pools\<close>

definition nodePoolObject :: "string \<Rightarrow> machine_spec_msg \<Rightarrow> machineset" where
  "nodePoolObject clName machineSetConfig = (let
       machineLabels = goPut ''node-pool'' (mcName machineSetConfig) (labelMap (mcLabels machineSetConfig))
     in \<lparr>msType = zero_type_meta,
       msMeta = zero_object_meta\<lparr>omName := mcName machineSetConfig, omNamespace := clName, omLabels := machineLabels\<rparr>,
       msReplicas = scast (mcCount machineSetConfig),
       msSelector = \<lparr>lsMatchLabels = [(''node-pool'', mcName machineSetConfig)], lsMatchExpressions = []\<rparr>,
       msTemplate = \<lparr>mtMeta = zero_object_meta\<lparr>omLabels := machineLabels\<rparr>,
         mtSpec = zero_machine_spec\<lparr>mspRoles := [MachineRoleWorker],
           mspInstanceType := mcInstanceType machineSetConfig\<rparr>\<rparr>,
       msStatus = zero_machineset_status\<rparr>)"

fun addWorkerPools :: "env \<Rightarrow> string \<Rightarrow> machine_spec_msg list \<Rightarrow> bool rpc" where
  "addWorkerPools E clName [] = ret (replies True)"
| "addWorkerPools E clName (machineSetConfig # pools) = (let
       machineSetObject = nodePoolObject clName machineSetConfig
     in case ValidateMachineSet E machineSetObject of (isValid, err) \<Rightarrow>
       if \<not> isValid \<or> err \<noteq> None then
         ret (case err of None \<Rightarrow> Panics | Some err \<Rightarrow> refuses (internalError err))
       else onErrO (refuses \<circ> internalError) (k8sCreate E (OMachineSet machineSetObject))
         (addWorkerPools E clName pools))"

definition AddNodePool :: "env \<Rightarrow> string \<Rightarrow> machine_spec_msg list \<Rightarrow> bool rpc" where
  "AddNodePool E clName workerNodePools =
     onErr (refuses \<circ> lookupError) (k8sGetCluster E (objectKey clName clName)) (\<lambda>_.
       addWorkerPools E clName workerNodePools)"

fun deletePools :: "env \<Rightarrow> string \<Rightarrow> string list \<Rightarrow> bool rpc" where
  "deletePools E clName [] = ret (replies True)"
| "deletePools E clName (name # names) =
     onErr (refuses \<circ> lookupError) (k8sGetMachineSet E (objectKey clName name)) (\<lambda>machineSet.
     onErrO (refuses \<circ> internalError) (k8sDelete E (OMachineSet machineSet)) (deletePools E clName names))"

definition DeleteNodePool :: "env \<Rightarrow> string \<Rightarrow> string list \<Rightarrow> bool rpc" where
  "DeleteNodePool E clName nodePoolNames =
     onErr (refuses \<circ> lookupError) (k8sGetCluster E (objectKey clName clName)) (\<lambda>_.
       deletePools E clName nodePoolNames)"

text \<open>A pool to scale is its name and its count.\<close>

fun scalePools :: "env \<Rightarrow> string \<Rightarrow> (string \<times> 32 word) list \<Rightarrow> bool rpc" where
  "scalePools E clName [] = ret (replies True)"
| "scalePools E clName ((name, n) # pools) =
     onErr (refuses \<circ> lookupError) (k8sGetMachineSet E (objectKey clName name)) (\<lambda>machineSet.
     onErr (refuses \<circ> internalError) (k8sUpdateMachineSet E (machineSet\<lparr>msReplicas := scast n\<rparr>)) (\<lambda>_.
       scalePools E clName pools))"

definition ScaleNodePool :: "env \<Rightarrow> string \<Rightarrow> (string \<times> 32 word) list \<Rightarrow> bool rpc" where
  "ScaleNodePool E clName nodePools =
     onErr (refuses \<circ> lookupError) (k8sGetCluster E (objectKey clName clName)) (\<lambda>_.
       scalePools E clName nodePools)"

section \<open>Cross-origin requests\<close>

record http_request =
  hrMethod :: string
  hrOrigin :: string
  hrRequestMethod :: string

definition preflightHandler :: "string go_map \<Rightarrow> string go_map" where
  "preflightHandler header = (let
       headers = [''Content-Type'', ''Accept''];
       methods = [''GET'', ''HEAD'', ''POST'', ''PUT'', ''DELETE'']
     in goPut ''Access-Control-Allow-Methods'' (joinWith '','' methods)
       (goPut ''Access-Control-Allow-Headers'' (joinWith '','' headers) header))"

text \<open>The headers of the answer and whether the request goes on to the handler behind.\<close>

definition allowCORS :: "http_request \<Rightarrow> string go_map \<Rightarrow> string go_map \<times> bool" where
  "allowCORS r header =
     (if hrOrigin r \<noteq> '''' then (let header = goPut ''Access-Control-Allow-Origin'' (hrOrigin r) header in
        if hrMethod r = ''OPTIONS'' \<and> hrRequestMethod r \<noteq> '''' then (preflightHandler header, False)
        else (header, True))
      else (header, True))"

end
