(* ===== verification/Api_Server_Facts.thy ===== *)
theory Api_Server_Facts
  imports Api_Server MachineSet_Scaling
begin

text \<open>
  Correctness of the API server: the objects of a new cluster are created in order, the machines of a
  pool are counted by the machine set that is created for it, a missing cluster is reported as such
  by every handler; and the inputs the handlers do not check.
\<close>

section \<open>Node pools\<close>

lemma nodePoolObject_eq: "nodePoolObject clName cfg = workerPoolObject clName cfg"
  by (simp add: nodePoolObject_def workerPoolObject_def)

lemma workerPoolObject_simps [simp]:
  "msReplicas (workerPoolObject name cfg) = scast (mcCount cfg)"
  "msSelector (workerPoolObject name cfg) = \<lparr>lsMatchLabels = [(''node-pool'', mcName cfg)], lsMatchExpressions = []\<rparr>"
  "goGet (templateLabels (workerPoolObject name cfg)) ''node-pool'' = Some (mcName cfg)"
  "omDeletionTimestamp (mtMeta (msTemplate (workerPoolObject name cfg))) = None"
  by (simp_all add: workerPoolObject_def Let_def zero_object_meta_def)

text \<open>The name of a pool that is a label value (\<^verbatim>\<open>k8s.io/apimachinery\<close> checks the syntax).\<close>

definition poolName :: "env \<Rightarrow> string \<Rightarrow> bool" where
  "poolName E name \<longleftrightarrow> envLabelKey E ''node-pool'' = None \<and> envLabelValue E name = None"

lemma pool_selector:
  "poolName E name \<Longrightarrow> \<exists>sel. LabelSelectorAsSelector E \<lparr>lsMatchLabels = [(''node-pool'', name)], lsMatchExpressions = []\<rparr> = Inr sel"
  by (simp add: poolName_def LabelSelectorAsSelector_def NewRequirement_def operatorCheck_def)

lemma pool_valid:
  assumes "poolName E (mcName cfg)"
  shows "ValidateMachineSet E (workerPoolObject name cfg) = (True, None)"
proof -
  have "fst (ValidateMachineSet E (workerPoolObject name cfg))"
    using pool_selector [OF assms] by (simp add: ValidateMachineSet_iff selects_def)
  then show ?thesis
    using ValidateMachineSet_iff(2) by (metis prod.collapse)
qed

text \<open>Both handlers that make node pools make the same machine set for the same pool. It passes the
  validation, and whatever metadata the store gives it, each machine its reconciler creates is one it
  counts, so that a pool does not run away; labels given by the user cannot change that.\<close>

theorem pool_machines_counted:
  assumes "poolName E (mcName cfg)"
    and "msSelector ms = msSelector (workerPoolObject name cfg)" and "msTemplate ms = msTemplate (workerPoolObject name cfg)"
  shows "nodePoolObject name cfg = workerPoolObject name cfg
    \<and> ValidateMachineSet E (workerPoolObject name cfg) = (True, None)
    \<and> \<not> shouldExcludeMachine E ms (createMachine ms)"
proof -
  have "fst (ValidateMachineSet E ms)"
    using assms pool_selector [OF assms(1)] by (simp add: ValidateMachineSet_iff selects_def)
  then have "\<not> shouldExcludeMachine E ms (createMachine ms)"
    by (rule createMachine_belongs(2)) (simp_all add: assms)
  then show ?thesis
    using pool_valid [OF assms(1)] nodePoolObject_eq by simp
qed

definition trickyPool :: machine_spec_msg where
  "trickyPool = \<lparr>mcName = ''gpu'', mcLabels = [(''node-pool'', ''other''), (''zone'', ''a'')],
     mcInstanceType = ''large'', mcCount = 2\<rparr>"

theorem pool_machines_counted_witness:
  "nodePoolObject ''c'' trickyPool = workerPoolObject ''c'' trickyPool
    \<and> ValidateMachineSet offline (workerPoolObject ''c'' trickyPool) = (True, None)
    \<and> \<not> shouldExcludeMachine offline (workerPoolObject ''c'' trickyPool) (createMachine (workerPoolObject ''c'' trickyPool))"
  by (rule pool_machines_counted) (simp_all add: poolName_def offline_def Let_def)

section \<open>Creating a cluster\<close>

text \<open>The objects of a cluster in the order in which they are created.\<close>

definition clusterPlan :: "create_cluster_msg \<Rightarrow> control_plane_spec \<Rightarrow> obj list" where
  "clusterPlan msg machineConfig = [ONamespace (ccName msg), OCluster (clusterObject msg),
     OMachine (controlPlaneObject (ccName msg) machineConfig)]
     @ map (OMachineSet \<circ> workerPoolObject (ccName msg)) (ccWorkerNodePools msg)"

text \<open>Objects are created in order, up to the first that fails.\<close>

fun createAll :: "env \<Rightarrow> obj list \<Rightarrow> go_error option io" where
  "createAll E [] = ret None"
| "createAll E (ob # obs) = onErrO Some (k8sCreate E ob) (createAll E obs)"

lemma onErrO_assoc: "onErrO h (onErrO Some m k) k' = onErrO h m (onErrO h k k')"
  by (auto simp: onErrO_def intro!: arg_cong [where f = "State_Monad.bind m"] ext split: option.split)

lemma onErrO_None: "onErrO h (ret None) k = k"
  by (simp add: onErrO_def)

lemma createWorkerPools_createAll:
  assumes "list_all (poolName E \<circ> mcName) pools"
  shows "createWorkerPools E name pools = onErrO (Returns \<circ> Some \<circ> internalError)
    (createAll E (map (OMachineSet \<circ> workerPoolObject name) pools)) (ret (Returns None))"
  using assms
  by (induction pools) (auto simp: pool_valid onErrO_None onErrO_assoc)


definition twoPools :: create_cluster_msg where
  "twoPools = \<lparr>ccName = ''c'', ccK8SVersion = ''1.13.5'',
     ccControlPlaneNodes = Some \<lparr>cpLabels = [], cpInstanceType = ''small'', cpCount = 1\<rparr>,
     ccWorkerNodePools = [trickyPool, trickyPool\<lparr>mcName := ''cpu''\<rparr>]\<rparr>"


text \<open>A request without a control plane ends the operator with a panic, after the namespace and the
  cluster were created.\<close>

theorem CreateCluster_panics:
  assumes "ccControlPlaneNodes msg = None"
    and "envCreate E t (ONamespace (ccName msg)) = None"
    and "envCreate E (t @ [ECreate (ONamespace (ccName msg)) None]) (OCluster (clusterObject msg)) = None"
  shows "run_state (CreateCluster E msg) t
     = (Panics, t @ [ECreate (ONamespace (ccName msg)) None, ECreate (OCluster (clusterObject msg)) None])"
  using assms by (simp add: CreateCluster_def k8sCreate_def onErrO_def call_def)

definition accepting :: env where
  "accepting = offline\<lparr>envCreate := \<lambda>_ _. None, envGetCluster := \<lambda>_ _. Inr zero_cluster\<rparr>"

theorem CreateCluster_panics_witness:
  "run_state (CreateCluster accepting (twoPools\<lparr>ccControlPlaneNodes := None\<rparr>)) []
     = (Panics, [ECreate (ONamespace ''c'') None, ECreate (OCluster (clusterObject (twoPools\<lparr>ccControlPlaneNodes := None\<rparr>))) None])"
  using CreateCluster_panics [of "twoPools\<lparr>ccControlPlaneNodes := None\<rparr>" accepting "[]"]
  by (simp add: accepting_def twoPools_def)

section \<open>Inputs that are not checked\<close>

text \<open>C35: A node pool with a negative count is accepted and its machine set stored; the reconciler of
  that machine set then deletes its machines and never returns.\<close>

theorem negative_pool_accepted:
  assumes "sint (mcCount cfg) < 0" and "poolName E (mcName cfg)"
    and "envGetCluster E t (objectKey clName clName) = Inr c"
    and "envCreate E (t @ [EGet KCluster (objectKey clName clName) None]) (OMachineSet (nodePoolObject clName cfg)) = None"
    and "msReplicas ms = msReplicas (nodePoolObject clName cfg)" and "int (length machines) - sint (mcCount cfg) < 2 ^ 31"
  shows "wp (AddNodePool E clName [cfg]) (\<lambda>r t'. r = replies True
     \<and> t' = t @ [EGet KCluster (objectKey clName clName) None, ECreate (OMachineSet (nodePoolObject clName cfg)) None]
     \<and> wp (syncReplicas E ms machines) (\<lambda>r' t2. r' = None
         \<and> (\<exists>ds. writes t2 = writes t' @ deletionsOf ds \<and> image_mset fst (mset ds) = mset machines)) t') t"
proof -
  have wide: "sint (msReplicas ms) = sint (mcCount cfg)"
    by (simp add: assms(5) nodePoolObject_eq sint_up_scast is_up)
  have block: "wp (syncReplicas E ms machines) (\<lambda>r' t2. r' = None
      \<and> (\<exists>ds. writes t2 = writes t1 @ deletionsOf ds \<and> image_mset fst (mset ds) = mset machines)) t1" for t1
    by (rule negative_replicas_law) (use assms(1,6) wide in simp_all)
  have valid: "ValidateMachineSet E (nodePoolObject clName cfg) = (True, None)"
    using pool_valid [OF assms(2)] by (simp add: nodePoolObject_eq)
  show ?thesis
    using assms(3,4) block by (simp add: AddNodePool_def valid k8sGetCluster_def k8sCreate_def Let_def)
qed

definition negativePool :: machine_spec_msg where
  "negativePool = \<lparr>mcName = ''gpu'', mcLabels = [], mcInstanceType = ''large'', mcCount = - 1\<rparr>"

theorem negative_pool_accepted_witness:
  "wp (AddNodePool accepting ''c'' [negativePool]) (\<lambda>r t'. r = replies True
     \<and> t' = [] @ [EGet KCluster (objectKey ''c'' ''c'') None, ECreate (OMachineSet (nodePoolObject ''c'' negativePool)) None]
     \<and> wp (syncReplicas accepting (nodePoolObject ''c'' negativePool) [zero_machine]) (\<lambda>r' t2. r' = None
         \<and> (\<exists>ds. writes t2 = writes t' @ deletionsOf ds \<and> image_mset fst (mset ds) = mset [zero_machine])) t') []"
  by (rule negative_pool_accepted) (simp_all add: negativePool_def accepting_def poolName_def offline_def Let_def)

section \<open>Clusters that do not exist\<close>

definition reportsMissing :: "'a rpc \<Rightarrow> go_error \<Rightarrow> trace \<Rightarrow> bool" where
  "reportsMissing m err t \<longleftrightarrow> wp m (\<lambda>r t'. r = refuses (Grpc NotFound (errorText err)) \<and> writes t' = writes t) t"

text \<open>Every handler that works on an existing cluster answers \<open>NotFound\<close> with the error of the store
  when there is none, and changes nothing.\<close>

theorem missing_cluster_not_found:
  assumes "\<And>t'. envGetCluster E t' (objectKey name name) = Inl err" and "isNotFound err"
  shows "reportsMissing (GetCluster E name) err t \<and> reportsMissing (GetClusterNodesStatus E name) err t
    \<and> reportsMissing (DeleteCluster E name) err t \<and> reportsMissing (UpgradeCluster E name version) err t
    \<and> reportsMissing (AddNodePool E name pools) err t \<and> reportsMissing (DeleteNodePool E name names) err t
    \<and> reportsMissing (ScaleNodePool E name sizes) err t"
  using assms
  by (intro conjI; simp add: reportsMissing_def GetCluster_def GetClusterNodesStatus_def DeleteCluster_def
      UpgradeCluster_def AddNodePool_def DeleteNodePool_def ScaleNodePool_def GetKubeConfig_def k8sGetCluster_def
      k8sGetSecret_def lookupError_def Let_def split: sum.split)

theorem missing_cluster_not_found_witness:
  "reportsMissing (DeleteCluster (offline\<lparr>envGetCluster := \<lambda>_ _. Inl (StatusError StatusReasonNotFound ''gone'')\<rparr>) ''c'')
     (StatusError StatusReasonNotFound ''gone'') []"
  using missing_cluster_not_found [of "offline\<lparr>envGetCluster := \<lambda>_ _. Inl (StatusError StatusReasonNotFound ''gone'')\<rparr>"
    "''c''" "StatusError StatusReasonNotFound ''gone''" "[]"] by simp

end
