(* ===== verification/Cluster_Controller.thy ===== *)
theory Cluster_Controller
  imports Requests Cert_Gen Polling
begin

text \<open>
  \<^verbatim>\<open>pkg/controller/cluster/cluster_controller.go\<close>: the cluster controller. A new cluster gets its
  secret with the certificate bundle and becomes reconciling; it is running once the services of its
  own API server answer. The machines of its namespace are claimed, and the secret of a cluster that
  is gone is deleted after the last of them.
\<close>

section \<open>The watch on machines\<close>

definition clusterOfMachine :: "env \<Rightarrow> string \<Rightarrow> object_key list io" where
  "clusterOfMachine E ns = do {
     r \<leftarrow> k8sListClusters E ns;
     ret (case r of
       Inl err \<Rightarrow> []
     | Inr items \<Rightarrow> if length items = 0 then []
         else [objectKey (clusterNamespace (items ! 0)) (clusterName (items ! 0))])
   }"

section \<open>Claiming machines\<close>

definition clusterRef :: "cluster \<Rightarrow> owner_reference" where
  "clusterRef cluster = newControllerRef (clMeta cluster) SchemeGroupVersion ''CnctCluster''"

definition canClaim :: "machine \<Rightarrow> bool" where
  "canClaim machine \<longleftrightarrow> \<not> list_ex (\<lambda>v. refController v = Some True) (machineOwners machine)"

definition claimMachine :: "env \<Rightarrow> cluster \<Rightarrow> machine \<Rightarrow> (go_error + machine) io" where
  "claimMachine E cluster machine =
     k8sUpdateMachine E (machine\<lparr>maMeta := addOwner (clusterRef cluster) (maMeta machine)\<rparr>)"

fun claimMachines :: "env \<Rightarrow> cluster \<Rightarrow> machine list \<Rightarrow> go_error option io" where
  "claimMachines E cluster [] = ret None"
| "claimMachines E cluster (machine # machines) =
     (if canClaim machine
      then onErr Some (claimMachine E cluster machine) (\<lambda>_. claimMachines E cluster machines)
      else claimMachines E cluster machines)"

section \<open>Secrets and status\<close>

definition clusterSecret :: "cluster \<Rightarrow> ca_bundle \<Rightarrow> secret" where
  "clusterSecret cluster bundle = \<lparr>secName = ''cluster-private-key'', secNamespace = clusterNamespace cluster,
     secType = ''Opaque'', secData = MergeWithMap bundle []\<rparr>"

definition createClusterSecrets :: "env \<Rightarrow> cluster \<Rightarrow> go_error option io" where
  "createClusterSecrets E cluster = onErr Some (NewCABundle E) (\<lambda>bundle.
     k8sCreate E (OSecret (clusterSecret cluster bundle)))"

definition updateClusterStatus :: "env \<Rightarrow> cluster \<Rightarrow> string \<Rightarrow> string \<Rightarrow> string \<Rightarrow> string list
    \<Rightarrow> go_error option io" where
  "updateClusterStatus E clusterInstance eventType event eventMessage args =
     onErr Some (k8sGetCluster E (objectKey (clusterNamespace clusterInstance) (clusterName clusterInstance)))
       (\<lambda>fresh. do {
       now \<leftarrow> timeNow E;
       onErr Some (k8sUpdateCluster E (fresh\<lparr>
           clStatus := (clStatus fresh)\<lparr>csLastUpdated := Some now,
             csPhase := clusterPhase clusterInstance,
             csAPIEndpoint := csAPIEndpoint (clStatus clusterInstance)\<rparr>,
           clMeta := (clMeta fresh)\<lparr>omFinalizers := omFinalizers (clMeta clusterInstance)\<rparr>\<rparr>)) (\<lambda>stored. do {
         _ \<leftarrow> recordEvent (OCluster stored) eventType event (formatQ eventMessage args);
         ret None
       })
     })"

definition setClusterPhase :: "cluster_phase \<Rightarrow> cluster \<Rightarrow> cluster" where
  "setClusterPhase p cluster = cluster\<lparr>clStatus := (clStatus cluster)\<lparr>csPhase := p\<rparr>\<rparr>"

section \<open>Reconcile\<close>

type_synonym cluster_reconciled = "reconcile_result \<times> go_error option"

text \<open>The cluster does not exist any more.\<close>

definition cleanUpCluster :: "env \<Rightarrow> string \<Rightarrow> cluster_reconciled io" where
  "cleanUpCluster E namespace =
     onErr (\<lambda>err. (noResult, Some (Wrapped ''could not list machines'' err))) (k8sListMachines E namespace) (\<lambda>machines.
     if length machines \<noteq> 0 then ret (requeueAfter 1, None)
     else do {
       r \<leftarrow> k8sGetSecret E (privateKeySecret namespace);
       case r of
         Inl err \<Rightarrow> if isNotFound err then ret (noResult, None)
           else ret (noResult, Some (Wrapped ''could not get secret'' err))
       | Inr secret \<Rightarrow> onErrO (\<lambda>errDelete. (noResult, Some (Wrapped ''could not delete cluster secret'' errDelete)))
           (k8sDelete E (OSecret secret)) (ret (noResult, None))
     })"

definition startCluster :: "env \<Rightarrow> cluster \<Rightarrow> cluster_reconciled io" where
  "startCluster E cluster =
     onErrO (\<lambda>err. (requeueNow, Some err)) (createClusterSecrets E cluster) (do {
       let cluster = setClusterPhase ReconcilingClusterPhase cluster;
       err \<leftarrow> updateClusterStatus E cluster ''Normal'' ResourceStateChange MessageResourceStateChange
         [clusterName cluster, ReconcilingClusterPhase];
       case err of
         Some err \<Rightarrow> ret (requeueNow, Some err)
       | None \<Rightarrow> ret (noResult, None)
     })"

text \<open>The error of the look-up of the secret is not checked: the data of a secret that could not be
  read are empty.\<close>

definition checkCluster :: "env \<Rightarrow> cluster \<Rightarrow> cluster_reconciled io" where
  "checkCluster E cluster = do {
     r \<leftarrow> k8sGetSecret E (privateKeySecret (clusterNamespace cluster));
     let secret = (case r of Inl err \<Rightarrow> zero_secret | Inr secret \<Rightarrow> secret);
     case goGet (secData secret) ServiceAccountKubeconfigKey of
       None \<Rightarrow> ret (noResult, Some (PlainError ''no kubeconfig in secret''))
     | Some configData \<Rightarrow>
         if length configData = 0 then ret (noResult, Some (PlainError ''no kubeconfig in secret''))
         else case clientsetWrapped E ''could not create new client config from secret''
             ''could not create rest client config'' ''could not create a clientset'' configData of
           Inl err \<Rightarrow> ret (noResult, Some err)
         | Inr cs \<Rightarrow> do {
             serviceList \<leftarrow> remoteListServices E cs;
             case serviceList of
               Inl err \<Rightarrow> if isNotFound err then ret (requeueAfter 5, None)
                 else ret (noResult, Some (Wrapped ''could not get service list'' err))
             | Inr items \<Rightarrow>
                 if items > 0 then
                   onErr (\<lambda>err. (noResult, Some (Wrapped ''could not update cluster status'' err)))
                     (k8sUpdateCluster E (setClusterPhase RunningClusterPhase cluster)) (\<lambda>_. ret (noResult, None))
                 else ret (noResult, Some (PlainError ''cluster services are not running''))
           }
   }"

definition reconcileFound :: "env \<Rightarrow> string \<Rightarrow> cluster \<Rightarrow> cluster_reconciled io" where
  "reconcileFound E namespace cluster =
     onErr (\<lambda>err. (noResult, Some err)) (k8sListMachines E namespace) (\<lambda>machines.
     onErrO (\<lambda>err. (noResult, Some err)) (claimMachines E cluster machines)
       (if clusterPhase cluster = '''' then startCluster E cluster
        else if clusterPhase cluster = ReconcilingClusterPhase then checkCluster E cluster
        else ret (noResult, None)))"

definition ReconcileCluster :: "env \<Rightarrow> object_key \<Rightarrow> cluster_reconciled io" where
  "ReconcileCluster E request = do {
     r \<leftarrow> k8sGetCluster E request;
     case r of
       Inl err \<Rightarrow> if isNotFound err then cleanUpCluster E (keyNamespace request) else ret (noResult, Some err)
     | Inr cluster \<Rightarrow> reconcileFound E (keyNamespace request) cluster
   }"

end
