(* ===== verification/Cluster_Facts.thy ===== *)
theory Cluster_Facts
  imports Cluster_Controller Adoption
begin

text \<open>
  Correctness of the cluster controller: it follows the abstract machine of cluster phases, a new
  cluster leaves it with a secret that the machine controller can use, the secret outlives the
  machines, and a start that was interrupted is never finished.
\<close>

interpretation cluster_adopter: adopter E "clMeta c" "clusterRef c" "claimMachine E c" for E c
  by unfold_locales (simp_all add: clusterRef_def claimMachine_def adoptedBy_def)

lemma canClaim_iff: "canClaim m \<longleftrightarrow> getControllerOf (maMeta m) = None"
  by (auto simp: canClaim_def getControllerOf_def list_ex_iff find_None_iff isControllerRef_def)

section \<open>The abstract machine\<close>

inductive cluster_step :: "cluster_phase \<Rightarrow> cluster_phase \<Rightarrow> bool" where
  Start: "cluster_step '''' ReconcilingClusterPhase"
| Run: "cluster_step ReconcilingClusterPhase RunningClusterPhase"

inductive_simps cluster_step_iff: "cluster_step p q"

inductive reachable_cluster :: "cluster_phase \<Rightarrow> bool" where
  New: "reachable_cluster ''''"
| Step: "reachable_cluster p \<Longrightarrow> cluster_step p q \<Longrightarrow> reachable_cluster q"

text \<open>A running cluster stays so: the reconciler has no step for it, and never enters the phases of
  an error or of a stop.\<close>

lemma running_is_final: "\<not> cluster_step RunningClusterPhase q"
  by (simp add: cluster_step_iff)

lemma reachable_cluster_iff:
  "reachable_cluster p \<longleftrightarrow> p \<in> {'''', ReconcilingClusterPhase, RunningClusterPhase}"
proof
  show "reachable_cluster p \<Longrightarrow> p \<in> {'''', ReconcilingClusterPhase, RunningClusterPhase}"
    by (induction rule: reachable_cluster.induct) (auto simp: cluster_step_iff)
  have "reachable_cluster ReconcilingClusterPhase" by (rule Step [OF New Start])
  then have "reachable_cluster RunningClusterPhase" by (rule Step [OF _ Run])
  with \<open>reachable_cluster ReconcilingClusterPhase\<close>
  show "p \<in> {'''', ReconcilingClusterPhase, RunningClusterPhase} \<Longrightarrow> reachable_cluster p"
    by (auto intro: New)
qed

section \<open>What a reconcile writes\<close>

fun clusterWrite :: "cluster \<Rightarrow> event \<Rightarrow> bool" where
  "clusterWrite c (ECreate ob _) \<longleftrightarrow> clusterPhase c = '''' \<and> (\<exists>b. ob = OSecret (clusterSecret c b))"
| "clusterWrite c (EDelete ob _) \<longleftrightarrow> False"
| "clusterWrite c (EUpdate ob _) \<longleftrightarrow> (\<exists>c'. ob = OCluster c' \<and> cluster_step (clusterPhase c) (clusterPhase c'))
     \<or> (\<exists>m. getControllerOf (maMeta m) = None \<and> ob = OMachine (adoptedBy (clusterRef c) m))"
| "clusterWrite c _ \<longleftrightarrow> True"

lemma emits_FromCATemplate [safe_intros]:
  "P ENow \<Longrightarrow> (\<And>n. P (ERandInt n)) \<Longrightarrow> emits P (FromCATemplate E cn)"
  "P ENow \<Longrightarrow> (\<And>n. P (ERandInt n)) \<Longrightarrow> emits P (FromCertTemplate E cn org hosts ca client)"
  unfolding FromCATemplate_def FromCertTemplate_def timeNow_def randInt_def
  by (auto intro!: safe_intros split: option.split)

lemma emits_NewCABundle [safe_intros]: "emits (clusterWrite c) (NewCABundle E)"
  unfolding NewCABundle_def generateKey_def createCertificate_def
  by (intro safe_intros) (auto simp: Let_def intro!: safe_intros)

lemma clusterWrite_createSecrets:
  "clusterPhase c = '''' \<Longrightarrow> emits (clusterWrite c) (createClusterSecrets E c)"
  unfolding createClusterSecrets_def k8sCreate_def
  by (intro safe_intros) auto

lemma emits_claimMachines:
  "emits (clusterWrite c) (claimMachines E c machines)"
  by (induction machines)
     (auto simp: canClaim_iff cluster_adopter.adopt_stores k8sUpdateMachine_def intro!: safe_intros)

lemma emits_updateClusterStatus:
  "cluster_step (clusterPhase c) (clusterPhase s) \<Longrightarrow>
     emits (clusterWrite c) (updateClusterStatus E s ty ev msg args)"
  unfolding updateClusterStatus_def k8sGetCluster_def timeNow_def k8sUpdateCluster_def recordEvent_def
  by (intro safe_intros) auto

lemma setClusterPhase_simps [simp]:
  "clusterPhase (setClusterPhase p c) = p" "clMeta (setClusterPhase p c) = clMeta c"
  by (simp_all add: setClusterPhase_def)

lemma emits_startCluster: "clusterPhase c = '''' \<Longrightarrow> emits (clusterWrite c) (startCluster E c)"
  unfolding startCluster_def Let_def
  by (intro safe_intros clusterWrite_createSecrets emits_updateClusterStatus) (auto intro: cluster_step.intros)

lemma emits_checkCluster:
  "clusterPhase c = ReconcilingClusterPhase \<Longrightarrow> emits (clusterWrite c) (checkCluster E c)"
  unfolding checkCluster_def Let_def k8sGetSecret_def remoteListServices_def k8sUpdateCluster_def
  by (intro safe_intros) (auto intro: cluster_step.intros)

lemma emits_reconcileFound: "emits (clusterWrite c) (reconcileFound E ns c)"
  unfolding reconcileFound_def k8sListMachines_def
  by (intro safe_intros emits_claimMachines emits_startCluster emits_checkCluster) auto

lemma ReconcileCluster_law:
  assumes "envGetCluster E t req = Inr c"
  shows "wp (ReconcileCluster E req) (\<lambda>_. extends (clusterWrite c) t) t"
  using assms wp_extends [OF emits_reconcileFound, of c t "t @ [EGet KCluster req None]"]
  by (simp add: ReconcileCluster_def k8sGetCluster_def)

text \<open>C7: A reconcile of a cluster that exists stores the cluster only one step of the abstract machine
  away from the phase it was read in; it creates nothing but the secret of a new cluster, deletes
  nothing, and stores only machines that had no controller, with the cluster as their new one.\<close>

theorem ReconcileCluster_follows:
  assumes "envGetCluster E t req = Inr c"
  shows "wp (ReconcileCluster E req) (\<lambda>_. extends (clusterWrite c) t) t"
  by (rule ReconcileCluster_law [OF assms])

text \<open>The new cluster of the witnesses and its key.\<close>

definition newCluster :: cluster where
  "newCluster = zero_cluster\<lparr>clMeta := zero_object_meta\<lparr>omName := ''c'', omNamespace := ''ns''\<rparr>\<rparr>"

lemma newCluster_simps [simp]:
  "clusterPhase newCluster = ''''" "clusterName newCluster = ''c''" "clusterNamespace newCluster = ''ns''"
  by (simp_all add: newCluster_def zero_cluster_def zero_cluster_status_def zero_object_meta_def)

theorem ReconcileCluster_follows_witness:
  "wp (ReconcileCluster (offline\<lparr>envGetCluster := \<lambda>_ _. Inr newCluster\<rparr>) (objectKey ''ns'' ''c''))
     (\<lambda>_. extends (clusterWrite newCluster) []) []"
  by (rule ReconcileCluster_follows) simp

section \<open>The secret of a new cluster\<close>

definition usableSecret :: "env \<Rightarrow> cluster \<Rightarrow> trace \<Rightarrow> trace \<Rightarrow> bool" where
  "usableSecret E c t t' \<longleftrightarrow> (\<exists>b certs s. ECreate (OSecret s) None \<in> set t'
     \<and> objectKey (secNamespace s) (secName s) = privateKeySecret (clusterNamespace c)
     \<and> CABundleFromMap (secData s) = Inr b \<and> issued t' = issued t @ certs \<and> trustChain E b certs)"

lemma usableSecretI:
  assumes "ECreate (OSecret (clusterSecret c b)) None \<in> set t'"
    and "issued t' = issued t @ certs" and "trustChain E b certs"
  shows "usableSecret E c t t'"
  unfolding usableSecret_def
  by (rule exI [of _ b], rule exI [of _ certs], rule exI [of _ "clusterSecret c b"])
    (use assms in \<open>simp add: clusterSecret_def cab.load_store\<close>)

lemma usableSecret_append: "usableSecret E c t t' \<Longrightarrow> issued es = [] \<Longrightarrow> usableSecret E c t (t' @ es)"
  unfolding usableSecret_def by fastforce

text \<open>C24: A new cluster that is reconciled without an error has a secret: it was created with the name
  and in the namespace that the machine controller looks it up by, its data load as a bundle, and
  the bundle is a chain of trust of certificates issued in this very reconcile. Otherwise the
  reconcile is tried again at once.\<close>

theorem startCluster_leaves_usable_secret:
  "wp (startCluster E c) (\<lambda>r t'. case snd r of
       Some err \<Rightarrow> fst r = requeueNow
     | None \<Rightarrow> fst r = noResult \<and> usableSecret E c t t') t"
proof -
  have status: "wp (updateClusterStatus E s ty ev msg args) (\<lambda>r t'. usableSecret E c t t') t1"
    if "usableSecret E c t t1" for s ty ev msg args t1
    using that
    by (auto simp: updateClusterStatus_def k8sGetCluster_def timeNow_def k8sUpdateCluster_def recordEvent_def
        usableSecret_append split: sum.split)
  have "wp (createClusterSecrets E c) (\<lambda>r t'. case r of Some err \<Rightarrow> True | None \<Rightarrow> usableSecret E c t t') t"
    unfolding createClusterSecrets_def
    by simp (rule wp_mono [OF NewCABundle_law],
      auto simp: k8sCreate_def split: sum.splits option.split intro!: usableSecretI)
  then show ?thesis
    unfolding startCluster_def Let_def
    by simp (erule wp_mono, auto split: option.splits intro!: wp_mono [OF status])
qed

section \<open>A start that was interrupted\<close>

lemma wp_claims:
  "extends (clusterWrite c) t t1 \<Longrightarrow> (\<And>r t2. extends (clusterWrite c) t t2 \<Longrightarrow> Q r t2) \<Longrightarrow>
     wp (claimMachines E c machines) Q t1"
  by (rule wp_passing [OF emits_claimMachines])

fun clusterStored :: "event \<Rightarrow> bool" where
  "clusterStored (EUpdate (OCluster _) _) \<longleftrightarrow> True"
| "clusterStored _ \<longleftrightarrow> False"

lemma quiet_until_status:
  "emits (\<lambda>e. \<not> clusterStored e) (NewCABundle E)"
  "emits (\<lambda>e. \<not> clusterStored e) (claimMachines E c machines)"
proof -
  show "emits (\<lambda>e. \<not> clusterStored e) (NewCABundle E)"
    unfolding NewCABundle_def generateKey_def createCertificate_def
    by (intro safe_intros) (auto simp: Let_def intro!: safe_intros)
  show "emits (\<lambda>e. \<not> clusterStored e) (claimMachines E c machines)"
    by (induction machines)
       (auto simp: cluster_adopter.adopt_stores k8sUpdateMachine_def intro!: safe_intros)
qed

text \<open>If the secret of a new cluster exists already, left behind by a reconcile that could not store
  the new phase after it, the API server refuses to create it again, and from then on every
  reconcile of the cluster ends in an error without storing the cluster: it never leaves the phase
  of a new cluster.\<close>

theorem half_started_cluster_is_stuck:
  assumes "envGetCluster E t req = Inr c" and "clusterPhase c = ''''"
    and "\<And>t' b. prefix t t' \<Longrightarrow> envCreate E t' (OSecret (clusterSecret c b)) \<noteq> None"
  shows "wp (ReconcileCluster E req) (\<lambda>r t'. snd r \<noteq> None \<and> extends (\<lambda>e. \<not> clusterStored e) t t') t"
proof -
  let ?P = "\<lambda>e. \<not> clusterStored e"
  have create: "wp (createClusterSecrets E c) (\<lambda>r t'. r \<noteq> None \<and> extends ?P t t') t1" if "extends ?P t t1" for t1
    unfolding createClusterSecrets_def using assms(3)
    by simp (rule wp_passing [OF quiet_until_status(1) that],
      auto simp: k8sCreate_def extends_def prefix_def split: sum.split)
  have start: "wp (startCluster E c) (\<lambda>r t'. snd r \<noteq> None \<and> extends ?P t t') t1" if "extends ?P t t1" for t1
    unfolding startCluster_def Let_def
    by simp (rule wp_mono [OF create [OF that]], auto split: option.split)
  show ?thesis
    using assms(1,2)
    by (auto simp: ReconcileCluster_def reconcileFound_def k8sGetCluster_def k8sListMachines_def
        simp del: not_None_eq intro!: wp_passing [OF quiet_until_status(2)] start split: sum.split option.split)
qed

text \<open>A store that remembers that a secret was created, after a reconcile whose update of the status
  failed.\<close>

fun secretCreated :: "event \<Rightarrow> bool" where
  "secretCreated (ECreate (OSecret _) None) \<longleftrightarrow> True"
| "secretCreated _ \<longleftrightarrow> False"

definition remembering :: env where
  "remembering = offline\<lparr>envGetCluster := \<lambda>_ _. Inr newCluster, envCreate := \<lambda>t ob.
     if list_ex secretCreated t then Some (StatusError ''AlreadyExists'' '''') else None\<rparr>"

definition halfStarted :: trace where
  "halfStarted = [ECreate (OSecret (clusterSecret newCluster zero_bundle)) None,
     EUpdate (OCluster newCluster) (Some (StatusError ''Conflict'' ''''))]"

theorem half_started_cluster_is_stuck_witness:
  "wp (ReconcileCluster remembering (objectKey ''ns'' ''c''))
     (\<lambda>r t'. snd r \<noteq> None \<and> extends (\<lambda>e. \<not> clusterStored e) halfStarted t') halfStarted"
  by (rule half_started_cluster_is_stuck [of _ _ _ newCluster])
    (auto simp: remembering_def halfStarted_def prefix_def)

section \<open>The end of a cluster\<close>

fun cleanUpWrite :: "machine list \<Rightarrow> event \<Rightarrow> bool" where
  "cleanUpWrite machines (EDelete ob _) \<longleftrightarrow> machines = [] \<and> (\<exists>s. ob = OSecret s)"
| "cleanUpWrite machines e \<longleftrightarrow> \<not> isWrite e"

text \<open>When the cluster object is gone, its secret, without which the nodes of its machines cannot be
  drained, is deleted only after the last machine of the namespace; until then the reconcile comes
  back every second and changes nothing.\<close>

theorem secret_outlives_machines:
  assumes "envGetCluster E t req = Inl err" and "isNotFound err"
    and "envListMachines E (t @ [EGet KCluster req (Some err)]) (keyNamespace req) = Inr machines"
  shows "wp (ReconcileCluster E req) (\<lambda>r t'. extends (cleanUpWrite machines) t t'
     \<and> (machines = [] \<or> r = (requeueAfter 1, None))) t"
  using assms
  by (auto simp: ReconcileCluster_def cleanUpCluster_def k8sGetCluster_def k8sListMachines_def k8sGetSecret_def
      k8sDelete_def split: sum.split option.split)

theorem secret_outlives_machines_witness:
  "wp (ReconcileCluster (offline\<lparr>envGetCluster := \<lambda>_ _. Inl (StatusError StatusReasonNotFound ''''),
       envListMachines := \<lambda>_ _. Inr [zero_machine]\<rparr>) (objectKey ''ns'' ''c''))
     (\<lambda>r t'. extends (cleanUpWrite [zero_machine]) [] t' \<and> r = (requeueAfter 1, None)) []"
  by (rule wp_mono [OF secret_outlives_machines [where machines = "[zero_machine]"
      and err = "StatusError StatusReasonNotFound ''''"]]) simp_all

end
