(* ===== verification/System.thy ===== *)
theory System
  imports Api_Server_Facts Machine_Create Cluster_Facts MachineSet_Facts
begin

text \<open>
  Properties that span components: the kubeconfig that the machine controller makes is what the users
  of the API server get, and the objects that the components create are well formed.
\<close>

section \<open>The kubeconfig\<close>

text \<open>What \<open>createKubeconfig\<close> leaves to the others in the secret of the cluster: the bundle as it was,
  for the machines to come, and the kubeconfig made from it for the address of the new master, which
  the API server gives to whoever asks for the cluster.\<close>

definition handsOut :: "env \<Rightarrow> creator \<Rightarrow> creator \<Rightarrow> bool" where
  "handsOut E c c' \<longleftrightarrow> (\<exists>bundle ip ips kubeconfig.
     CABundleFromMap (secData (cSecret c)) = Inr bundle \<and> CABundleFromMap (secData (cSecret c')) = Inr bundle
     \<and> rsIPAddresses (cCreateResponse c) = ip # ips
     \<and> bundleKubeconfig E bundle (clusterName (cCluster c)) (''https://'' @ ip @ '':6443'') = Inr kubeconfig
     \<and> (\<forall>E' ns t. envGetSecret E' t (privateKeySecret ns) = Inr (cSecret c')
          \<longrightarrow> wp (GetKubeConfig E' ns) (\<lambda>r _. r = Inr kubeconfig) t))"

text \<open>C25: When the creator of a master gets past the kubeconfig, the bundle in the secret is unchanged
  and every later request to the API server that reads the stored secret is answered with the
  kubeconfig of this cluster, at the address of this machine. It panics only if MaaS gave the machine
  no address.\<close>

theorem kubeconfig_reaches_users:
  assumes "cIsMaster c" and "cErr c = None"
    and store: "\<And>t s s'. envUpdateSecret E t s = Inr s' \<Longrightarrow> secData s' = secData s"
  shows "wp (createKubeconfig E c) (\<lambda>r _. case r of
       Panics \<Rightarrow> rsIPAddresses (cCreateResponse c) = []
     | Returns c' \<Rightarrow> cErr c' \<noteq> None \<or> handsOut E c c') t"
  using assms(1,2)
  by (auto simp: createKubeconfig_def handsOut_def k8sUpdateSecret_def k8sGetSecret_def GetKubeConfig_def
      Let_def cab.load_put_other kubeconfig_key_not_own goIndex_def goGet_def[symmetric] dest!: store split: sum.split list.split)

text \<open>A master that got its machine, and a store that keeps what it is given.\<close>

definition masterCreator :: creator where
  "masterCreator = (newCreator zero_machine True)\<lparr>
     cSecret := zero_secret\<lparr>secData := MergeWithMap zero_bundle []\<rparr>,
     cCreateResponse := zero_create_response\<lparr>rsIPAddresses := [''10.0.0.7'']\<rparr>\<rparr>"

definition storing :: env where
  "storing = offline\<lparr>envUpdateSecret := \<lambda>_ s. Inr s, envEncodeConfig := \<lambda>_. Inr ''kubeconfig''\<rparr>"

theorem kubeconfig_reaches_users_witness:
  "wp (createKubeconfig storing masterCreator) (\<lambda>r _. case r of
       Panics \<Rightarrow> rsIPAddresses (cCreateResponse masterCreator) = []
     | Returns c' \<Rightarrow> cErr c' \<noteq> None \<or> handsOut storing masterCreator c') []"
  by (rule kubeconfig_reaches_users) (simp_all add: masterCreator_def newCreator_def storing_def)

section \<open>Well-formed objects\<close>

text \<open>The association lists in an object are maps, and its roles are roles that exist.\<close>

definition knownRoles :: "string list \<Rightarrow> bool" where
  "knownRoles roles \<longleftrightarrow> roles \<noteq> [] \<and> set roles \<subseteq> {MachineRoleMaster, MachineRoleEtcd, MachineRoleWorker}"

fun wellFormed :: "obj \<Rightarrow> bool" where
  "wellFormed (OMachine m) \<longleftrightarrow> go_map_wf (omLabels (maMeta m)) \<and> knownRoles (mspRoles (maSpec m))"
| "wellFormed (OMachineSet ms) \<longleftrightarrow> go_map_wf (omLabels (msMeta ms)) \<and> go_map_wf (templateLabels ms)
     \<and> go_map_wf (lsMatchLabels (msSelector ms)) \<and> knownRoles (mspRoles (mtSpec (msTemplate ms)))"
| "wellFormed (OCluster c) \<longleftrightarrow> go_map_wf (omLabels (clMeta c))"
| "wellFormed (OSecret s) \<longleftrightarrow> go_map_wf (secData s)"
| "wellFormed _ \<longleftrightarrow> True"

fun createsWellFormed :: "event \<Rightarrow> bool" where
  "createsWellFormed (ECreate ob _) \<longleftrightarrow> wellFormed ob"
| "createsWellFormed _ \<longleftrightarrow> True"

lemma labelMap_wf: "go_map_wf (labelMap ls)"
proof -
  have "go_map_wf m \<Longrightarrow> go_map_wf (foldl (\<lambda>m (name, v). goPut name v m) m ls)" for m :: "string go_map"
    by (induction ls arbitrary: m) auto
  then show ?thesis
    by (simp add: labelMap_def)
qed

lemma go_map_wf_single [simp]: "go_map_wf [kv]"
  by (simp add: go_map_wf_def)

lemma created_objects:
  "wellFormed (OCluster (clusterObject msg))"
  "wellFormed (OMachine (controlPlaneObject name cp))"
  "wellFormed (OMachineSet (workerPoolObject name cfg))"
  "wellFormed (OSecret (clusterSecret c b))"
  "wellFormed (OMachineSet ms) \<Longrightarrow> wellFormed (OMachine (createMachine ms))"
  by (simp_all add: clusterObject_def controlPlaneObject_def workerPoolObject_def clusterSecret_def createMachine_def
      Let_def labelMap_wf MergeWithMap_def knownRoles_def zero_object_meta_def zero_cluster_def)

lemma emits_k8sCreate: "wellFormed ob \<Longrightarrow> emits createsWellFormed (k8sCreate E ob)"
  unfolding k8sCreate_def by (intro safe_intros) simp

lemma emits_createWorkerPools: "emits createsWellFormed (createWorkerPools E name pools)"
  by (induction pools) (auto simp: Let_def simp del: wellFormed.simps intro!: safe_intros emits_k8sCreate created_objects(3))

lemma emits_addWorkerPools: "emits createsWellFormed (addWorkerPools E name pools)"
  by (induction pools)
    (auto simp: Let_def nodePoolObject_eq simp del: wellFormed.simps intro!: safe_intros emits_k8sCreate created_objects(3))

lemma emits_createLoop:
  assumes "wellFormed (OMachineSet ms)"
  shows "emits createsWellFormed (createLoop E ms n ml es)"
  using created_objects(5) [OF assms]
  by (induction n arbitrary: ml es)
     (auto simp: Let_def k8sCreateMachine_def recordEvent_def simp del: wellFormed.simps intro!: safe_intros)



section \<open>One controller for each machine\<close>

text \<open>The cluster controller and the machine set controller both make themselves the controller of
  machines; an object with two controllers is refused by the API server. Of the machines stored or
  created each has exactly one.\<close>

definition controllers :: "object_meta \<Rightarrow> owner_reference list" where
  "controllers om = filter isControllerRef (omOwnerReferences om)"

fun oneController :: "event \<Rightarrow> bool" where
  "oneController (ECreate (OMachine m) _) \<longleftrightarrow> length (controllers (maMeta m)) = 1"
| "oneController (EUpdate (OMachine m) _) \<longleftrightarrow> length (controllers (maMeta m)) = 1"
| "oneController _ \<longleftrightarrow> True"

lemma no_controller: "getControllerOf om = None \<Longrightarrow> controllers om = []"
  by (auto simp: controllers_def getControllerOf_def find_None_iff filter_empty_conv)

lemma controllers_adopted:
  "getControllerOf om = None \<Longrightarrow> isControllerRef ref \<Longrightarrow> controllers (addOwner ref om) = [ref]"
  using no_controller [of om] by (simp add: controllers_def addOwner_def)

lemma controllers_created: "controllers (maMeta (createMachine ms)) = [machineSetRef ms]"
  by (simp add: controllers_def createMachine_def machineSetRef_def)

lemma clusterWrite_oneController: "clusterWrite c e \<Longrightarrow> oneController e"
  by (cases e) (auto simp: controllers_adopted clusterRef_def)

lemma setWrite_oneController: "setWrite E ms e \<Longrightarrow> oneController e"
  by (cases e) (auto simp: controllers_adopted controllers_created machineSetRef_def)

text \<open>Whatever machines the cluster and the machine set controller find in a namespace, and whatever
  the order of their reconciles, each machine they create or store has exactly one controller: they
  never take a machine from each other.\<close>

theorem one_controller:
  assumes "storesMeta E" and "sorts E"
  shows "wp (do { _ \<leftarrow> ReconcileCluster E req; ReconcileMachineSet E req' }) (\<lambda>_. extends oneController t) t
    \<and> wp (do { _ \<leftarrow> ReconcileMachineSet E req'; ReconcileCluster E req }) (\<lambda>_. extends oneController t) t"
proof -
  have cluster: "wp (ReconcileCluster E req) (\<lambda>_. extends oneController t) t1" if "extends oneController t t1" for t1
  proof (cases "envGetCluster E t1 req")
    case (Inr c)
    from ReconcileCluster_law [OF this] show ?thesis
      by (rule wp_mono) (use that in \<open>blast intro: extends_trans extends_mono clusterWrite_oneController\<close>)
  next
    case (Inl err)
    then show ?thesis
      using that by (auto simp: extends_more ReconcileCluster_def cleanUpCluster_def k8sGetCluster_def k8sListMachines_def k8sGetSecret_def
          k8sDelete_def split: sum.split option.split)
  qed
  have set: "wp (ReconcileMachineSet E req') (\<lambda>_. extends oneController t) t1" if "extends oneController t t1" for t1
  proof (cases "envGetMachineSet E t1 req'")
    case (Inr ms)
    from ReconcileMachineSet_law [OF assms this] show ?thesis
      by (rule wp_mono) (use that in \<open>blast intro: extends_trans extends_mono setWrite_oneController\<close>)
  next
    case (Inl err)
    then show ?thesis
      using that by (auto simp: extends_more ReconcileMachineSet_def k8sGetMachineSet_def)
  qed
  show ?thesis
    by (simp, intro conjI; rule wp_mono [OF cluster] wp_mono [OF set]; (rule extends_refl | erule cluster set))
qed

theorem one_controller_witness:
  "wp (do { _ \<leftarrow> ReconcileCluster keeping (objectKey ''ns'' ''c''); ReconcileMachineSet keeping (objectKey ''ns'' ''pool'') })
     (\<lambda>_. extends oneController []) []
   \<and> wp (do { _ \<leftarrow> ReconcileMachineSet keeping (objectKey ''ns'' ''pool''); ReconcileCluster keeping (objectKey ''ns'' ''c'') })
     (\<lambda>_. extends oneController []) []"
  by (rule one_controller) simp_all

end
