(* ===== verification/Machine_Create_Facts.thy ===== *)
theory Machine_Create_Facts
  imports Machine_Create
begin

text \<open>
  Correctness of the creation pipeline: every step is sticky, the steps before the allocation do
  not touch the machine or the books, and what the pipeline leaves behind on each of its paths.
\<close>

section \<open>The steps are sticky\<close>

definition creatorFailed :: "creator \<Rightarrow> bool" where
  "creatorFailed c \<longleftrightarrow> cErr c \<noteq> None"

definition isCreatorStep :: "env \<Rightarrow> step \<Rightarrow> bool" where
  "isCreatorStep E f \<longleftrightarrow> f \<in> set (masterSteps E) \<union> set (workerSteps E)"

lemmas step_defs = getCluster_def getSecret_def createClientsetFromSecret_def
  checkIfTokenExists_def createToken_def checkApiserverAddress_def prepareMaasRequest_def
  doMaasCreate_def createKubeconfig_def updateCluster_def updateMachine_def

interpretation creator_steps: sticky_steps creatorFailed "isCreatorStep E" for E
proof unfold_locales
  fix f c assume "isCreatorStep E f" "creatorFailed c"
  then show "f c = ret (Returns c)"
    by (auto simp: isCreatorStep_def creatorFailed_def masterSteps_def workerSteps_def step_defs)
qed

lemma steps_all: "list_all (isCreatorStep E) (masterSteps E)" "list_all (isCreatorStep E) (workerSteps E)"
  by (simp_all add: list_all_iff isCreatorStep_def)

section \<open>Errors of other packages\<close>

text \<open>The error types of the machine controller are not exported: no call of another package
  returns one of them.\<close>

fun foreignError :: "go_error \<Rightarrow> bool" where
  "foreignError (ReleaseError _ _) = False"
| "foreignError (NotReadyError _) = False"
| "foreignError (UnrecoverableError _) = False"
| "foreignError (Wrapped _ e) = foreignError e"
| "foreignError _ = True"

text \<open>An error that does not ask the controller for a release.\<close>

definition asksNoRelease :: "go_error \<Rightarrow> bool" where
  "asksNoRelease e \<longleftrightarrow> (\<forall>sid e'. errorCause e \<noteq> ReleaseError sid e')"

lemma foreign_asksNoRelease: "foreignError e \<Longrightarrow> asksNoRelease e"
  by (induction e) (auto simp: asksNoRelease_def)

lemma asksNoRelease_simps [simp]:
  "asksNoRelease (NotReadyError m)" "asksNoRelease (UnrecoverableError m)"
  "asksNoRelease (PlainError m)" "asksNoRelease (StatusError r m)"
  "asksNoRelease (Wrapped m e) = asksNoRelease e" "\<not> asksNoRelease (ReleaseError sid e)"
  by (auto simp: asksNoRelease_def)

definition foreignResult :: "go_error + 'a \<Rightarrow> bool" where
  "foreignResult r \<longleftrightarrow> (case r of Inl e \<Rightarrow> foreignError e | Inr _ \<Rightarrow> True)"

definition foreignErr :: "go_error option \<Rightarrow> bool" where
  "foreignErr r \<longleftrightarrow> (case r of Some e \<Rightarrow> foreignError e | None \<Rightarrow> True)"

lemma foreign_simps [simp]:
  "foreignResult (Inl e) = foreignError e" "foreignResult (Inr a)"
  "foreignErr (Some e) = foreignError e" "foreignErr None"
  by (simp_all add: foreignResult_def foreignErr_def)

definition errorsForeign :: "env \<Rightarrow> bool" where
  "errorsForeign E \<longleftrightarrow>
     (\<forall>t k. foreignResult (envListClusters E t k)) \<and> (\<forall>t k. foreignResult (envGetSecret E t k))
   \<and> (\<forall>t n. foreignResult (envRand E t n)) \<and> (\<forall>t c. foreignResult (envListTokens E t c))
   \<and> (\<forall>t c r. foreignErr (envRemoteDo E t c r)) \<and> (\<forall>s. foreignResult (envClientConfig E s))
   \<and> (\<forall>c. foreignResult (envRestConfig E c)) \<and> (\<forall>c. foreignResult (envClientset E c))
   \<and> (\<forall>s. foreignResult (envParseCertificate E s)) \<and> (\<forall>w h. foreignResult (envTarHeader E w h))
   \<and> (\<forall>w b. foreignResult (envTarWrite E w b)) \<and> (\<forall>w. foreignResult (envTarClose E w))
   \<and> (\<forall>t m a. foreignResult (envStart E t m a)) \<and> (\<forall>k. foreignResult (envEncodeConfig E k))
   \<and> (\<forall>t s. foreignResult (envUpdateSecret E t s))
   \<and> (\<forall>t c n. foreignResult (envGetNode E t c n)) \<and> (\<forall>t m. foreignResult (envUpdateMachine E t m))
   \<and> (\<forall>t ob. foreignErr (envDelete E t ob)) \<and> (\<forall>t c. foreignResult (envCheckEviction E t c))
   \<and> (\<forall>t c ns n. foreignErr (fst (envGetPod E t c ns n)))"

lemma foreignResult_iff: "foreignResult r \<longleftrightarrow> (\<forall>e. r = Inl e \<longrightarrow> foreignError e)"
  by (cases r) simp_all

lemma foreignErr_iff: "foreignErr r \<longleftrightarrow> (\<forall>e. r = Some e \<longrightarrow> foreignError e)"
  by (cases r) simp_all

section \<open>Footprints\<close>

lemma emits_findToken [safe_intros]: "P ENow \<Longrightarrow> emits P (findToken E items)"
  by (induction E items rule: findToken.induct)
    (auto simp: Let_def timeNow_def intro!: safe_intros)

lemma emits_createBootstrapToken [safe_intros]:
  "P ENow \<Longrightarrow> (\<And>s r. P (ERemote cs (RCreateSecret s) r)) \<Longrightarrow> emits P (createBootstrapToken E cs i s)"
  unfolding createBootstrapToken_def world_defs by (intro safe_intros) auto

lemma emits_finishMaasRequest [safe_intros]:
  "(\<And>r. P (EBootResources r)) \<Longrightarrow> emits P (finishMaasRequest E c u)"
  unfolding finishMaasRequest_def Let_def by (intro safe_intros) auto

lemma emits_masterUserdata [safe_intros]: "P ENow \<Longrightarrow> emits P (masterUserdata E c b)"
  unfolding masterUserdata_def by (intro safe_intros) auto

text \<open>Only \<open>doMaasCreate\<close> allocates or releases.\<close>

definition quietSteps :: "env \<Rightarrow> step list" where
  "quietSteps E = [getCluster E, getSecret E, createClientsetFromSecret E, checkIfTokenExists E,
     createToken E, checkApiserverAddress E, prepareMaasRequest E, createKubeconfig E,
     updateCluster E, updateMachine E]"

lemma quietSteps_keep: "f \<in> set (quietSteps E) \<Longrightarrow> emits keepsMachines (f c)"
  unfolding quietSteps_def list.set
  by (elim insertE emptyE; hypsubst; unfold step_defs world_defs Let_def)
    ((intro safe_intros; simp?)+)

section \<open>The steps before the allocation\<close>

definition framePost :: "machine \<Rightarrow> bool \<Rightarrow> creator go \<Rightarrow> bool" where
  "framePost m b r \<longleftrightarrow> (case r of Panics \<Rightarrow> True
     | Returns c \<Rightarrow> cMachine c = m \<and> cIsMaster c = b \<and> cCreateResponse c = zero_create_response
         \<and> (\<forall>e. cErr c = Some e \<longrightarrow> asksNoRelease e))"

definition headSteps :: "env \<Rightarrow> step list" where
  "headSteps E = [getCluster E, getSecret E, createClientsetFromSecret E, checkIfTokenExists E,
     createToken E, checkApiserverAddress E, prepareMaasRequest E]"

lemma errorsForeign_all:
  assumes "errorsForeign E"
  shows "foreignResult (envListClusters E t k)" "foreignResult (envGetSecret E t k1)"
    "foreignResult (envRand E t n)" "foreignResult (envListTokens E t cs)"
    "foreignResult (envParseCertificate E s)" "foreignResult (envTarHeader E s h)"
    "foreignResult (envTarWrite E s s')" "foreignResult (envTarClose E s)"
    "foreignResult (envStart E t mm a)" "foreignResult (envEncodeConfig E kc)"
    "foreignResult (envUpdateSecret E t sec)" "foreignResult (envGetNode E t cs s)"
    "foreignResult (envUpdateMachine E t m)" "foreignResult (envCheckEviction E t cs)"
    "foreignResult (envClientConfig E s)" "foreignResult (envRestConfig E cc)"
    "foreignResult (envClientset E rc')"
    "foreignErr (envRemoteDo E t cs rc)" "foreignErr (envDelete E t ob)"
    "foreignErr (fst (envGetPod E t cs ns n'))"
  using assms by (simp_all add: errorsForeign_def)

lemma foreignResultD: "foreignResult r \<Longrightarrow> r = Inl e \<Longrightarrow> asksNoRelease e"
  by (simp add: foreign_asksNoRelease)

lemma foreignErrD: "foreignErr r \<Longrightarrow> r = Some e \<Longrightarrow> asksNoRelease e"
  by (simp add: foreign_asksNoRelease)

lemmas errorsForeignD = errorsForeign_all(1-17) [THEN foreignResultD]
  errorsForeign_all(18-20) [THEN foreignErrD]

lemma clientsetFor_err: "errorsForeign E \<Longrightarrow> clientsetFor E s = Inl e \<Longrightarrow> asksNoRelease e"
  unfolding clientsetFor_def by (auto split: sum.splits dest: errorsForeignD)

lemma ToTar_err:
  assumes "errorsForeign E"
  shows "wp (ToTar E b) (\<lambda>r _. \<forall>e. r = Inl e \<longrightarrow> asksNoRelease e) t"
proof -
  have "wp (tarLoop E files tw) (\<lambda>r _. \<forall>e. r = Inl e \<longrightarrow> asksNoRelease e) t" for files tw t
    using errorsForeignD [OF assms]
    by (induction E files tw arbitrary: t rule: tarLoop.induct)
      (auto simp: timeNow_def split: sum.splits)
  then show ?thesis
    using errorsForeignD [OF assms]
    by (auto simp: ToTar_def timeNow_def split: sum.splits elim!: wp_mono)
qed

lemma CABundleFromMap_err: "CABundleFromMap m = Inl e \<Longrightarrow> asksNoRelease e"
proof -
  have "bundleFromMapLoop m ks b = Inl e \<Longrightarrow> asksNoRelease e" for ks b
    by (induction ks arbitrary: b) (auto split: option.splits)
  then show "CABundleFromMap m = Inl e \<Longrightarrow> asksNoRelease e"
    unfolding CABundleFromMap_def by blast
qed

lemma finishMaasRequest_frame:
  assumes "cMachine c = m" "cIsMaster c = b" "cCreateResponse c = zero_create_response"
    "\<forall>e. u = Inl e \<longrightarrow> asksNoRelease e"
  shows "wp (finishMaasRequest E c u) (\<lambda>r _. framePost m b r) t"
  unfolding finishMaasRequest_def Let_def wp_bind
  by (rule wpI) (use assms in \<open>auto simp: framePost_def noImage_def errOf_def split: sum.splits\<close>)

lemma headSteps_frame:
  assumes "errorsForeign E" and "f \<in> set (headSteps E)" and c: "framePost m b (Returns c)"
  shows "wp (f c) (\<lambda>r _. framePost m b r) t"
proof -
  note err = errorsForeignD [OF assms(1)] clientsetFor_err [OF assms(1)]
  have "wp (getCluster E c) (\<lambda>r _. framePost m b r) t"
    using c err by (auto simp: framePost_def getCluster_def world_defs split: sum.splits)
  moreover have "wp (getSecret E c) (\<lambda>r _. framePost m b r) t"
    using c err by (auto simp: framePost_def getSecret_def world_defs split: sum.splits)
  moreover have "wp (createClientsetFromSecret E c) (\<lambda>r _. framePost m b r) t"
    using c err
    by (auto simp: framePost_def createClientsetFromSecret_def split: sum.splits option.splits)
  moreover have "wp (checkIfTokenExists E c) (\<lambda>r _. framePost m b r) t"
    using c err by (auto simp: framePost_def checkIfTokenExists_def world_defs intro!: wp_any [where m = "findToken E items" for items]
        split: sum.splits option.splits go_error.splits)
  moreover have "wp (createToken E c) (\<lambda>r _. framePost m b r) t"
    using c err by (auto simp: framePost_def createToken_def createBootstrapToken_def world_defs
        split: sum.splits option.splits)
  moreover have "wp (checkApiserverAddress E c) (\<lambda>r _. framePost m b r) t"
    using c by (auto simp: framePost_def checkApiserverAddress_def Let_def)
  moreover have "wp (prepareMaasRequest E c) (\<lambda>r _. framePost m b r) t"
  proof -
    have *: "wp (finishMaasRequest E c u) (\<lambda>r _. framePost m b r) t"
      if "\<forall>e. u = Inl e \<longrightarrow> asksNoRelease e" for u t
      using c that by (intro finishMaasRequest_frame) (auto simp: framePost_def)
    have "wp (masterUserdata E c bu) (\<lambda>u. wp (finishMaasRequest E c u) (\<lambda>r _. framePost m b r)) t" for bu
      unfolding masterUserdata_def wp_onErr
      by (rule wp_mono [OF ToTar_err [OF assms(1)]]) (auto split: sum.split intro: *)
    moreover have "wp (finishMaasRequest E c u) (\<lambda>r _. framePost m b r) t"
      if "workerUserdata E c bu = Returns u" for bu u t
      using err that by (intro *) (auto simp: workerUserdata_def split: option.splits sum.splits)
    ultimately show ?thesis using c
      by (auto simp: prepareMaasRequest_def framePost_def CABundleFromMap_err
          split: sum.splits go.splits)
  qed
  ultimately show ?thesis using assms(2) by (auto simp: headSteps_def)
qed

section \<open>The books after a creation\<close>

text \<open>The run stored the machine, last of all, with its finalizer and the id of its machine in the
  pool, in the provisioning phase.\<close>

definition recordsMachine :: "machine \<Rightarrow> string \<Rightarrow> trace \<Rightarrow> bool" where
  "recordsMachine m sid t' \<longleftrightarrow> (\<exists>t1 mm ev. t' = t1 @ [EUpdate (OMachine mm) None, ev]
     \<and> machineName mm = machineName m \<and> machineNamespace mm = machineNamespace m
     \<and> machineSystemId mm = sid \<and> machinePhase mm = ProvisioningMachinePhase
     \<and> MachineFinalizer \<in> set (machineFinalizers mm))"

definition bookedAfter :: "string list \<Rightarrow> machine \<Rightarrow> (go_error option \<times> machine) go \<Rightarrow> trace \<Rightarrow> bool" where
  "bookedAfter os m r t' \<longleftrightarrow> (case r of
       Panics \<Rightarrow> outstanding t' = os
     | Returns (None, _) \<Rightarrow> (\<exists>sid. outstanding t' = os @ [sid] \<and> recordsMachine m sid t')
     | Returns (Some e, _) \<Rightarrow> asksNoRelease e \<and> outstanding t' = os
         \<or> (\<exists>sid e'. e = ReleaseError sid e' \<and> sid \<noteq> '''' \<and> sid \<notin> set os
              \<and> outstanding t' = os @ [sid]))"

definition tailPost :: "string list \<Rightarrow> machine \<Rightarrow> creator go \<Rightarrow> trace \<Rightarrow> bool" where
  "tailPost os m r t' \<longleftrightarrow>
     bookedAfter os m (case r of Panics \<Rightarrow> Panics | Returns c \<Rightarrow> Returns (cErr c, cMachine c)) t'"

lemma tailPost_simps [simp]:
  "tailPost os m Panics t' \<longleftrightarrow> outstanding t' = os"
  "tailPost os m (Returns c) t' \<longleftrightarrow> bookedAfter os m (Returns (cErr c, cMachine c)) t'"
  by (simp_all add: tailPost_def bookedAfter_def)

lemma booked_err [simp]:
  "bookedAfter os m (Returns (Some e, m')) t' \<longleftrightarrow> asksNoRelease e \<and> outstanding t' = os
     \<or> (\<exists>sid e'. e = ReleaseError sid e' \<and> sid \<noteq> '''' \<and> sid \<notin> set os \<and> outstanding t' = os @ [sid])"
  by (simp add: bookedAfter_def)

lemma booked_ok [simp]:
  "bookedAfter os m (Returns (None, m')) t' \<longleftrightarrow>
     (\<exists>sid. outstanding t' = os @ [sid] \<and> recordsMachine m sid t')"
  by (simp add: bookedAfter_def)

lemma wp_updateMachine_ok:
  assumes "cErr c = None" "cMachine c = m" "outstanding t = os @ [rsSystemID (cCreateResponse c)]"
    "rsSystemID (cCreateResponse c) \<noteq> ''''" "rsSystemID (cCreateResponse c) \<notin> set os"
    "rsIPAddresses (cCreateResponse c) \<noteq> []"
  shows "wp (updateMachine E c) (tailPost os m) t"
proof -
  have r: "recordsMachine m (rsSystemID (cCreateResponse c))
      (t @ [EUpdate (OMachine (markCreated c ip)) None, ev])" for ip ev
    using assms(2) unfolding recordsMachine_def
    by (auto simp: markCreated_def Let_def intro!: exI [of _ t])
  from assms r show ?thesis
    by (auto simp: updateMachine_def world_defs Let_def split: sum.splits list.splits)
qed

lemma clear_noErr [simp]: "cErr c = None \<Longrightarrow> c\<lparr>cErr := None\<rparr> = c"
  by (cases c) simp

lemma wp_updateMachine_no_ip:
  "cErr c = None \<Longrightarrow> rsIPAddresses (cCreateResponse c) = [] \<Longrightarrow>
   wp (updateMachine E c) Q t \<longleftrightarrow> Q Panics t"
  by (simp add: updateMachine_def)

lemma Create_err:
  assumes "errorsForeign E"
  shows "wp (Create E req) (\<lambda>r _. \<forall>e. r = Inl e \<longrightarrow> asksNoRelease e) t"
  using errorsForeignD [OF assms]
  by (auto simp: Create_def world_defs wp_Delete split: sum.splits)

text \<open>\<open>doMaasCreate\<close> ends in one of three ways: it failed and the books are as before; it has a
  machine with an address; or it released a machine without an address and reports no error.\<close>

lemma wp_doMaasCreate:
  assumes "maasSound E" "errorsForeign E" and c: "cErr c = None" "framePost m b (Returns c)"
    and Q: "\<And>c' t'. framePost m b (Returns c') \<Longrightarrow> cErr c' \<noteq> None \<Longrightarrow>
        outstanding t' = outstanding t \<Longrightarrow> Q (Returns c') t'"
      "\<And>resp t'. rsIPAddresses resp \<noteq> [] \<Longrightarrow> rsSystemID resp \<noteq> '''' \<Longrightarrow>
        rsSystemID resp \<notin> set (outstanding t) \<Longrightarrow>
        outstanding t' = outstanding t @ [rsSystemID resp] \<Longrightarrow>
        Q (Returns (c\<lparr>cCreateResponse := resp\<rparr>)) t'"
      "\<And>t'. outstanding t' = outstanding t \<Longrightarrow> Q (Returns c) t'"
  shows "wp (doMaasCreate E c) Q t"
proof -
  have "wp (Create E (cCreateRequest c)) (\<lambda>r t'. (\<forall>e. r = Inl e \<longrightarrow> asksNoRelease e) \<and>
      (case r of Inl e \<Rightarrow> outstanding t' = outstanding t
        | Inr resp \<Rightarrow> outstanding t' = outstanding t @ [rsSystemID resp]
          \<and> rsSystemID resp \<noteq> '''' \<and> rsSystemID resp \<notin> set (outstanding t))) t"
    unfolding wp_conj using Create_err [OF assms(2)] maas.create_law [OF assms(1)] by blast
  moreover have "filter (\<lambda>i. i \<noteq> sid) (outstanding t) = outstanding t"
    if "sid \<notin> set (outstanding t)" for sid
    using that by (auto simp: filter_id_conv)
  ultimately show ?thesis
    using c Q by (auto simp: doMaasCreate_def wp_Delete framePost_def elim!: wp_mono
        split: sum.splits)
qed

lemma worker_tail:
  assumes "maasSound E" "errorsForeign E" and "framePost m b (Returns c)"
    and "cErr c = None" "outstanding t = os"
  shows "wp (runSteps [doMaasCreate E, updateMachine E] c) (tailPost os m) t"
proof (rule creator_steps.wp_step [where E = E])
  show "list_all (isCreatorStep E) [updateMachine E]"
    by (simp add: isCreatorStep_def masterSteps_def)
  show "wp (doMaasCreate E c) (\<lambda>r s'. case r of Panics \<Rightarrow> tailPost os m Panics s'
      | Returns c' \<Rightarrow> if creatorFailed c' then tailPost os m (Returns c') s'
          else wp (runSteps [updateMachine E] c') (tailPost os m) s') t"
    using assms
    by (auto intro!: wp_doMaasCreate [where m = m and b = b] wp_updateMachine_ok
        simp: creatorFailed_def framePost_def wp_runSteps_single wp_updateMachine_no_ip
          zero_create_response_def simp del: runSteps.simps)
qed

lemma head_run:
  assumes "errorsForeign E" and "set fs \<subseteq> set (headSteps E)"
  shows "wp (runSteps fs (newCreator m b)) (\<lambda>r t'. framePost m b r \<and> outstanding t' = outstanding t) t"
proof (rule wp_runSteps_inv)
  fix f c t1
  assume f: "f \<in> set fs" and I: "framePost m b (Returns c) \<and> outstanding t1 = outstanding t"
  from f assms(2) have "emits keepsMachines (f c)"
    by (intro quietSteps_keep [where E = E]) (auto simp: quietSteps_def headSteps_def)
  then have "wp (f c) (\<lambda>_ t'. outstanding t' = outstanding t1) t1" by (rule emits_outstanding)
  moreover have "wp (f c) (\<lambda>r _. framePost m b r) t1"
    using f assms I by (intro headSteps_frame) auto
  ultimately show "wp (f c) (\<lambda>r t'. framePost m b r \<and> outstanding t' = outstanding t) t1"
    using I by (auto simp: wp_iff)
next
  show "framePost m b (Returns (newCreator m b)) \<and> outstanding t = outstanding t"
    by (simp add: framePost_def newCreator_def)
qed

text \<open>A pipeline whose head does not touch the books ends as its tail does.\<close>

lemma head_then_tail:
  assumes "errorsForeign E" and head: "set fs \<subseteq> set (headSteps E)" and gs: "list_all (isCreatorStep E) gs"
    and failed: "\<And>c t'. framePost m b (Returns c) \<Longrightarrow> outstanding t' = outstanding t \<Longrightarrow>
      cErr c \<noteq> None \<Longrightarrow> Q (Returns c) t'"
    and panics: "\<And>t'. outstanding t' = outstanding t \<Longrightarrow> Q Panics t'"
    and tail: "\<And>c t'. framePost m b (Returns c) \<Longrightarrow> cErr c = None \<Longrightarrow> outstanding t' = outstanding t \<Longrightarrow>
      wp (runSteps gs c) Q t'"
  shows "wp (runSteps (fs @ gs) (newCreator m b)) Q t"
  unfolding wp_runSteps_append
proof (rule wp_mono [OF head_run [OF assms(1) head]])
  fix r t'
  assume r: "framePost m b r \<and> outstanding t' = outstanding t"
  show "case r of Panics \<Rightarrow> Q Panics t' | Returns c' \<Rightarrow> wp (runSteps gs c') Q t'"
  proof (cases r)
    case (Returns c)
    show ?thesis
    proof (cases "cErr c = None")
      case True
      with r Returns tail show ?thesis by simp
    next
      case False
      then have "runSteps gs c = ret (Returns c)"
        by (intro creator_steps.runSteps_failed [where E = E] gs) (simp add: creatorFailed_def)
      with False r Returns failed show ?thesis by simp
    qed
  qed (use r panics in simp)
qed

lemma failed_booked:
  "framePost m b (Returns c) \<Longrightarrow> outstanding t' = outstanding t \<Longrightarrow> cErr c \<noteq> None \<Longrightarrow>
   tailPost (outstanding t) m (Returns c) t'"
  by (auto simp: framePost_def)

lemma wp_create:
  "wp (create E m) Q t \<longleftrightarrow>
   wp (runSteps (if isMasterRole (mspRoles (maSpec m)) then masterSteps E else workerSteps E)
        (newCreator m (isMasterRole (mspRoles (maSpec m)))))
     (\<lambda>r. Q (case r of Panics \<Rightarrow> Panics | Returns c \<Rightarrow> Returns (cErr c, cMachine c))) t"
  by (simp add: create_def Let_def)

lemma create_worker_law:
  assumes "maasSound E" "errorsForeign E" "\<not> isMasterRole (mspRoles (maSpec m))"
  shows "wp (create E m) (bookedAfter (outstanding t) m) t"
proof -
  have split: "workerSteps E = headSteps E @ [doMaasCreate E, updateMachine E]"
    by (simp add: workerSteps_def headSteps_def)
  have "wp (runSteps (workerSteps E) (newCreator m False)) (tailPost (outstanding t) m) t"
    unfolding split
    by (rule head_then_tail [OF assms(2), where b = False])
      (auto intro!: worker_tail [OF assms(1,2)] failed_booked
        simp: isCreatorStep_def workerSteps_def simp del: runSteps.simps tailPost_simps(2))
  then show ?thesis
    using assms(3) by (simp add: wp_create tailPost_def [abs_def])
qed

section \<open>A master\<close>

text \<open>The one path that keeps a machine in the pool allocated without recording it: the kubeconfig
  of a new master could not be made or could not be stored.\<close>

definition kubeconfigLeak :: "env \<Rightarrow> string list \<Rightarrow> machine \<Rightarrow> (go_error option \<times> machine) go \<Rightarrow> trace \<Rightarrow> bool"
  where "kubeconfigLeak E os m r t' \<longleftrightarrow> (\<exists>e sid. r = Returns (Some e, m) \<and> asksNoRelease e
     \<and> outstanding t' = os @ [sid]
     \<and> ((\<exists>t1 sec. t' = t1 @ [EUpdate (OSecret sec) (Some e)])
        \<or> (\<exists>kc. envEncodeConfig E kc = Inl e) \<or> (\<exists>sec. CABundleFromMap sec = Inl e)))"

definition masterPost :: "env \<Rightarrow> string list \<Rightarrow> machine \<Rightarrow> creator go \<Rightarrow> trace \<Rightarrow> bool" where
  "masterPost E os m r t' \<longleftrightarrow> tailPost os m r t' \<or>
     kubeconfigLeak E os m (case r of Panics \<Rightarrow> Panics | Returns c \<Rightarrow> Returns (cErr c, cMachine c)) t'"

lemma wp_updateCluster:
  assumes "cErr c = None" "rsIPAddresses (cCreateResponse c) \<noteq> []" "cIsMaster c"
  shows "wp (updateCluster E c) (\<lambda>r t'. outstanding t' = outstanding t \<and>
    (r = Returns c \<or> (\<exists>e. r = Returns (failWith c (ReleaseError (rsSystemID (cCreateResponse c)) e))))) t"
  using assms by (auto simp: updateCluster_def world_defs Let_def split: sum.splits list.splits)

lemma master_rest:
  assumes c: "cErr c = None" "cMachine c = m" "cIsMaster c"
    and o: "outstanding t = os @ [rsSystemID (cCreateResponse c)]"
    and id: "rsSystemID (cCreateResponse c) \<noteq> ''''" "rsSystemID (cCreateResponse c) \<notin> set os"
    and ip: "rsIPAddresses (cCreateResponse c) \<noteq> []"
  shows "wp (runSteps [updateCluster E, updateMachine E] c) (tailPost os m) t"
proof (rule creator_steps.wp_step [where E = E])
  show "list_all (isCreatorStep E) [updateMachine E]" by (simp add: isCreatorStep_def masterSteps_def)
  show "wp (updateCluster E c) (\<lambda>r s'. case r of Panics \<Rightarrow> tailPost os m Panics s'
      | Returns c' \<Rightarrow> if creatorFailed c' then tailPost os m (Returns c') s'
          else wp (runSteps [updateMachine E] c') (tailPost os m) s') t"
    by (rule wp_mono [OF wp_updateCluster [OF c(1) ip c(3)]])
      (use assms in \<open>auto simp: creatorFailed_def wp_runSteps_single intro!: wp_updateMachine_ok
        simp del: runSteps.simps\<close>)
qed

lemma master_kubeconfig:
  assumes E: "errorsForeign E" and c: "cErr c = None" "cMachine c = m" "cIsMaster c"
    and o: "outstanding t = os @ [rsSystemID (cCreateResponse c)]"
    and id: "rsSystemID (cCreateResponse c) \<noteq> ''''" "rsSystemID (cCreateResponse c) \<notin> set os"
    and ip: "rsIPAddresses (cCreateResponse c) \<noteq> []"
  shows "wp (runSteps [createKubeconfig E, updateCluster E, updateMachine E] c) (masterPost E os m) t"
proof (rule creator_steps.wp_step [where E = E])
  show "list_all (isCreatorStep E) [updateCluster E, updateMachine E]"
    by (simp add: isCreatorStep_def masterSteps_def)
  have rest: "wp (runSteps [updateCluster E, updateMachine E] (c\<lparr>cSecret := s\<rparr>)) (masterPost E os m) t'"
    if "outstanding t' = outstanding t" for s t'
    by (rule wp_mono [OF master_rest [where os = os and m = m]])
      (use assms that in \<open>auto simp: masterPost_def\<close>)
  show "wp (createKubeconfig E c) (\<lambda>r s'. case r of Panics \<Rightarrow> masterPost E os m Panics s'
      | Returns c' \<Rightarrow> if creatorFailed c' then masterPost E os m (Returns c') s'
          else wp (runSteps [updateCluster E, updateMachine E] c') (masterPost E os m) s') t"
    using c ip o rest errorsForeignD(10,11) [OF E] CABundleFromMap_err
    by (auto simp: createKubeconfig_def k8sUpdateSecret_def Let_def bundleKubeconfig_def creatorFailed_def
        masterPost_def kubeconfigLeak_def simp del: runSteps.simps split: sum.splits list.splits)
qed

lemma master_tail:
  assumes "maasSound E" "errorsForeign E" and c: "framePost m True (Returns c)" "cErr c = None"
    and "outstanding t = os"
  shows "wp (runSteps [doMaasCreate E, createKubeconfig E, updateCluster E, updateMachine E] c)
    (masterPost E os m) t"
proof (rule creator_steps.wp_step [where E = E])
  show "list_all (isCreatorStep E) [createKubeconfig E, updateCluster E, updateMachine E]"
    by (simp add: isCreatorStep_def masterSteps_def)
  have noip: "wp (runSteps [createKubeconfig E, updateCluster E, updateMachine E] c) (masterPost E os m) t'"
    if "outstanding t' = outstanding t" for t'
  proof (rule creator_steps.wp_step [where E = E])
    show "list_all (isCreatorStep E) [updateCluster E, updateMachine E]"
      by (simp add: isCreatorStep_def masterSteps_def)
    show "wp (createKubeconfig E c) (\<lambda>r s'. case r of Panics \<Rightarrow> masterPost E os m Panics s'
        | Returns c' \<Rightarrow> if creatorFailed c' then masterPost E os m (Returns c') s'
            else wp (runSteps [updateCluster E, updateMachine E] c') (masterPost E os m) s') t'"
      using c that assms(5) CABundleFromMap_err
      by (auto simp: createKubeconfig_def framePost_def masterPost_def creatorFailed_def
          zero_create_response_def split: sum.split)
  qed
  show "wp (doMaasCreate E c) (\<lambda>r s'. case r of Panics \<Rightarrow> masterPost E os m Panics s'
      | Returns c' \<Rightarrow> if creatorFailed c' then masterPost E os m (Returns c') s'
          else wp (runSteps [createKubeconfig E, updateCluster E, updateMachine E] c')
            (masterPost E os m) s') t"
    using assms noip
    by (auto intro!: wp_doMaasCreate [where m = m and b = True] master_kubeconfig [OF assms(2)]
        simp: creatorFailed_def framePost_def masterPost_def simp del: runSteps.simps)
qed

lemma create_master_law:
  assumes "maasSound E" "errorsForeign E" "isMasterRole (mspRoles (maSpec m))"
  shows "wp (create E m) (\<lambda>r t'. bookedAfter (outstanding t) m r t'
    \<or> kubeconfigLeak E (outstanding t) m r t') t"
proof -
  have split: "masterSteps E = [getCluster E, getSecret E, prepareMaasRequest E]
      @ [doMaasCreate E, createKubeconfig E, updateCluster E, updateMachine E]"
    by (simp add: masterSteps_def)
  have "wp (runSteps (masterSteps E) (newCreator m True)) (masterPost E (outstanding t) m) t"
    unfolding split
    by (rule head_then_tail [OF assms(2), where b = True])
      (auto intro!: master_tail [OF assms(1,2)] failed_booked disjI1
        simp: isCreatorStep_def masterSteps_def headSteps_def masterPost_def
        simp del: runSteps.simps tailPost_simps(2))
  then show ?thesis
    using assms(3) by (simp add: wp_create masterPost_def [abs_def] tailPost_def)
qed

section \<open>A concrete cluster\<close>

text \<open>An environment with a cluster, its secret and one machine in the pool, for the witnesses.\<close>

definition demoSecret :: secret where
  "demoSecret = zero_secret\<lparr>secName := ''cluster-private-key'', secNamespace := ''ns'',
     secData := goPut ServiceAccountKubeconfigKey ''cfg'' (MergeWithMap zero_bundle [])\<rparr>"

definition demoCluster :: cluster where
  "demoCluster = zero_cluster\<lparr>clMeta := zero_object_meta\<lparr>omName := ''c0'', omNamespace := ''ns''\<rparr>,
     clKubernetesVersion := ''1.13.4'',
     clStatus := zero_cluster_status\<lparr>csAPIEndpoint := ''10.0.0.1:6443''\<rparr>\<rparr>"

definition demoWorker :: machine where
  "demoWorker = zero_machine\<lparr>maMeta := zero_object_meta\<lparr>omName := ''w0'', omNamespace := ''ns''\<rparr>,
     maSpec := zero_machine_spec\<lparr>mspRoles := [MachineRoleWorker], mspInstanceType := ''gpu''\<rparr>\<rparr>"

definition demoMaster :: machine where
  "demoMaster = demoWorker\<lparr>maSpec := zero_machine_spec\<lparr>mspRoles := [MachineRoleMaster],
     mspInstanceType := ''gpu''\<rparr>\<rparr>"

definition demo :: env where
  "demo = onePool\<lparr>
     envListClusters := \<lambda>_ _. Inr [demoCluster],
     envGetCluster := \<lambda>_ _. Inr demoCluster,
     envGetSecret := \<lambda>_ _. Inr demoSecret,
     envUpdateMachine := \<lambda>_ m. Inr m,
     envUpdateCluster := \<lambda>_ c. Inr c,
     envUpdateSecret := \<lambda>_ s. Inr s,
     envClientConfig := \<lambda>_. Inr 0, envRestConfig := \<lambda>_. Inr 0, envClientset := \<lambda>_. Inr 0,
     envListTokens := \<lambda>_ _. Inr [],
     envRand := \<lambda>_ n. Inr (replicate n CHR ''r''),
     envRemoteDo := \<lambda>_ _ _. None,
     envPemDecode := \<lambda>s. Some s,
     envParseCertificate := \<lambda>_. Inr zero_certificate,
     envTarHeader := \<lambda>w _. Inr w, envTarWrite := \<lambda>w _. Inr w, envTarClose := \<lambda>w. Inr w,
     envEncodeConfig := \<lambda>_. Inr ''cfg'',
     envBootResources := \<lambda>_. Inr [\<lparr>brType = ''Uploaded'', brName = ''os=ubuntu-xenial,k8s=1.13.4,type=gpu''\<rparr>]\<rparr>"

lemma demo_sound: "maasSound demo"
  by (simp add: maasSound_def demo_def onePool_def poolMachine_def)

lemma demo_foreign: "errorsForeign demo"
  by (simp add: errorsForeign_def demo_def onePool_def offline_def Let_def)

lemma demo_env [simp]:
  "envListClusters demo t k = Inr [demoCluster]" "envGetCluster demo t k' = Inr demoCluster"
  "envGetSecret demo t k' = Inr demoSecret" "envUpdateMachine demo t m = Inr m"
  "envUpdateCluster demo t c = Inr c" "envUpdateSecret demo t s = Inr s"
  "envClientConfig demo x = Inr 0" "envRestConfig demo n = Inr 0" "envClientset demo n = Inr 0"
  "envListTokens demo t n = Inr []" "envRand demo t n = Inr (replicate n CHR ''r'')"
  "envRemoteDo demo t n rc = None" "envPemDecode demo x = Some x"
  "envParseCertificate demo x = Inr zero_certificate" "envTarHeader demo x h = Inr x"
  "envTarWrite demo x y = Inr x" "envTarClose demo x = Inr x" "envEncodeConfig demo kc = Inr ''cfg''"
  "envStart demo t mm a = Inr mm"
  "envAllocate demo t tags = (if ''abc123'' \<in> set (outstanding t)
     then Inl (PlainError ''no machine'') else Inr poolMachine)"
  by (simp_all add: demo_def onePool_def)

lemma demo_image: "wp (getImage demo osVersion ''1.13.4'' ''gpu'') Q t \<longleftrightarrow>
   Q ''os=ubuntu-xenial,k8s=1.13.4,type=gpu'' (t @ [EBootResources None])"
  by (simp add: getImage_def getImages_def demo_def maasBootResources_def parse_def
      parseField_def imageSet_def imageComplete_def zero_image_def Let_def findIn_def
      imageMatches_def osVersion_def)

lemma demo_bundle: "CABundleFromMap (secData demoSecret) = Inr zero_bundle"
  by (simp add: demoSecret_def cab.load_store_put kubeconfig_key_not_own)

lemma demo_kubeconfig: "goGet (secData demoSecret) ServiceAccountKubeconfigKey = Some ''cfg''"
  by (simp add: demoSecret_def)

lemmas demo_run = create_def Let_def isMasterRole_def masterSteps_def workerSteps_def
  newCreator_def step_defs world_defs demo_bundle demo_kubeconfig masterUserdata_def ToTar_def
  tarFiles_def finishMaasRequest_def demo_image demoMaster_def demoWorker_def demoCluster_def
  Create_def poolMachine_def zero_create_response_def bundleKubeconfig_def
  clientsetFor_def createBootstrapToken_def workerUserdata_def

lemma demo_not_master: "\<not> isMasterRole (mspRoles (maSpec demoWorker))"
  by (simp add: demoWorker_def isMasterRole_def MachineRoleWorker_def MachineRoleMaster_def)

lemma demo_master: "isMasterRole (mspRoles (maSpec demoMaster))"
  by (simp add: demoMaster_def isMasterRole_def)

section \<open>Properties\<close>

text \<open>creating a worker never leaks a machine of the pool. If \<open>create\<close> succeeds, exactly one
  machine was allocated and the last call stored its id in the machine object, with the finalizer
  that guards its deletion; if it fails, either no machine is outstanding or the error is a
  \<open>releaseError\<close> that names the one that is; and if it panics, none is.\<close>

theorem create_worker_booked:
  assumes "maasSound E" and "errorsForeign E" and "\<not> isMasterRole (mspRoles (maSpec m))"
  shows "wp (create E m) (bookedAfter (outstanding t) m) t"
  by (rule create_worker_law [OF assms])

theorem create_worker_booked_witness:
  "wp (create demo demoWorker) (bookedAfter [] demoWorker) []
   \<and> wp (create demo demoWorker) (\<lambda>r t'. (\<exists>m'. r = Returns (None, m')) \<and> outstanding t' = [''abc123'']) []"
proof
  show "wp (create demo demoWorker) (bookedAfter [] demoWorker) []"
    using create_worker_booked [OF demo_sound demo_foreign demo_not_master, of "[]"] by simp
  show "wp (create demo demoWorker) (\<lambda>r t'. (\<exists>m'. r = Returns (None, m')) \<and> outstanding t' = [''abc123'']) []"
    using demo_not_master
    by (simp add: demo_run MachineRoleWorker_def MachineRoleMaster_def outstanding_def
        del: base64Encode.simps outstanding_append)
qed

text \<open>creating a master leaks a machine only on one path: the kubeconfig could not be made from
  the secret or could not be stored in it.\<close>

theorem create_master_booked:
  assumes "maasSound E" and "errorsForeign E" and "isMasterRole (mspRoles (maSpec m))"
  shows "wp (create E m) (\<lambda>r t'. bookedAfter (outstanding t) m r t'
    \<or> kubeconfigLeak E (outstanding t) m r t') t"
  by (rule create_master_law [OF assms])

theorem create_master_booked_witness:
  "wp (create demo demoMaster) (\<lambda>r t'. bookedAfter [] demoMaster r t'
    \<or> kubeconfigLeak demo [] demoMaster r t') []"
  using create_master_booked [OF demo_sound demo_foreign demo_master, of "[]"] by simp

section \<open>Tokens\<close>

definition tokenOf :: "string go_map \<Rightarrow> string" where
  "tokenOf data = goIndex data ''token-id'' @ ''.'' @ goIndex data ''token-secret''"

text \<open>A token is good for half an hour from one of the moments at which the search read the
  clock, or for ever.\<close>

definition goodFor30 :: "env \<Rightarrow> trace \<Rightarrow> string go_map \<Rightarrow> bool" where
  "goodFor30 E t data \<longleftrightarrow> (case goGet data ''expiration'' of None \<Rightarrow> True
     | Some x \<Rightarrow> if x = '''' then True else
         (\<exists>u k. envParseTime E x = Some u \<and> envNow E (t @ replicate k ENow) + minutes 30 \<le> u))"

definition notFor30 :: "env \<Rightarrow> trace \<Rightarrow> string go_map \<Rightarrow> bool" where
  "notFor30 E t data \<longleftrightarrow> (\<exists>x. goGet data ''expiration'' = Some x \<and> x \<noteq> '''' \<and>
     (envParseTime E x = None \<or>
       (\<exists>u k. envParseTime E x = Some u \<and> u < envNow E (t @ replicate k ENow) + minutes 30)))"

text \<open>The first token of the list that is good, when one is returned.\<close>

fun firstGood :: "env \<Rightarrow> trace \<Rightarrow> (string \<times> string go_map) list \<Rightarrow> string option \<Rightarrow> bool" where
  "firstGood E t [] r \<longleftrightarrow> r = None"
| "firstGood E t ((name, data) # items) r \<longleftrightarrow>
     r = Some (tokenOf data) \<and> goodFor30 E t data \<or> notFor30 E t data \<and> firstGood E t items r"

lemma firstGood_here: "goodFor30 E t data \<Longrightarrow> firstGood E t ((name, data) # items) (Some (tokenOf data))"
  by simp

lemma firstGood_later:
  "notFor30 E t data \<Longrightarrow> firstGood E t items r \<Longrightarrow> firstGood E t ((name, data) # items) r"
  by simp

lemma findToken_law:
  "wp (findToken E items) (\<lambda>r _. firstGood E t items r) (t @ replicate j ENow)"
proof (induction E items arbitrary: j rule: findToken.induct)
  case (1 E)
  show ?case by simp
next
  case (2 E name data items)
  let ?Q = "firstGood E t ((name, data) # items)"
  let ?now = "envNow E (t @ replicate j ENow)"
  have found: "Some (goIndex data ''token-id'' @ ''.'' @ goIndex data ''token-secret'') = Some (tokenOf data)"
    by (simp add: tokenOf_def)
  have later: "wp (findToken E items) (\<lambda>r _. ?Q r) (t @ replicate k ENow)"
    if "notFor30 E t data"
      "\<And>j. wp (findToken E items) (\<lambda>r _. firstGood E t items r) (t @ replicate j ENow)" for k
    by (rule wp_mono [OF that(2)]) (rule firstGood_later [OF that(1)])
  show ?case
  proof (cases "goGet data ''expiration''")
    case None
    then have "goodFor30 E t data" by (simp add: goodFor30_def)
    with None show ?thesis by (simp add: Let_def found firstGood_here del: append_Cons)
  next
    case (Some x)
    consider "x = ''''" | "x \<noteq> ''''" "envParseTime E x = None"
      | u where "x \<noteq> ''''" "envParseTime E x = Some u" by fastforce
    then show ?thesis
    proof cases
      case 1
      with Some have "goodFor30 E t data" by (simp add: goodFor30_def)
      with 1 Some show ?thesis by (simp add: Let_def found firstGood_here del: append_Cons)
    next
      case 2
      with Some have "notFor30 E t data" by (simp add: notFor30_def)
      with 2 Some "2.IH"(1) later show ?thesis by (simp add: Let_def)
    next
      case 3
      show ?thesis
      proof (cases "u < ?now + minutes 30")
        case True
        with 3 Some have "notFor30 E t data" by (auto simp: notFor30_def)
        with True 3 Some "2.IH"(2) later [of "Suc j"] show ?thesis
          by (simp add: Let_def timeNow_def replicate_append_same)
      next
        case False
        with 3 Some have "goodFor30 E t data" by (auto simp: goodFor30_def not_less)
        with False 3 Some show ?thesis
          by (simp add: Let_def timeNow_def found firstGood_here del: append_Cons)
      qed
    qed
  qed
qed

text \<open>a worker joins with the first bootstrap token of the managed cluster that has no
  expiration or is still valid for half an hour; tokens whose expiration cannot be read are
  skipped, and if no token is left the creator is unchanged.\<close>

theorem checkIfTokenExists_first_good:
  assumes "cErr c = None" and "\<not> cIsMaster c" and "cClientset c = Some cs"
  shows "wp (checkIfTokenExists E c) (\<lambda>r _. \<exists>c'. r = Returns c' \<and>
    (case envListTokens E t cs of
       Inl _ \<Rightarrow> cErr c' \<noteq> None \<and> cToken c' = cToken c
     | Inr items \<Rightarrow> (\<exists>f. firstGood E (t @ [ERemote cs RListBootstrapTokens None]) items f
         \<and> c' = (case f of None \<Rightarrow> c | Some tok \<Rightarrow> c\<lparr>cToken := tok\<rparr>)))) t"
proof (cases "envListTokens E t cs")
  case (Inl e)
  with assms show ?thesis
    by (simp add: checkIfTokenExists_def remoteListTokens_def split: go_error.split)
next
  case (Inr items)
  have "wp (findToken E items) (\<lambda>f _. firstGood E (t @ [ERemote cs RListBootstrapTokens None]) items f)
      (t @ [ERemote cs RListBootstrapTokens None])"
    using findToken_law [of E items "t @ [ERemote cs RListBootstrapTokens None]" 0] by simp
  with assms Inr show ?thesis
    by (auto simp: checkIfTokenExists_def remoteListTokens_def elim!: wp_mono split: option.splits)
qed

definition tokenEnv :: env where
  "tokenEnv = demo\<lparr>envParseTime := \<lambda>x. if x = ''late'' then Some (minutes 600) else None,
     envListTokens := \<lambda>_ _. Inr
       [(''t1'', [(''token-id'', ''aaaaaa''), (''expiration'', ''?'')]),
        (''t2'', [(''token-id'', ''bbbbbb''), (''token-secret'', ''s''), (''expiration'', ''late'')])]\<rparr>"

theorem checkIfTokenExists_first_good_witness:
  "wp (checkIfTokenExists tokenEnv ((newCreator demoWorker False)\<lparr>cClientset := Some 0\<rparr>))
     (\<lambda>r _. \<exists>c' f. r = Returns c' \<and> c' = (case f of None \<Rightarrow> (newCreator demoWorker False)\<lparr>cClientset := Some 0\<rparr>
        | Some tok \<Rightarrow> (newCreator demoWorker False)\<lparr>cClientset := Some 0, cToken := tok\<rparr>)
      \<and> firstGood tokenEnv [ERemote 0 RListBootstrapTokens None]
       [(''t1'', [(''token-id'', ''aaaaaa''), (''expiration'', ''?'')]),
        (''t2'', [(''token-id'', ''bbbbbb''), (''token-secret'', ''s''), (''expiration'', ''late'')])] f) []"
  using checkIfTokenExists_first_good [of "(newCreator demoWorker False)\<lparr>cClientset := Some 0\<rparr>" 0 tokenEnv "[]"]
  by (auto simp: newCreator_def tokenEnv_def elim!: wp_mono split: option.splits)

section \<open>A new token\<close>

definition isHexDigit :: "char \<Rightarrow> bool" where
  "isHexDigit d \<longleftrightarrow> d \<in> set ''0123456789abcdef''"

lemma set_hexOf: "list_all isHexDigit (hexOf bs)"
proof -
  have "hexDigit n \<in> set ''0123456789abcdef''" for n
    unfolding hexDigit_def by (rule nth_mem) simp
  then show ?thesis
    by (induction bs) (auto simp: hexOf_def isHexDigit_def simp del: list.set)
qed

text \<open>a token that the creator makes has the form kubeadm wants, six hexadecimal digits, a dot
  and sixteen more, and has been stored in the managed cluster in a secret of the name and with
  the parts that make it valid there, expiring an hour after the moment it was made.\<close>

theorem createToken_valid:
  assumes "cErr c = None" and "\<not> cIsMaster c" and "cToken c = ''''" and "cClientset c = Some cs"
    and "\<And>t n bs. envRand E t n = Inr bs \<Longrightarrow> length bs = n"
  shows "wp (createToken E c) (\<lambda>r t'. case r of Panics \<Rightarrow> False | Returns c' \<Rightarrow>
    (case cErr c' of Some e \<Rightarrow> cToken c' = '''' | None \<Rightarrow>
      (\<exists>i s now t1. cToken c' = i @ ''.'' @ s \<and> length i = 6 \<and> length s = 16
        \<and> list_all isHexDigit (i @ s) \<and> now = envNow E t1
        \<and> t' = t1 @ [ENow, ERemote cs (RCreateSecret \<lparr>secName = ''bootstrap-token-'' @ i,
             secNamespace = ''kube-system'', secType = ''bootstrap.kubernetes.io/token'',
             secData = [(''description'', ''Bootstrap token created by cma-ssh''),
               (''token-id'', i), (''token-secret'', s),
               (''expiration'', envFormatTime E (now + minutes 60)),
               (''usage-bootstrap-authentication'', ''true''),
               (''usage-bootstrap-signing'', ''true''),
               (''auth-extra-groups'', ''system:bootstrappers:kubeadm:default-node-token'')]\<rparr>) None]))) t"
proof (cases "envRand E t 3")
  case (Inl e)
  with assms show ?thesis by (simp add: createToken_def randRead_def)
next
  case (Inr a)
  show ?thesis
  proof (cases "envRand E (t @ [ERand 3]) 8")
    case (Inl e)
    with assms Inr show ?thesis by (simp add: createToken_def randRead_def)
  next
    case b: (Inr b)
    have len: "length a = 3" "length b = 8" using assms(5) Inr b by blast+
    show ?thesis
      unfolding createToken_def randRead_def createBootstrapToken_def world_defs
      using assms Inr b len set_hexOf [of a] set_hexOf [of b]
      by (auto simp: bootstrapTokenSecret_def split: option.splits
          intro!: exI [of _ "hexOf a"] exI [of _ "hexOf b"])
  qed
qed

theorem createToken_valid_witness:
  "wp (createToken demo ((newCreator demoWorker False)\<lparr>cClientset := Some 0\<rparr>))
     (\<lambda>r t'. \<exists>c' i s. r = Returns c' \<and> cErr c' = None \<and> cToken c' = i @ ''.'' @ s
        \<and> length i = 6 \<and> length s = 16) []"
proof (rule wp_mono)
  let ?c = "(newCreator demoWorker False)\<lparr>cClientset := Some 0\<rparr>"
  have ok: "wp (createToken demo ?c) (\<lambda>r _. \<exists>c'. r = Returns c' \<and> cErr c' = None) []"
    by (simp add: createToken_def newCreator_def randRead_def createBootstrapToken_def world_defs)
  show "wp (createToken demo ?c) (\<lambda>r t'. (\<exists>c'. r = Returns c' \<and> cErr c' = None) \<and>
      (case r of Panics \<Rightarrow> False | Returns c' \<Rightarrow>
    (case cErr c' of Some e \<Rightarrow> cToken c' = '''' | None \<Rightarrow>
      (\<exists>i s now t1. cToken c' = i @ ''.'' @ s \<and> length i = 6 \<and> length s = 16
        \<and> list_all isHexDigit (i @ s) \<and> now = envNow demo t1
        \<and> t' = t1 @ [ENow, ERemote 0 (RCreateSecret \<lparr>secName = ''bootstrap-token-'' @ i,
             secNamespace = ''kube-system'', secType = ''bootstrap.kubernetes.io/token'',
             secData = [(''description'', ''Bootstrap token created by cma-ssh''),
               (''token-id'', i), (''token-secret'', s),
               (''expiration'', envFormatTime demo (now + minutes 60)),
               (''usage-bootstrap-authentication'', ''true''),
               (''usage-bootstrap-signing'', ''true''),
               (''auth-extra-groups'', ''system:bootstrappers:kubeadm:default-node-token'')]\<rparr>) None])))) []"
    unfolding wp_conj
    by (intro conjI ok createToken_valid) (auto simp: newCreator_def)
qed (auto split: option.splits)

section \<open>The request\<close>

text \<open>MaaS holds an image by this name that serves the machine of the creator.\<close>

definition servedImage :: "env \<Rightarrow> creator \<Rightarrow> string \<Rightarrow> bool" where
  "servedImage E c distro \<longleftrightarrow> (\<exists>t br. envBootResources E t = Inr br
     \<and> (\<exists>v \<in> set br. brName v = distro \<and> servesImage ''ubuntu-xenial'' (clKubernetesVersion (cCluster c))
          (mspInstanceType (maSpec (cMachine c))) v))"

definition requestNamed :: "env \<Rightarrow> creator \<Rightarrow> create_request \<Rightarrow> bool" where
  "requestNamed E c req \<longleftrightarrow>
     crProviderID req = clusterName (cCluster c) @ ''-'' @ machineName (cMachine c)
     \<and> crInstanceType req = mspInstanceType (maSpec (cMachine c)) \<and> servedImage E c (crDistro req)"

definition workerData :: "env \<Rightarrow> creator \<Rightarrow> string \<Rightarrow> bool" where
  "workerData E c userdata \<longleftrightarrow> (\<exists>b pem certificate.
     CABundleFromMap (secData (cSecret c)) = Inr b \<and> envPemDecode E (caK8s b) = Some pem
     \<and> envParseCertificate E pem = Inr certificate
     \<and> userdata = workerUserdataTmpl (machineName (cMachine c)) (cToken c)
         (''sha256:'' @ hexOf (envSha256 E (xcRawSubjectPublicKeyInfo certificate)))
         (csAPIEndpoint (clStatus (cCluster c))) (getNodeLabels (cMachine c)))"

lemma finishMaasRequest_law:
  "wp (finishMaasRequest E c u) (\<lambda>r _. \<exists>c'. r = Returns c' \<and> (case cErr c' of Some _ \<Rightarrow> True
     | None \<Rightarrow> requestNamed E c (cCreateRequest c') \<and> u = Inr (crUserdata (cCreateRequest c')))) t"
proof -
  have img: "wp (getImage E osVersion (clKubernetesVersion (cCluster c)) (mspInstanceType (maSpec (cMachine c))))
      (\<lambda>d _. d = '''' \<or> servedImage E c d) t"
    by (rule wp_mono [OF getImage_law])
      (fastforce simp: servedImage_def osVersion_def split: sum.splits if_splits)
  show ?thesis
    unfolding finishMaasRequest_def Let_def wp_bind
    by (simp, rule wp_mono [OF img]) (auto simp: errOf_def requestNamed_def split: sum.splits)
qed


definition demoCreator :: "machine \<Rightarrow> bool \<Rightarrow> creator" where
  "demoCreator m b = (newCreator m b)\<lparr>cCluster := demoCluster, cSecret := demoSecret\<rparr>"


section \<open>A machine without an address\<close>

text \<open>C40: when MaaS deploys a machine that has no address yet, the creation gives the machine back
  and then runs on as if it had succeeded: it panics at the first use of the address.\<close>

theorem no_address_panics:
  assumes "cErr c = None" and "cCreateResponse c = zero_create_response"
    and "envAllocate E t [crInstanceType (cCreateRequest c)] = Inr mm"
    and "envStart E (t @ [EAllocate [crInstanceType (cCreateRequest c)] (Inr mm)]) mm
      \<lparr>saUserData = base64Encode (crUserdata (cCreateRequest c)),
       saDistroSeries = crDistro (cCreateRequest c)\<rparr> = Inr m'"
    and "mmIPAddresses m' = []" and "mmSystemID m' \<noteq> ''''"
  shows "wp (runSteps [doMaasCreate E, updateMachine E] c)
    (\<lambda>r t'. r = Panics \<and> (\<exists>t1 e. t' = t1 @ [ERelease [mmSystemID m'] e])) t"
  using assms
  by (simp add: doMaasCreate_def updateMachine_def Create_def world_defs wp_Delete
      zero_create_response_def)

theorem no_address_panics_witness:
  "wp (runSteps [doMaasCreate (demo\<lparr>envStart := \<lambda>_ m _. Inr (m\<lparr>mmIPAddresses := []\<rparr>)\<rparr>),
      updateMachine (demo\<lparr>envStart := \<lambda>_ m _. Inr (m\<lparr>mmIPAddresses := []\<rparr>)\<rparr>)]
      (newCreator demoWorker False))
    (\<lambda>r t'. r = Panics \<and> (\<exists>t1 e. t' = t1 @ [ERelease [''abc123''] e])) []"
  using no_address_panics [of "newCreator demoWorker False"
      "demo\<lparr>envStart := \<lambda>_ m _. Inr (m\<lparr>mmIPAddresses := []\<rparr>)\<rparr>" "[]" poolMachine
      "poolMachine\<lparr>mmIPAddresses := []\<rparr>"]
  by (simp add: newCreator_def poolMachine_def)

end
