(* ===== verification/Machine_Controller.thy ===== *)
theory Machine_Controller
  imports Requests Machine_Create Machine_Delete
begin

text \<open>
  \<^verbatim>\<open>pkg/controller/machine/machine_controller.go\<close>: the reconciler of machine objects. A machine
  without a phase is created, a provisioning one waits for its node, a deleted one is torn down;
  the error of the handler decides what the work queue does next.
\<close>

section \<open>Waiting for the node\<close>

definition nodeReady :: "node \<Rightarrow> bool" where
  "nodeReady n = list_ex (\<lambda>v. condReason v = ''KubeletReady'' \<and> condStatus v = ''True'') (nodeConditions n)"

definition waitForNode :: "env \<Rightarrow> machine \<Rightarrow> string go_map \<Rightarrow> (go_error option \<times> machine) io" where
  "waitForNode E machine data = (let fails = (\<lambda>err. ret (Some err, machine)) in
     case goGet data ServiceAccountKubeconfigKey of
       None \<Rightarrow> fails (NotReadyError ''no kubeconfig in secret'')
     | Some configData \<Rightarrow>
         if length configData = 0 then fails (NotReadyError ''no kubeconfig in secret'')
         else case clientsetWrapped E ''could not create new client config from secret''
             ''could not create rest client config'' ''could not create a clientset'' configData of
           Inl err \<Rightarrow> fails err
         | Inr cs \<Rightarrow> do {
             r \<leftarrow> remoteGetNode E cs (machineName machine);
             case r of
               Inl err \<Rightarrow>
                 if isNotFound err then fails (Wrapped ''could not find node on apiserver'' err)
                 else fails (Wrapped ''could not get node'' err)
             | Inr node \<Rightarrow>
                 if nodeReady node then do {
                   let machine = setMachinePhase ReadyMachinePhase machine;
                   u \<leftarrow> k8sUpdateMachine E machine;
                   ret (case u of Inl err \<Rightarrow> (Some err, machine) | Inr stored \<Rightarrow> (None, stored))
                 } else fails (NotReadyError ''did not see kubelet ready status'')
           })"

definition handleWaitingForReady :: "env \<Rightarrow> machine \<Rightarrow> (go_error option \<times> machine) io" where
  "handleWaitingForReady E machine = do {
     r \<leftarrow> k8sGetSecret E (privateKeySecret (machineNamespace machine));
     case r of
       Inr secret \<Rightarrow> waitForNode E machine (secData secret)
     | Inl errSecret \<Rightarrow>
         if isNotFound errSecret then do {
           errDelete \<leftarrow> k8sDelete E (OMachine machine);
           case errDelete of
             Some err \<Rightarrow>
               if isNotFound err then ret (None, machine)
               else ret (Some (Wrapped
                 ''secret not found while wating for ready. deleting machine failed'' err), machine)
           | None \<Rightarrow> waitForNode E machine []
         } else ret (Some (Wrapped ''could not get secret'' errSecret), machine)
   }"

section \<open>Reconcile\<close>

definition markDeleting :: "env \<Rightarrow> machine \<Rightarrow> (go_error + machine) io" where
  "markDeleting E machine =
     (if \<not> timeIsZero (omDeletionTimestamp (maMeta machine)) \<and> machinePhase machine \<noteq> DeletingMachinePhase
      then k8sUpdateMachine E (setMachinePhase DeletingMachinePhase machine)
      else ret (Inr machine))"

definition handlePhase :: "env \<Rightarrow> machine \<Rightarrow> handled io" where
  "handlePhase E machine =
     (if machinePhase machine = ProvisioningMachinePhase then do {
        r \<leftarrow> handleWaitingForReady E machine;
        ret (Returns r)
      }
      else if machinePhase machine = DeletingMachinePhase then handleDelete E machine
      else if machinePhase machine = ErrorMachinePhase \<or> machinePhase machine = ReadyMachinePhase
        \<or> machinePhase machine = UpgradingMachinePhase then ret (finished machine)
      else create E machine)"

definition handleError :: "env \<Rightarrow> machine \<Rightarrow> go_error \<Rightarrow> (reconcile_result \<times> go_error option) io" where
  "handleError E machine err = (case errorCause err of
       StatusError reason msg \<Rightarrow>
         if isNotFound (StatusError reason msg) then ret (requeueAfter 5, None)
         else ret (noResult, Some err)
     | NotReadyError _ \<Rightarrow> ret (requeueAfter 5, None)
     | ReleaseError systemID _ \<Rightarrow> do {
         errRelease \<leftarrow> Delete E \<lparr>drProviderID = '''', drSystemID = systemID\<rparr>;
         ret (noResult, Some err)
       }
     | UnrecoverableError _ \<Rightarrow> do {
         updateErr \<leftarrow> k8sUpdateMachine E (setMachinePhase ErrorMachinePhase machine);
         ret (case updateErr of Inl _ \<Rightarrow> (noResult, Some err) | Inr _ \<Rightarrow> (noResult, None))
       }
     | _ \<Rightarrow> ret (noResult, Some err))"

definition Reconcile :: "env \<Rightarrow> object_key \<Rightarrow> reconciled io" where
  "Reconcile E request = do {
     r \<leftarrow> k8sGetMachine E request;
     case r of
       Inl err \<Rightarrow> if isNotFound err then ret (Returns (noResult, None))
         else ret (Returns (noResult, Some err))
     | Inr machine \<Rightarrow> onErr (\<lambda>err. Returns (noResult, Some err)) (markDeleting E machine) (\<lambda>machine. do {
         h \<leftarrow> handlePhase E machine;
         case h of
           Panics \<Rightarrow> ret Panics
         | Returns (err, machine) \<Rightarrow> (case err of
               None \<Rightarrow> ret (Returns (noResult, None))
             | Some e \<Rightarrow> do { res \<leftarrow> handleError E machine e; ret (Returns res) })
       })
   }"

section \<open>Upgrade\<close>

definition updateStatus :: "env \<Rightarrow> machine \<Rightarrow> string \<Rightarrow> string \<Rightarrow> string \<Rightarrow> string list
    \<Rightarrow> go_error option io" where
  "updateStatus E machineInstance eventType event eventMessage args =
     onErr Some (k8sGetMachine E (machineKey machineInstance)) (\<lambda>fresh. do {
       now \<leftarrow> timeNow E;
       onErr Some (k8sUpdateMachine E (fresh\<lparr>
           maMeta := (maMeta fresh)\<lparr>omAnnotations := omAnnotations (maMeta machineInstance),
             omFinalizers := machineFinalizers machineInstance\<rparr>,
           maStatus := (maStatus fresh)\<lparr>mstPhase := machinePhase machineInstance,
             mstKubernetesVersion := mstKubernetesVersion (maStatus machineInstance),
             mstLastUpdated := Some now\<rparr>\<rparr>)) (\<lambda>stored. do {
         _ \<leftarrow> recordEvent (OMachine stored) eventType event (formatQ eventMessage args);
         ret None
       })
     })"

text \<open>The function \<open>getCluster\<close> of the controller.\<close>

definition getClusterByName :: "env \<Rightarrow> string \<Rightarrow> string \<Rightarrow> (go_error + cluster) io" where
  "getClusterByName E namespace clName = do {
     r \<leftarrow> k8sGetCluster E (objectKey namespace clName);
     ret (case r of Inl err \<Rightarrow> Inl err | Inr clusterInstance \<Rightarrow> Inr clusterInstance)
   }"

definition handleUpgrade :: "env \<Rightarrow> machine \<Rightarrow> (reconcile_result \<times> go_error option) io" where
  "handleUpgrade E machine =
     (if machinePhase machine = UpgradingMachinePhase then ret (noResult, None)
      else let clName = GetClusterNameFromMachineOwnerRef machine in
        onErr (\<lambda>err. (noResult, Some err)) (getClusterByName E (machineNamespace machine) clName) (\<lambda>cluster.
        onErr (\<lambda>err. (noResult, Some err)) (GetClusterMachineList E (clusterName cluster)) (\<lambda>machineList.
        case IsReadyForUpgrade machineList of (ok, err) \<Rightarrow>
          if err \<noteq> None then ret (noResult, None)
          else if \<not> ok then ret (requeueNow, None)
          else do {
            let machine = setMachinePhase UpgradingMachinePhase machine;
            err \<leftarrow> updateStatus E machine ''Normal'' ResourceStateChange MessageResourceStateChange
              [machineName machine, UpgradingMachinePhase];
            case err of Some err \<Rightarrow> ret (noResult, Some err) | None \<Rightarrow> ret (noResult, None)
          })))"

end
