(* ===== verification/Machine_Facts.thy ===== *)
theory Machine_Facts
  imports Machine_Create_Facts Machine_Controller
begin

text \<open>
  Correctness of the machine reconciler: its bookkeeping of MaaS machines over a whole reconcile,
  the order of the calls that tear a machine down, and the guards of its phase changes.
\<close>

section \<open>Errors\<close>

definition unphased :: "machine \<Rightarrow> bool" where
  "unphased m \<longleftrightarrow> machinePhase m \<notin> {ProvisioningMachinePhase, DeletingMachinePhase,
     ErrorMachinePhase, ReadyMachinePhase, UpgradingMachinePhase}"

lemma handleError_keeps:
  assumes "asksNoRelease e"
  shows "wp (handleError E m e) (\<lambda>_ t'. outstanding t' = outstanding t) t"
  using assms by (cases "errorCause e")
    (auto simp: handleError_def asksNoRelease_def world_defs split: sum.splits)

lemma handleError_release:
  assumes "sid \<noteq> ''''"
  shows "wp (handleError E m (ReleaseError sid e))
    (\<lambda>r t'. outstanding t' = filter (\<lambda>i. i \<noteq> sid) (outstanding t)) t"
  using assms by (simp add: handleError_def wp_Delete)

lemma wp_Reconcile:
  "wp (Reconcile E req) Q t \<longleftrightarrow> (case envGetMachine E t req of
     Inl err \<Rightarrow> Q (Returns (noResult, if isNotFound err then None else Some err))
       (t @ [EGet KMachine req (Some err)])
   | Inr m \<Rightarrow> wp (markDeleting E m) (\<lambda>r t1. case r of
       Inl err \<Rightarrow> Q (Returns (noResult, Some err)) t1
     | Inr m \<Rightarrow> wp (handlePhase E m) (\<lambda>h t2. case h of
         Panics \<Rightarrow> Q Panics t2
       | Returns (None, m) \<Rightarrow> Q (Returns (noResult, None)) t2
       | Returns (Some e, m) \<Rightarrow> wp (handleError E m e) (\<lambda>res. Q (Returns res)) t2) t1)
     (t @ [EGet KMachine req None]))"
  by (auto simp: Reconcile_def k8sGetMachine_def split: sum.splits go.splits option.splits prod.splits
      intro!: arg_cong2 [where f = wp] ext arg_cong [where f = "\<lambda>Q. wp _ Q _"])

section \<open>The books over a whole reconcile\<close>

text \<open>What a reconcile does to the books, for a machine that has no phase yet: nothing, or one more
  machine is allocated and its id is stored in the machine object.\<close>

definition reconcileBooked :: "string list \<Rightarrow> machine \<Rightarrow> reconciled \<Rightarrow> trace \<Rightarrow> bool" where
  "reconcileBooked os m r t' \<longleftrightarrow> outstanding t' = os \<or>
     (\<exists>sid. outstanding t' = os @ [sid] \<and> r = Returns (noResult, None) \<and> recordsMachine m sid t')"

lemma markDeleting_alive:
  "timeIsZero (omDeletionTimestamp (maMeta m)) \<Longrightarrow> markDeleting E m = ret (Inr m)"
  by (simp add: markDeleting_def)

lemma handlePhase_unphased: "unphased m \<Longrightarrow> handlePhase E m = create E m"
  by (simp add: handlePhase_def unphased_def)

text \<open>The error that \<open>create\<close> leaves is settled by \<open>handleError\<close>.\<close>

lemma handleError_booked:
  assumes "bookedAfter os m (Returns (Some e, m')) t"
  shows "wp (handleError E m' e) (\<lambda>_ t'. outstanding t' = os) t"
proof -
  from assms consider "asksNoRelease e" "outstanding t = os"
    | sid e' where "e = ReleaseError sid e'" "sid \<noteq> ''''" "sid \<notin> set os" "outstanding t = os @ [sid]"
    by auto
  then show ?thesis
  proof cases
    case 1
    with handleError_keeps show ?thesis by fastforce
  next
    case 2
    then have "filter (\<lambda>i. i \<noteq> sid) (outstanding t) = os" by (auto simp: filter_id_conv)
    with 2 handleError_release [of sid E m' e' t] show ?thesis by simp
  qed
qed

lemma reconcile_created:
  assumes "wp (create E m) (\<lambda>r t'. bookedAfter os m r t' \<or> L r t') t"
    and "\<And>r t'. L r t' \<Longrightarrow> \<exists>e m'. r = Returns (Some e, m') \<and> wp (handleError E m' e) (\<lambda>res. L' (Returns res)) t'"
  shows "wp (create E m) (\<lambda>h t2. case h of
         Panics \<Rightarrow> reconcileBooked os m Panics t2 \<or> L' Panics t2
       | Returns (None, m1) \<Rightarrow> reconcileBooked os m (Returns (noResult, None)) t2 \<or> L' (Returns (noResult, None)) t2
       | Returns (Some e, m1) \<Rightarrow> wp (handleError E m1 e)
           (\<lambda>res t'. reconcileBooked os m (Returns res) t' \<or> L' (Returns res) t') t2) t"
proof (rule wp_mono [OF assms(1)])
  fix r t'
  assume r: "bookedAfter os m r t' \<or> L r t'"
  show "case r of
         Panics \<Rightarrow> reconcileBooked os m Panics t' \<or> L' Panics t'
       | Returns (None, m1) \<Rightarrow> reconcileBooked os m (Returns (noResult, None)) t' \<or> L' (Returns (noResult, None)) t'
       | Returns (Some e, m1) \<Rightarrow> wp (handleError E m1 e)
           (\<lambda>res t'. reconcileBooked os m (Returns res) t' \<or> L' (Returns res) t') t'"
  proof (cases "bookedAfter os m r t'")
    case True
    consider "r = Panics" | m1 where "r = Returns (None, m1)" | e m1 where "r = Returns (Some e, m1)"
      by (metis go.exhaust option.exhaust surj_pair)
    then show ?thesis
    proof cases
      case 3
      with True have "wp (handleError E m1 e) (\<lambda>_ t2. outstanding t2 = os) t'"
        by (intro handleError_booked [where m = m]) simp
      with 3 show ?thesis by (auto simp: reconcileBooked_def elim!: wp_mono)
    qed (use True in \<open>auto simp: reconcileBooked_def bookedAfter_def\<close>)
  next
    case False
    with r assms(2) obtain e m' where "r = Returns (Some e, m')"
      "wp (handleError E m' e) (\<lambda>res. L' (Returns res)) t'" by blast
    then show ?thesis by (auto elim!: wp_mono)
  qed
qed

lemma Reconcile_worker_law:
  assumes "maasSound E" and "errorsForeign E" and "envGetMachine E t req = Inr m"
    and "timeIsZero (omDeletionTimestamp (maMeta m))" and "unphased m"
    and "\<not> isMasterRole (mspRoles (maSpec m))"
  shows "wp (Reconcile E req) (reconcileBooked (outstanding t) m) t"
proof -
  have "wp (create E m) (\<lambda>r t'. bookedAfter (outstanding t) m r t' \<or> False) (t @ [EGet KMachine req None])"
    using create_worker_law [OF assms(1,2,6), of "t @ [EGet KMachine req None]"] by simp
  from reconcile_created [OF this, where L' = "\<lambda>_ _. False"] show ?thesis
    using assms by (simp add: wp_Reconcile markDeleting_alive handlePhase_unphased)
      (erule wp_mono, auto split: go.splits option.splits)
qed


definition workerKey :: object_key where
  "workerKey = objectKey ''ns'' ''w0''"

definition demoWith :: "machine \<Rightarrow> env" where
  "demoWith m = demo\<lparr>envGetMachine := \<lambda>_ _. Inr m\<rparr>"

lemma demoWith_sound [simp]: "maasSound (demoWith m)" "errorsForeign (demoWith m)"
  using demo_sound demo_foreign by (simp_all add: maasSound_def errorsForeign_def demoWith_def)

lemma demoWith_get [simp]: "envGetMachine (demoWith m) t k = Inr m"
  by (simp add: demoWith_def)

lemma demoWorker_new [simp]: "timeIsZero (omDeletionTimestamp (maMeta demoWorker))" "unphased demoWorker"
  "timeIsZero (omDeletionTimestamp (maMeta demoMaster))" "unphased demoMaster"
  by (simp_all add: demoMaster_def demoWorker_def zero_object_meta_def unphased_def zero_machine_def
      zero_machine_status_def machine_phase_defs)


definition kubeconfigFailed :: "env \<Rightarrow> string list \<Rightarrow> trace \<Rightarrow> bool" where
  "kubeconfigFailed E os t' \<longleftrightarrow> (\<exists>sid. outstanding t' = os @ [sid])
     \<and> (\<exists>e. (\<exists>sec. EUpdate (OSecret sec) (Some e) \<in> set t') \<or> (\<exists>kc. envEncodeConfig E kc = Inl e)
          \<or> (\<exists>data. CABundleFromMap data = Inl e))"

lemma emits_handleError [safe_intros]:
  "(\<And>i r. P (ERelease [i] r)) \<Longrightarrow> (\<And>m r. P (EUpdate (OMachine m) r)) \<Longrightarrow> emits P (handleError E m e)"
  by (cases "errorCause e") (auto simp: handleError_def k8sUpdateMachine_def intro!: safe_intros)

lemma leak_stays:
  assumes "kubeconfigLeak E os m r t"
  shows "\<exists>e m'. r = Returns (Some e, m') \<and> wp (handleError E m' e) (\<lambda>res. kubeconfigFailed E os) t"
proof -
  from assms obtain e sid where r: "r = Returns (Some e, m)" and e: "asksNoRelease e"
    and o: "outstanding t = os @ [sid]"
    and why: "(\<exists>t1 sec. t = t1 @ [EUpdate (OSecret sec) (Some e)]) \<or> (\<exists>kc. envEncodeConfig E kc = Inl e)
      \<or> (\<exists>data. CABundleFromMap data = Inl e)"
    by (auto simp: kubeconfigLeak_def)
  have "emits (\<lambda>_. True) (handleError E m e)" by (intro safe_intros) auto
  then have "wp (handleError E m e) (\<lambda>_ t'. set t \<subseteq> set t') t"
    by (intro wpI) (auto elim!: emitsD)
  then have "wp (handleError E m e) (\<lambda>_ t'. outstanding t' = outstanding t \<and> set t \<subseteq> set t') t"
    unfolding wp_conj using handleError_keeps [OF e] by blast
  then have "wp (handleError E m e) (\<lambda>res. kubeconfigFailed E os) t"
    by (rule wp_mono) (use o why in \<open>unfold kubeconfigFailed_def, fastforce\<close>)
  with r show ?thesis by blast
qed

text \<open>A reconcile of a new master leaks a machine of the pool on one path only: the kubeconfig
  could not be made from the cluster's secret, or could not be stored in it, after the machine
  was allocated.\<close>

lemma Reconcile_master_leaks_only_there:
  assumes "maasSound E" and "errorsForeign E" and "envGetMachine E t req = Inr m"
    and "timeIsZero (omDeletionTimestamp (maMeta m))" and "unphased m"
    and "isMasterRole (mspRoles (maSpec m))"
  shows "wp (Reconcile E req) (\<lambda>r t'. reconcileBooked (outstanding t) m r t'
    \<or> kubeconfigFailed E (outstanding t) t') t"
proof -
  have "wp (create E m) (\<lambda>r t'. bookedAfter (outstanding t) m r t'
      \<or> kubeconfigLeak E (outstanding t) m r t') (t @ [EGet KMachine req None])"
    using create_master_law [OF assms(1,2,6), of "t @ [EGet KMachine req None]"] by simp
  from reconcile_created [OF this, where L' = "\<lambda>_. kubeconfigFailed E (outstanding t)", OF leak_stays]
  show ?thesis
    using assms by (simp add: wp_Reconcile markDeleting_alive handlePhase_unphased)
qed

lemma Reconcile_master_leaks_only_there_witness:
  "wp (Reconcile (demoWith demoMaster) workerKey) (\<lambda>r t'. reconcileBooked [] demoMaster r t'
    \<or> kubeconfigFailed (demoWith demoMaster) [] t') []"
  using Reconcile_master_leaks_only_there [of "demoWith demoMaster" "[]" workerKey demoMaster]
    demo_master by simp

text \<open>on that path the leak is real: with a cluster, an image and a machine at hand, a conflict
  on the update of the secret ends the reconcile of a new master with the error, the machine of
  the pool still allocated and the machine object never written.\<close>

theorem Reconcile_master_leak:
  "wp (Reconcile ((demoWith demoMaster)\<lparr>envUpdateSecret := \<lambda>_ _. Inl (StatusError ''Conflict'' ''modified'')\<rparr>)
       workerKey)
     (\<lambda>r t'. r = Returns (noResult, Some (StatusError ''Conflict'' ''modified''))
       \<and> outstanding t' = [''abc123'']
       \<and> filter (\<lambda>e. case e of EUpdate (OMachine _) _ \<Rightarrow> True | ERelease _ _ \<Rightarrow> True | _ \<Rightarrow> False) t' = []) []"
proof -
  have img: "wp (getImage (demo\<lparr>envGetMachine := f, envUpdateSecret := g\<rparr>) osVersion ''1.13.4'' ''gpu'') Q t \<longleftrightarrow>
     Q ''os=ubuntu-xenial,k8s=1.13.4,type=gpu'' (t @ [EBootResources None])" for f g Q t
    using demo_image [of Q t] by (simp add: getImage_def getImages_def maasBootResources_def)
  show ?thesis
    unfolding wp_Reconcile
    by (simp add: markDeleting_alive handlePhase_unphased)
      (simp add: demo_run img demoWith_def zero_machine_spec_def handleError_def
        StatusReasonNotFound_def outstanding_def del: base64Encode.simps outstanding_append)
qed

end
