(* ===== verification/Machine_Delete_Facts.thy ===== *)
theory Machine_Delete_Facts
  imports Footprints Machine_Facts
begin

text \<open>
  Correctness of the deletion of a machine: what it writes and releases and in which order, what
  happens to the node before the machine is given back, and the waiting for deleted pods.
\<close>

section \<open>Writes and releases\<close>

fun tearsDown :: "event \<Rightarrow> bool" where
  "tearsDown (EUpdate _ _) = True"
| "tearsDown (ERelease _ _) = True"
| "tearsDown (EAllocate _ _) = True"
| "tearsDown (EDelete _ _) = True"
| "tearsDown (ECreate _ _) = True"
| "tearsDown _ = False"

text \<open>The two last calls of a deletion that came that far: the release, when MaaS holds a machine,
  and the update that takes the finalizer off.\<close>

definition tornDown :: "env \<Rightarrow> machine \<Rightarrow> trace \<Rightarrow> handled \<Rightarrow> trace \<Rightarrow> bool" where
  "tornDown E m t1 r t' \<longleftrightarrow>
     (let sid = machineSystemId m;
          t2 = (if sid = '''' then t1 else t1 @ [ERelease [sid] (envRelease E t1 [sid])]);
          bare = setMachineFinalizers (filter (\<lambda>f. f \<noteq> MachineFinalizer) (machineFinalizers m)) m in
      \<exists>u. t' = t2 @ [EUpdate (OMachine bare) u]
        \<and> (case u of None \<Rightarrow> \<exists>m'. r = finished m' | Some err \<Rightarrow> \<exists>e. r = failing bare e))"

definition deletionPost :: "env \<Rightarrow> machine \<Rightarrow> trace \<Rightarrow> handled \<Rightarrow> trace \<Rightarrow> bool" where
  "deletionPost E m t r t' \<longleftrightarrow>
     (\<exists>e. r = failing m e) \<and> filter tearsDown t' = filter tearsDown t
     \<or> (\<exists>t1. filter tearsDown t1 = filter tearsDown t \<and> tornDown E m t1 r t')"

lemma deletionPost_trans:
  "filter tearsDown t1 = filter tearsDown t \<Longrightarrow> deletionPost E m t1 r t' \<Longrightarrow> deletionPost E m t r t'"
  unfolding deletionPost_def by metis

lemma deletionPost_fail:
  "filter tearsDown t' = filter tearsDown t \<Longrightarrow> deletionPost E m t (failing m e) t'"
  unfolding deletionPost_def by blast

lemma wp_deleteObject: "wp (deleteObject E m) (deletionPost E m t) t1"
  if "filter tearsDown t1 = filter tearsDown t"
proof -
  have "wp (deleteObject E m) (tornDown E m t1) t1"
    by (simp add: deleteObject_def deleteMachine_def Let_def wp_Delete k8sUpdateMachine_def
        tornDown_def split: sum.split)
  then show ?thesis
    by (rule wp_mono) (use that in \<open>auto simp: deletionPost_def\<close>)
qed

lemma quiet_cordonNode [safe_intros]: "(\<And>x r. P (ERemote cs x r)) \<Longrightarrow> emits P (cordonNode E cs n)"
  unfolding cordonNode_def remoteDo_def by (intro safe_intros) auto

lemma quiet_deletePods [safe_intros]: "(\<And>x r. P (ERemote cs x r)) \<Longrightarrow> emits P (deletePods E cs pods)"
  by (induction pods) (auto simp: remoteDo_def intro!: safe_intros)

lemma quiet_pendingLoop [safe_intros]:
  "(\<And>ns n r. P (ERemote cs (RGetPod ns n) r)) \<Longrightarrow> emits P (pendingLoop E cs all i pods acc)"
  by (induction pods arbitrary: i acc) (auto simp: remoteGetPod_def intro!: safe_intros)

lemma quiet_podsDeleted [safe_intros]:
  "(\<And>ns n r. P (ERemote cs (RGetPod ns n) r)) \<Longrightarrow> emits P (podsDeleted E cs all pods)"
  unfolding podsDeleted_def by (intro safe_intros) auto

lemma quiet_drainNode [safe_intros]:
  "(\<And>x r. P (ERemote cs x r)) \<Longrightarrow> (\<And>ps v. P (ESpawn cs ps v)) \<Longrightarrow> P (ESleep 1000) \<Longrightarrow> P (EPoll 1000) \<Longrightarrow>
   emits P (drainNode E cs n)"
  unfolding drainNode_def remotePodsOnNode_def remoteCheckEviction_def spawnEvictions_def
  by (intro safe_intros) auto

lemma wp_quiet_then:
  assumes "emits (\<lambda>e. \<not> tearsDown e) m0" "filter tearsDown t1 = filter tearsDown t"
    and "\<And>a t2. filter tearsDown t2 = filter tearsDown t \<Longrightarrow> Q a t2"
  shows "wp m0 Q t1"
  by (rule wp_mono [OF wp_quiet [OF assms(1)]]) (use assms in auto)

lemma wp_removeNode:
  assumes "filter tearsDown t1 = filter tearsDown t"
  shows "wp (removeNode E cs m) (deletionPost E m t) t1"
proof -
  have q: "emits (\<lambda>e. \<not> tearsDown e) (cordonNode E cs n)" "emits (\<lambda>e. \<not> tearsDown e) (drainNode E cs n)" for n
    by (intro safe_intros; simp)+
  show ?thesis
    using assms
    by (auto simp: removeNode_def remoteGetNode_def remoteDo_def split: sum.split option.split
        intro!: wp_deleteObject deletionPost_fail wp_quiet_then [OF q(1)] wp_quiet_then [OF q(2)])
qed

text \<open>C9: a deletion takes the finalizer off a machine only in its very last call, and only after
  MaaS was asked, in the call just before, to release the machine that the object names; until
  then it writes nothing and releases nothing, so that a deletion that fails half way is taken up
  again by the next reconcile. It never panics.\<close>

theorem handleDelete_releases_first:
  "wp (handleDelete E m) (deletionPost E m t) t"
  by (auto simp: handleDelete_def Let_def k8sListClusters_def k8sGetSecret_def
      split: sum.split option.split
      intro!: wp_deleteObject deletionPost_fail wp_removeNode)

text \<open>C39: a release that MaaS refuses is not noticed: the finalizer is taken off the machine and the
  deletion reports success as if the machine had been given back.\<close>

theorem refused_release_is_ignored:
  assumes "machineSystemId m \<noteq> ''''" and "envRelease E t [machineSystemId m] = Some err"
    and "\<And>t m. \<exists>m'. envUpdateMachine E t m = Inr m'"
  shows "wp (deleteMachine E m) (\<lambda>r t'. (\<exists>m'. r = finished m') \<and>
     t' = t @ [ERelease [machineSystemId m] (Some err),
       EUpdate (OMachine (setMachineFinalizers (filter (\<lambda>f. f \<noteq> MachineFinalizer) (machineFinalizers m)) m)) None]) t"
proof -
  obtain m' where "envUpdateMachine E (t @ [ERelease [machineSystemId m] (Some err)])
      (setMachineFinalizers (filter (\<lambda>f. f \<noteq> MachineFinalizer) (machineFinalizers m)) m) = Inr m'"
    using assms(3) by blast
  with assms(1,2) show ?thesis
    by (simp add: deleteMachine_def Let_def wp_Delete k8sUpdateMachine_def)
qed

theorem refused_release_is_ignored_witness:
  "wp (deleteMachine (demo\<lparr>envRelease := \<lambda>_ _. Some (PlainError ''503'')\<rparr>)
      (demoWorker\<lparr>maStatus := zero_machine_status\<lparr>mstSystemId := ''abc123''\<rparr>\<rparr>))
    (\<lambda>r t'. (\<exists>m'. r = finished m') \<and> length t' = 2) []"
  using refused_release_is_ignored [of "demoWorker\<lparr>maStatus := zero_machine_status\<lparr>mstSystemId := ''abc123''\<rparr>\<rparr>"
      "demo\<lparr>envRelease := \<lambda>_ _. Some (PlainError ''503'')\<rparr>" "[]" "PlainError ''503''"]
  by (auto elim!: wp_mono)

section \<open>The node before the machine\<close>

definition podsGone :: "clientset \<Rightarrow> pod list \<Rightarrow> trace \<Rightarrow> bool" where
  "podsGone cs pods es \<longleftrightarrow> (\<exists>xs polls. es = map (\<lambda>(p, x). ERemote cs (RDeletePod p) x) xs @ polls
     \<and> map fst xs = pods \<and> list_all (\<lambda>(p, x). \<forall>e. x = Some e \<longrightarrow> isNotFound e) xs
     \<and> list_all (\<lambda>e. (\<exists>ns n x. e = ERemote cs (RGetPod ns n) x) \<or> e = ESleep 1000 \<or> e = EPoll 1000) polls)"

lemma podsGoneI:
  "map fst xs = pods \<Longrightarrow> list_all (\<lambda>(p, x). \<forall>e. x = Some e \<longrightarrow> isNotFound e) xs \<Longrightarrow>
   list_all (\<lambda>e. (\<exists>ns n x. e = ERemote cs (RGetPod ns n) x) \<or> e = ESleep 1000 \<or> e = EPoll 1000) polls \<Longrightarrow>
   podsGone cs pods (map (\<lambda>(p, x). ERemote cs (RDeletePod p) x) xs @ polls)"
  unfolding podsGone_def by blast

text \<open>The calls that empty a node, in order.\<close>

definition drained :: "clientset \<Rightarrow> node \<Rightarrow> trace \<Rightarrow> bool" where
  "drained cs n es \<longleftrightarrow> (\<exists>pods rest. es = [ERemote cs (RListPods (nodeName n)) None,
       ERemote cs RCheckEviction None] @ rest
     \<and> ((\<exists>v. v \<noteq> '''' \<and> rest = [ESpawn cs pods v]) \<or> podsGone cs pods rest))"

definition cordoned :: "clientset \<Rightarrow> node \<Rightarrow> trace \<Rightarrow> bool" where
  "cordoned cs n es \<longleftrightarrow> es = (if nodeUnschedulable n then [] else [ERemote cs (RCordonNode (nodeName n)) None])"

definition emptied :: "clientset \<Rightarrow> node \<Rightarrow> trace \<Rightarrow> trace \<Rightarrow> bool" where
  "emptied cs n t t' \<longleftrightarrow> (\<exists>c d. t' = t @ c @ d \<and> cordoned cs n c \<and> drained cs n d)"

lemma deletePods_law:
  "wp (deletePods E cs pods) (\<lambda>r t'. r = None \<longrightarrow> (\<exists>xs. t' = t @ map (\<lambda>(p, x). ERemote cs (RDeletePod p) x) xs
     \<and> map fst xs = pods \<and> list_all (\<lambda>(p, x). \<forall>e. x = Some e \<longrightarrow> isNotFound e) xs)) t"
proof (induction pods arbitrary: t)
  case Nil
  then show ?case by simp
next
  case (Cons p pods)
  let ?x = "envRemoteDo E t cs (RDeletePod p)"
  have step: "wp (deletePods E cs pods) (\<lambda>r t'. r = None \<longrightarrow> (\<exists>xs. t' = t @ map (\<lambda>(p, x). ERemote cs (RDeletePod p) x) xs
     \<and> map fst xs = p # pods \<and> list_all (\<lambda>(p, x). \<forall>e. x = Some e \<longrightarrow> isNotFound e) xs))
       (t @ [ERemote cs (RDeletePod p) ?x])" if "\<forall>e. ?x = Some e \<longrightarrow> isNotFound e"
  proof (rule wp_mono [OF Cons.IH], intro impI)
    fix r t' assume "r = None \<longrightarrow> (\<exists>xs. t' = (t @ [ERemote cs (RDeletePod p) ?x]) @ map (\<lambda>(p, x). ERemote cs (RDeletePod p) x) xs
     \<and> map fst xs = pods \<and> list_all (\<lambda>(p, x). \<forall>e. x = Some e \<longrightarrow> isNotFound e) xs)" "r = None"
    then obtain xs where "t' = (t @ [ERemote cs (RDeletePod p) ?x]) @ map (\<lambda>(p, x). ERemote cs (RDeletePod p) x) xs"
      "map fst xs = pods" "list_all (\<lambda>(p, x). \<forall>e. x = Some e \<longrightarrow> isNotFound e) xs" by blast
    with that show "\<exists>xs. t' = t @ map (\<lambda>(p, x). ERemote cs (RDeletePod p) x) xs
     \<and> map fst xs = p # pods \<and> list_all (\<lambda>(p, x). \<forall>e. x = Some e \<longrightarrow> isNotFound e) xs"
      by (intro exI [of _ "(p, ?x) # xs"]) simp
  qed
  then show ?case
    by (cases ?x) (auto simp: remoteDo_def)
qed

lemma drainNode_law: "wp (drainNode E cs n) (\<lambda>r t'. r = None \<longrightarrow> (\<exists>d. t' = t @ d \<and> drained cs n d)) t"
proof -
  let ?poll = "\<lambda>e. (\<exists>ns n x. e = ERemote cs (RGetPod ns n) x) \<or> e = ESleep 1000 \<or> e = EPoll 1000"
  have polls: "emits ?poll (PollImmediate E 1000 (podsDeleted E cs ps) ps)" for ps
    by (intro safe_intros) auto
  have gone: "wp (deletePods E cs ps) (\<lambda>r t1. case r of Some e \<Rightarrow> True | None \<Rightarrow>
      wp (PollImmediate E 1000 (podsDeleted E cs ps) ps) (\<lambda>r t2. \<exists>es. t2 = t @ es \<and> podsGone cs ps es) t1) t" for ps t
  proof (rule wp_mono [OF deletePods_law])
    fix r t1
    assume 1: "r = None \<longrightarrow> (\<exists>xs. t1 = t @ map (\<lambda>(p, x). ERemote cs (RDeletePod p) x) xs
     \<and> map fst xs = ps \<and> list_all (\<lambda>(p, x). \<forall>e. x = Some e \<longrightarrow> isNotFound e) xs)"
    have "wp (PollImmediate E 1000 (podsDeleted E cs ps) ps) (\<lambda>r t2. \<exists>es. t2 = t1 @ es \<and> list_all ?poll es) t1"
      by (rule wp_emits [OF polls])
    then show "case r of Some e \<Rightarrow> True | None \<Rightarrow>
      wp (PollImmediate E 1000 (podsDeleted E cs ps) ps) (\<lambda>r t2. \<exists>es. t2 = t @ es \<and> podsGone cs ps es) t1"
    proof (cases r)
      case None
      with 1 obtain xs where xs: "t1 = t @ map (\<lambda>(p, x). ERemote cs (RDeletePod p) x) xs"
        "map fst xs = ps" "list_all (\<lambda>(p, x). \<forall>e. x = Some e \<longrightarrow> isNotFound e) xs" by blast
      assume w: "wp (PollImmediate E 1000 (podsDeleted E cs ps) ps) (\<lambda>r t2. \<exists>es. t2 = t1 @ es \<and> list_all ?poll es) t1"
      show ?thesis unfolding None option.case
        by (rule wp_mono [OF w]) (use xs podsGoneI [OF xs(2,3)] in auto)
    qed simp
  qed
  have spawn: "drained cs n [ERemote cs (RListPods (nodeName n)) None,
      ERemote cs RCheckEviction None, ESpawn cs ps v]" if "v \<noteq> []" for ps v
    using that by (auto simp: drained_def)
  have empty: "wp (deletePods E cs ps) (\<lambda>r t1. r = None \<longrightarrow>
      wp (PollImmediate E 1000 (podsDeleted E cs ps) ps)
        (\<lambda>r t2. r = None \<longrightarrow> (\<exists>d. t2 = t @ d \<and> drained cs n d)) t1)
      (t @ [ERemote cs (RListPods (nodeName n)) None, ERemote cs RCheckEviction None])" for ps
    by (rule wp_mono [OF gone], intro impI)
      (simp, erule wp_mono, auto simp: drained_def)
  show ?thesis
    unfolding drainNode_def remotePodsOnNode_def remoteCheckEviction_def spawnEvictions_def
    using empty by (auto simp: spawn split: sum.split option.split)
qed

lemma cordonNode_law:
  "wp (cordonNode E cs n) (\<lambda>r t'. r = None \<longrightarrow> (\<exists>c. t' = t @ c \<and> cordoned cs n c)) t"
  by (auto simp: cordonNode_def remoteDo_def cordoned_def)

definition removedInOrder :: "env \<Rightarrow> clientset \<Rightarrow> machine \<Rightarrow> node \<Rightarrow> trace \<Rightarrow> handled \<Rightarrow> trace \<Rightarrow> bool" where
  "removedInOrder E cs m n t r t' \<longleftrightarrow> (case r of
      Panics \<Rightarrow> False
    | Returns (Some _, _) \<Rightarrow> True
    | Returns (None, _) \<Rightarrow> (\<exists>c d x. cordoned cs n c \<and> drained cs n d
        \<and> (case x of None \<Rightarrow> True | Some e \<Rightarrow> isNotFound e)
        \<and> tornDown E m (t @ [ERemote cs (RGetNode (machineName m)) None] @ c @ d
             @ [ERemote cs (RDeleteNode (machineName m)) x]) r t'))"

lemma removedInOrder_fail: "removedInOrder E cs m n t (failing m' e) t'"
  by (simp add: removedInOrder_def)

lemma removedInOrder_delete:
  assumes "cordoned cs n c" "drained cs n d" "case x of None \<Rightarrow> True | Some e \<Rightarrow> isNotFound e"
  shows "wp (deleteObject E m) (removedInOrder E cs m n t)
    (t @ [ERemote cs (RGetNode (machineName m)) None] @ c @ d @ [ERemote cs (RDeleteNode (machineName m)) x])"
proof -
  have "wp (deleteObject E m) (\<lambda>r t'. r \<noteq> Panics \<and> tornDown E m t1 r t') t1" for t1
    by (simp add: deleteObject_def deleteMachine_def Let_def wp_Delete k8sUpdateMachine_def
        tornDown_def split: sum.split)
  then show ?thesis
    by (rule wp_mono) (use assms in \<open>auto simp: removedInOrder_def split: go.splits option.splits\<close>)
qed


definition demoNode :: node where
  "demoNode = \<lparr>nodeName = ''w0'', nodeUnschedulable = False, nodeConditions = []\<rparr>"


section \<open>Waiting for deleted pods\<close>

text \<open>The index into the full list of pods stays in range.\<close>

lemma pendingLoop_length:
  "wp (pendingLoop E cs all i pods acc) (\<lambda>r _. \<forall>ps. r = Inr ps \<longrightarrow> length ps \<le> length acc + length pods) t"
proof (induction pods arbitrary: i acc t)
  case Nil
  then show ?case by simp
next
  case (Cons p pods)
  have more: "wp (pendingLoop E cs all (Suc i) pods acc')
      (\<lambda>r _. \<forall>ps. r = Inr ps \<longrightarrow> length ps \<le> length acc + length (p # pods)) t'"
    if "length acc' \<le> Suc (length acc)" for acc' t'
    by (rule wp_mono [OF Cons.IH]) (use that in force)
  then show ?case by (auto simp: remoteGetPod_def split: option.split)
qed

text \<open>C38: the wait for deleted pods can forget a pod. With a pod \<open>a\<close> that is gone and a pod \<open>b\<close> that
  never goes, the second check replaces \<open>b\<close>, the only pod it still waits for, by the first pod of
  the full list, which is \<open>a\<close>; the third check then reports that all pods are deleted.\<close>

theorem pod_wait_forgets:
  assumes gone: "\<And>t. podGone a (envGetPod E t cs (podNamespace a) (podName a))"
    and stays: "\<And>t. envGetPod E t cs (podNamespace b) (podName b) = (None, b)"
    and ticks: "\<And>t. 1 \<le> envPollTicks E t"
  shows "wp (PollImmediate E 1000 (podsDeleted E cs [a, b]) [a, b]) (\<lambda>r _. r = None) t"
proof -
  have b: "\<not> podGone b (None, b)" by (simp add: podGone_def)
  have "wp (pollTicks 1000 (podsDeleted E cs [a, b]) n [b]) (\<lambda>r _. r = None) t" if "1 \<le> n" for n t
  proof (cases n)
    case (Suc k)
    have "wp (pollTicks 1000 (podsDeleted E cs [a, b]) k [a]) (\<lambda>r _. r = None) t" for t
      by (cases k) (simp_all add: tick_def podsDeleted_def remoteGetPod_def gone)
    with Suc show ?thesis
      by (simp add: tick_def podsDeleted_def remoteGetPod_def stays b)
  qed (use that in simp)
  with ticks show ?thesis
    by (simp add: PollImmediate_def startTimer_def podsDeleted_def remoteGetPod_def gone stays b)
qed

theorem pod_wait_forgets_witness:
  "wp (PollImmediate (demo\<lparr>envGetPod := \<lambda>_ _ ns n. if n = ''a'' then (Some (StatusError StatusReasonNotFound ''''),
        \<lparr>podName = '''', podNamespace = '''', podUID = ''''\<rparr>)
      else (None, \<lparr>podName = ''b'', podNamespace = ''ns'', podUID = ''2''\<rparr>)\<rparr>) 1000
    (podsDeleted (demo\<lparr>envGetPod := \<lambda>_ _ ns n. if n = ''a'' then (Some (StatusError StatusReasonNotFound ''''),
        \<lparr>podName = '''', podNamespace = '''', podUID = ''''\<rparr>)
      else (None, \<lparr>podName = ''b'', podNamespace = ''ns'', podUID = ''2''\<rparr>)\<rparr>) 0
     [\<lparr>podName = ''a'', podNamespace = ''ns'', podUID = ''1''\<rparr>, \<lparr>podName = ''b'', podNamespace = ''ns'', podUID = ''2''\<rparr>])
    [\<lparr>podName = ''a'', podNamespace = ''ns'', podUID = ''1''\<rparr>, \<lparr>podName = ''b'', podNamespace = ''ns'', podUID = ''2''\<rparr>])
    (\<lambda>r _. r = None) []"
  by (rule pod_wait_forgets) (simp_all add: podGone_def demo_def onePool_def offline_def Let_def)

end
