(* ===== verification/Lifecycle.thy ===== *)
theory Lifecycle
  imports Machine_Delete_Facts
begin

text \<open>
  The life of a machine object as an abstract state machine on its phase, and the proof that
  every write of the reconciler is one of its steps.
\<close>

section \<open>The abstract machine\<close>

text \<open>\<open>phase_step d p q\<close>: a reconcile of a machine in phase \<open>p\<close>, with a deletion timestamp iff \<open>d\<close>,
  may store it in phase \<open>q\<close>.\<close>

definition noPhase :: "machine_phase \<Rightarrow> bool" where
  "noPhase p \<longleftrightarrow> p \<notin> {ProvisioningMachinePhase, DeletingMachinePhase, ErrorMachinePhase,
     ReadyMachinePhase, UpgradingMachinePhase}"

inductive phase_step :: "bool \<Rightarrow> machine_phase \<Rightarrow> machine_phase \<Rightarrow> bool" where
  created: "noPhase p \<Longrightarrow> phase_step False p ProvisioningMachinePhase"
| failed: "noPhase p \<Longrightarrow> phase_step False p ErrorMachinePhase"
| ready: "phase_step False ProvisioningMachinePhase ReadyMachinePhase"
| deleting: "p \<noteq> DeletingMachinePhase \<Longrightarrow> phase_step True p DeletingMachinePhase"
| tearing_down: "phase_step d DeletingMachinePhase DeletingMachinePhase"

inductive_simps phase_step_deleted: "phase_step True p q"
inductive_simps phase_step_upgrading: "phase_step d p UpgradingMachinePhase"
inductive_simps phase_step_from_deleting: "phase_step d DeletingMachinePhase q"

inductive reachable_phase :: "machine_phase \<Rightarrow> bool" where
  new: "reachable_phase ''''"
| step: "reachable_phase p \<Longrightarrow> phase_step d p q \<Longrightarrow> reachable_phase q"

lemma reachable_phases:
  "reachable_phase p \<Longrightarrow> p \<in> {'''', ProvisioningMachinePhase, ErrorMachinePhase, ReadyMachinePhase,
     DeletingMachinePhase}"
proof (induction rule: reachable_phase.induct)
  case new
  then show ?case by simp
next
  case (step p d q)
  from step.hyps(2) show ?case by cases auto
qed

section \<open>Errors that mark the machine\<close>

text \<open>Only \<open>create\<close> returns an error that makes the reconciler write the error phase or release a
  machine.\<close>

definition calm :: "go_error \<Rightarrow> bool" where
  "calm e \<longleftrightarrow> (\<forall>msg. errorCause e \<noteq> UnrecoverableError msg) \<and> asksNoRelease e"

lemma calm_simps [simp]:
  "calm (NotReadyError m)" "calm (PlainError m)" "calm (StatusError r m)"
  "calm (Wrapped m e) = calm e" "\<not> calm (ReleaseError s e)" "\<not> calm (UnrecoverableError m)"
  by (auto simp: calm_def)

lemma foreign_calm: "foreignError e \<Longrightarrow> calm e"
  by (induction e) auto

lemma calm_result: "foreignResult r \<Longrightarrow> r = Inl e \<Longrightarrow> calm e"
  by (simp add: foreign_calm)

lemma calm_err: "foreignErr r \<Longrightarrow> r = Some e \<Longrightarrow> calm e"
  by (simp add: foreign_calm)

lemmas calm_env = errorsForeign_all(1-17) [THEN calm_result] errorsForeign_all(18-20) [THEN calm_err]

definition calmRun :: "handled \<Rightarrow> bool" where
  "calmRun r \<longleftrightarrow> (case r of Returns (Some e, _) \<Rightarrow> calm e | _ \<Rightarrow> True)"

lemma calmRun_simps [simp]:
  "calmRun (failing m e) = calm e" "calmRun (finished m)" "calmRun Panics"
  by (simp_all add: calmRun_def)

lemma calm_clientsetWrapped:
  "errorsForeign E \<Longrightarrow> clientsetWrapped E a b c d = Inl e \<Longrightarrow> calm e"
  unfolding clientsetWrapped_def by (auto split: sum.splits dest: calm_env(15,16,17))

lemma calm_deleteObject: "errorsForeign E \<Longrightarrow> wp (deleteObject E m) (\<lambda>r _. calmRun r) t"
  by (auto simp: deleteObject_def deleteMachine_def Let_def wp_Delete k8sUpdateMachine_def
      split: sum.split dest: calm_env(13))

lemma calm_drainNode:
  assumes E: "errorsForeign E"
  shows "wp (drainNode E cs n) (\<lambda>r _. \<forall>e. r = Some e \<longrightarrow> calm e) t"
proof -
  have del: "wp (deletePods E cs pods) (\<lambda>r _. \<forall>e. r = Some e \<longrightarrow> calm e) t" for pods t
    using calm_env(18) [OF E]
    by (induction pods arbitrary: t) (auto simp: remoteDo_def split: option.split)
  have loop: "wp (pendingLoop E cs all i pods acc) (\<lambda>r _. \<forall>e. r = Inl e \<longrightarrow> calm e) t" for all i pods acc t
    using calm_env(20) [OF E]
    by (induction pods arbitrary: i acc t) (auto simp: remoteGetPod_def split: option.split)
  have poll: "wp (PollImmediate E 1000 (podsDeleted E cs pods) pods) (\<lambda>r _. \<forall>e. r = Some e \<longrightarrow> calm e) t" for pods t
    by (rule wp_PollImmediate [where I = "\<lambda>_ _. True"])
      (auto simp: podsDeleted_def ErrWaitTimeout_def intro!: wp_mono [OF loop] split: sum.split)
  have wait: "wp (onErrO (Some \<circ> Wrapped msg) (PollImmediate E 1000 (podsDeleted E cs pods) pods)
      (ret None)) (\<lambda>r _. \<forall>e. r = Some e \<longrightarrow> calm e) t" for msg pods t
    unfolding wp_onErrO by (rule wp_mono [OF poll]) (auto split: option.split)
  have rest: "wp (onErrO Some (deletePods E cs pods) (onErrO (Some \<circ> Wrapped msg)
      (PollImmediate E 1000 (podsDeleted E cs pods) pods) (ret None)))
      (\<lambda>r _. \<forall>e. r = Some e \<longrightarrow> calm e) t" for msg pods t
    unfolding wp_onErrO [where h = Some]
    by (rule wp_mono [OF del]) (auto simp del: wp_onErrO intro: wait split: option.split)
  show ?thesis
    using calm_env(14) [OF E] rest
    by (auto simp: drainNode_def remotePodsOnNode_def remoteCheckEviction_def spawnEvictions_def
        newAggregate_def simp del: wp_onErrO split: sum.split)
qed

lemma calm_removeNode:
  assumes E: "errorsForeign E"
  shows "wp (removeNode E cs m) (\<lambda>r _. calmRun r) t"
proof -
  define last where "last = do {
     err \<leftarrow> remoteDo E cs (RDeleteNode (machineName m));
     case err of None \<Rightarrow> deleteObject E m
     | Some e \<Rightarrow> if isNotFound e then deleteObject E m
         else ret (failing m (Wrapped ''could not delete node'' e)) }"
  have last: "wp last (\<lambda>r _. calmRun r) t" for t
    using calm_env(18) [OF E]
    by (auto simp: last_def remoteDo_def calm_deleteObject [OF E] split: option.split)
  have drain: "wp (onErrO (failing m) (drainNode E cs n) last) (\<lambda>r _. calmRun r) t" for n t
    unfolding wp_onErrO
    by (rule wp_mono [OF calm_drainNode [OF E]]) (auto intro: last split: option.split)
  have "wp (onErrO (failing m \<circ> Wrapped ''could not cordon node'') (cordonNode E cs n)
      (onErrO (failing m) (drainNode E cs n) last)) (\<lambda>r _. calmRun r) t" for n t
    using calm_env(18) [OF E] drain
    by (auto simp: cordonNode_def remoteDo_def simp del: wp_onErrO
        simp: wp_onErrO [where h = "failing m \<circ> Wrapped ''could not cordon node''"] split: option.split)
  then show ?thesis
    using calm_env(12) [OF E]
    unfolding removeNode_def remoteGetNode_def last_def
    by (auto simp: calm_deleteObject [OF E] simp del: wp_onErrO split: sum.split)
qed

lemma calm_handleDelete:
  assumes E: "errorsForeign E"
  shows "wp (handleDelete E m) (\<lambda>r _. calmRun r) t"
  using calm_env(1,2) [OF E] calm_clientsetWrapped [OF E]
  by (auto simp: handleDelete_def Let_def k8sListClusters_def k8sGetSecret_def
      split: sum.split option.split intro!: calm_deleteObject [OF E] calm_removeNode [OF E])

lemma calm_waitForNode:
  assumes E: "errorsForeign E"
  shows "wp (waitForNode E m data) (\<lambda>r _. \<forall>e. fst r = Some e \<longrightarrow> calm e) t"
  using calm_env(12,13) [OF E] calm_clientsetWrapped [OF E]
  by (auto simp: waitForNode_def Let_def remoteGetNode_def k8sUpdateMachine_def
      split: sum.split option.split)

lemma calm_handleWaitingForReady:
  assumes E: "errorsForeign E"
  shows "wp (handleWaitingForReady E m) (\<lambda>r _. \<forall>e. fst r = Some e \<longrightarrow> calm e) t"
  using calm_env(2,19) [OF E] calm_waitForNode [OF E]
  by (auto simp: handleWaitingForReady_def k8sGetSecret_def k8sDelete_def split: sum.split option.split)

lemma handleError_calm: "calm e \<Longrightarrow> emits (\<lambda>_. False) (handleError E m e)"
  by (cases "errorCause e") (auto simp: handleError_def calm_def asksNoRelease_def intro!: safe_intros)

section \<open>Every write is a step\<close>

fun legalWrite :: "bool \<Rightarrow> machine_phase \<Rightarrow> event \<Rightarrow> bool" where
  "legalWrite d p (EUpdate (OMachine mm) _) = phase_step d p (machinePhase mm)"
| "legalWrite d p _ = True"

lemma legal_ready: "\<not> d \<Longrightarrow> p = ProvisioningMachinePhase \<Longrightarrow> emits (legalWrite d p) (handleWaitingForReady E m)"
  unfolding handleWaitingForReady_def waitForNode_def Let_def world_defs
  by (intro safe_intros) (auto simp: phase_step.simps)

lemma legal_delete:
  "machinePhase m = DeletingMachinePhase \<Longrightarrow> p = DeletingMachinePhase \<or> d \<and> p \<noteq> DeletingMachinePhase \<Longrightarrow>
   emits (legalWrite d p) (handleDelete E m)"
  unfolding handleDelete_def removeNode_def deleteObject_def deleteMachine_def Let_def world_defs
  by (intro safe_intros) (auto simp: phase_step.simps)

lemma legal_create_step:
  "\<not> d \<Longrightarrow> noPhase p \<Longrightarrow> f \<in> set (masterSteps E) \<union> set (workerSteps E) \<Longrightarrow> emits (legalWrite d p) (f c)"
  unfolding masterSteps_def workerSteps_def list.set Un_iff
  by (elim disjE insertE emptyE; hypsubst; unfold step_defs world_defs Let_def)
    ((intro safe_intros; auto simp: phase_step.simps markCreated_def Let_def)+)

lemma legal_create: "\<not> d \<Longrightarrow> noPhase p \<Longrightarrow> emits (legalWrite d p) (create E m)"
  unfolding create_def Let_def
  by (intro safe_intros) (auto intro!: legal_create_step split: if_splits)

text \<open>The store returns the object it was given; the server sets fields of its own, the phase is not
  one of them.\<close>

definition storesPhase :: "env \<Rightarrow> bool" where
  "storesPhase E \<longleftrightarrow> (\<forall>t m m'. envUpdateMachine E t m = Inr m' \<longrightarrow> machinePhase m' = machinePhase m)"

lemma legal_handled:
  assumes "\<not> d" "noPhase p"
  shows "emits (legalWrite d p) (handleError E m e)"
  using assms by (cases "errorCause e")
    (auto simp: handleError_def k8sUpdateMachine_def phase_step.simps intro!: safe_intros)

lemma legal_calm: "calm e \<Longrightarrow> emits (legalWrite d p) (handleError E m e)"
  by (rule emits_weaken [OF handleError_calm]) simp_all

text \<open>Handling an error after a handler: legal if the handler is and its errors are calm, or if the
  machine had no phase.\<close>

lemma settle_legal:
  assumes "wp h (\<lambda>_. extends P t) t1"
    and "wp h (\<lambda>r _. \<forall>e m. r = Returns (Some e, m) \<longrightarrow> emits P (handleError E m e)) t1"
  shows "wp h (\<lambda>r t2. case r of Panics \<Rightarrow> extends P t t2
     | Returns (None, m) \<Rightarrow> extends P t t2
     | Returns (Some e, m) \<Rightarrow> wp (handleError E m e) (\<lambda>_. extends P t) t2) t1"
proof -
  have "wp h (\<lambda>r t2. extends P t t2 \<and> (\<forall>e m. r = Returns (Some e, m) \<longrightarrow> emits P (handleError E m e))) t1"
    unfolding wp_conj using assms by blast
  then show ?thesis
    by (rule wp_mono) (auto split: go.split option.split intro: wp_extends)
qed

lemma handlePhase_legal:
  assumes E: "errorsForeign E" and "extends (legalWrite d p) t t1"
    and m: "d \<and> machinePhase m = DeletingMachinePhase \<or> \<not> d \<and> machinePhase m = p"
  shows "wp (handlePhase E m) (\<lambda>r t2. case r of Panics \<Rightarrow> extends (legalWrite d p) t t2
     | Returns (None, m) \<Rightarrow> extends (legalWrite d p) t t2
     | Returns (Some e, m) \<Rightarrow> wp (handleError E m e) (\<lambda>_. extends (legalWrite d p) t) t2) t1"
proof (rule settle_legal [OF wp_extends [OF _ assms(2)]])
  have delete: "emits (legalWrite d p) (handleDelete E m)" if "machinePhase m = DeletingMachinePhase"
    using m that by (intro legal_delete) auto
  show "emits (legalWrite d p) (handlePhase E m)"
    unfolding handlePhase_def using m
    by (intro safe_intros delete legal_ready legal_create) (auto simp: noPhase_def)
  have "wp (handleDelete E m) (\<lambda>r _. \<forall>e m. r = Returns (Some e, m) \<longrightarrow> emits (legalWrite d p) (handleError E m e)) t1"
    by (rule wp_mono [OF calm_handleDelete [OF E]]) (auto intro: legal_calm)
  moreover have "wp (handleWaitingForReady E m)
      (\<lambda>r _. \<forall>e m'. r = (Some e, m') \<longrightarrow> emits (legalWrite d p) (handleError E m' e)) t1"
    by (rule wp_mono [OF calm_handleWaitingForReady [OF E]]) (auto intro: legal_calm)
  moreover have "emits (legalWrite d p) (handleError E m' e)" if "unphased m" for m' e
    using m that by (intro legal_handled) (auto simp: unphased_def noPhase_def)
  ultimately show "wp (handlePhase E m)
      (\<lambda>r _. \<forall>e m. r = Returns (Some e, m) \<longrightarrow> emits (legalWrite d p) (handleError E m e)) t1"
    using m unfolding handlePhase_def
    by (auto simp: unphased_def intro!: wp_any [where m = "create E m"])
qed

lemma Reconcile_lifecycle_law:
  assumes "errorsForeign E" and "storesPhase E" and "envGetMachine E t req = Inr m"
  shows "wp (Reconcile E req) (\<lambda>_. extends
     (legalWrite (\<not> timeIsZero (omDeletionTimestamp (maMeta m))) (machinePhase m)) t) t"
proof -
  let ?d = "\<not> timeIsZero (omDeletionTimestamp (maMeta m))"
  let ?P = "legalWrite ?d (machinePhase m)"
  let ?t0 = "t @ [EGet KMachine req None]"
  have t0: "extends ?P t ?t0" by simp
  show ?thesis
  proof (cases "?d \<and> machinePhase m \<noteq> DeletingMachinePhase")
    case True
    have t1: "extends ?P t (?t0 @ [EUpdate (OMachine (setMachinePhase DeletingMachinePhase m)) u])" for u
      by (rule extends_snoc [OF _ t0]) (use True in \<open>auto simp: phase_step.simps\<close>)
    have "wp (handlePhase E m') (\<lambda>r t2. case r of Panics \<Rightarrow> extends ?P t t2
       | Returns (None, m) \<Rightarrow> extends ?P t t2
       | Returns (Some e, m) \<Rightarrow> wp (handleError E m e) (\<lambda>_. extends ?P t) t2)
      (?t0 @ [EUpdate (OMachine (setMachinePhase DeletingMachinePhase m)) None])"
      if "envUpdateMachine E ?t0 (setMachinePhase DeletingMachinePhase m) = Inr m'" for m'
      using assms(2) that True
      by (intro handlePhase_legal [OF assms(1) t1]) (auto simp: storesPhase_def)
    with True assms(3) t1 show ?thesis
      unfolding wp_Reconcile by (auto simp: markDeleting_def k8sUpdateMachine_def split: sum.split)
  next
    case False
    have "wp (handlePhase E m) (\<lambda>r t2. case r of Panics \<Rightarrow> extends ?P t t2
       | Returns (None, m) \<Rightarrow> extends ?P t t2
       | Returns (Some e, m) \<Rightarrow> wp (handleError E m e) (\<lambda>_. extends ?P t) t2) ?t0"
      using False by (intro handlePhase_legal [OF assms(1) t0]) auto
    with False assms(3) show ?thesis
      unfolding wp_Reconcile by (auto simp: markDeleting_def)
  qed
qed

text \<open>C4: the reconciler implements the abstract machine: every machine object that a reconcile
  stores is stored in a phase that is one step away from the phase it was read in, for the
  deletion timestamp it was read with.\<close>

theorem Reconcile_follows_lifecycle:
  assumes "errorsForeign E" and "storesPhase E" and "envGetMachine E t req = Inr m"
  shows "wp (Reconcile E req) (\<lambda>_. extends
     (legalWrite (\<not> timeIsZero (omDeletionTimestamp (maMeta m))) (machinePhase m)) t) t"
  by (rule Reconcile_lifecycle_law [OF assms])

lemma demoWith_stores [simp]: "storesPhase (demoWith m)"
  by (simp add: storesPhase_def demoWith_def)

theorem Reconcile_follows_lifecycle_witness:
  "wp (Reconcile (demoWith demoWorker) workerKey) (\<lambda>_. extends (legalWrite False '''') []) []"
  using Reconcile_follows_lifecycle [of "demoWith demoWorker" "[]" workerKey demoWorker]
  by (simp add: demoWorker_def zero_machine_def zero_object_meta_def zero_machine_status_def)

definition neverUpgraded :: "machine \<Rightarrow> event \<Rightarrow> bool" where
  "neverUpgraded m e \<longleftrightarrow> (case e of
       EUpdate (OMachine mm) _ \<Rightarrow> machinePhase mm \<noteq> UpgradingMachinePhase \<and>
         (if machinePhase mm = ReadyMachinePhase
          then machinePhase m = ProvisioningMachinePhase \<and> timeIsZero (omDeletionTimestamp (maMeta m))
          else True)
     | _ \<Rightarrow> True)"

lemma legal_neverUpgraded:
  assumes "legalWrite (\<not> timeIsZero (omDeletionTimestamp (maMeta m))) (machinePhase m) e"
  shows "neverUpgraded m e"
proof (cases "\<exists>mm u. e = EUpdate (OMachine mm) u")
  case True
  with assms show ?thesis by (auto simp: neverUpgraded_def phase_step.simps)
next
  case False
  then show ?thesis by (auto simp: neverUpgraded_def split: event.split obj.split)
qed

text \<open>no reconcile ever stores a machine in the upgrading phase, and a machine is stored as ready
  only if it was provisioning and is not being deleted: the upgrade handler is never reached.\<close>

theorem Reconcile_never_upgrades:
  assumes "errorsForeign E" and "storesPhase E" and "envGetMachine E t req = Inr m"
  shows "wp (Reconcile E req) (\<lambda>_. extends (neverUpgraded m) t) t"
  by (rule wp_mono [OF Reconcile_lifecycle_law [OF assms]])
    (erule extends_mono, erule legal_neverUpgraded)

theorem Reconcile_never_upgrades_witness:
  "wp (Reconcile (demoWith demoWorker) workerKey) (\<lambda>_. extends (neverUpgraded demoWorker) []) []"
  by (rule Reconcile_never_upgrades) simp_all

section \<open>Guards of the two phase changes\<close>

text \<open>a provisioning machine is stored as ready only after its node, looked up by the name of the
  machine in its own cluster, reported that its kubelet is ready; the handler stores nothing else,
  and it deletes the machine object only when the secret of its cluster is gone.\<close>

theorem handleWaitingForReady_guard:
  "wp (handleWaitingForReady E m) (\<lambda>r t'. extends (\<lambda>e. case e of
       EUpdate ob _ \<Rightarrow> ob = OMachine (setMachinePhase ReadyMachinePhase m)
         \<and> (\<exists>t1 cs n. envGetNode E t1 cs (machineName m) = Inr n \<and> nodeReady n)
     | EDelete ob _ \<Rightarrow> ob = OMachine m \<and> (\<exists>e. isNotFound e
         \<and> envGetSecret E t (objectKey (machineNamespace m) ''cluster-private-key'') = Inl e)
     | ERelease _ _ \<Rightarrow> False | EAllocate _ _ \<Rightarrow> False | _ \<Rightarrow> True) t t') t"
  by (auto simp: handleWaitingForReady_def waitForNode_def Let_def world_defs extends_def
      split: sum.split option.split)

lemma IsReadyForUpgrade_yes:
  "IsReadyForUpgrade ms = (True, err) \<Longrightarrow>
   \<forall>m \<in> set ms. machinePhase m \<notin> {ProvisioningMachinePhase, ErrorMachinePhase, ''''}"
  by (auto simp: IsReadyForUpgrade_def ContainsStatuses_iff split: if_splits)

definition clusterMayUpgrade :: "env \<Rightarrow> machine \<Rightarrow> bool" where
  "clusterMayUpgrade E m \<longleftrightarrow> (\<exists>t0 t1 c ms.
     envGetCluster E t0 (objectKey (machineNamespace m) (GetClusterNameFromMachineOwnerRef m)) = Inr c
     \<and> envListMachines E t1 '''' = Inr ms
     \<and> (\<forall>x \<in> set ms. if GetClusterNameFromMachineOwnerRef x = clusterName c
          then machinePhase x \<notin> {ProvisioningMachinePhase, ErrorMachinePhase, ''''} else True))"

definition upgradeWrite :: "env \<Rightarrow> machine \<Rightarrow> event \<Rightarrow> bool" where
  "upgradeWrite E m e \<longleftrightarrow> (case e of
         EUpdate ob _ \<Rightarrow> (\<exists>mm. ob = OMachine mm \<and> machinePhase mm = UpgradingMachinePhase)
           \<and> clusterMayUpgrade E m
       | EDelete _ _ \<Rightarrow> False | ERelease _ _ \<Rightarrow> False | EAllocate _ _ \<Rightarrow> False | _ \<Rightarrow> True)"

lemma upgradeWrite_reads [simp]: "upgradeWrite E m (EGet k n r)" "upgradeWrite E m (EList k s r)"
  by (simp_all add: upgradeWrite_def)

text \<open>a machine is marked for upgrade only if all machines of its cluster allow it: none of them
  is new, provisioning or in error; the mark is the only change, and a machine that is already
  being upgraded is left alone.\<close>

theorem handleUpgrade_guard:
  "wp (handleUpgrade E m) (\<lambda>r t'. if machinePhase m = UpgradingMachinePhase
       then r = (noResult, None) \<and> t' = t else extends (upgradeWrite E m) t t') t"
proof (cases "machinePhase m = UpgradingMachinePhase")
  case True
  then show ?thesis by (simp add: handleUpgrade_def)
next
  case False
  let ?m = "setMachinePhase UpgradingMachinePhase m"
  have mark: "emits (upgradeWrite E m) (updateStatus E ?m a b c d)" if "clusterMayUpgrade E m" for a b c d
    unfolding updateStatus_def world_defs
    by (intro safe_intros) (auto simp: that upgradeWrite_def)
  have "wp (updateStatus E ?m a b c d) (\<lambda>err. wp (case err of Some err \<Rightarrow> ret (noResult, Some err)
      | None \<Rightarrow> ret (noResult, None)) (\<lambda>_. extends (upgradeWrite E m) t)) t1"
    if "clusterMayUpgrade E m" "extends (upgradeWrite E m) t t1" for a b c d t1
    by (rule wp_mono [OF wp_extends [OF mark [OF that(1)] that(2)]]) (auto split: option.split)
  moreover have "clusterMayUpgrade E m"
    if "envGetCluster E t0 (objectKey (machineNamespace m) (GetClusterNameFromMachineOwnerRef m)) = Inr c"
      "envListMachines E t1 '''' = Inr ms"
      "IsReadyForUpgrade (clusterMachinesLoop (clusterName c) ms) = (True, err)" for t0 t1 c ms err
    using that(1,2) IsReadyForUpgrade_yes [OF that(3)]
    unfolding clusterMayUpgrade_def clusterMachinesLoop_filter by fastforce
  ultimately show ?thesis
    using False by (auto simp: handleUpgrade_def getClusterByName_def GetClusterMachineList_def Let_def
        k8sGetCluster_def k8sListMachines_def split: sum.split prod.split)
qed

end
