(* ===== verification/Machine_Life.thy ===== *)
theory Machine_Life
  imports Lifecycle Adoption
begin

text \<open>
  The life of a whole machine object, as an abstract machine on the objects themselves: how it is born,
  and what a single write of any controller, or the API server on its own, makes of it. The machine
  controller is shown to store only objects that are one step further in their life.
\<close>

section \<open>The abstract machine\<close>

text \<open>What the API server may hand back for a machine it was given: it, the garbage collector and the
  users set names, identifiers, labels, annotations, a deletion timestamp that is never taken back, finalizers of
  their own and even the specification, but not the status, the owners or the finalizer of the machine
  controller.\<close>

definition served :: "machine \<Rightarrow> machine \<Rightarrow> bool" where
  "served m m' \<longleftrightarrow> maStatus m' = maStatus m \<and> machineOwners m' = machineOwners m
     \<and> (MachineFinalizer \<in> set (machineFinalizers m') \<longleftrightarrow> MachineFinalizer \<in> set (machineFinalizers m))
     \<and> (timeIsZero (omDeletionTimestamp (maMeta m')) \<longrightarrow> timeIsZero (omDeletionTimestamp (maMeta m)))"

lemma served_refl [simp]: "served m m"
  by (simp add: served_def)

lemma served_trans: "served m m1 \<Longrightarrow> served m1 m2 \<Longrightarrow> served m m2"
  by (simp add: served_def)

inductive life_step :: "machine \<Rightarrow> machine \<Rightarrow> bool" where
  handed_out: "served m m' \<Longrightarrow> life_step m m'"
| adopted: "getControllerOf (maMeta m) = None \<Longrightarrow> isControllerRef ref \<Longrightarrow> life_step m (adoptedBy ref m)"
| provisioned: "noPhase (machinePhase m) \<Longrightarrow> cMachine c = m \<Longrightarrow> rsSystemID (cCreateResponse c) \<noteq> '''' \<Longrightarrow>
    life_step m (markCreated c ip)"
| refused: "noPhase (machinePhase m) \<Longrightarrow> life_step m (setMachinePhase ErrorMachinePhase m)"
| joined: "machinePhase m = ProvisioningMachinePhase \<Longrightarrow> life_step m (setMachinePhase ReadyMachinePhase m)"
| condemned: "\<not> timeIsZero (omDeletionTimestamp (maMeta m)) \<Longrightarrow> machinePhase m \<noteq> DeletingMachinePhase \<Longrightarrow>
    life_step m (setMachinePhase DeletingMachinePhase m)"
| torn_down: "machinePhase m = DeletingMachinePhase \<Longrightarrow>
    life_step m (setMachineFinalizers (RemoveString (machineFinalizers m) MachineFinalizer) m)"

inductive lives :: "machine \<Rightarrow> bool" where
  born: "maStatus m = zero_machine_status \<Longrightarrow> controllerCount (maMeta m) \<le> 1 \<Longrightarrow> lives m"
| grown: "lives m \<Longrightarrow> life_step m m' \<Longrightarrow> lives m'"

text \<open>Seen by its phase alone, a life is a run of the machine of phases.\<close>

lemma life_step_phase:
  "life_step m m' \<Longrightarrow> machinePhase m' = machinePhase m \<or> (\<exists>d. phase_step d (machinePhase m) (machinePhase m'))"
  by (induction rule: life_step.induct)
    (auto simp: served_def adoptedBy_def markCreated_def Let_def phase_step.simps)

lemma lives_phase: "lives m \<Longrightarrow> reachable_phase (machinePhase m)"
proof (induction rule: lives.induct)
  case (born m)
  then show ?case by (simp add: zero_machine_status_def reachable_phase.new)
next
  case (grown m m')
  from life_step_phase [OF grown.hyps(2)] show ?case
    by (metis grown.IH reachable_phase.step)
qed

lemma served_life: "lives m \<Longrightarrow> served m m' \<Longrightarrow> lives m'"
  by (rule lives.grown [OF _ life_step.handed_out])

section \<open>What a machine that lives satisfies\<close>

lemma addOwner_count:
  "getControllerOf om = None \<Longrightarrow> controllerCount (addOwner ref om) \<le> 1"
  by (simp add: getControllerOf_None_iff addOwner_def controllerCount_def)

lemma controllerCount_fields [simp]:
  "controllerCount (om\<lparr>omFinalizers := fs\<rparr>) = controllerCount om"
  "controllerCount (om\<lparr>omAnnotations := a\<rparr>) = controllerCount om"
  by (simp_all add: controllerCount_def)

lemma controllerCount_owners: "omOwnerReferences om = omOwnerReferences om' \<Longrightarrow> controllerCount om = controllerCount om'"
  by (simp add: controllerCount_def)

lemma markCreated_fields [simp]:
  "machinePhase (markCreated c ip) = ProvisioningMachinePhase"
  "machineSystemId (markCreated c ip) = rsSystemID (cCreateResponse c)"
  "machineOwners (markCreated c ip) = machineOwners (cMachine c)"
  "MachineFinalizer \<in> set (machineFinalizers (markCreated c ip))"
  "controllerCount (maMeta (markCreated c ip)) = controllerCount (maMeta (cMachine c))"
  "omDeletionTimestamp (maMeta (markCreated c ip)) = omDeletionTimestamp (maMeta (cMachine c))"
  by (simp_all add: markCreated_def Let_def)

text \<open>A machine that has a place in the pool says so: it carries the id of its machine in MaaS, and the
  finalizer that keeps the object until that machine is given back; one that has none carries no id; and
  one that is being torn down was asked to be deleted.\<close>

definition accounted :: "machine \<Rightarrow> bool" where
  "accounted m \<longleftrightarrow> (if machinePhase m \<in> {ProvisioningMachinePhase, ReadyMachinePhase}
     then machineSystemId m \<noteq> '''' \<and> MachineFinalizer \<in> set (machineFinalizers m)
     else if machinePhase m = DeletingMachinePhase then \<not> timeIsZero (omDeletionTimestamp (maMeta m))
     else machineSystemId m = '''')"

lemma accounted_step:
  assumes "life_step m m'" and "accounted m" and "reachable_phase (machinePhase m)"
  shows "accounted m'"
  using assms(1) reachable_phases [OF assms(3)] assms(2)
  by cases (auto simp: accounted_def served_def noPhase_def)

lemma controllers_step:
  assumes "life_step m m'" and "controllerCount (maMeta m) \<le> 1"
  shows "controllerCount (maMeta m') \<le> 1"
  using assms(1)
proof cases
  case handed_out
  then have "controllerCount (maMeta m') = controllerCount (maMeta m)"
    by (intro controllerCount_owners) (simp add: served_def)
  with assms(2) show ?thesis by simp
qed (use assms(2) in \<open>simp_all add: addOwner_count [simplified]\<close>)

lemma lives_sound: "lives m \<Longrightarrow> accounted m \<and> controllerCount (maMeta m) \<le> 1"
proof (induction rule: lives.induct)
  case (born m)
  then have "machinePhase m = ''''" "machineSystemId m = ''''"
    by (simp_all add: zero_machine_status_def)
  with born.hyps(2) show ?case by (simp add: accounted_def machine_phase_defs)
next
  case (grown m m')
  then show ?case
    using accounted_step [OF grown.hyps(2) _ lives_phase [OF grown.hyps(1)]]
      controllers_step [OF grown.hyps(2)] by blast
qed

section \<open>The machine controller\<close>

text \<open>Every machine that an event creates or stores is alive.\<close>

fun livesWrite :: "event \<Rightarrow> bool" where
  "livesWrite (ECreate (OMachine m) _) \<longleftrightarrow> lives m"
| "livesWrite (EUpdate (OMachine m) _) \<longleftrightarrow> lives m"
| "livesWrite _ \<longleftrightarrow> True"

text \<open>What an environment must promise: an update answers with the object that was sent, or refuses it.\<close>

definition storesServed :: "env \<Rightarrow> bool" where
  "storesServed E \<longleftrightarrow> (\<forall>t m m'. envUpdateMachine E t m = Inr m' \<longrightarrow> served m m')"

lemmas lives_rules = lives.grown [OF _ life_step.joined] lives.grown [OF _ life_step.refused]
  lives.grown [OF _ life_step.condemned]

lemma unphased_iff: "unphased m \<longleftrightarrow> noPhase (machinePhase m)"
  by (simp add: unphased_def noPhase_def)

lemma lives_ready:
  "lives m \<Longrightarrow> machinePhase m = ProvisioningMachinePhase \<Longrightarrow> emits livesWrite (handleWaitingForReady E m)"
  unfolding handleWaitingForReady_def waitForNode_def Let_def world_defs
  by (intro safe_intros) (auto intro: lives_rules)

lemma lives_delete:
  assumes "lives m" and "machinePhase m = DeletingMachinePhase"
  shows "emits livesWrite (handleDelete E m)"
proof -
  have "lives (setMachineFinalizers (RemoveString (machineFinalizers m) MachineFinalizer) m)"
    by (rule lives.grown [OF assms(1) life_step.torn_down [OF assms(2)]])
  then show ?thesis
    unfolding handleDelete_def removeNode_def deleteObject_def deleteMachine_def Let_def world_defs
    by (intro safe_intros) (simp_all del: RemoveString_filter)
qed

lemma lives_error: "lives m \<Longrightarrow> unphased m \<Longrightarrow> emits livesWrite (handleError E m e)"
  by (cases "errorCause e")
    (auto simp: handleError_def k8sUpdateMachine_def unphased_iff intro!: safe_intros intro: lives_rules)

lemma livesWrite_other: "\<not> (\<exists>mm u. e = EUpdate (OMachine mm) u \<or> e = ECreate (OMachine mm) u) \<Longrightarrow> livesWrite e"
  by (cases e rule: livesWrite.cases) auto

text \<open>Only the last step of the creation stores the machine, and it stores the machine it began with.\<close>

definition untouched :: "machine \<Rightarrow> creator go \<Rightarrow> bool" where
  "untouched m r \<longleftrightarrow> (case r of Panics \<Rightarrow> True | Returns c \<Rightarrow> cMachine c = m
     \<and> (rsIPAddresses (cCreateResponse c) \<noteq> [] \<longrightarrow> rsSystemID (cCreateResponse c) \<noteq> ''''))"

definition earlySteps :: "env \<Rightarrow> step list" where
  "earlySteps E = [getCluster E, getSecret E, createClientsetFromSecret E, checkIfTokenExists E,
     createToken E, checkApiserverAddress E, prepareMaasRequest E, doMaasCreate E, createKubeconfig E,
     updateCluster E]"

lemma untouched_simps [simp]:
  "untouched m Panics"
  "untouched m (Returns c) \<longleftrightarrow> cMachine c = m
     \<and> (rsIPAddresses (cCreateResponse c) \<noteq> [] \<longrightarrow> rsSystemID (cCreateResponse c) \<noteq> '''')"
  by (simp_all add: untouched_def)

lemma earlySteps_quiet: "f \<in> set (earlySteps E) \<Longrightarrow> emits livesWrite (f c)"
  unfolding earlySteps_def list.set
  by (elim insertE emptyE; hypsubst; unfold step_defs world_defs Let_def)
    ((intro safe_intros; simp)+)

lemma untouched_prepare:
  assumes "untouched m (Returns c)"
  shows "wp (prepareMaasRequest E c) (\<lambda>r _. untouched m r) t"
proof -
  have "wp (finishMaasRequest E c u) (\<lambda>r _. untouched m r) t" for u t
    unfolding finishMaasRequest_def Let_def wp_bind by (rule wpI) (use assms in auto)
  moreover have "wp (masterUserdata E c bu) (\<lambda>u. wp (finishMaasRequest E c u) (\<lambda>r _. untouched m r)) t" for bu t
    by (rule wp_any) fact
  ultimately show ?thesis
    using assms by (auto simp: prepareMaasRequest_def split: sum.splits go.splits)
qed

lemma untouched_allocate:
  assumes "maasSound E" and "untouched m (Returns c)"
  shows "wp (doMaasCreate E c) (\<lambda>r _. untouched m r) t"
  using assms(2)
  by (auto simp: doMaasCreate_def wp_Delete split: sum.split
      intro!: wp_mono [OF maas.create_law [OF assms(1)]])

lemma earlySteps_untouched:
  assumes "maasSound E" and "f \<in> set (earlySteps E)" and c: "untouched m (Returns c)"
  shows "wp (f c) (\<lambda>r _. untouched m r) t"
proof -
  have "wp (getCluster E c) (\<lambda>r _. untouched m r) t" "wp (getSecret E c) (\<lambda>r _. untouched m r) t"
    "wp (createClientsetFromSecret E c) (\<lambda>r _. untouched m r) t"
    "wp (createToken E c) (\<lambda>r _. untouched m r) t" "wp (checkApiserverAddress E c) (\<lambda>r _. untouched m r) t"
    "wp (createKubeconfig E c) (\<lambda>r _. untouched m r) t" "wp (updateCluster E c) (\<lambda>r _. untouched m r) t"
    using c by (auto simp: getCluster_def getSecret_def createClientsetFromSecret_def createToken_def
        createBootstrapToken_def checkApiserverAddress_def createKubeconfig_def updateCluster_def world_defs Let_def
        split: sum.splits option.splits list.splits)
  moreover have "wp (checkIfTokenExists E c) (\<lambda>r _. untouched m r) t"
    using c by (auto simp: checkIfTokenExists_def world_defs intro!: wp_any [where m = "findToken E items" for items]
        split: sum.splits option.splits)
  ultimately show ?thesis
    using assms(2) untouched_prepare [OF c] untouched_allocate [OF assms(1) c] by (auto simp: earlySteps_def)
qed

lemma lives_calm: "(\<And>msg. errorCause e \<noteq> UnrecoverableError msg) \<Longrightarrow> emits livesWrite (handleError E m e)"
  by (cases "errorCause e") (auto simp: handleError_def wp_Delete intro!: safe_intros)

text \<open>What the creation leaves can be given to the error handler.\<close>

definition settled :: "env \<Rightarrow> (go_error option \<times> machine) go \<Rightarrow> bool" where
  "settled E r \<longleftrightarrow> (\<forall>e m. r = Returns (Some e, m) \<longrightarrow> emits livesWrite (handleError E m e))"

lemma updateMachine_lives:
  assumes "lives m" "unphased m" "untouched m (Returns c)" "extends livesWrite t t1"
  shows "wp (updateMachine E c) (\<lambda>r t2. extends livesWrite t t2
     \<and> settled E (case r of Panics \<Rightarrow> Panics | Returns c \<Rightarrow> Returns (cErr c, cMachine c))) t1"
proof -
  have "lives (markCreated c ip)" if "rsIPAddresses (cCreateResponse c) \<noteq> []" for ip
    using assms(1-3) that by (intro lives.grown [OF _ life_step.provisioned, of m]) (auto simp: unphased_iff)
  with assms lives_error [OF assms(1,2)] show ?thesis
    by (auto simp: updateMachine_def world_defs Let_def settled_def lives_calm extends_more split: list.split sum.split)
qed

lemma create_steps:
  obtains fs where "set fs \<subseteq> set (earlySteps E)"
    and "(if b then masterSteps E else workerSteps E) = fs @ [updateMachine E]"
proof
  let ?fs = "if b then butlast (masterSteps E) else butlast (workerSteps E)"
  show "set ?fs \<subseteq> set (earlySteps E)"
    by (simp add: masterSteps_def workerSteps_def earlySteps_def)
  show "(if b then masterSteps E else workerSteps E) = ?fs @ [updateMachine E]"
    by (simp add: masterSteps_def workerSteps_def)
qed

lemma create_lives:
  assumes "maasSound E" "lives m" "unphased m" "extends livesWrite t t1"
  shows "wp (create E m) (\<lambda>r t2. extends livesWrite t t2 \<and> settled E r) t1"
proof -
  let ?b = "isMasterRole (mspRoles (maSpec m))"
  obtain fs where fs: "set fs \<subseteq> set (earlySteps E)"
    and steps: "(if ?b then masterSteps E else workerSteps E) = fs @ [updateMachine E]"
    by (rule create_steps)
  have "wp (runSteps fs (newCreator m ?b)) (\<lambda>r t2. untouched m r \<and> extends livesWrite t t2) t1"
  proof (rule wp_runSteps_inv)
    fix f c t2 assume "f \<in> set fs" "untouched m (Returns c) \<and> extends livesWrite t t2"
    then show "wp (f c) (\<lambda>r t2. untouched m r \<and> extends livesWrite t t2) t2"
      using fs by (auto simp: wp_conj intro!: earlySteps_untouched [OF assms(1)] wp_extends earlySteps_quiet
          simp del: untouched_simps)
  qed (use assms(4) in \<open>simp add: newCreator_def zero_create_response_def\<close>)
  then show ?thesis
    unfolding wp_create steps wp_runSteps_append wp_runSteps_single
    by (rule wp_mono)
      (auto simp: settled_def split: go.split intro!: wp_mono [OF updateMachine_lives [OF assms(2,3)]]
        simp del: untouched_simps)
qed

lemma handlePhase_lives:
  assumes "maasSound E" "errorsForeign E" "lives m" "extends livesWrite t t1"
  shows "wp (handlePhase E m) (\<lambda>r t2. case r of Panics \<Rightarrow> extends livesWrite t t2
     | Returns (None, m) \<Rightarrow> extends livesWrite t t2
     | Returns (Some e, m) \<Rightarrow> wp (handleError E m e) (\<lambda>_. extends livesWrite t) t2) t1"
proof (rule settle_legal)
  note create = create_lives [OF assms(1,3) _ assms(4), unfolded wp_conj settled_def]
  show "wp (handlePhase E m) (\<lambda>_. extends livesWrite t) t1"
    unfolding handlePhase_def
    using wp_extends [OF lives_ready [OF assms(3)] assms(4)] wp_extends [OF lives_delete [OF assms(3)] assms(4)]
      assms(4) create by (auto simp: unphased_def)
  have "wp (handleDelete E m) (\<lambda>r _. \<forall>e m. r = Returns (Some e, m) \<longrightarrow> emits livesWrite (handleError E m e)) t1"
    by (rule wp_mono [OF calm_handleDelete [OF assms(2)]]) (auto simp: calm_def intro: lives_calm)
  moreover have "wp (handleWaitingForReady E m)
      (\<lambda>r _. \<forall>e m'. r = (Some e, m') \<longrightarrow> emits livesWrite (handleError E m' e)) t1"
    by (rule wp_mono [OF calm_handleWaitingForReady [OF assms(2)]]) (auto simp: calm_def intro: lives_calm)
  ultimately show "wp (handlePhase E m)
      (\<lambda>r _. \<forall>e m. r = Returns (Some e, m) \<longrightarrow> emits livesWrite (handleError E m e)) t1"
    unfolding handlePhase_def using create by (auto simp: unphased_def)
qed

text \<open>What follows the look-up of the machine.\<close>

lemma Reconcile_lives:
  assumes "maasSound E" "errorsForeign E" "storesServed E" "envGetMachine E t0 req = Inr m" "lives m"
    and "extends livesWrite t t0"
  shows "wp (Reconcile E req) (\<lambda>_. extends livesWrite t) t0"
proof -
  let ?t = "t0 @ [EGet KMachine req None]"
  have t: "extends livesWrite t ?t" using assms(6) by simp
  note phase = handlePhase_lives [OF assms(1,2)]
  have condemned: "lives (setMachinePhase DeletingMachinePhase m)"
    if "\<not> timeIsZero (omDeletionTimestamp (maMeta m))" "machinePhase m \<noteq> DeletingMachinePhase"
    using assms(5) that by (rule lives_rules)
  show ?thesis
    unfolding wp_Reconcile using assms(4,5) t condemned phase [OF assms(5) t]
    by (auto simp: markDeleting_def k8sUpdateMachine_def split: sum.split
        intro!: phase extends_more [OF assms(6)] intro: served_life assms(3) [unfolded storesServed_def, rule_format])
qed

end
