(* ===== verification/Activities.thy ===== *)
theory Activities
  imports Machine_Life Cluster_Facts MachineSet_Facts App_Bundle_Facts Api_Server_Facts
begin

text \<open>
  What the operator does: the reconciles of its four controllers and the requests its API server
  answers, as one type of activities. For each of them: which machines it stores, given the machines it
  was shown, and what it does to the pool.
\<close>

section \<open>Activities\<close>

datatype activity =
    ReconcilesMachine object_key
  | ReconcilesCluster object_key
  | ReconcilesMachineSet object_key
  | ReconcilesAppBundle object_key
  | CreatesCluster create_cluster_msg
  | DeletesCluster string
  | UpgradesCluster string string
  | AddsNodePool string "machine_spec_msg list"
  | DeletesNodePool string "string list"
  | ScalesNodePool string "(string \<times> 32 word) list"
  | ShowsCluster string
  | ShowsNodes string
  | ListsClusters

definition toItsEnd :: "'a io \<Rightarrow> unit io" where
  "toItsEnd m = do { _ \<leftarrow> m; ret () }"

fun perform :: "env \<Rightarrow> activity \<Rightarrow> unit io" where
  "perform E (ReconcilesMachine req) = toItsEnd (Reconcile E req)"
| "perform E (ReconcilesCluster req) = toItsEnd (ReconcileCluster E req)"
| "perform E (ReconcilesMachineSet req) = toItsEnd (ReconcileMachineSet E req)"
| "perform E (ReconcilesAppBundle req) = toItsEnd (ReconcileAppBundle E req)"
| "perform E (CreatesCluster msg) = toItsEnd (CreateCluster E msg)"
| "perform E (DeletesCluster name) = toItsEnd (DeleteCluster E name)"
| "perform E (UpgradesCluster name version) = toItsEnd (UpgradeCluster E name version)"
| "perform E (AddsNodePool name pools) = toItsEnd (AddNodePool E name pools)"
| "perform E (DeletesNodePool name pools) = toItsEnd (DeleteNodePool E name pools)"
| "perform E (ScalesNodePool name pools) = toItsEnd (ScaleNodePool E name pools)"
| "perform E (ShowsCluster name) = toItsEnd (GetCluster E name)"
| "perform E (ShowsNodes name) = toItsEnd (GetClusterNodesStatus E name)"
| "perform E ListsClusters = toItsEnd (GetClusterList E)"

lemma wp_toItsEnd [simp]: "wp (toItsEnd m) Q t \<longleftrightarrow> wp m (\<lambda>_. Q ()) t"
  by (simp add: toItsEnd_def)

lemma emits_toItsEnd [safe_intros]: "emits P m \<Longrightarrow> emits P (toItsEnd m)"
  unfolding toItsEnd_def by (intro safe_intros)

section \<open>Footprints\<close>

text \<open>An event that neither stores a machine nor touches the pool.\<close>

fun harmless :: "event \<Rightarrow> bool" where
  "harmless (ECreate (OMachine _) _) \<longleftrightarrow> False"
| "harmless (EUpdate (OMachine _) _) \<longleftrightarrow> False"
| "harmless (EAllocate _ _) \<longleftrightarrow> False"
| "harmless (ERelease _ _) \<longleftrightarrow> False"
| "harmless _ \<longleftrightarrow> True"

lemma harmless_keeps: "harmless e \<Longrightarrow> keepsMachines e"
  by (cases e) auto

lemma harmless_lives: "harmless e \<Longrightarrow> livesWrite e"
  by (cases e rule: livesWrite.cases) auto

lemma harmless_bundle: "emits harmless (NewCABundle E)"
  unfolding NewCABundle_def generateKey_def createCertificate_def
  by (intro safe_intros) (auto simp: Let_def intro!: safe_intros)

lemma harmless_startCluster: "emits harmless (startCluster E c)"
  unfolding startCluster_def createClusterSecrets_def updateClusterStatus_def Let_def world_defs
  by (intro safe_intros harmless_bundle) simp_all

lemma harmless_checkCluster: "emits harmless (checkCluster E c)"
  unfolding checkCluster_def Let_def world_defs by (intro safe_intros) simp_all

lemma harmless_cleanUp: "emits harmless (cleanUpCluster E ns)"
  unfolding cleanUpCluster_def world_defs by (intro safe_intros) simp_all

lemma emits_claims:
  "(\<And>m u. m \<in> set machines \<Longrightarrow> getControllerOf (maMeta m) = None \<Longrightarrow>
      P (EUpdate (OMachine (adoptedBy (clusterRef c) m)) u)) \<Longrightarrow> emits P (claimMachines E c machines)"
  by (induction machines)
     (auto simp: canClaim_iff cluster_adopter.adopt_stores k8sUpdateMachine_def intro!: safe_intros)

lemma harmless_waits:
  "emits harmless (waitForMachineCreation E ml)" "emits harmless (waitForMachineDeletion E ml)"
  by (induction ml)
     (auto simp: machineCreated_def machineDeleted_def world_defs Let_def intro!: safe_intros)

lemma emits_syncAny:
  "(\<And>u. P (ECreate (OMachine (createMachine ms)) u)) \<Longrightarrow> (\<And>e. harmless e \<Longrightarrow> P e) \<Longrightarrow>
     emits P (syncReplicas E ms machines)"
proof -
  assume P: "\<And>u. P (ECreate (OMachine (createMachine ms)) u)" "\<And>e. harmless e \<Longrightarrow> P e"
  have "emits P (createLoop E ms n ml es)" for n ml es
    by (induction n arbitrary: ml es)
       (auto simp: Let_def k8sCreateMachine_def recordEvent_def P intro!: safe_intros)
  moreover have "emits P (deleters E ms n gs errs)" for n gs errs
    by (induction n arbitrary: gs errs)
       (auto simp: schedule_def k8sDelete_def recordEvent_def P split: deleter.split intro!: safe_intros)
  moreover note harmless_waits [THEN emits_weaken, OF P(2)]
  ultimately show ?thesis
    unfolding syncReplicas_def deleteReplicas_def runDeleters_def Let_def by (intro safe_intros)
qed

lemma emits_adoptions:
  "(\<And>m u. m \<in> set machines \<Longrightarrow> getControllerOf (maMeta m) = None \<Longrightarrow>
      P (EUpdate (OMachine (adoptedBy (machineSetRef ms) m)) u)) \<Longrightarrow> emits P (filterMachines E ms machines)"
  by (induction machines)
     (auto simp: adoptOrphan_def adoptedBy_def k8sUpdateMachine_def intro!: safe_intros)

lemma emits_syncAndReport:
  assumes "\<And>u. P (ECreate (OMachine (createMachine ms)) u)" and "\<And>e. harmless e \<Longrightarrow> P e"
  shows "emits P (syncAndReport E ms machines)"
proof -
  have "emits harmless (updateMachineSetStatus E s a b c d)" for s a b c d
    unfolding updateMachineSetStatus_def world_defs by (intro safe_intros) simp_all
  then have "emits P (updateMachineSetStatus E s a b c d)" for s a b c d
    by (rule emits_weaken) (rule assms(2))
  then show ?thesis
    unfolding syncAndReport_def Let_def
    by (intro safe_intros emits_syncAny) (simp_all add: assms)
qed

text \<open>The activities of the API server and of the app bundle controller.\<close>

lemma harmless_addPools: "emits harmless (addWorkerPools E name pools)"
  by (induction pools) (auto simp: Let_def world_defs intro!: safe_intros)

lemma harmless_pools:
  "emits harmless (createWorkerPools E name pools)" "emits harmless (deletePools E name names)"
  "emits harmless (scalePools E name sizes)"
proof -
  show "emits harmless (createWorkerPools E name pools)"
    by (induction pools) (auto simp: Let_def world_defs intro!: safe_intros)
  show "emits harmless (deletePools E name names)"
    by (induction names) (auto simp: world_defs intro!: safe_intros)
  show "emits harmless (scalePools E name sizes)"
    by (induction sizes) (auto simp: world_defs intro!: safe_intros)
qed

lemma harmless_bundles: "emits harmless (ReconcileAppBundle E req)"
  unfolding ReconcileAppBundle_def installOn_def install_def createNamespace_def createServiceAccount_def
    createClusterRoleBinding_def createInstallJob_def getOrCreate_def Let_def world_defs
  by (intro safe_intros) simp_all

fun isController :: "activity \<Rightarrow> bool" where
  "isController (ReconcilesMachine _) \<longleftrightarrow> True"
| "isController (ReconcilesCluster _) \<longleftrightarrow> True"
| "isController (ReconcilesMachineSet _) \<longleftrightarrow> True"
| "isController (CreatesCluster _) \<longleftrightarrow> True"
| "isController _ \<longleftrightarrow> False"

lemma harmless_perform: "\<not> isController a \<Longrightarrow> emits harmless (perform E a)"
  by (cases a)
    (auto simp: DeleteCluster_def UpgradeCluster_def AddNodePool_def DeleteNodePool_def ScaleNodePool_def
      GetCluster_def GetKubeConfig_def GetClusterNodesStatus_def GetClusterList_def world_defs Let_def
      intro!: safe_intros harmless_bundles harmless_pools harmless_addPools)


lemma emits_createCluster:
  "(\<And>m u. lives m \<Longrightarrow> P (ECreate (OMachine m) u)) \<Longrightarrow> (\<And>e. harmless e \<Longrightarrow> P e) \<Longrightarrow> emits P (CreateCluster E msg)"
proof -
  assume P: "\<And>m u. lives m \<Longrightarrow> P (ECreate (OMachine m) u)" "\<And>e. harmless e \<Longrightarrow> P e"
  have "lives (controlPlaneObject name cp)" for name cp
    by (rule lives.born) (simp_all add: controlPlaneObject_def zero_machine_def zero_object_meta_def controllerCount_def)
  with P emits_weaken [OF harmless_pools(1) P(2)] show ?thesis
    unfolding CreateCluster_def k8sCreate_def by (intro safe_intros) auto
qed

lemma created_lives: "lives (createMachine ms)"
  by (rule lives.born) (simp_all add: createMachine_def controllerCount_def)

lemmas harmless_weaken = emits_weaken [OF harmless_startCluster] emits_weaken [OF harmless_checkCluster]

lemma emits_setRest:
  assumes "\<And>s m u. m \<in> set ms \<Longrightarrow> getControllerOf (maMeta m) = None \<Longrightarrow> P (EUpdate (OMachine (adoptedBy (machineSetRef s) m)) u)"
    and "\<And>s u. P (ECreate (OMachine (createMachine s)) u)" and "\<And>e. harmless e \<Longrightarrow> P e"
  shows "emits P (filterMachines E s ms)" "emits P (syncAndReport E s machines)"
  by (rule emits_adoptions, erule assms(1), assumption) (rule emits_syncAndReport, rule assms(2), erule assms(3))

text \<open>All activities but those of the machine controller, by the machines they create and adopt.\<close>

lemma emits_perform:
  assumes "\<And>req. a \<noteq> ReconcilesMachine req" and P: "\<And>e. harmless e \<Longrightarrow> P e"
    "\<And>m u. P (ECreate (OMachine m) u)" "\<And>m u. P (EUpdate (OMachine m) u)"
  shows "emits P (perform E a)"
proof (cases "isController a")
  case True
  have found: "emits P (reconcileFound E ns c)" for ns c
    unfolding reconcileFound_def k8sListMachines_def
    by (intro safe_intros emits_claims harmless_weaken) (auto intro: P)
  have "emits P (ReconcileCluster E req)" for req
    unfolding ReconcileCluster_def k8sGetCluster_def
    by (intro safe_intros found emits_weaken [OF harmless_cleanUp]) (auto intro: P)
  moreover have "emits P (ReconcileMachineSet E req)" for req
    unfolding ReconcileMachineSet_def reconcileMachineSet_def Let_def k8sGetMachineSet_def k8sListMachines_def
      k8sUpdateMachineSet_def recordEvent_def
    by (intro safe_intros emits_setRest) (auto intro: P)
  moreover have "emits P (CreateCluster E msg)" for msg
    by (rule emits_createCluster) (auto intro: P)
  ultimately show ?thesis
    using True assms(1) by (cases a rule: isController.cases) (auto intro!: safe_intros)
next
  case False
  then show ?thesis
    by (intro emits_weaken [OF harmless_perform]) (auto intro: P)
qed

section \<open>Stored machines are alive\<close>

text \<open>As long as an activity is shown machines that are alive, whether it looks one up or lists them, it
  stores machines that are alive: its guarantee to the others, relying on theirs. The answers are those
  of its own environment, so that between two calls of one activity any others may act.\<close>

fun readsAlive :: "env \<Rightarrow> trace \<Rightarrow> event \<Rightarrow> bool" where
  "readsAlive E t (EGet KMachine k _) \<longleftrightarrow> (case envGetMachine E t k of Inl _ \<Rightarrow> True | Inr m \<Rightarrow> lives m)"
| "readsAlive E t (EList KMachine ns _) \<longleftrightarrow> (case envListMachines E t ns of Inl _ \<Rightarrow> True | Inr ms \<Rightarrow> list_all lives ms)"
| "readsAlive E t _ \<longleftrightarrow> True"

fun guarded :: "env \<Rightarrow> trace \<Rightarrow> event list \<Rightarrow> bool" where
  "guarded E t [] \<longleftrightarrow> True"
| "guarded E t (e # es) \<longleftrightarrow> livesWrite e \<and> (readsAlive E t e \<longrightarrow> guarded E (t @ [e]) es)"

lemma guarded_all: "list_all livesWrite es \<Longrightarrow> guarded E t es"
  by (induction es arbitrary: t) auto

text \<open>What an environment promises about the other services.\<close>

definition soundEnv :: "env \<Rightarrow> bool" where
  "soundEnv E \<longleftrightarrow> maasSound E \<and> errorsForeign E \<and> storesServed E"

lemma wp_guarded_lives:
  assumes "emits livesWrite m" and "list_all livesWrite t"
  shows "wp m (\<lambda>_. guarded E []) t"
  by (rule wp_mono [OF wp_emits [OF assms(1)]]) (use assms(2) in \<open>auto intro: guarded_all\<close>)

lemma guarded_bad:
  "list_all livesWrite xs \<Longrightarrow> livesWrite e \<Longrightarrow> \<not> readsAlive E (t @ xs) e \<Longrightarrow> guarded E t (xs @ e # es)"
  by (induction xs arbitrary: t) auto

text \<open>A read of machines: after a bad answer anything may follow.\<close>

lemma wp_guarded_read:
  assumes "list_all livesWrite t" "\<And>r. livesWrite (ev r)" "emits (\<lambda>_. True) (f (g t))"
    and "readsAlive E t (ev (g t)) \<Longrightarrow> emits livesWrite (f (g t))"
  shows "wp (call g ev \<bind> f) (\<lambda>_. guarded E []) t"
proof (cases "readsAlive E t (ev (g t))")
  case True
  with assms show ?thesis by (auto intro!: wp_guarded_lives)
next
  case False
  show ?thesis
    unfolding wp_bind wp_call
    by (rule wp_mono [OF wp_emits [OF assms(3)]]) (use assms(1,2) False guarded_bad [of t "ev (g t)" E "[]"] in auto)
qed

text \<open>What a controller does with the machines of a list, in two versions.\<close>

lemma adoption_lives:
  "list_all lives ms \<Longrightarrow> isControllerRef ref \<Longrightarrow> m \<in> set ms \<Longrightarrow> getControllerOf (maMeta m) = None \<Longrightarrow>
     livesWrite (EUpdate (OMachine (adoptedBy ref m)) u)"
  by (auto simp: list_all_iff intro: lives.grown [OF _ life_step.adopted])

lemma guarded_cluster: "wp (ReconcileCluster E req) (\<lambda>_. guarded E []) []"
proof -
  have "isControllerRef (clusterRef c)" for c by (simp add: clusterRef_def)
  then have "wp (reconcileFound E ns c) (\<lambda>_. guarded E []) [EGet KCluster req None]" for ns c
    unfolding reconcileFound_def onErr_def k8sListMachines_def
    by (intro wp_guarded_read)
      (auto intro!: safe_intros emits_claims harmless_weaken adoption_lives intro: harmless_lives split: sum.split simp del: livesWrite.simps(2))
  moreover have "wp (cleanUpCluster E ns) (\<lambda>_. guarded E []) [EGet KCluster req r]" for ns r
    by (rule wp_guarded_lives [OF emits_weaken [OF harmless_cleanUp]]) (auto intro: harmless_lives)
  ultimately show ?thesis
    by (auto simp: ReconcileCluster_def k8sGetCluster_def split: sum.split)
qed

lemma wp_onReturn_onErr: "wp (onReturn (onErr h m f) k) Q t
    \<longleftrightarrow> wp (m \<bind> (\<lambda>r. onReturn (case r of Inl e \<Rightarrow> ret (h e) | Inr a \<Rightarrow> f a) k)) Q t"
  by (auto intro!: arg_cong2 [where f = "wp m"] ext split: sum.split)

lemma guarded_set: "wp (ReconcileMachineSet E req) (\<lambda>_. guarded E []) []"
proof -
  have ref: "isControllerRef (machineSetRef s)" for s by (simp add: machineSetRef_def)
  have "wp (onReturn (reconcileMachineSet E s) k) (\<lambda>_. guarded E []) [EGet KMachineSet req None]"
    if k: "\<And>r. emits harmless (k r)" for s and k :: "_ \<Rightarrow> (reconcile_result \<times> go_error option) blocking io"
    unfolding reconcileMachineSet_def Let_def wp_onReturn_onErr k8sListMachines_def
    by (rule wp_guarded_read)
      (auto intro!: safe_intros emits_setRest adoption_lives ref emits_weaken [OF k] intro: harmless_lives
        simp: k8sUpdateMachineSet_def created_lives simp del: livesWrite.simps(2) split: sum.split prod.split)
  note set = this
  show ?thesis
  proof (cases "envGetMachineSet E [] req")
    case (Inr s)
    then show ?thesis
      unfolding ReconcileMachineSet_def k8sGetMachineSet_def wp_bind wp_call Inr
      by (auto simp: recordEvent_def simp del: wp_onReturn intro!: set safe_intros split: option.split)
  qed (simp add: ReconcileMachineSet_def k8sGetMachineSet_def)
qed

lemma emits_earlySteps: "f \<in> set (earlySteps E) \<Longrightarrow> emits (\<lambda>_. True) (f c)"
  by (rule emits_weaken [OF earlySteps_quiet]) simp_all

lemma emits_handlers:
  "emits (\<lambda>_. True) (create E m)" "emits (\<lambda>_. True) (handleDelete E m)" "emits (\<lambda>_. True) (handleWaitingForReady E m)"
  "emits (\<lambda>_. True) (handleError E m e)"
proof -
  let ?b = "isMasterRole (mspRoles (maSpec m))"
  obtain fs where "set fs \<subseteq> set (earlySteps E)"
    and steps: "(if ?b then masterSteps E else workerSteps E) = fs @ [updateMachine E]"
    by (rule create_steps)
  moreover have "emits (\<lambda>_. True) (updateMachine E c)" for c
    unfolding updateMachine_def world_defs Let_def by (intro safe_intros) simp_all
  ultimately show "emits (\<lambda>_. True) (create E m)"
    unfolding create_def Let_def steps by (intro safe_intros) (auto intro: emits_earlySteps)
  show "emits (\<lambda>_. True) (handleDelete E m)"
    unfolding handleDelete_def removeNode_def deleteObject_def deleteMachine_def Let_def world_defs
    by (intro safe_intros) simp_all
  show "emits (\<lambda>_. True) (handleWaitingForReady E m)"
    unfolding handleWaitingForReady_def waitForNode_def Let_def world_defs by (intro safe_intros) simp_all
  show "emits (\<lambda>_. True) (handleError E m e)" by (intro safe_intros) simp_all
qed

lemma guarded_machine:
  assumes "soundEnv E"
  shows "wp (Reconcile E req) (\<lambda>_. guarded E []) []"
proof (cases "\<exists>m. envGetMachine E [] req = Inr m \<and> lives m")
  case True
  with Reconcile_lives [of E "[]" req _ "[]"] assms show ?thesis
    by (auto simp: soundEnv_def extends_def elim!: wp_mono intro!: guarded_all)
next
  case False
  show ?thesis
  proof (cases "envGetMachine E [] req")
    case (Inr m)
    let ?rest = "onErr (\<lambda>err. Returns (noResult, Some err)) (markDeleting E m) (\<lambda>machine. do {
         h \<leftarrow> handlePhase E machine;
         case h of
           Panics \<Rightarrow> ret Panics
         | Returns (err, machine) \<Rightarrow> (case err of
               None \<Rightarrow> ret (Returns (noResult, None))
             | Some e \<Rightarrow> do { res \<leftarrow> handleError E machine e; ret (Returns res) })
       })"
    have "emits (\<lambda>_. True) ?rest"
      unfolding markDeleting_def handlePhase_def k8sUpdateMachine_def
      by (intro safe_intros emits_handlers) simp_all
    then have "wp ?rest (\<lambda>_. guarded E []) [EGet KMachine req None]"
      by (rule wp_mono [OF wp_emits]) (use Inr False in auto)
    with Inr show ?thesis by (simp add: Reconcile_def k8sGetMachine_def)
  qed (simp add: Reconcile_def k8sGetMachine_def)
qed

lemma guarded_perform:
  assumes "soundEnv E"
  shows "wp (perform E a) (\<lambda>_. guarded E []) []"
proof (cases "isController a")
  case True
  have "emits livesWrite (CreateCluster E msg)" for msg
    by (rule emits_createCluster) (auto intro: harmless_lives)
  then have "wp (CreateCluster E msg) (\<lambda>_. guarded E []) []" for msg
    by (rule wp_guarded_lives) simp
  with True guarded_machine [OF assms] guarded_cluster guarded_set show ?thesis
    by (cases a rule: isController.cases) simp_all
next
  case False
  have "emits livesWrite (perform E a)"
    by (rule emits_weaken [OF harmless_perform [OF False]]) (rule harmless_lives)
  then show ?thesis by (rule wp_guarded_lives) simp
qed

end
