(* ===== verification/Fleet.thy ===== *)
theory Fleet
  imports Activities
begin

text \<open>
  The operator as a whole: any number of activities run at the same time, in goroutines of their own, on
  one API server and one MaaS. A step of the system is one external call of one activity, an action of
  somebody else, the start of an activity, or the end of the process, which loses whatever was under way
  until the operator is started again. What holds of every stored machine is proved for all interleavings.
\<close>

section \<open>The system\<close>

text \<open>An activity that was started: its environment is what the others and the outside world will answer,
  its events are those of the run against these answers, split into the ones made so far and the ones to
  come. A task that was killed makes no further step.\<close>

record task =
  tkEnv :: env
  tkActivity :: activity
  tkDone :: trace
  tkTodo :: "event list"
  tkKilled :: bool

definition newTask :: "env \<Rightarrow> activity \<Rightarrow> task" where
  "newTask E a = \<lparr>tkEnv = E, tkActivity = a, tkDone = [], tkTodo = snd (run_state (perform E a) []),
     tkKilled = False\<rparr>"

definition advance :: "task \<Rightarrow> task" where
  "advance k = (case tkTodo k of [] \<Rightarrow> k | e # es \<Rightarrow> k\<lparr>tkDone := tkDone k @ [e], tkTodo := es\<rparr>)"

definition killed :: "task \<Rightarrow> task" where
  "killed k = k\<lparr>tkKilled := True\<rparr>"

text \<open>The versions of machines that the API server has accepted.\<close>

fun storedBy :: "event \<Rightarrow> machine list" where
  "storedBy (ECreate (OMachine m) None) = [m]"
| "storedBy (EUpdate (OMachine m) None) = [m]"
| "storedBy _ = []"

definition storedMachines :: "trace \<Rightarrow> machine list" where
  "storedMachines t = concat (map storedBy t)"

text \<open>The API server and the caches in front of it hand out accepted versions only; they may be old ones,
  and no order among them is assumed.\<close>

definition accepted :: "trace \<Rightarrow> machine \<Rightarrow> bool" where
  "accepted t m \<longleftrightarrow> (\<exists>m0 \<in> set (storedMachines t). served m0 m)"

fun honest :: "trace \<Rightarrow> env \<Rightarrow> trace \<Rightarrow> event \<Rightarrow> bool" where
  "honest G E t (EGet KMachine k _) \<longleftrightarrow> (case envGetMachine E t k of Inl _ \<Rightarrow> True | Inr m \<Rightarrow> accepted G m)"
| "honest G E t (EList KMachine ns _) \<longleftrightarrow> (case envListMachines E t ns of Inl _ \<Rightarrow> True | Inr ms \<Rightarrow> list_all (accepted G) ms)"
| "honest G E t _ \<longleftrightarrow> True"

text \<open>What others do: they may create machines of their own, delete anything and change other objects,
  but they do not change the status, the owners or the finalizer of a machine, and they use machines of a
  pool of their own.\<close>

fun foreign :: "event \<Rightarrow> bool" where
  "foreign (ECreate (OMachine m) _) \<longleftrightarrow> maStatus m = zero_machine_status \<and> controllerCount (maMeta m) \<le> 1"
| "foreign (EUpdate (OMachine _) _) \<longleftrightarrow> False"
| "foreign (EAllocate _ _) \<longleftrightarrow> False"
| "foreign (ERelease _ _) \<longleftrightarrow> False"
| "foreign _ \<longleftrightarrow> True"

text \<open>The events so far, and the tasks.\<close>

inductive system :: "trace \<Rightarrow> task list \<Rightarrow> bool" where
  idle: "system [] []"
| start: "system G ks \<Longrightarrow> soundEnv E \<Longrightarrow> system G (ks @ [newTask E a])"
| act: "system G ks \<Longrightarrow> i < length ks \<Longrightarrow> \<not> tkKilled (ks ! i) \<Longrightarrow> tkTodo (ks ! i) = e # es \<Longrightarrow>
    honest G (tkEnv (ks ! i)) (tkDone (ks ! i)) e \<Longrightarrow> system (G @ [e]) (ks[i := advance (ks ! i)])"
| outside: "system G ks \<Longrightarrow> foreign e \<Longrightarrow> system (G @ [e]) ks"
| crash: "system G ks \<Longrightarrow> system G (map killed ks)"

lemma advance_simps:
  assumes "tkTodo k = e # es"
  shows "tkEnv (advance k) = tkEnv k" "tkActivity (advance k) = tkActivity k" "tkDone (advance k) = tkDone k @ [e]"
    "tkTodo (advance k) = es" "tkKilled (advance k) = tkKilled k"
  using assms by (simp_all add: advance_def)

lemma list_all_update: "list_all P xs \<Longrightarrow> P x \<Longrightarrow> list_all P (xs[i := x])"
  using set_update_subset_insert [of xs i x] by (auto simp: list_all_iff)

section \<open>Stored machines\<close>

lemma storedMachines_append [simp]: "storedMachines (t @ t') = storedMachines t @ storedMachines t'"
  by (simp add: storedMachines_def)

lemma storedMachines_simps [simp]:
  "storedMachines [] = []" "storedMachines (e # t) = storedBy e @ storedMachines t"
  by (simp_all add: storedMachines_def)

lemma storedBy_lives: "livesWrite e \<Longrightarrow> m \<in> set (storedBy e) \<Longrightarrow> lives m"
  by (cases e rule: storedBy.cases) auto

lemma stored_lives: "list_all livesWrite t \<Longrightarrow> m \<in> set (storedMachines t) \<Longrightarrow> lives m"
  by (auto simp: storedMachines_def list_all_iff dest: storedBy_lives)

lemma accepted_lives: "list_all livesWrite t \<Longrightarrow> accepted t m \<Longrightarrow> lives m"
  by (auto simp: accepted_def dest: stored_lives intro: served_life)

lemma accepted_more: "accepted G m \<Longrightarrow> accepted (G @ es) m"
  by (auto simp: accepted_def)

lemma honest_reads: "list_all livesWrite G \<Longrightarrow> honest G E t e \<Longrightarrow> readsAlive E t e"
  by (cases "(E, t, e)" rule: readsAlive.cases)
    (auto simp: list_all_iff [of lives] list_all_iff [of "accepted G"] intro: accepted_lives split: sum.splits)

lemma foreign_lives: "foreign e \<Longrightarrow> livesWrite e"
  by (cases e rule: foreign.cases) (auto intro: lives.born split: obj.splits)

text \<open>Each task keeps its guarantee for the events to come.\<close>

definition promises :: "task \<Rightarrow> bool" where
  "promises k \<longleftrightarrow> guarded (tkEnv k) (tkDone k) (tkTodo k)"

lemma promises_new: "soundEnv E \<Longrightarrow> promises (newTask E a)"
  using wp_run [OF guarded_perform, of E a _ "snd (run_state (perform E a) [])"]
  by (simp add: promises_def newTask_def wp_iff [symmetric] guarded_perform [unfolded wp_iff])

lemma system_alive: "system G ks \<Longrightarrow> list_all livesWrite G \<and> list_all promises ks"
proof (induction rule: system.induct)
  case idle
  show ?case by simp
next
  case (start G ks E a)
  then show ?case by (simp add: promises_new)
next
  case (act G ks i e es)
  let ?k = "ks ! i"
  from act have k: "promises ?k" by (simp add: list_all_length)
  with act.hyps(4) have e: "livesWrite e" by (simp add: promises_def)
  have "readsAlive (tkEnv ?k) (tkDone ?k) e"
    using act by (blast intro: honest_reads)
  with k act.hyps(4) have "promises (advance ?k)" by (simp add: promises_def advance_simps)
  with act.IH e show ?case by (simp add: list_all_update)
next
  case (outside G ks e)
  then show ?case by (simp add: foreign_lives)
next
  case (crash G ks)
  then show ?case by (simp add: list_all_iff promises_def killed_def)
qed

section \<open>Properties\<close>

text \<open>C1: However activities of the controllers and of the API server interleave, with each other, with crashes
  of the operator, with stale answers of the API server and with the actions of others: every version of
  a machine object that the API server ever accepted is a state of the abstract machine, born without a
  status and then changed one legal step at a time.\<close>

theorem stored_machines_live:
  assumes "system G ks" and "m \<in> set (storedMachines G)"
  shows "lives m"
  using system_alive [OF assms(1)] assms(2) by (auto intro: stored_lives)


section \<open>A machine and its life\<close>

text \<open>A task that runs alone, when its environment is honest at every moment.\<close>

definition finishedTask :: "task \<Rightarrow> task" where
  "finishedTask k = k\<lparr>tkDone := tkDone k @ tkTodo k, tkTodo := []\<rparr>"

definition alwaysHonest :: "trace \<Rightarrow> env \<Rightarrow> bool" where
  "alwaysHonest G E \<longleftrightarrow> (\<forall>t k m. envGetMachine E t k = Inr m \<longrightarrow> accepted G m)
     \<and> (\<forall>t ns ms. envListMachines E t ns = Inr ms \<longrightarrow> list_all (accepted G) ms)"

lemma alwaysHonest_honest: "alwaysHonest G E \<Longrightarrow> honest G E t e"
  by (cases "(G, E, t, e)" rule: honest.cases) (auto simp: alwaysHonest_def split: sum.split)

lemma alwaysHonest_more: "alwaysHonest G E \<Longrightarrow> alwaysHonest (G @ es) E"
  by (auto simp: alwaysHonest_def list_all_iff intro: accepted_more)

lemma system_alone:
  "system G (ks @ [k]) \<Longrightarrow> \<not> tkKilled k \<Longrightarrow> alwaysHonest G (tkEnv k) \<Longrightarrow> system (G @ tkTodo k) (ks @ [finishedTask k])"
proof (induction "tkTodo k" arbitrary: G k)
  case Nil
  then have "finishedTask k = k" by (cases k) (simp add: finishedTask_def)
  with Nil show ?case by simp
next
  case (Cons e es)
  note k = advance_simps [OF Cons.hyps(2) [symmetric]]
  have "system (G @ [e]) ((ks @ [k])[length ks := advance k])"
    using system.act [OF Cons.prems(1), of "length ks" e es] Cons.prems(2,3) Cons.hyps(2)
    by (simp add: alwaysHonest_honest)
  moreover have "finishedTask (advance k) = finishedTask k"
    using Cons.hyps(2) by (simp add: finishedTask_def advance_def split: list.split)
  ultimately show ?case
    using Cons.hyps(1) [of "advance k" "G @ [e]"] Cons.prems(2,3) Cons.hyps(2)
    by (simp add: k alwaysHonest_more)
qed

lemma system_task:
  assumes "system G ks" "soundEnv E" "alwaysHonest G E"
  shows "system (G @ snd (run_state (perform E a) [])) (ks @ [finishedTask (newTask E a)])"
  using system_alone [OF system.start [OF assms(1,2)], of a] assms(3) by (simp add: newTask_def)

text \<open>Somebody creates a worker, the operator provisions it.\<close>

definition demoBirth :: trace where
  "demoBirth = [ECreate (OMachine demoWorker) None]"

definition demoRun :: trace where
  "demoRun = demoBirth @ snd (run_state (perform (demoWith demoWorker) (ReconcilesMachine workerKey)) [])"

definition demoTask :: task where
  "demoTask = finishedTask (newTask (demoWith demoWorker) (ReconcilesMachine workerKey))"

lemma demoWith_soundEnv [simp]: "soundEnv (demoWith m)"
  by (simp add: soundEnv_def storesServed_def) (simp add: demoWith_def)

lemma demo_lists: "envListMachines (demoWith m) t ns = Inl (PlainError ''connection refused'')"
  by (simp add: demoWith_def demo_def onePool_def offline_def Let_def)

lemma demo_system: "system demoRun [demoTask]"
proof -
  have "foreign (ECreate (OMachine demoWorker) None)"
    by (simp add: demoWorker_def zero_machine_def zero_object_meta_def controllerCount_def)
  then have "system demoBirth []"
    using system.outside [OF system.idle] by (simp add: demoBirth_def)
  moreover have "alwaysHonest demoBirth (demoWith demoWorker)"
    by (simp add: alwaysHonest_def demo_lists accepted_def demoBirth_def)
  ultimately show ?thesis
    using system_task [of demoBirth "[]" "demoWith demoWorker" "ReconcilesMachine workerKey"]
    by (simp add: demoRun_def demoTask_def del: perform.simps)
qed

lemma demo_stored:
  "outstanding demoRun = [''abc123'']"
  "\<exists>m. storedMachines demoRun = [demoWorker, m] \<and> machinePhase m = ProvisioningMachinePhase \<and> machineSystemId m = ''abc123''"
proof -
  have img: "wp (getImage (demo\<lparr>envGetMachine := f\<rparr>) osVersion ''1.13.4'' ''gpu'') Q t \<longleftrightarrow>
     Q ''os=ubuntu-xenial,k8s=1.13.4,type=gpu'' (t @ [EBootResources None])" for f Q t
    using demo_image [of Q t] by (simp add: getImage_def getImages_def maasBootResources_def)
  have "wp (Reconcile (demoWith demoWorker) workerKey) (\<lambda>_ t. outstanding t = [''abc123'']
      \<and> (\<exists>m. storedMachines t = [m] \<and> machinePhase m = ProvisioningMachinePhase \<and> machineSystemId m = ''abc123'')) []"
    unfolding wp_Reconcile
    by (simp add: markDeleting_alive handlePhase_unphased)
      (simp add: demo_run img demoWith_def zero_machine_spec_def MachineRoleWorker_def MachineRoleMaster_def
        outstanding_def markCreated_def del: base64Encode.simps outstanding_append)
  then show "outstanding demoRun = [''abc123'']"
    "\<exists>m. storedMachines demoRun = [demoWorker, m] \<and> machinePhase m = ProvisioningMachinePhase \<and> machineSystemId m = ''abc123''"
    by (simp_all add: demoRun_def demoBirth_def toItsEnd_def wp_iff outstanding_def split_beta
        del: outstanding_append)
qed

theorem stored_machines_live_witness:
  "system demoRun [demoTask] \<and> list_all lives (storedMachines demoRun) \<and> length (storedMachines demoRun) = 2"
  using demo_system demo_stored(2) stored_machines_live [OF demo_system] by (auto simp: list_all_iff)


end
