(* ===== verification/Fleet_Books.thy ===== *)
theory Fleet_Books
  imports Fleet
begin

text \<open>
  The machines of the MaaS pool under the whole operator: which of them are recorded in a stored machine
  object, and when one is given back.
\<close>

section \<open>Who touches the pool\<close>

fun allocatedBy :: "event \<Rightarrow> string list" where
  "allocatedBy (EAllocate _ (Inr m)) = [mmSystemID m]"
| "allocatedBy _ = []"

fun releasedBy :: "event \<Rightarrow> string list" where
  "releasedBy (ERelease ids _) = ids"
| "releasedBy _ = []"

lemma outstandingStep_eq: "outstandingStep ids e = filter (\<lambda>i. i \<notin> set (releasedBy e)) ids @ allocatedBy e"
  by (cases "(ids, e)" rule: outstandingStep.cases) auto

abbreviation allocates :: "event \<Rightarrow> bool" where
  "allocates e \<equiv> allocatedBy e \<noteq> []"

lemma outstanding_less: "list_all (\<lambda>e. \<not> allocates e) es \<Longrightarrow> set (foldl outstandingStep ids es) \<subseteq> set ids"
proof (induction es arbitrary: ids)
  case (Cons e es)
  then have "set (foldl outstandingStep (outstandingStep ids e) es) \<subseteq> set (outstandingStep ids e)" by simp
  also have "\<dots> \<subseteq> set ids" using Cons.prems by (auto simp: outstandingStep_eq)
  finally show ?case by simp
qed simp

lemma wp_noAlloc:
  assumes "emits (\<lambda>e. \<not> allocates e) m" and "outstanding t = []"
  shows "wp m (\<lambda>_ t'. outstanding t' = []) t"
  by (rule wp_mono [OF wp_emits [OF assms(1)]])
    (use assms(2) outstanding_less [of _ "[]"] in auto)

lemma harmless_noAlloc: "harmless e \<Longrightarrow> \<not> allocates e"
  by (cases e) auto

text \<open>Only the machine controller allocates, and only for a machine without a phase that is not being
  deleted.\<close>

lemma noAlloc_perform:
  "(\<And>req. a \<noteq> ReconcilesMachine req) \<Longrightarrow> emits (\<lambda>e. \<not> allocates e) (perform E a)"
  by (rule emits_perform) (auto dest: harmless_noAlloc)

lemma noAlloc_handlers:
  "emits (\<lambda>e. \<not> allocates e) (handleDelete E m)" "emits (\<lambda>e. \<not> allocates e) (handleWaitingForReady E m)"
  "emits (\<lambda>e. \<not> allocates e) (handleError E m e)"
proof -
  show "emits (\<lambda>e. \<not> allocates e) (handleDelete E m)"
    unfolding handleDelete_def removeNode_def deleteObject_def deleteMachine_def Let_def world_defs
    by (intro safe_intros) simp_all
  show "emits (\<lambda>e. \<not> allocates e) (handleWaitingForReady E m)"
    unfolding handleWaitingForReady_def waitForNode_def Let_def world_defs by (intro safe_intros) simp_all
  show "emits (\<lambda>e. \<not> allocates e) (handleError E m e)" by (intro safe_intros) simp_all
qed

lemma noAlloc_phased: "\<not> unphased m \<Longrightarrow> emits (\<lambda>e. \<not> allocates e) (handlePhase E m)"
  unfolding handlePhase_def by (intro safe_intros noAlloc_handlers) (auto simp: unphased_def)

section \<open>Recorded machines\<close>

text \<open>A machine of the pool is recorded: an accepted object carries its id and the finalizer.\<close>

definition recorded :: "trace \<Rightarrow> string \<Rightarrow> bool" where
  "recorded t sid \<longleftrightarrow> (\<exists>m \<in> set (storedMachines t). machineSystemId m = sid
     \<and> MachineFinalizer \<in> set (machineFinalizers m))"

lemma recordsMachine_recorded: "recordsMachine m sid t \<Longrightarrow> recorded t sid"
  by (auto simp: recordsMachine_def recorded_def)

definition bookedTask :: "env \<Rightarrow> trace \<Rightarrow> bool" where
  "bookedTask E t \<longleftrightarrow> (\<forall>sid \<in> set (outstanding t). recorded t sid) \<or> kubeconfigFailed E [] t"

lemma bookedTask_Nil: "outstanding t = [] \<Longrightarrow> bookedTask E t"
  by (simp add: bookedTask_def)

lemma reconcile_bookedTask: "reconcileBooked [] m r t \<Longrightarrow> bookedTask E t"
  by (auto simp: reconcileBooked_def bookedTask_def dest: recordsMachine_recorded)

lemma handlePhase_noAlloc:
  assumes "\<not> unphased m" and "outstanding t = []"
  shows "wp (handlePhase E m) (\<lambda>h t2. case h of
         Panics \<Rightarrow> outstanding t2 = []
       | Returns (None, m) \<Rightarrow> outstanding t2 = []
       | Returns (Some e, m) \<Rightarrow> wp (handleError E m e) (\<lambda>_ t'. outstanding t' = []) t2) t"
  by (rule wp_mono [OF wp_noAlloc [OF noAlloc_phased [OF assms(1)] assms(2)]])
    (auto split: go.split option.split intro: wp_noAlloc noAlloc_handlers)

lemma booked_machine:
  assumes "soundEnv E"
  shows "wp (Reconcile E req) (\<lambda>_. bookedTask E) []"
proof (cases "envGetMachine E [] req")
  case (Inl err)
  then show ?thesis by (simp add: Reconcile_def k8sGetMachine_def bookedTask_def outstanding_def)
next
  case (Inr m)
  from assms have E: "maasSound E" "errorsForeign E" "storesServed E" by (simp_all add: soundEnv_def)
  show ?thesis
  proof (cases "timeIsZero (omDeletionTimestamp (maMeta m)) \<and> unphased m")
    case True
    show ?thesis
    proof (cases "isMasterRole (mspRoles (maSpec m))")
      case False
      with True Inr E show ?thesis
        by (intro wp_mono [OF Reconcile_worker_law [of E "[]" req m]]) (auto intro: reconcile_bookedTask)
    next
      case role: True
      have "kubeconfigFailed E [] t \<Longrightarrow> bookedTask E t" for t by (simp add: bookedTask_def)
      with True Inr E role show ?thesis
        by (intro wp_mono [OF Reconcile_master_leaks_only_there [of E "[]" req m]]) (auto intro: reconcile_bookedTask)
    qed
  next
    case False
    have none: "outstanding [e] = []" if "\<not> allocates e" for e
      using that by (simp add: outstanding_def outstandingStep_eq)
    have "wp (Reconcile E req) (\<lambda>_ t'. outstanding t' = []) []"
    proof (cases "timeIsZero (omDeletionTimestamp (maMeta m))")
      case alive: True
      with False have "\<not> unphased m" by simp
      from handlePhase_noAlloc [OF this, of "[EGet KMachine req None]" E] alive Inr show ?thesis
        by (simp add: wp_Reconcile markDeleting_alive none)
    next
      case dying: False
      have "\<not> unphased m'" if "machinePhase m' = DeletingMachinePhase" for m'
        using that by (simp add: unphased_def)
      moreover have "machinePhase m' = DeletingMachinePhase"
        if "envUpdateMachine E t (setMachinePhase DeletingMachinePhase m) = Inr m'" for t m'
        using E(3) that by (auto simp: storesServed_def served_def)
      ultimately show ?thesis
        using dying Inr unfolding wp_Reconcile
        by (auto simp: markDeleting_def k8sUpdateMachine_def outstanding_def split: sum.split
            intro!: handlePhase_noAlloc)
    qed
    then show ?thesis by (rule wp_mono) (rule bookedTask_Nil)
  qed
qed

lemma booked_perform:
  assumes "soundEnv E"
  shows "wp (perform E a) (\<lambda>_. bookedTask E) []"
proof (cases "\<exists>req. a = ReconcilesMachine req")
  case True
  with booked_machine [OF assms] show ?thesis by auto
next
  case False
  then show ?thesis
    by (intro wp_mono [OF wp_noAlloc [OF noAlloc_perform]]) (auto intro: bookedTask_Nil)
qed

section \<open>The books of the whole operator\<close>

text \<open>The full run of a task, done and to come.\<close>

abbreviation tkRun :: "task \<Rightarrow> trace" where
  "tkRun k \<equiv> tkDone k @ tkTodo k"

lemma advance_run [simp]: "tkRun (advance k) = tkRun k" "tkEnv (advance k) = tkEnv k"
  by (simp_all add: advance_def split: list.split)

lemma killed_simps [simp]:
  "tkEnv (killed k) = tkEnv k" "tkDone (killed k) = tkDone k" "tkTodo (killed k) = tkTodo k"
  "tkActivity (killed k) = tkActivity k"
  by (simp_all add: killed_def)

lemma newTask_simps [simp]:
  "tkDone (newTask E a) = []" "tkEnv (newTask E a) = E" "tkTodo (newTask E a) = snd (run_state (perform E a) [])"
  by (simp_all add: newTask_def)

text \<open>What holds of the run of every activity holds of the run of every task.\<close>

lemma system_runs:
  assumes "system G ks" and "\<And>E a. soundEnv E \<Longrightarrow> wp (perform E a) (\<lambda>_. P E) []"
  shows "list_all (\<lambda>k. P (tkEnv k) (tkRun k)) ks"
  using assms(1)
proof (induction rule: system.induct)
  case (start G ks E a)
  then show ?case using assms(2) by (simp add: wp_iff)
next
  case (act G ks i e es)
  from act.IH act.hyps(2) show ?case by (intro list_all_update) (simp_all add: list_all_length)
qed (simp_all add: list_all_iff)

lemma system_tasks_store:
  "system G ks \<Longrightarrow> list_all (\<lambda>k. set (storedMachines (tkDone k)) \<subseteq> set (storedMachines G)) ks"
proof (induction rule: system.induct)
  case (act G ks i e es)
  have "list_all (\<lambda>k. set (storedMachines (tkDone k)) \<subseteq> set (storedMachines (G @ [e]))) ks"
    using act.IH by (auto simp: list_all_iff)
  moreover have "set (storedMachines (tkDone (advance (ks ! i)))) \<subseteq> set (storedMachines (G @ [e]))"
    using act by (auto simp: advance_simps list_all_length)
  ultimately show ?case by (rule list_all_update)
qed (auto simp: list_all_iff)

text \<open>A machine that is outstanding for the whole system is so for one of the tasks.\<close>

lemma system_outstanding:
  "system G ks \<Longrightarrow> sid \<in> set (outstanding G) \<Longrightarrow> \<exists>k \<in> set ks. sid \<in> set (outstanding (tkDone k))"
proof (induction rule: system.induct)
  case (act G ks i e es)
  let ?k = "ks ! i"
  have past: "outstanding (tkDone (advance ?k)) = outstandingStep (outstanding (tkDone ?k)) e"
    using act.hyps(4) by (simp add: advance_simps)
  have i: "advance ?k \<in> set (ks[i := advance ?k])" using act.hyps(2) by (simp add: set_update_memI)
  show ?case
  proof (cases "sid \<in> set (allocatedBy e)")
    case True
    then show ?thesis by (intro bexI [OF _ i]) (simp add: past outstandingStep_eq)
  next
    case False
    with act.prems have e: "sid \<notin> set (releasedBy e)" and "sid \<in> set (outstanding G)"
      by (auto simp: outstandingStep_eq)
    with act.IH obtain k where k: "k \<in> set ks" "sid \<in> set (outstanding (tkDone k))" by blast
    then obtain j where j: "j < length ks" "k = ks ! j" by (auto simp: in_set_conv_nth)
    show ?thesis
    proof (cases "j = i")
      case True
      with k j e show ?thesis by (intro bexI [OF _ i]) (simp add: past outstandingStep_eq)
    next
      case False
      with j have "k \<in> set (ks[i := advance ?k])" by (metis length_list_update nth_list_update_neq nth_mem)
      with k show ?thesis by blast
    qed
  qed
next
  case (outside G ks e)
  have "allocatedBy e = []" "releasedBy e = []"
    using outside.hyps(2) by (cases e rule: foreign.cases; simp)+
  with outside show ?case by (simp add: outstandingStep_eq)
qed auto

lemma bookedTask_done:
  "bookedTask E t \<Longrightarrow> sid \<in> set (outstanding t) \<Longrightarrow> recorded t sid \<or> kubeconfigFailed E [] t"
  by (auto simp: bookedTask_def)



end
