(* ===== verification/Fleet_Releases.thy ===== *)
theory Fleet_Releases
  imports Fleet_Books
begin

text \<open>
  When a machine is given back to MaaS: only for an object that is being torn down, or by the activity
  that allocated it and has not stored it.
\<close>

section \<open>Releases of an activity\<close>

definition allocatedIn :: "trace \<Rightarrow> string list" where
  "allocatedIn t = concat (map allocatedBy t)"

lemma allocatedIn_simps [simp]:
  "allocatedIn [] = []" "allocatedIn (e # t) = allocatedBy e @ allocatedIn t"
  "allocatedIn (t @ t') = allocatedIn t @ allocatedIn t'"
  by (simp_all add: allocatedIn_def)

lemma outstanding_allocated: "set (outstanding t) \<subseteq> set (allocatedIn t)"
  by (induction t rule: rev_induct) (auto simp: outstandingStep_eq)

text \<open>The machines that the look-ups of an activity have answered.\<close>

fun shownAt :: "env \<Rightarrow> trace \<Rightarrow> event \<Rightarrow> machine list" where
  "shownAt E t (EGet KMachine k _) = (case envGetMachine E t k of Inl _ \<Rightarrow> [] | Inr m \<Rightarrow> [m])"
| "shownAt E t _ = []"

fun shownIn :: "env \<Rightarrow> trace \<Rightarrow> event list \<Rightarrow> machine list" where
  "shownIn E t [] = []"
| "shownIn E t (e # es) = shownAt E t e @ shownIn E (t @ [e]) es"

lemma shownIn_append: "shownIn E t (es @ es') = shownIn E t es @ shownIn E (t @ es) es'"
  by (induction es arbitrary: t) auto

text \<open>An id may be given back after the events \<open>t\<close> of an activity that was shown the machines \<open>ms\<close>.\<close>

definition tornDown :: "machine list \<Rightarrow> string \<Rightarrow> bool" where
  "tornDown ms sid \<longleftrightarrow> (\<exists>m \<in> set ms. machineSystemId m = sid \<and> machinePhase m = DeletingMachinePhase)"

definition ownFailure :: "trace \<Rightarrow> string \<Rightarrow> bool" where
  "ownFailure t sid \<longleftrightarrow> sid \<in> set (allocatedIn t) \<and> storedMachines t = []"

fun careful :: "env \<Rightarrow> trace \<Rightarrow> event list \<Rightarrow> bool" where
  "careful E t [] \<longleftrightarrow> True"
| "careful E t (e # es) \<longleftrightarrow>
     (\<forall>sid \<in> set (releasedBy e). tornDown (shownIn E [] t @ storedMachines t) sid \<or> ownFailure t sid)
     \<and> careful E (t @ [e]) es"

lemma careful_append: "careful E t (es @ es') \<longleftrightarrow> careful E t es \<and> careful E (t @ es) es'"
  by (induction es arbitrary: t) auto

lemma careful_noRelease: "list_all (\<lambda>e. releasedBy e = []) es \<Longrightarrow> careful E t es"
  by (induction es arbitrary: t) auto

lemma tornDown_more: "tornDown ms sid \<Longrightarrow> set ms \<subseteq> set ms' \<Longrightarrow> tornDown ms' sid"
  by (auto simp: tornDown_def)

lemma careful_tornDown:
  "tornDown (shownIn E [] t @ storedMachines t) sid \<Longrightarrow> list_all (\<lambda>e. set (releasedBy e) \<subseteq> {sid}) es \<Longrightarrow> careful E t es"
proof (induction es arbitrary: t)
  case (Cons e es)
  have "tornDown (shownIn E [] (t @ [e]) @ storedMachines (t @ [e])) sid"
    by (rule tornDown_more [OF Cons.prems(1)]) (auto simp: shownIn_append)
  with Cons show ?case by auto
qed simp

lemma wp_careful_noRelease:
  "emits (\<lambda>e. releasedBy e = []) m \<Longrightarrow> careful E [] t \<Longrightarrow> wp m (\<lambda>_. careful E []) t"
  by (rule wp_mono [OF wp_emits]) (auto simp: careful_append intro: careful_noRelease)

lemma wp_careful_tornDown:
  "emits (\<lambda>e. set (releasedBy e) \<subseteq> {sid}) m \<Longrightarrow> careful E [] t \<Longrightarrow>
     tornDown (shownIn E [] t @ storedMachines t) sid \<Longrightarrow> wp m (\<lambda>_. careful E []) t"
  by (rule wp_mono [OF wp_emits]) (auto simp: careful_append intro: careful_tornDown)

section \<open>The creation\<close>

text \<open>No machine object was stored, and only what was allocated here was given back.\<close>

definition unstored :: "env \<Rightarrow> trace \<Rightarrow> bool" where
  "unstored E t \<longleftrightarrow> careful E [] t \<and> storedMachines t = []"

lemma quiet_unstored: "emits harmless m \<Longrightarrow> unstored E t \<Longrightarrow> wp m (\<lambda>_. unstored E) t"
proof (rule wp_mono [OF wp_emits], assumption, elim exE conjE)
  fix t' es assume t: "unstored E t" "t' = t @ es" "list_all harmless es"
  have "harmless e \<Longrightarrow> releasedBy e = [] \<and> storedBy e = []" for e
    by (cases e rule: harmless.cases) auto
  with t(3) have "list_all (\<lambda>e. releasedBy e = []) es" "storedMachines es = []"
    by (auto simp: list_all_iff storedMachines_def)
  with t(1,2) show "unstored E t'"
    by (simp add: unstored_def careful_append careful_noRelease)
qed

lemma earlySteps_harmless:
  assumes "f \<in> set (earlySteps E)" and "f \<noteq> doMaasCreate E"
  shows "emits harmless (f c)"
proof -
  from assms have "f \<in> {getCluster E, getSecret E, createClientsetFromSecret E, checkIfTokenExists E,
     createToken E, checkApiserverAddress E, prepareMaasRequest E, createKubeconfig E, updateCluster E}"
    by (auto simp: earlySteps_def)
  then show ?thesis
    by (elim insertE emptyE; hypsubst; unfold step_defs world_defs Let_def)
      ((intro safe_intros; simp)+)
qed

lemma allocation_unstored:
  assumes "maasSound E" and "unstored E t"
  shows "wp (doMaasCreate E c) (\<lambda>_. unstored E) t"
  using assms
  by (auto simp: doMaasCreate_def Create_def maasAllocate_def maasStart_def wp_Delete unstored_def careful_append
      ownFailure_def maasSound_def split: sum.split)

text \<open>What is left to the error handler after a failed creation.\<close>

definition ownError :: "(go_error option \<times> machine) go \<Rightarrow> trace \<Rightarrow> bool" where
  "ownError r t \<longleftrightarrow> (\<forall>e m sid e'. r = Returns (Some e, m) \<longrightarrow> errorCause e = ReleaseError sid e' \<longrightarrow> sid \<in> set (allocatedIn t))"

lemma create_ownError:
  assumes "maasSound E" "errorsForeign E"
  shows "wp (create E m) ownError t"
proof -
  have booked: "ownError r t'" if "bookedAfter os m r t'" for os r t'
    unfolding ownError_def
  proof (intro allI impI)
    fix e m' sid e' assume r: "r = Returns (Some e, m')" "errorCause e = ReleaseError sid e'"
    with that have "sid \<in> set (outstanding t')" by (auto simp: asksNoRelease_def)
    then show "sid \<in> set (allocatedIn t')" using outstanding_allocated by blast
  qed
  have leak: "ownError r t'" if "kubeconfigLeak E os m r t'" for os r t'
    using that by (auto simp: ownError_def kubeconfigLeak_def asksNoRelease_def)
  show ?thesis
  proof (cases "isMasterRole (mspRoles (maSpec m))")
    case True
    show ?thesis by (rule wp_mono [OF create_master_law [OF assms True]]) (use booked leak in blast)
  next
    case False
    show ?thesis by (rule wp_mono [OF create_worker_law [OF assms False]]) (rule booked)
  qed
qed

definition carefulCreation :: "env \<Rightarrow> (go_error option \<times> machine) go \<Rightarrow> trace \<Rightarrow> bool" where
  "carefulCreation E r t \<longleftrightarrow> careful E [] t \<and> (\<forall>e m. r = Returns (Some e, m) \<longrightarrow> storedMachines t = [])"

lemma create_careful:
  assumes "maasSound E" "unstored E t"
  shows "wp (create E m) (carefulCreation E) t"
proof -
  let ?b = "isMasterRole (mspRoles (maSpec m))"
  obtain fs where fs: "set fs \<subseteq> set (earlySteps E)"
    and steps: "(if ?b then masterSteps E else workerSteps E) = fs @ [updateMachine E]"
    by (rule create_steps)
  have "wp (runSteps fs (newCreator m ?b)) (\<lambda>_. unstored E) t"
  proof (rule wp_runSteps_inv)
    fix f c t1 assume f: "f \<in> set fs" and t1: "unstored E t1"
    show "wp (f c) (\<lambda>_. unstored E) t1"
    proof (cases "f = doMaasCreate E")
      case False
      with f fs have "emits harmless (f c)" by (intro earlySteps_harmless) auto
      then show ?thesis using t1 by (rule quiet_unstored)
    qed (use allocation_unstored [OF assms(1) t1] in simp)
  qed (rule assms(2))
  moreover have "wp (updateMachine E c) (\<lambda>r. carefulCreation E
      (case r of Panics \<Rightarrow> Panics | Returns c \<Rightarrow> Returns (cErr c, cMachine c))) t1" if "unstored E t1" for c t1
    using that
    by (auto simp: updateMachine_def Let_def world_defs unstored_def carefulCreation_def careful_append
        split: list.split sum.split)
  moreover have "carefulCreation E Panics t1" if "unstored E t1" for t1
    using that by (simp add: unstored_def carefulCreation_def)
  ultimately show ?thesis
    unfolding wp_create steps wp_runSteps_append wp_runSteps_single
    by (elim wp_mono) (auto split: go.split)
qed

section \<open>The other handlers\<close>

lemma handleDelete_releases: "emits (\<lambda>e. set (releasedBy e) \<subseteq> {machineSystemId m}) (handleDelete E m)"
  unfolding handleDelete_def removeNode_def deleteObject_def deleteMachine_def Delete_def Let_def world_defs
  by (intro safe_intros) simp_all

lemma handleWaitingForReady_releases: "emits (\<lambda>e. releasedBy e = []) (handleWaitingForReady E m)"
  unfolding handleWaitingForReady_def waitForNode_def Let_def world_defs by (intro safe_intros) simp_all

lemma handleError_ownFailure:
  assumes "careful E [] t" "storedMachines t = []" "\<And>sid e'. errorCause e = ReleaseError sid e' \<Longrightarrow> sid \<in> set (allocatedIn t)"
  shows "wp (handleError E m e) (\<lambda>_. careful E []) t"
  using assms by (cases "errorCause e")
    (auto simp: handleError_def wp_Delete careful_append ownFailure_def k8sUpdateMachine_def split: sum.split)

lemma handleError_calm_careful: "calm e \<Longrightarrow> careful E [] t \<Longrightarrow> wp (handleError E m e) (\<lambda>_. careful E []) t"
  by (rule wp_careful_noRelease [OF emits_weaken [OF handleError_calm]]) auto

text \<open>A handler followed by the error handler.\<close>

definition carefulEnd :: "env \<Rightarrow> handled \<Rightarrow> trace \<Rightarrow> bool" where
  "carefulEnd E r t \<longleftrightarrow> (case r of Panics \<Rightarrow> careful E [] t
     | Returns (None, m) \<Rightarrow> careful E [] t
     | Returns (Some e, m) \<Rightarrow> wp (handleError E m e) (\<lambda>_. careful E []) t)"

lemma carefulEnd_calm: "careful E [] t \<Longrightarrow> calmRun r \<Longrightarrow> carefulEnd E r t"
  by (auto simp: carefulEnd_def calmRun_def intro: handleError_calm_careful split: go.split option.split)

lemma carefulEnd_created: "carefulCreation E r t \<Longrightarrow> ownError r t \<Longrightarrow> carefulEnd E r t"
  by (auto simp: carefulEnd_def carefulCreation_def ownError_def intro: handleError_ownFailure split: go.split option.split)

lemma handlePhase_careful:
  assumes E: "maasSound E" "errorsForeign E"
    and "machinePhase m = DeletingMachinePhase \<Longrightarrow> careful E [] t \<and> tornDown (shownIn E [] t @ storedMachines t) (machineSystemId m)"
    and "machinePhase m \<noteq> DeletingMachinePhase \<Longrightarrow> unstored E t"
  shows "wp (handlePhase E m) (carefulEnd E) t"
proof -
  have "wp (handleDelete E m) (carefulEnd E) t" if "machinePhase m = DeletingMachinePhase"
  proof -
    have "wp (handleDelete E m) (\<lambda>r t'. careful E [] t' \<and> calmRun r) t"
      unfolding wp_conj using assms(3) [OF that] wp_careful_tornDown [OF handleDelete_releases]
        calm_handleDelete [OF E(2)] by blast
    then show ?thesis by (rule wp_mono) (auto intro: carefulEnd_calm)
  qed
  moreover have "wp (handleWaitingForReady E m) (\<lambda>r. carefulEnd E (Returns r)) t" if "unstored E t"
  proof -
    have "wp (handleWaitingForReady E m) (\<lambda>r t'. careful E [] t' \<and> (\<forall>e. fst r = Some e \<longrightarrow> calm e)) t"
      unfolding wp_conj using that wp_careful_noRelease [OF handleWaitingForReady_releases]
        calm_handleWaitingForReady [OF E(2)] by (auto simp: unstored_def)
    then show ?thesis by (rule wp_mono) (auto simp: calmRun_def intro!: carefulEnd_calm split: option.split)
  qed
  moreover have "wp (create E m) (carefulEnd E) t" if "unstored E t"
  proof -
    have "wp (create E m) (\<lambda>r t'. carefulCreation E r t' \<and> ownError r t') t"
      unfolding wp_conj using create_careful [OF E(1) that] create_ownError [OF E] by blast
    then show ?thesis by (rule wp_mono) (auto intro: carefulEnd_created)
  qed
  moreover have "carefulEnd E (finished m) t" if "unstored E t"
    using that by (simp add: carefulEnd_def unstored_def)
  ultimately show ?thesis
    using assms(4) unfolding handlePhase_def by auto
qed

lemma wp_Reconcile_careful:
  assumes "envGetMachine E [] req = Inr m"
    and "wp (markDeleting E m) (\<lambda>r t1. case r of Inl err \<Rightarrow> careful E [] t1 | Inr m \<Rightarrow> wp (handlePhase E m) (carefulEnd E) t1)
      [EGet KMachine req None]"
  shows "wp (Reconcile E req) (\<lambda>_. careful E []) []"
  using assms(2) unfolding wp_Reconcile
  by (auto simp: assms(1) carefulEnd_def elim!: wp_mono split: sum.splits go.splits option.splits)

lemma careful_machine:
  assumes "soundEnv E"
  shows "wp (Reconcile E req) (\<lambda>_. careful E []) []"
proof (cases "envGetMachine E [] req")
  case (Inl err)
  then show ?thesis by (simp add: Reconcile_def k8sGetMachine_def)
next
  case (Inr m)
  from assms have E: "maasSound E" "errorsForeign E" "storesServed E" by (simp_all add: soundEnv_def)
  let ?t = "[EGet KMachine req None]"
  show ?thesis
  proof (rule wp_Reconcile_careful [OF Inr], cases "\<not> timeIsZero (omDeletionTimestamp (maMeta m)) \<and> machinePhase m \<noteq> DeletingMachinePhase")
    case True
    let ?d = "setMachinePhase DeletingMachinePhase m"
    have "wp (handlePhase E m') (carefulEnd E) (?t @ [EUpdate (OMachine ?d) None])"
      if "envUpdateMachine E ?t ?d = Inr m'" for m'
    proof -
      have "maStatus m' = maStatus ?d" using E(3) that by (auto simp: storesServed_def served_def)
      then show ?thesis by (intro handlePhase_careful [OF E(1,2)]) (auto simp: tornDown_def)
    qed
    with True show "wp (markDeleting E m) (\<lambda>r t1. case r of Inl err \<Rightarrow> careful E [] t1
        | Inr m \<Rightarrow> wp (handlePhase E m) (carefulEnd E) t1) ?t"
      by (auto simp: markDeleting_def k8sUpdateMachine_def split: sum.split)
  next
    case False
    have "wp (handlePhase E m) (carefulEnd E) ?t"
      by (rule handlePhase_careful [OF E(1,2)]) (auto simp: tornDown_def Inr unstored_def)
    with False show "wp (markDeleting E m) (\<lambda>r t1. case r of Inl err \<Rightarrow> careful E [] t1
        | Inr m \<Rightarrow> wp (handlePhase E m) (carefulEnd E) t1) ?t"
      by (auto simp: markDeleting_def)
  qed
qed

lemma harmless_noRelease: "harmless e \<Longrightarrow> releasedBy e = []"
  by (cases e) auto

lemma careful_perform:
  assumes "soundEnv E"
  shows "wp (perform E a) (\<lambda>_. careful E []) []"
proof (cases "\<exists>req. a = ReconcilesMachine req")
  case True
  with careful_machine [OF assms] show ?thesis by auto
next
  case False
  then have "emits (\<lambda>e. releasedBy e = []) (perform E a)"
    by (intro emits_perform) (auto dest: harmless_noRelease)
  then show ?thesis by (rule wp_careful_noRelease) simp
qed

section \<open>Releases of the whole operator\<close>

lemma honest_shown: "honest G E t e \<Longrightarrow> list_all (accepted G) (shownAt E t e)"
  by (cases "(E, t, e)" rule: shownAt.cases) (auto split: sum.splits)

definition acceptedTask :: "trace \<Rightarrow> task \<Rightarrow> bool" where
  "acceptedTask G k \<longleftrightarrow> list_all (accepted G) (shownIn (tkEnv k) [] (tkDone k))
     \<and> set (storedMachines (tkDone k)) \<subseteq> set (storedMachines G)"

lemma acceptedTask_more: "acceptedTask G k \<Longrightarrow> acceptedTask (G @ es) k"
  by (auto simp: acceptedTask_def list_all_iff intro: accepted_more)

lemma system_accepted: "system G ks \<Longrightarrow> list_all (acceptedTask G) ks"
proof (induction rule: system.induct)
  case (act G ks i e es)
  let ?k = "ks ! i"
  have k: "acceptedTask G ?k" using act.IH act.hyps(2) by (simp add: list_all_length)
  have "acceptedTask (G @ [e]) (advance ?k)"
    using k honest_shown [OF act.hyps(5)] act.hyps(4)
    by (auto simp: acceptedTask_def advance_simps shownIn_append list_all_iff intro: accepted_more)
  moreover have "list_all (acceptedTask (G @ [e])) ks"
    using act.IH by (auto simp: list_all_iff intro: acceptedTask_more)
  ultimately show ?case by (intro list_all_update)
next
  case (outside G ks e)
  then show ?case by (auto simp: list_all_iff intro: acceptedTask_more)
qed (auto simp: list_all_iff acceptedTask_def)

text \<open>A task of the list gave back, with the event \<open>e\<close>, what it had allocated itself and not stored.\<close>

definition undoneBy :: "task list \<Rightarrow> event \<Rightarrow> string \<Rightarrow> bool" where
  "undoneBy ks e sid \<longleftrightarrow> (\<exists>k \<in> set ks. \<exists>d. prefix (d @ [e]) (tkDone k) \<and> ownFailure d sid)"

lemma undoneBy_advance:
  assumes "undoneBy ks e sid" and "i < length ks"
  shows "undoneBy (ks[i := advance (ks ! i)]) e sid"
proof -
  from assms(1) obtain k d where k: "k \<in> set ks" "prefix (d @ [e]) (tkDone k)" "ownFailure d sid"
    by (auto simp: undoneBy_def)
  then obtain j where j: "j < length ks" "k = ks ! j" by (auto simp: in_set_conv_nth)
  let ?k = "ks[i := advance (ks ! i)] ! j"
  have "prefix (tkDone (ks ! i)) (tkDone (advance (ks ! i)))"
    by (simp add: advance_def split: list.split)
  with j k(2) have "prefix (d @ [e]) (tkDone ?k)"
    by (cases "j = i") (auto intro: prefix_order.trans)
  moreover have "?k \<in> set (ks[i := advance (ks ! i)])" using j(1) by simp
  ultimately show ?thesis using k(3) unfolding undoneBy_def by blast
qed

lemma undoneBy_more: "undoneBy ks e sid \<Longrightarrow> undoneBy (ks @ ks') e sid" "undoneBy (map killed ks) e sid \<longleftrightarrow> undoneBy ks e sid"
  by (auto simp: undoneBy_def)

definition dueRelease :: "trace \<Rightarrow> task list \<Rightarrow> event \<Rightarrow> bool" where
  "dueRelease p ks e \<longleftrightarrow> (\<forall>sid \<in> set (releasedBy e). tornDown (storedMachines p) sid \<or> undoneBy ks e sid)"

lemma act_due:
  assumes "system G ks" "i < length ks" "tkTodo (ks ! i) = e # es"
  shows "dueRelease G (ks[i := advance (ks ! i)]) e"
proof -
  let ?k = "ks ! i"
  have acc: "acceptedTask G ?k"
    using system_accepted [OF assms(1)] assms(2) by (simp add: list_all_length)
  have "careful (tkEnv ?k) [] (tkRun ?k)"
    using system_runs [OF assms(1), of "\<lambda>E. careful E []"] careful_perform assms(2) by (simp add: list_all_length)
  then have due: "\<forall>sid \<in> set (releasedBy e). tornDown (shownIn (tkEnv ?k) [] (tkDone ?k) @ storedMachines (tkDone ?k)) sid
      \<or> ownFailure (tkDone ?k) sid"
    using assms(3) by (simp add: careful_append)
  have "tornDown (storedMachines G) sid"
    if "tornDown (shownIn (tkEnv ?k) [] (tkDone ?k) @ storedMachines (tkDone ?k)) sid" for sid
    using that acc by (fastforce simp: tornDown_def acceptedTask_def list_all_iff accepted_def served_def)
  moreover have "undoneBy (ks[i := advance ?k]) e sid" if "ownFailure (tkDone ?k) sid" for sid
    unfolding undoneBy_def
    by (rule bexI [where x = "advance ?k"])
      (use that assms in \<open>auto simp: advance_simps set_update_memI\<close>)
  ultimately show ?thesis using due unfolding dueRelease_def by blast
qed

lemma system_releases: "system G ks \<Longrightarrow> G = p @ e # q \<Longrightarrow> dueRelease p ks e"
proof (induction arbitrary: q rule: system.induct)
  case (act G ks i e' es)
  show ?case
  proof (cases q rule: rev_cases)
    case Nil
    with act.prems act_due [OF act.hyps(1,2,4)] show ?thesis by simp
  next
    case (snoc q' x)
    with act.prems have "G = p @ e # q'" by simp
    from act.IH [OF this] act.hyps(2) show ?thesis by (auto simp: dueRelease_def intro: undoneBy_advance)
  qed
next
  case (outside G ks e')
  show ?case
  proof (cases q rule: rev_cases)
    case Nil
    with outside.prems outside.hyps(2) have "releasedBy e = []" by (cases e rule: foreign.cases) auto
    then show ?thesis by (simp add: dueRelease_def)
  next
    case (snoc q' x)
    with outside.prems outside.IH show ?thesis by simp
  qed
qed (auto simp: dueRelease_def undoneBy_more)


text \<open>The worker of the witness is deleted by somebody, and torn down by the operator.\<close>

definition demoDoomed :: machine where
  "demoDoomed = (let m = last (storedMachines demoRun) in
     m\<lparr>maMeta := (maMeta m)\<lparr>omDeletionTimestamp := Some 5\<rparr>\<rparr>)"

definition demoDeletion :: env where
  "demoDeletion = (demoWith demoDoomed)\<lparr>envListClusters := \<lambda>_ _. Inr []\<rparr>"

definition demoEvents :: "event list" where
  "demoEvents = snd (run_state (perform demoDeletion (ReconcilesMachine workerKey)) [])"

lemma demo_life: "system (demoRun @ demoEvents) [demoTask, finishedTask (newTask demoDeletion (ReconcilesMachine workerKey))]"
proof -
  have "storedMachines demoRun \<noteq> []" using demo_stored(2) by auto
  then have "last (storedMachines demoRun) \<in> set (storedMachines demoRun)" by simp
  moreover have "served (last (storedMachines demoRun)) demoDoomed"
    by (simp add: served_def demoDoomed_def Let_def)
  ultimately have "accepted demoRun demoDoomed" by (auto simp: accepted_def)
  then have "alwaysHonest demoRun demoDeletion"
    by (simp add: alwaysHonest_def demoDeletion_def demo_lists)
  moreover have "soundEnv demoDeletion"
    using demoWith_soundEnv [of demoDoomed]
    by (auto simp: demoDeletion_def soundEnv_def maasSound_def errorsForeign_def storesServed_def)
  ultimately show ?thesis
    using system_task [OF demo_system, of demoDeletion "ReconcilesMachine workerKey"]
    by (simp add: demoEvents_def del: perform.simps)
qed

lemma demo_doomed: "machinePhase demoDoomed = ProvisioningMachinePhase" "machineSystemId demoDoomed = ''abc123''"
  "omDeletionTimestamp (maMeta demoDoomed) = Some 5"
  using demo_stored(2) by (auto simp: demoDoomed_def)

lemma demo_events: "\<exists>r u. demoEvents = [EGet KMachine workerKey None,
     EUpdate (OMachine (setMachinePhase DeletingMachinePhase demoDoomed)) None,
     EList KCluster (machineNamespace demoDoomed) None, ERelease [''abc123''] r, u]"
proof -
  let ?P = "\<lambda>t. \<exists>r u. t = [EGet KMachine workerKey None,
     EUpdate (OMachine (setMachinePhase DeletingMachinePhase demoDoomed)) None,
     EList KCluster (machineNamespace demoDoomed) None, ERelease [''abc123''] r, u]"
  have "wp (perform demoDeletion (ReconcilesMachine workerKey)) (\<lambda>_. ?P) []"
    by (simp add: wp_Reconcile markDeleting_def k8sUpdateMachine_def demoDeletion_def demoWith_def handlePhase_def
        handleDelete_def k8sListClusters_def deleteObject_def deleteMachine_def wp_Delete Let_def demo_doomed
        machine_phase_neq [symmetric] split: option.split)
  then show ?thesis by (simp only: demoEvents_def wp_iff)
qed


end
