(* ===== verification/Watches.thy ===== *)
theory Watches
  imports MachineSet_Facts Cluster_Facts
begin

text \<open>
  How the controllers are registered with the manager, and what wakes them: the functions \<open>Add\<close> of the
  four controllers, the handlers of controller-runtime that turn a change of an object into requests, and
  the requests that a change brings.
\<close>

section \<open>Registration\<close>

text \<open>The handlers of \<^verbatim>\<open>sigs.k8s.io/controller-runtime/pkg/handler\<close>: the object itself, its owner (the
  first that controls it, if so wanted) of a kind in a group, or the answers of a function.\<close>

datatype map_function = MachineToMachineSetsFn | ClusterOfMachineFn

datatype watch_handler =
    EnqueueRequestForObject
  | EnqueueRequestForOwner string string bool
  | EnqueueRequestsFromMapFunc map_function

record watch =
  wtController :: string
  wtKind :: obj_kind
  wtHandler :: watch_handler

text \<open>What the manager answers to a new controller and to a watch. The watches are collected.\<close>

record manager =
  mgNew :: "string \<Rightarrow> go_error option"
  mgWatch :: "string \<Rightarrow> obj_kind \<Rightarrow> watch_handler \<Rightarrow> go_error option"

type_synonym 'a registering = "(watch list, 'a) state"

definition newController :: "manager \<Rightarrow> string \<Rightarrow> go_error option registering" where
  "newController mgr name = ret (mgNew mgr name)"

definition addWatch :: "manager \<Rightarrow> string \<Rightarrow> obj_kind \<Rightarrow> watch_handler \<Rightarrow> go_error option registering" where
  "addWatch mgr name kind h = State (\<lambda>ws. case mgWatch mgr name kind h of
       Some err \<Rightarrow> (Some err, ws)
     | None \<Rightarrow> (None, ws @ [\<lparr>wtController = name, wtKind = kind, wtHandler = h\<rparr>]))"

definition clusterGroup :: string where
  "clusterGroup = ''cluster.cnct.sds.samsung.com''"

definition addMachineController :: "manager \<Rightarrow> go_error option registering" where
  "addMachineController mgr = onErrO Some (newController mgr ''machine-controller'') (do {
     err \<leftarrow> addWatch mgr ''machine-controller'' KMachine EnqueueRequestForObject;
     ret err
   })"

definition addMachineSetController :: "manager \<Rightarrow> go_error option registering" where
  "addMachineSetController mgr =
     onErrO Some (newController mgr ''machineset-controller'') (
     onErrO Some (addWatch mgr ''machineset-controller'' KMachineSet EnqueueRequestForObject) (
     onErrO Some (addWatch mgr ''machineset-controller'' KMachine (EnqueueRequestForOwner clusterGroup ''CnctMachineSet'' True)) (
     addWatch mgr ''machineset-controller'' KMachine (EnqueueRequestsFromMapFunc MachineToMachineSetsFn))))"

definition addClusterController :: "manager \<Rightarrow> go_error option registering" where
  "addClusterController mgr =
     onErrO Some (newController mgr ''cluster-controller'') (
     onErrO Some (addWatch mgr ''cluster-controller'' KCluster EnqueueRequestForObject) (do {
       err \<leftarrow> addWatch mgr ''cluster-controller'' KMachine (EnqueueRequestsFromMapFunc ClusterOfMachineFn);
       ret err
     }))"

definition addAppBundleController :: "manager \<Rightarrow> go_error option registering" where
  "addAppBundleController mgr =
     onErrO Some (newController mgr ''appbundle-controller'') (
     onErrO Some (addWatch mgr ''appbundle-controller'' KAppBundle EnqueueRequestForObject) (
     ret None))"

text \<open>The package \<open>controller\<close>: its files append to a list when they are initialised, in the order of their
  names. No file appends to the list of webhooks.\<close>

type_synonym registry = "(manager \<Rightarrow> go_error option registering) list"

definition initAppBundle :: "registry \<Rightarrow> registry" where
  "initAppBundle AddToManagerFuncs = AddToManagerFuncs @ [addAppBundleController]"

definition initCluster :: "registry \<Rightarrow> registry" where
  "initCluster AddToManagerFuncs = AddToManagerFuncs @ [addClusterController]"

definition initMachineSet :: "registry \<Rightarrow> registry" where
  "initMachineSet AddToManagerFuncs = AddToManagerFuncs @ [addMachineSetController]"

definition AddToManagerFuncs :: registry where
  "AddToManagerFuncs = initMachineSet (initCluster (initAppBundle []))"

definition WebhookAddToManagerFuncs :: registry where
  "WebhookAddToManagerFuncs = []"

fun AddToManager :: "registry \<Rightarrow> manager \<Rightarrow> go_error option registering" where
  "AddToManager [] m = ret None"
| "AddToManager (f # fs) m = onErrO Some (f m) (AddToManager fs m)"

text \<open>All watches of the operator.\<close>

definition operatorWatches :: "watch list" where
  "operatorWatches = [
     \<lparr>wtController = ''appbundle-controller'', wtKind = KAppBundle, wtHandler = EnqueueRequestForObject\<rparr>,
     \<lparr>wtController = ''cluster-controller'', wtKind = KCluster, wtHandler = EnqueueRequestForObject\<rparr>,
     \<lparr>wtController = ''cluster-controller'', wtKind = KMachine, wtHandler = EnqueueRequestsFromMapFunc ClusterOfMachineFn\<rparr>,
     \<lparr>wtController = ''machineset-controller'', wtKind = KMachineSet, wtHandler = EnqueueRequestForObject\<rparr>,
     \<lparr>wtController = ''machineset-controller'', wtKind = KMachine,
       wtHandler = EnqueueRequestForOwner clusterGroup ''CnctMachineSet'' True\<rparr>,
     \<lparr>wtController = ''machineset-controller'', wtKind = KMachine,
       wtHandler = EnqueueRequestsFromMapFunc MachineToMachineSetsFn\<rparr>,
     \<lparr>wtController = ''machine-controller'', wtKind = KMachine, wtHandler = EnqueueRequestForObject\<rparr>]"

lemma wp_addWatch [simp]:
  "wp (addWatch mgr name kind h) Q ws \<longleftrightarrow> (case mgWatch mgr name kind h of Some err \<Rightarrow> Q (Some err) ws
     | None \<Rightarrow> Q None (ws @ [\<lparr>wtController = name, wtKind = kind, wtHandler = h\<rparr>]))"
  by (simp add: wp_def addWatch_def split: option.split)

lemma wp_newController [simp]: "wp (newController mgr name) Q = Q (mgNew mgr name)"
  by (simp add: newController_def)

text \<open>The controllers of the package, then that of the machines: without an error all watches are there.\<close>

lemma all_watches:
  "wp (onErrO Some (AddToManager AddToManagerFuncs mgr) (addMachineController mgr))
     (\<lambda>r ws. r = None \<longrightarrow> ws = operatorWatches) []"
  by (auto simp: AddToManagerFuncs_def initAppBundle_def initCluster_def initMachineSet_def addAppBundleController_def addClusterController_def addMachineSetController_def
      addMachineController_def operatorWatches_def split: option.split)

text \<open>The registration of all controllers, in the order of the start.\<close>

definition registers :: "manager \<Rightarrow> watch list \<Rightarrow> bool" where
  "registers mgr ws \<longleftrightarrow>
     run_state (onErrO Some (AddToManager AddToManagerFuncs mgr) (addMachineController mgr)) [] = (None, ws)"

lemma registers_watches: "registers mgr ws \<Longrightarrow> ws = operatorWatches"
  using wp_run [OF all_watches] by (auto simp: registers_def)

definition willing :: manager where
  "willing = \<lparr>mgNew = \<lambda>_. None, mgWatch = \<lambda>_ _ _. None\<rparr>"

lemma willing_registers: "registers willing operatorWatches"
  by (simp add: registers_def willing_def AddToManagerFuncs_def initAppBundle_def initCluster_def initMachineSet_def
      addAppBundleController_def addClusterController_def addMachineSetController_def addMachineController_def
      operatorWatches_def addWatch_def newController_def onErrO_def)

section \<open>From changes to requests\<close>

datatype change = Added obj | Changed obj obj | Removed obj

fun kindOf :: "obj \<Rightarrow> obj_kind" where
  "kindOf (OMachine _) = KMachine"
| "kindOf (OCluster _) = KCluster"
| "kindOf (OMachineSet _) = KMachineSet"
| "kindOf (OAppBundle _) = KAppBundle"
| "kindOf (OSecret _) = KSecret"
| "kindOf (ONamespace _) = KNamespace"

fun metaOf :: "obj \<Rightarrow> object_meta" where
  "metaOf (OMachine m) = maMeta m"
| "metaOf (OCluster c) = clMeta c"
| "metaOf (OMachineSet s) = msMeta s"
| "metaOf (OAppBundle a) = abMeta a"
| "metaOf (OSecret s) = zero_object_meta\<lparr>omName := secName s, omNamespace := secNamespace s\<rparr>"
| "metaOf (ONamespace n) = zero_object_meta\<lparr>omName := n\<rparr>"

definition keyOf :: "object_meta \<Rightarrow> object_key" where
  "keyOf om = objectKey (omNamespace om) (omName om)"

text \<open>\<open>schema.ParseGroupVersion\<close>, of which only the group is used.\<close>

definition groupOf :: "string \<Rightarrow> string option" where
  "groupOf gv = (case splitOn CHR ''/'' gv of
       [version] \<Rightarrow> Some ''''
     | [grp, version] \<Rightarrow> Some grp
     | _ \<Rightarrow> None)"

fun ownerLoop :: "string \<Rightarrow> string \<Rightarrow> string \<Rightarrow> owner_reference list \<Rightarrow> object_key list \<Rightarrow> object_key list" where
  "ownerLoop grp kind ns [] result = result"
| "ownerLoop grp kind ns (ref # refs) result = (case groupOf (refAPIVersion ref) of
       None \<Rightarrow> []
     | Some refGroup \<Rightarrow>
         if refKind ref = kind \<and> refGroup = grp
         then ownerLoop grp kind ns refs (result @ [objectKey ns (refName ref)])
         else ownerLoop grp kind ns refs result)"

definition getOwnersReferences :: "bool \<Rightarrow> object_meta \<Rightarrow> owner_reference list" where
  "getOwnersReferences isController om =
     (if \<not> isController then omOwnerReferences om
      else case getControllerOf om of Some ref \<Rightarrow> [ref] | None \<Rightarrow> [])"

definition getOwnerReconcileRequest :: "string \<Rightarrow> string \<Rightarrow> bool \<Rightarrow> object_meta \<Rightarrow> object_key list" where
  "getOwnerReconcileRequest grp kind isController om =
     ownerLoop grp kind (omNamespace om) (getOwnersReferences isController om) []"

fun mapObject :: "env \<Rightarrow> map_function \<Rightarrow> object_meta \<Rightarrow> object_key list io" where
  "mapObject E MachineToMachineSetsFn om = MachineToMachineSets E (keyOf om)"
| "mapObject E ClusterOfMachineFn om = clusterOfMachine E (omNamespace om)"

fun handlerRequests :: "env \<Rightarrow> watch_handler \<Rightarrow> object_meta \<Rightarrow> object_key list io" where
  "handlerRequests E EnqueueRequestForObject om = ret [keyOf om]"
| "handlerRequests E (EnqueueRequestForOwner grp kind isController) om =
     ret (getOwnerReconcileRequest grp kind isController om)"
| "handlerRequests E (EnqueueRequestsFromMapFunc f) om = mapObject E f om"

text \<open>The versions of the object that an event carries: an update has two.\<close>

fun versions :: "change \<Rightarrow> obj list" where
  "versions (Added ob) = [ob]"
| "versions (Changed old new) = [old, new]"
| "versions (Removed ob) = [ob]"

fun handleVersions :: "env \<Rightarrow> watch_handler \<Rightarrow> obj list \<Rightarrow> object_key list io" where
  "handleVersions E h [] = ret []"
| "handleVersions E h (ob # obs) = do {
     keys \<leftarrow> handlerRequests E h (metaOf ob);
     rest \<leftarrow> handleVersions E h obs;
     ret (keys @ rest)
   }"

text \<open>The requests a change puts into the queues of the controllers, by the name of the controller.\<close>

fun dispatch :: "env \<Rightarrow> watch list \<Rightarrow> change \<Rightarrow> (string \<times> object_key) list io" where
  "dispatch E [] ch = ret []"
| "dispatch E (w # ws) ch =
     (if kindOf (hd (versions ch)) = wtKind w then do {
        keys \<leftarrow> handleVersions E (wtHandler w) (versions ch);
        rest \<leftarrow> dispatch E ws ch;
        ret (map (Pair (wtController w)) keys @ rest)
      } else dispatch E ws ch)"

section \<open>No lost wake-ups\<close>

text \<open>If the handlers of the watches give at least the requests \<open>K\<close> for each version, so does the dispatch.\<close>

lemma wp_handleVersions:
  assumes "\<And>ob t. ob \<in> set obs \<Longrightarrow>
      wp (handlerRequests E h (metaOf ob)) (\<lambda>ks t'. writes t' = writes t \<and> K ob \<subseteq> set ks) t"
  shows "wp (handleVersions E h obs) (\<lambda>ks t'. writes t' = writes t \<and> (\<forall>ob \<in> set obs. K ob \<subseteq> set ks)) t"
  using assms
proof (induction obs arbitrary: t)
  case (Cons ob obs)
  have rest: "wp (handleVersions E h obs) (\<lambda>ks t'. writes t' = writes t1 \<and> (\<forall>ob \<in> set obs. K ob \<subseteq> set ks)) t1" for t1
    using Cons by simp
  show ?case
    by simp (rule wp_mono [OF Cons.prems], simp, rule wp_mono [OF rest], auto)
qed simp

lemma wp_dispatch:
  assumes "\<And>w ob t. w \<in> set ws \<Longrightarrow> wtKind w = kindOf (hd (versions ch)) \<Longrightarrow> ob \<in> set (versions ch) \<Longrightarrow>
      wp (handlerRequests E (wtHandler w) (metaOf ob)) (\<lambda>ks t'. writes t' = writes t \<and> K w ob \<subseteq> set ks) t"
  shows "wp (dispatch E ws ch) (\<lambda>r t'. writes t' = writes t \<and> (\<forall>w \<in> set ws. wtKind w = kindOf (hd (versions ch)) \<longrightarrow>
      (\<forall>ob \<in> set (versions ch). Pair (wtController w) ` K w ob \<subseteq> set r))) t"
  using assms
proof (induction ws arbitrary: t)
  case (Cons w ws)
  have rest: "wp (dispatch E ws ch) (\<lambda>r t'. writes t' = writes t1 \<and> (\<forall>w \<in> set ws. wtKind w = kindOf (hd (versions ch)) \<longrightarrow>
      (\<forall>ob \<in> set (versions ch). Pair (wtController w) ` K w ob \<subseteq> set r))) t1" for t1
    using Cons by simp
  show ?case
  proof (cases "wtKind w = kindOf (hd (versions ch))")
    case True
    have own: "wp (handleVersions E (wtHandler w) (versions ch))
        (\<lambda>ks t'. writes t' = writes t \<and> (\<forall>ob \<in> set (versions ch). K w ob \<subseteq> set ks)) t"
      using Cons.prems True by (intro wp_handleVersions) simp
    show ?thesis
      using True by simp (rule wp_mono [OF own], rule wp_mono [OF rest], fastforce)
  next
    case False
    with rest show ?thesis by (auto elim!: wp_mono)
  qed
qed simp

text \<open>A group is the part of the API version before the slash.\<close>

lemma groupOf_SchemeGroupVersion: "groupOf SchemeGroupVersion = Some clusterGroup"
  by (simp add: groupOf_def SchemeGroupVersion_def clusterGroup_def)

lemma owner_request:
  "getControllerOf om = Some (machineSetRef ms) \<Longrightarrow>
     getOwnerReconcileRequest clusterGroup ''CnctMachineSet'' True om = [objectKey (omNamespace om) (machineSetName ms)]"
  by (simp add: getOwnerReconcileRequest_def getOwnersReferences_def machineSetRef_def newControllerRef_def
      groupOf_SchemeGroupVersion)

text \<open>Who has to look at a machine: its own controller, the machine set that controls it, the machine sets
  that could adopt it, and the cluster of its namespace.\<close>

definition interested :: "env \<Rightarrow> machine \<Rightarrow> machineset list \<Rightarrow> cluster list \<Rightarrow> (string \<times> object_key) set" where
  "interested E m mss cs = {(''machine-controller'', keyOf (maMeta m))}
     \<union> {(''machineset-controller'', objectKey (machineNamespace m) (machineSetName ms)) | ms.
          getControllerOf (maMeta m) = Some (machineSetRef ms)}
     \<union> {(''machineset-controller'', keyOf (msMeta ms)) | ms. ms \<in> set mss \<and> \<not> shouldExcludeMachine E ms m
          \<and> getControllerOf (maMeta m) = None \<and> omLabels (maMeta m) \<noteq> []}
     \<union> (case cs of [] \<Rightarrow> {} | c # _ \<Rightarrow> {(''cluster-controller'', keyOf (clMeta c))})"

fun keysOf :: "env \<Rightarrow> machine \<Rightarrow> machineset list \<Rightarrow> cluster list \<Rightarrow> watch_handler \<Rightarrow> object_key set" where
  "keysOf E m mss cs EnqueueRequestForObject = {keyOf (maMeta m)}"
| "keysOf E m mss cs (EnqueueRequestForOwner grp kind isController) = set (getOwnerReconcileRequest grp kind isController (maMeta m))"
| "keysOf E m mss cs (EnqueueRequestsFromMapFunc MachineToMachineSetsFn) = {keyOf (msMeta ms) | ms. ms \<in> set mss
     \<and> \<not> shouldExcludeMachine E ms m \<and> getControllerOf (maMeta m) = None \<and> omLabels (maMeta m) \<noteq> []}"
| "keysOf E m mss cs (EnqueueRequestsFromMapFunc ClusterOfMachineFn) = (case cs of [] \<Rightarrow> {} | c # _ \<Rightarrow> {keyOf (clMeta c)})"

lemma MachineToMachineSets_law:
  assumes "envGetMachine E t k = Inr m" and "\<And>t'. envListMachineSets E t' (machineNamespace m) = Inr mss"
  shows "wp (MachineToMachineSets E k) (\<lambda>r t'. writes t' = writes t
     \<and> (\<forall>ms \<in> set mss. getControllerOf (maMeta m) = None \<and> omLabels (maMeta m) \<noteq> [] \<and> \<not> shouldExcludeMachine E ms m
        \<longrightarrow> keyOf (msMeta ms) \<in> set r)) t"
  using assms
  by (auto simp: MachineToMachineSets_def getMachineSetsForMachine_def k8sGetMachine_def k8sListMachineSets_def
      controller_ref_ex not_excluded_iff keyOf_def)

lemma handlers_quiet: "emits (\<lambda>e. \<not> isWrite e) (handlerRequests E h om)"
proof (cases h)
  case (EnqueueRequestsFromMapFunc f)
  then show ?thesis
    by (cases f)
      (auto simp: MachineToMachineSets_def getMachineSetsForMachine_def clusterOfMachine_def world_defs intro!: safe_intros)
qed simp_all

lemma handlerRequests_keys:
  assumes "\<And>t'. envGetMachine E t' (keyOf (maMeta m)) = Inr m" and "\<And>t'. envListMachineSets E t' (machineNamespace m) = Inr mss"
    and "\<And>t'. envListClusters E t' (machineNamespace m) = Inr cs"
  shows "wp (handlerRequests E h (maMeta m)) (\<lambda>ks t'. writes t' = writes t \<and> keysOf E m mss cs h \<subseteq> set ks) t"
proof (cases h)
  case (EnqueueRequestsFromMapFunc f)
  show ?thesis
  proof (cases f)
    case MachineToMachineSetsFn
    with EnqueueRequestsFromMapFunc show ?thesis
      by simp (rule wp_mono [OF MachineToMachineSets_law [OF assms(1,2)]], auto)
  next
    case ClusterOfMachineFn
    with EnqueueRequestsFromMapFunc assms(3) show ?thesis
      by (auto simp: clusterOfMachine_def k8sListClusters_def keyOf_def split: list.split)
  qed
qed simp_all

lemma dispatch_interested:
  assumes "\<And>t'. envGetMachine E t' (keyOf (maMeta m)) = Inr m" and "\<And>t'. envListMachineSets E t' (machineNamespace m) = Inr mss"
    and "\<And>t'. envListClusters E t' (machineNamespace m) = Inr cs"
    and "OMachine m \<in> set (versions ch)" and "list_all (\<lambda>ob. kindOf ob = KMachine) (versions ch)"
  shows "wp (dispatch E operatorWatches ch) (\<lambda>r t'. writes t' = writes t \<and> interested E m mss cs \<subseteq> set r) t"
proof -
  let ?K = "\<lambda>w ob. if ob = OMachine m then keysOf E m mss cs (wtHandler w) else {}"
  have kind: "kindOf (hd (versions ch)) = KMachine"
    using assms(5) by (cases ch) simp_all
  have "wp (dispatch E operatorWatches ch) (\<lambda>r t'. writes t' = writes t \<and> (\<forall>w \<in> set operatorWatches.
      wtKind w = kindOf (hd (versions ch)) \<longrightarrow> (\<forall>ob \<in> set (versions ch). Pair (wtController w) ` ?K w ob \<subseteq> set r))) t"
  proof (rule wp_dispatch)
    fix w ob t1
    show "wp (handlerRequests E (wtHandler w) (metaOf ob)) (\<lambda>ks t'. writes t' = writes t1 \<and> ?K w ob \<subseteq> set ks) t1"
    proof (cases "ob = OMachine m")
      case True
      with handlerRequests_keys [OF assms(1-3)] show ?thesis by simp
    next
      case False
      with handlers_quiet show ?thesis by (auto intro: wp_noWrites)
    qed
  qed
  then show ?thesis
  proof (rule wp_mono, elim conjE, intro conjI)
    fix r t'
    assume all: "\<forall>w \<in> set operatorWatches. wtKind w = kindOf (hd (versions ch)) \<longrightarrow>
        (\<forall>ob \<in> set (versions ch). Pair (wtController w) ` ?K w ob \<subseteq> set r)"
    have keys: "Pair (wtController w) ` keysOf E m mss cs (wtHandler w) \<subseteq> set r"
      if "w \<in> set operatorWatches" "wtKind w = KMachine" for w
      using all that assms(4) kind by fastforce
    show "interested E m mss cs \<subseteq> set r"
      using keys [of "operatorWatches ! 2"] keys [of "operatorWatches ! 4"] keys [of "operatorWatches ! 5"]
        keys [of "operatorWatches ! 6"] owner_request [of "maMeta m"]
      by (auto simp: interested_def operatorWatches_def image_subset_iff Ball_def split: list.splits)
  qed
qed

text \<open>C28: No wake-up is lost: whenever a machine appears, changes or disappears, the requests that the watches
  registered at the start make of the event cover everybody who has to look at it: the machine controller for the
  machine itself, the machine set that controls it, each machine set that may adopt it as an orphan with
  labels, and the cluster of its namespace; and making them writes nothing.\<close>

theorem changed_machine_wakes:
  assumes "registers mgr ws"
    and "\<And>t'. envGetMachine E t' (keyOf (maMeta m)) = Inr m" and "\<And>t'. envListMachineSets E t' (machineNamespace m) = Inr mss"
    and "\<And>t'. envListClusters E t' (machineNamespace m) = Inr cs"
    and "OMachine m \<in> set (versions ch)" and "list_all (\<lambda>ob. kindOf ob = KMachine) (versions ch)"
  shows "wp (dispatch E ws ch) (\<lambda>r t'. writes t' = writes t \<and> interested E m mss cs \<subseteq> set r) t"
  using dispatch_interested [OF assms(2-6)] registers_watches [OF assms(1)] by simp

definition wakingEnv :: env where
  "wakingEnv = wakeEnv\<lparr>envListClusters := \<lambda>_ _. Inr [newCluster]\<rparr>"

theorem changed_machine_wakes_witness:
  "wp (dispatch wakingEnv operatorWatches (Changed (OMachine zero_machine) (OMachine poolWorker)))
     (\<lambda>r t'. writes t' = [] \<and> {(''machine-controller'', keyOf (maMeta poolWorker)),
        (''cluster-controller'', objectKey ''ns'' ''c'')} \<subseteq> set r) []"
proof (rule wp_mono [OF changed_machine_wakes [OF willing_registers]])
  show "envGetMachine wakingEnv t' (keyOf (maMeta poolWorker)) = Inr poolWorker" for t'
    by (simp add: wakingEnv_def wakeEnv_def)
  show "envListMachineSets wakingEnv t' (machineNamespace poolWorker)
      = Inr [workerPool [(''node-pool'', ''pool'')] 1]" for t'
    by (simp add: wakingEnv_def wakeEnv_def)
  show "envListClusters wakingEnv t' (machineNamespace poolWorker) = Inr [newCluster]" for t'
    by (simp add: wakingEnv_def)
qed (auto simp: interested_def keyOf_def)

text \<open>C34: A change of a cluster wakes only the cluster controller for that cluster: no watch leads from a
  cluster to its machines or machine sets, so that a new version of a cluster, the one thing that an upgrade
  stores, wakes nobody who would upgrade a machine.\<close>

theorem changed_cluster_wakes_itself:
  assumes "registers mgr ws" and "list_all (\<lambda>ob. kindOf ob = KCluster) (versions ch)"
  shows "run_state (dispatch E ws ch) t = (map (\<lambda>ob. (''cluster-controller'', keyOf (metaOf ob))) (versions ch), t)"
  using assms(2) registers_watches [OF assms(1)] by (cases ch) (simp_all add: operatorWatches_def)

theorem changed_cluster_wakes_itself_witness:
  "run_state (dispatch offline operatorWatches (Changed (OCluster newCluster)
       (OCluster (newCluster\<lparr>clKubernetesVersion := ''1.13.5''\<rparr>)))) []
     = ([(''cluster-controller'', objectKey ''ns'' ''c''), (''cluster-controller'', objectKey ''ns'' ''c'')], [])"
  by (subst changed_cluster_wakes_itself [OF willing_registers]) (simp_all add: keyOf_def)

end
