(* ===== verification/Startup.thy ===== *)
theory Startup
  imports Ensure Maas Watches
begin

text \<open>
  \<^verbatim>\<open>cmd/cma-ssh/cmd/root.go\<close>: the start of the operator. Before the manager is set up, it makes sure
  that its four custom resource definitions are installed. The files are embedded in the binary;
  opening, decoding and storing them are answers of the environment. The results of the libraries
  that the rest of the start-up calls are the record \<open>platform\<close>.
\<close>

section \<open>Custom resource definitions\<close>

definition createCRD :: "env \<Rightarrow> string \<Rightarrow> go_error option io" where
  "createCRD E file = (case envCrdFile E file of
       Inl err \<Rightarrow> ret (Some err)
     | Inr f \<Rightarrow> (case envDecodeCrd E f of
           Inl err \<Rightarrow> ret (Some err)
         | Inr newCrd \<Rightarrow> crdCreate E newCrd))"

text \<open>One of the four blocks of the function: look the definition up, create it if it is not found.\<close>

definition ensureCrd :: "env \<Rightarrow> string \<times> string \<Rightarrow> go_error option io" where
  "ensureCrd E crd = do {
     err \<leftarrow> crdGet E (fst crd);
     case err of
       None \<Rightarrow> ret None
     | Some e \<Rightarrow> if isNotFound e then createCRD E (snd crd) else ret (Some e)
   }"

definition operatorCrds :: "(string \<times> string) list" where
  "operatorCrds = [
     (''cnctclusters.cluster.cnct.sds.samsung.com'', ''/cluster_v1alpha1_cnctcluster.yaml''),
     (''cnctmachines.cluster.cnct.sds.samsung.com'', ''/cluster_v1alpha1_cnctmachine.yaml''),
     (''cnctmachinesets.cluster.cnct.sds.samsung.com'', ''/cluster_v1alpha1_cnctmachineset.yaml''),
     (''appbundles.addons.cnct.sds.samsung.com'', ''/addons_v1alpha1_appbundle.yaml'')]"

definition installCrdsIfNotFound :: "env \<Rightarrow> go_error option io" where
  "installCrdsIfNotFound E = (case envCrdClient E of
       Some err \<Rightarrow> ret (Some err)
     | None \<Rightarrow>
         onErrO Some (ensureCrd E (operatorCrds ! 0)) (
         onErrO Some (ensureCrd E (operatorCrds ! 1)) (
         onErrO Some (ensureCrd E (operatorCrds ! 2)) (
         onErrO Some (ensureCrd E (operatorCrds ! 3)) (
         ret None)))))"

section \<open>The start of the operator\<close>

record platform =
  plConfig :: "go_error option"
  plManager :: "go_error option"
  plScheme :: "go_error option"
  plRegistry :: manager
  plSetting :: "string \<Rightarrow> string"
  plMaas :: "string \<Rightarrow> string \<Rightarrow> go_error + unit"
  plPort :: "go_error + int"
  plListen :: "int \<Rightarrow> go_error option"

text \<open>The operator exits with a code, panics, or serves on a port and runs the manager with its watches.\<close>

datatype operation = Exited nat | Serving int "watch list"

abbreviation exits :: "operation go io" where "exits \<equiv> ret (Returns (Exited 1))"

definition createWebServer :: "platform \<Rightarrow> int \<Rightarrow> watch list \<Rightarrow> operation go" where
  "createWebServer pl portNumber ws =
     (case plListen pl portNumber of Some err \<Rightarrow> Panics | None \<Rightarrow> Returns (Serving portNumber ws))"

definition operator :: "env \<Rightarrow> platform \<Rightarrow> operation go io" where
  "operator E pl =
     (if plConfig pl \<noteq> None then exits
      else onErrO (\<lambda>err. Returns (Exited 1)) (installCrdsIfNotFound E)
       (if plManager pl \<noteq> None then exits
        else if plScheme pl \<noteq> None then exits
        else case run_state (AddToManager AddToManagerFuncs (plRegistry pl)) [] of (err, ws) \<Rightarrow>
        if err \<noteq> None then exits
        else case NewClient (plMaas pl) \<lparr>npApiURL = plSetting pl ''api_url'', npApiVersion = plSetting pl ''api_version'',
            npApiKey = plSetting pl ''api_key''\<rparr> of
          Inl err \<Rightarrow> exits
        | Inr maasClient \<Rightarrow>
            (case run_state (addMachineController (plRegistry pl)) ws of (err, ws) \<Rightarrow>
             if err \<noteq> None then exits
             else case run_state (AddToManager WebhookAddToManagerFuncs (plRegistry pl)) ws of (err, ws) \<Rightarrow>
             if err \<noteq> None then exits
             else ret (createWebServer pl (case plPort pl of Inl err \<Rightarrow> 0 | Inr portNumber \<Rightarrow> portNumber) ws))))"

section \<open>What is installed\<close>

text \<open>The definition that an embedded file holds.\<close>

definition crdInFile :: "env \<Rightarrow> string \<Rightarrow> string" where
  "crdInFile E file = (case envCrdFile E file of Inl _ \<Rightarrow> '''' | Inr f \<Rightarrow> (case envDecodeCrd E f of Inl _ \<Rightarrow> '''' | Inr crd \<Rightarrow> crd))"

abbreviation asksCrd :: "string \<times> string \<Rightarrow> go_error option \<Rightarrow> event" where
  "asksCrd crd \<equiv> EGetCrd (fst crd)"

abbreviation makesCrd :: "env \<Rightarrow> string \<times> string \<Rightarrow> go_error option \<Rightarrow> event" where
  "makesCrd E crd \<equiv> ECreateCrd (crdInFile E (snd crd))"

interpretation crds: ensurer "ensureCrd E" asksCrd "makesCrd E" for E
  by unfold_locales
    (auto simp: ensureCrd_def createCRD_def crdInFile_def crdGet_def crdCreate_def split: option.split sum.split
      intro: ensures_rules)

lemma installCrds_ensureAll:
  "installCrdsIfNotFound E = (case envCrdClient E of Some err \<Rightarrow> ret (Some err)
     | None \<Rightarrow> ensureAll (ensureCrd E) (\<lambda>_ err. err) operatorCrds)"
  by (simp add: installCrdsIfNotFound_def operatorCrds_def comp_def eval_nat_numeral split: option.split)

text \<open>Each definition was found in the API server or created there from its file; none was created that
  was not looked up and not found, and without a client nothing was asked.\<close>

lemma crds_installed:
  "wp (installCrdsIfNotFound E) (\<lambda>r t'. \<exists>es. t' = t @ es \<and> (case envCrdClient E of
       Some err \<Rightarrow> r = Some err \<and> es = []
     | None \<Rightarrow> ensuredAll asksCrd (makesCrd E) operatorCrds r es)) t"
  by (auto simp: installCrds_ensureAll crds.wp_ensureAll split: option.split)

definition registered :: "platform \<Rightarrow> bool" where
  "registered pl \<longleftrightarrow> plMaas pl (plSetting pl ''api_url'') (plSetting pl ''api_key'') = Inr ()
     \<and> registers (plRegistry pl) operatorWatches"

lemma registered_all:
  assumes "run_state (AddToManager AddToManagerFuncs mgr) [] = (None, ws1)" and "run_state (addMachineController mgr) ws1 = (None, ws)"
  shows "registers mgr ws" and "ws = operatorWatches"
proof -
  show reg: "registers mgr ws"
    using assms by (simp add: registers_def onErrO_def)
  show "ws = operatorWatches" by (rule registers_watches [OF reg])
qed


end
