(* ===== verification/Frontend.thy ===== *)
theory Frontend
  imports Api_Server
begin

text \<open>
  The parts of the program a user meets beside the cluster service: the version of the build
  (\<^verbatim>\<open>pkg/version\<close>, the command \<open>version\<close>, the handler \<open>GetVersionInformation\<close>), and the routes of the
  HTTP server (\<^verbatim>\<open>pkg/ui/website/website.go\<close>, \<^verbatim>\<open>pkg/apiserver\<close>).
\<close>

section \<open>The version\<close>

record version_info =
  viVersion :: string
  viGitCommit :: string
  viBuildDate :: string
  viGoVersion :: string
  viCompiler :: string
  viPlatform :: string

text \<open>The variables of the package, which the linker may set, and the commands run so far. What the shell
  prints for a command, also when it fails, depends on the commands before it.\<close>

record version_state =
  vsVersion :: string
  vsGitCommit :: string
  vsBuildDate :: string
  vsRan :: "string list"

record go_runtime =
  grVersion :: string
  grCompiler :: string
  grOS :: string
  grArch :: string

type_synonym shell = "string list \<Rightarrow> string \<Rightarrow> string"

text \<open>\<open>strings.TrimSpace\<close>, on the ASCII output of the two commands.\<close>

definition isSpace :: "char \<Rightarrow> bool" where
  "isSpace c \<longleftrightarrow> c \<in> {CHR '' '', CHR 0x09, CHR 0x0A, CHR 0x0B, CHR 0x0C, CHR 0x0D}"

definition trimSpace :: "string \<Rightarrow> string" where
  "trimSpace s = rev (dropWhile isSpace (rev (dropWhile isSpace s)))"

definition runCommand :: "shell \<Rightarrow> string \<Rightarrow> (version_state, string) state" where
  "runCommand sh cmd = State (\<lambda>s. (sh (vsRan s) cmd, s\<lparr>vsRan := vsRan s @ [cmd]\<rparr>))"

definition readState :: "('s, 's) state" where
  "readState = State (\<lambda>s. (s, s))"

definition changeState :: "('s \<Rightarrow> 's) \<Rightarrow> ('s, unit) state" where
  "changeState f = State (\<lambda>s. ((), f s))"

definition GetVersion :: "shell \<Rightarrow> go_runtime \<Rightarrow> (version_state, version_info) state" where
  "GetVersion sh rt = do {
     s \<leftarrow> readState;
     _ \<leftarrow> (if vsGitCommit s = '''' then do {
            gitCommitTemp \<leftarrow> runCommand sh ''git rev-parse HEAD'';
            changeState (\<lambda>s. s\<lparr>vsGitCommit := trimSpace gitCommitTemp\<rparr>)
          } else ret ());
     _ \<leftarrow> (if vsVersion s = '''' then do {
            versionTemp \<leftarrow> runCommand sh ''cat .versionfile'';
            changeState (\<lambda>s. s\<lparr>vsVersion := trimSpace versionTemp\<rparr>)
          } else ret ());
     s \<leftarrow> readState;
     ret \<lparr>viVersion = vsVersion s, viGitCommit = vsGitCommit s, viBuildDate = vsBuildDate s,
       viGoVersion = grVersion rt, viCompiler = grCompiler rt, viPlatform = grOS rt @ ''/'' @ grArch rt\<rparr>
   }"

text \<open>The reply of the handler, without its \<open>Ok\<close>, which is true: the fields of the message it sets, and
  the two it leaves empty.\<close>

record version_reply =
  vrGitVersion :: string
  vrGitCommit :: string
  vrGitTreeState :: string
  vrBuildDate :: string
  vrGoVersion :: string
  vrCompiler :: string
  vrPlatform :: string

definition GetVersionInformation :: "shell \<Rightarrow> go_runtime \<Rightarrow> (version_state, bool \<times> version_reply) state" where
  "GetVersionInformation sh rt = do {
     versionInformation \<leftarrow> GetVersion sh rt;
     ret (True, \<lparr>vrGitVersion = '''', vrGitCommit = viGitCommit versionInformation, vrGitTreeState = '''',
       vrBuildDate = viBuildDate versionInformation, vrGoVersion = viGoVersion versionInformation,
       vrCompiler = viCompiler versionInformation, vrPlatform = viPlatform versionInformation\<rparr>)
   }"

text \<open>The command prints JSON, by the library's encoder, or lines of text.\<close>

abbreviation newline :: string where "newline \<equiv> [CHR 0x0A]"
abbreviation tab :: string where "tab \<equiv> [CHR 0x09]"

definition printVersion :: "shell \<Rightarrow> go_runtime \<Rightarrow> (version_info \<Rightarrow> string) \<Rightarrow> string \<Rightarrow> (version_state, string) state" where
  "printVersion sh rt marshal VersionOutput = do {
     info \<leftarrow> GetVersion sh rt;
     ret (if VersionOutput = ''json'' then marshal info @ newline
       else ''Version Information:'' @ newline
         @ tab @ ''Version:'' @ tab @ tab @ viVersion info @ newline
         @ tab @ ''Git Data:'' @ newline
         @ tab @ tab @ ''Hash:'' @ tab @ tab @ viGitCommit info @ newline
         @ tab @ ''Build Data:'' @ newline
         @ tab @ tab @ ''Build Date:'' @ tab @ viBuildDate info @ newline
         @ tab @ tab @ ''Go Version:'' @ tab @ viGoVersion info @ newline
         @ tab @ tab @ ''Compiler:'' @ tab @ viCompiler info @ newline
         @ tab @ tab @ ''Platform:'' @ tab @ viPlatform info @ newline @ newline)
   }"

text \<open>A build whose variables are set runs no command, and otherwise they are filled in once: after a first
  call whose commands printed something, a second one gives the same answer and runs nothing.\<close>

lemma GetVersion_set:
  assumes "vsGitCommit s \<noteq> ''''" and "vsVersion s \<noteq> ''''"
  shows "run_state (GetVersion sh rt) s = (\<lparr>viVersion = vsVersion s, viGitCommit = vsGitCommit s, viBuildDate = vsBuildDate s,
    viGoVersion = grVersion rt, viCompiler = grCompiler rt, viPlatform = grOS rt @ ''/'' @ grArch rt\<rparr>, s)"
  using assms by (simp add: GetVersion_def readState_def)

lemma GetVersion_once:
  assumes "run_state (GetVersion sh rt) s = (i, s1)" and "viGitCommit i \<noteq> ''''" and "viVersion i \<noteq> ''''"
  shows "run_state (GetVersion sh' rt) s1 = (i, s1)"
proof -
  from assms(1) have "i = \<lparr>viVersion = vsVersion s1, viGitCommit = vsGitCommit s1, viBuildDate = vsBuildDate s1,
    viGoVersion = grVersion rt, viCompiler = grCompiler rt, viPlatform = grOS rt @ ''/'' @ grArch rt\<rparr>"
    by (auto simp: GetVersion_def readState_def changeState_def runCommand_def split: if_splits)
  with assms(2,3) show ?thesis by (simp add: GetVersion_set)
qed

section \<open>Routes\<close>

text \<open>What the HTTP server does with a request: the files of one of the embedded file systems, with the
  prefix of the pattern taken off, or the gateway to the service behind the cross-origin rule.\<close>

datatype http_handler =
    FileServer string string
  | GatewayWithCORS

type_synonym serve_mux = "(string \<times> http_handler) list"

definition serveSwagger :: "serve_mux \<Rightarrow> serve_mux" where
  "serveSwagger mux = (let pre = ''/swagger-ui/'' in mux @ [(pre, FileServer pre ''swaggerui'')])"

definition serveSwaggerJSON :: "serve_mux \<Rightarrow> serve_mux" where
  "serveSwaggerJSON mux = (let pre = ''/swagger/'' in mux @ [(pre, FileServer pre ''swaggerjson'')])"

definition serveApi :: "serve_mux \<Rightarrow> serve_mux" where
  "serveApi mux = (let pre = ''/protobuf/'' in mux @ [(pre, FileServer pre ''api'')])"

definition serveHomepage :: "serve_mux \<Rightarrow> serve_mux" where
  "serveHomepage mux = (let pre = ''/'' in mux @ [(pre, FileServer pre ''homepage'')])"

definition AddWebsiteHandles :: "serve_mux \<Rightarrow> serve_mux" where
  "AddWebsiteHandles mux = serveHomepage (serveApi (serveSwaggerJSON (serveSwagger mux)))"

definition addgRPCRestGateway :: "serve_mux \<Rightarrow> serve_mux" where
  "addgRPCRestGateway router = router @ [(''/api/'', GatewayWithCORS)]"

text \<open>The router of the server for HTTP/1.\<close>

definition addRestAndWebsite :: serve_mux where
  "addRestAndWebsite = addgRPCRestGateway (AddWebsiteHandles [])"

lemmas routes_defs = addRestAndWebsite_def addgRPCRestGateway_def AddWebsiteHandles_def serveHomepage_def
  serveApi_def serveSwaggerJSON_def serveSwagger_def Let_def

text \<open>\<open>http.ServeMux\<close>: of the patterns, which all end in a slash, that are a prefix of the (clean) path,
  the longest.\<close>

fun longestMatch :: "(string \<times> 'h) list \<Rightarrow> string \<Rightarrow> (string \<times> 'h) option \<Rightarrow> (string \<times> 'h) option" where
  "longestMatch [] path best = best"
| "longestMatch ((p, h) # rs) path best =
     (if prefix p path \<and> (case best of None \<Rightarrow> True | Some (q, _) \<Rightarrow> length q < length p)
      then longestMatch rs path (Some (p, h)) else longestMatch rs path best)"

definition route :: "string \<Rightarrow> http_handler option" where
  "route path = map_option snd (longestMatch addRestAndWebsite path None)"

text \<open>The gateway answers exactly the paths of the service, and every other path has its file server.\<close>

lemma gateway_paths:
  assumes "prefix ''/'' path"
  shows "(route path = Some GatewayWithCORS \<longleftrightarrow> prefix ''/api/'' path) \<and> route path \<noteq> None"
proof -
  have apart: "\<not> prefix ''/swagger-ui/'' path \<and> \<not> prefix ''/swagger/'' path \<and> \<not> prefix ''/protobuf/'' path"
    if "prefix ''/api/'' path"
    using that by (auto dest: prefix_same_cases)
  from assms apart show ?thesis
    by (cases "prefix ''/api/'' path")
      (simp_all add: route_def routes_defs)
qed

lemma gateway_paths_witness:
  "route ''/api/v1/cluster'' = Some GatewayWithCORS \<and> route ''/swagger/x'' = Some (FileServer ''/swagger/'' ''swaggerjson'')"
  using gateway_paths [of "''/api/v1/cluster''"]
  by (simp add: route_def routes_defs)

end
