(* ===== verification/Command_Line.thy ===== *)
theory Command_Line
  imports Startup Frontend
begin

text \<open>
  \<^verbatim>\<open>cmd/cma-ssh\<close>: the command line and the end of the process. \<open>Execute\<close> runs the command that cobra
  finds in the arguments; the function \<open>operator\<close> goes on after \<open>createWebServer\<close> with two goroutines,
  the multiplexer of the port and the manager, and waits for both.
\<close>

section \<open>The end of the process\<close>

text \<open>The two goroutines in the order in which they end, each with the error its call returned. The process
  exits at the first error, or when the wait group is empty, or it is still running.\<close>

datatype server = TcpMux | ManagerLoop

fun waitServers :: "server set \<Rightarrow> (server \<times> go_error option) list \<Rightarrow> nat option" where
  "waitServers wg ended =
     (if wg = {} then Some 0
      else case ended of
        [] \<Rightarrow> None
      | (g, err) # rest \<Rightarrow> if err \<noteq> None then Some 1 else waitServers (wg - {g}) rest)"



definition serveAndWait :: "(server \<times> go_error option) list \<Rightarrow> nat option" where
  "serveAndWait ended = waitServers {TcpMux, ManagerLoop} ended"

text \<open>The process ends well only when both goroutines have ended without an error.\<close>

lemma waitServers_good:
  "waitServers wg ended = Some 0 \<longleftrightarrow>
     (\<exists>good. prefix good ended \<and> list_all (\<lambda>(_, err). err = None) good \<and> wg \<subseteq> fst ` set good)"
proof (induction ended arbitrary: wg)
  case Nil
  then show ?case by (auto simp: waitServers.simps)
next
  case (Cons a ended)
  obtain g err where a: "a = (g, err)" by (cases a)
  show ?case
  proof (cases "wg = {}")
    case True
    then show ?thesis by (auto simp: waitServers.simps intro!: exI [of _ "[]"])
  next
    case False
    have ex: "(\<exists>good. prefix good (a # ended) \<and> list_all (\<lambda>(_, err). err = None) good \<and> wg \<subseteq> fst ` set good)
        \<longleftrightarrow> err = None \<and> (\<exists>good. prefix good ended \<and> list_all (\<lambda>(_, err). err = None) good \<and> wg - {g} \<subseteq> fst ` set good)"
      (is "?l \<longleftrightarrow> ?r")
    proof
      assume ?l
      with False a show ?r by (auto simp: prefix_Cons intro!: exI)
    next
      assume ?r
      then obtain good where "err = None" "prefix good ended" "list_all (\<lambda>(_, err). err = None) good"
        "wg - {g} \<subseteq> fst ` set good" by blast
      with a show ?l by (intro exI [of _ "a # good"]) auto
    qed
    with False a Cons.IH [of "wg - {g}"] show ?thesis by (simp add: waitServers.simps [of wg])
  qed
qed

text \<open>A signal ends the manager, but the multiplexer goes on: the process serves requests that no controller
  answers to, until it is killed.\<close>

lemma signal_leaves_server: "serveAndWait [(ManagerLoop, None)] = None"
  by (simp add: serveAndWait_def waitServers.simps)

section \<open>The commands\<close>

text \<open>What cobra and the flag library make of the arguments.\<close>

datatype command = RootCommand | VersionCommand string

record command_line =
  clFlags :: "go_error option"
  clCommand :: "go_error + command"

datatype outcome = Operates "operation go" | Prints string

definition Execute :: "env \<Rightarrow> platform \<Rightarrow> shell \<Rightarrow> go_runtime \<Rightarrow> (version_info \<Rightarrow> string) \<Rightarrow> version_state
    \<Rightarrow> command_line \<Rightarrow> outcome io" where
  "Execute E pl sh rt marshal vs cl =
     (if clFlags cl \<noteq> None then ret (Operates (Returns (Exited 1)))
      else case clCommand cl of
        Inl err \<Rightarrow> ret (Operates (Returns (Exited 1)))
      | Inr RootCommand \<Rightarrow> do {
          r \<leftarrow> operator E pl;
          ret (Operates r)
        }
      | Inr (VersionCommand VersionOutput) \<Rightarrow>
          ret (Prints (fst (run_state (printVersion sh rt marshal VersionOutput) vs))))"

text \<open>Asking for the version touches nothing of the cluster.\<close>

lemma version_is_quiet:
  "clCommand cl \<noteq> Inr RootCommand \<Longrightarrow> snd (run_state (Execute E pl sh rt marshal vs cl) t) = t"
  by (auto simp: Execute_def split: sum.split command.split)

end
