(* ===== verification/Gateway.thy ===== *)
theory Gateway
  imports Api_Server Frontend
begin

text \<open>
  \<^verbatim>\<open>pkg/generated/api/api.pb.gw.go\<close>: the gateway by which the service is used over HTTP. The generated
  code registers a handler for each method and path; the vendored runtime of
  \<^verbatim>\<open>github.com/grpc-ecosystem/grpc-gateway\<close> (\<^verbatim>\<open>pattern.go\<close>, \<^verbatim>\<open>mux.go\<close>, \<^verbatim>\<open>query.go\<close>, \<^verbatim>\<open>errors.go\<close>) matches the
  paths, chooses the handler and decodes the query. JSON, the transport of gRPC and the order in which Go
  iterates over a map are answers of the record \<open>gateway\<close>.
\<close>

section \<open>Path patterns\<close>

datatype opcode = OpNop | OpPush | OpLitPush | OpPushM | OpConcatN | OpCapture

definition opcodeOf :: "int \<Rightarrow> opcode option" where
  "opcodeOf code = (if code = 0 then Some OpNop else if code = 1 then Some OpPush
     else if code = 2 then Some OpLitPush else if code = 3 then Some OpPushM
     else if code = 4 then Some OpConcatN else if code = 5 then Some OpCapture else None)"

record path_pattern =
  paOps :: "(opcode \<times> int) list"
  paPool :: "string list"
  paVars :: "string list"
  paTailLen :: nat
  paVerb :: string

text \<open>The state of the loop: the operations, the height of the stack, the length of the tail after a deep
  wildcard, whether there was one, the variables.\<close>

record pattern_building =
  pbOps :: "(opcode \<times> int) list"
  pbStack :: int
  pbTailLen :: nat
  pbPushMSeen :: bool
  pbVars :: "string list"

definition pushed :: "opcode \<times> int \<Rightarrow> pattern_building \<Rightarrow> pattern_building" where
  "pushed op b = b\<lparr>pbOps := pbOps b @ [op], pbStack := pbStack b + 1,
     pbTailLen := (if pbPushMSeen b then pbTailLen b + 1 else pbTailLen b)\<rparr>"

fun newOps :: "string list \<Rightarrow> int list \<Rightarrow> pattern_building \<Rightarrow> pattern_building option" where
  "newOps pool (code # operand # ops) b = (case opcodeOf code of
       None \<Rightarrow> None
     | Some OpNop \<Rightarrow> newOps pool ops b
     | Some OpPush \<Rightarrow> newOps pool ops (pushed (OpPush, operand) b)
     | Some OpPushM \<Rightarrow>
         if pbPushMSeen b then None
         else newOps pool ops (b\<lparr>pbOps := pbOps b @ [(OpPushM, operand)], pbStack := pbStack b + 1, pbPushMSeen := True\<rparr>)
     | Some OpLitPush \<Rightarrow>
         if operand < 0 \<or> int (length pool) \<le> operand then None
         else newOps pool ops (pushed (OpLitPush, operand) b)
     | Some OpConcatN \<Rightarrow>
         if operand \<le> 0 then None
         else if pbStack b - operand < 0 then None
         else newOps pool ops (b\<lparr>pbOps := pbOps b @ [(OpConcatN, operand)], pbStack := pbStack b - operand + 1\<rparr>)
     | Some OpCapture \<Rightarrow>
         if operand < 0 \<or> int (length pool) \<le> operand then None
         else if pbStack b - 1 < 0 then None
         else newOps pool ops (b\<lparr>pbOps := pbOps b @ [(OpCapture, int (length (pbVars b)))],
           pbVars := pbVars b @ [pool ! nat operand], pbStack := pbStack b - 1\<rparr>))"
| "newOps pool ops b = Some b"

definition NewPattern :: "int \<Rightarrow> int list \<Rightarrow> string list \<Rightarrow> string \<Rightarrow> path_pattern option" where
  "NewPattern version ops pool verb =
     (if version \<noteq> 1 then None
      else if odd (length ops) then None
      else case newOps pool ops \<lparr>pbOps = [], pbStack = 0, pbTailLen = 0, pbPushMSeen = False, pbVars = []\<rparr> of
        None \<Rightarrow> None
      | Some b \<Rightarrow> Some \<lparr>paOps = pbOps b, paPool = pool, paVars = pbVars b, paTailLen = pbTailLen b, paVerb = verb\<rparr>)"

text \<open>The process ends at the initialisation of a variable whose pattern is invalid; the patterns of the
  program are valid (\<open>patterns_match\<close>).\<close>

definition MustPattern :: "path_pattern option \<Rightarrow> path_pattern" where
  "MustPattern p = the p"

fun matchOps :: "path_pattern \<Rightarrow> string list \<Rightarrow> (opcode \<times> int) list \<Rightarrow> nat \<Rightarrow> string list \<Rightarrow> string list
    \<Rightarrow> (nat \<times> string list) option" where
  "matchOps p components [] pos stack captured = Some (pos, captured)"
| "matchOps p components ((code, operand) # ops) pos stack captured = (case code of
       OpNop \<Rightarrow> matchOps p components ops pos stack captured
     | OpPush \<Rightarrow>
         if length components \<le> pos then None
         else matchOps p components ops (pos + 1) (stack @ [components ! pos]) captured
     | OpLitPush \<Rightarrow>
         if length components \<le> pos then None
         else if components ! pos \<noteq> paPool p ! nat operand then None
         else matchOps p components ops (pos + 1) (stack @ [components ! pos]) captured
     | OpPushM \<Rightarrow>
         if length components < pos + paTailLen p then None
         else let end = length components - paTailLen p in
           matchOps p components ops end (stack @ [joinWith ''/'' (drop pos (take end components))]) captured
     | OpConcatN \<Rightarrow>
         let l = length stack - nat operand in
           matchOps p components ops pos (take l stack @ [joinWith ''/'' (drop l stack)]) captured
     | OpCapture \<Rightarrow>
         matchOps p components ops pos (butlast stack) (captured[nat operand := last stack]))"

definition matchPattern :: "path_pattern \<Rightarrow> string list \<Rightarrow> string \<Rightarrow> string go_map option" where
  "matchPattern p components verb =
     (if paVerb p \<noteq> verb then None
      else case matchOps p components (paOps p) 0 [] (replicate (length (paVars p)) '''') of
        None \<Rightarrow> None
      | Some (pos, captured) \<Rightarrow>
          if pos < length components then None
          else Some (foldl (\<lambda>bindings (v, val). goPut v val bindings) [] (zip (paVars p) captured)))"

section \<open>The requests and what the libraries answer\<close>

text \<open>The calls of the service, with their messages.\<close>

datatype rest_call =
    CallCreateCluster create_cluster_msg
  | CallGetCluster string
  | CallDeleteCluster string
  | CallGetClusterList
  | CallGetClusterNodesStatus string
  | CallGetVersionInformation
  | CallAddNodePool string "machine_spec_msg list"
  | CallDeleteNodePool string "string list"
  | CallScaleNodePool string "(string \<times> 32 word) list"
  | CallGetUpgradeClusterInformation string
  | CallUpgradeCluster string string

datatype rest_reply =
    ReplyCluster cluster_item
  | ReplyClusterDetail cluster_detail_item
  | ReplyDelete bool string
  | ReplyList bool "cluster_item list"
  | ReplyNodes nodes_status_reply
  | ReplyVersion bool version_reply
  | ReplyUpgrades bool "string list"
  | ReplyOk bool

text \<open>\<^verbatim>\<open>google.golang.org/grpc/codes\<close>.\<close>

datatype status_code =
    CodeOK | CodeCanceled | CodeUnknown | CodeInvalidArgument | CodeDeadlineExceeded | CodeNotFound
  | CodeAlreadyExists | CodePermissionDenied | CodeResourceExhausted | CodeFailedPrecondition | CodeAborted
  | CodeOutOfRange | CodeUnimplemented | CodeInternal | CodeUnavailable | CodeDataLoss | CodeUnauthenticated

type_synonym rest_status = "status_code \<times> string"

text \<open>A request: \<open>rqQuery\<close> is the parsed query in the order in which the loop over it goes, the keys of
  \<open>rqHeader\<close> are canonical, and \<open>rqBody\<close> is what is left to be read.\<close>

record rest_request =
  rqMethod :: string
  rqPath :: string
  rqHeader :: "string go_map"
  rqQuery :: "(string \<times> string list) list"
  rqBody :: string

record http_response =
  htStatus :: nat
  htHeader :: "string go_map"
  htBody :: string

datatype 'm decoded = Decoded 'm | AtEOF | Malformed go_error

text \<open>How a call reaches the server: it is delivered, or not, or the answer is lost on its way back.\<close>

datatype transport = Delivered | Undelivered rest_status | AnswerLost rest_status

text \<open>The messages that are decoded from a query have a name and perhaps a list of names.\<close>

record query_msg =
  qmName :: string
  qmNames :: "string list"

record gateway =
  gwOrder :: "rest_request \<Rightarrow> string list"
  gwParseForm :: "rest_request \<Rightarrow> go_error option"
  gwReadBody :: "rest_request \<Rightarrow> go_error option"
  gwDecodeCreateCluster :: "string \<Rightarrow> create_cluster_msg decoded"
  gwDecodeAddNodePool :: "string \<Rightarrow> (string \<times> machine_spec_msg list) decoded"
  gwDecodeScaleNodePool :: "string \<Rightarrow> (string \<times> (string \<times> 32 word) list) decoded"
  gwDecodeUpgradeCluster :: "string \<Rightarrow> (string \<times> string) decoded"
  gwBookkeeping :: "string list \<Rightarrow> string list \<Rightarrow> query_msg \<Rightarrow> go_error + query_msg"
  gwAnnotate :: "rest_request \<Rightarrow> rest_status option"
  gwTransport :: "rest_call \<Rightarrow> transport"
  gwMarshal :: "rest_reply \<Rightarrow> rest_status + string"
  gwMarshalError :: "rest_status \<Rightarrow> string option"
  gwVersion :: "bool \<times> version_reply"
  gwFile :: "string \<Rightarrow> string \<Rightarrow> rest_request \<Rightarrow> http_response"

section \<open>The multiplexer of the gateway\<close>

text \<open>The handlers of each method, in the order of their registration.\<close>

type_synonym 'h serve_table = "(path_pattern \<times> 'h) list go_map"

definition muxHandlers :: "'h serve_table \<Rightarrow> string \<Rightarrow> (path_pattern \<times> 'h) list" where
  "muxHandlers mux meth = (case goGet mux meth of None \<Rightarrow> [] | Some hs \<Rightarrow> hs)"

definition muxHandle :: "string \<Rightarrow> path_pattern \<Rightarrow> 'h \<Rightarrow> 'h serve_table \<Rightarrow> 'h serve_table" where
  "muxHandle meth pat h mux = goPut meth (muxHandlers mux meth @ [(pat, h)]) mux"

datatype 'h dispatched = Handled 'h rest_request "string go_map" | Refused nat string

text \<open>\<open>OtherErrorHandler\<close> is called with \<open>http.StatusText\<close> of the code.\<close>

definition refusal :: "nat \<Rightarrow> 'h dispatched" where
  "refusal code = Refused code
     (if code = 400 then ''Bad Request'' else if code = 404 then ''Not Found'' else ''Method Not Allowed'')"

fun firstMatch :: "(path_pattern \<times> 'h) list \<Rightarrow> string list \<Rightarrow> string \<Rightarrow> ('h \<times> string go_map) option" where
  "firstMatch [] components verb = None"
| "firstMatch ((pat, h) # hs) components verb = (case matchPattern pat components verb of
       None \<Rightarrow> firstMatch hs components verb
     | Some pathParams \<Rightarrow> Some (h, pathParams))"

definition isPathLengthFallback :: "rest_request \<Rightarrow> bool" where
  "isPathLengthFallback r \<longleftrightarrow>
     rqMethod r = ''POST'' \<and> goIndex (rqHeader r) ''Content-Type'' = ''application/x-www-form-urlencoded''"

text \<open>\<open>ParseForm\<close> reads the body of a form, for the methods that have one.\<close>

definition formRead :: "rest_request \<Rightarrow> rest_request" where
  "formRead r = (if rqMethod r = ''POST'' \<or> rqMethod r = ''PUT'' \<or> rqMethod r = ''PATCH'' then r\<lparr>rqBody := ''''\<rparr> else r)"

fun otherMethods :: "gateway \<Rightarrow> 'h serve_table \<Rightarrow> rest_request \<Rightarrow> string list \<Rightarrow> string \<Rightarrow> string list \<Rightarrow> 'h dispatched" where
  "otherMethods gw mux r components verb [] = refusal 404"
| "otherMethods gw mux r components verb (m # ms) =
     (if m = rqMethod r then otherMethods gw mux r components verb ms
      else case firstMatch (muxHandlers mux m) components verb of
        None \<Rightarrow> otherMethods gw mux r components verb ms
      | Some (h, pathParams) \<Rightarrow>
          if isPathLengthFallback r
          then (case gwParseForm gw r of Some err \<Rightarrow> Refused 400 (errorText err) | None \<Rightarrow> Handled h (formRead r) pathParams)
          else refusal 405)"

text \<open>\<open>strings.LastIndex\<close> of a character; \<open>strings.ToUpper\<close>, on the ASCII names of the methods.\<close>

fun lastIndex :: "char \<Rightarrow> string \<Rightarrow> nat option" where
  "lastIndex c [] = None"
| "lastIndex c (x # xs) = (case lastIndex c xs of
       Some i \<Rightarrow> Some (Suc i)
     | None \<Rightarrow> if x = c then Some 0 else None)"

definition toUpper :: "string \<Rightarrow> string" where
  "toUpper s = map (\<lambda>c. let n = of_char c :: nat in if 97 \<le> n \<and> n \<le> 122 then char_of (n - 32) else c) s"

definition findHandler :: "gateway \<Rightarrow> 'h serve_table \<Rightarrow> rest_request \<Rightarrow> string list \<Rightarrow> string \<Rightarrow> 'h dispatched" where
  "findHandler gw mux r components verb = (case firstMatch (muxHandlers mux (rqMethod r)) components verb of
       Some (h, pathParams) \<Rightarrow> Handled h r pathParams
     | None \<Rightarrow> otherMethods gw mux r components verb (gwOrder gw r))"

text \<open>The components of a path and its verb, which follows the last colon of the last component.\<close>

definition parsePath :: "string \<Rightarrow> (string list \<times> string) option" where
  "parsePath p = (let components = splitOn CHR ''/'' p; c = last components in
     case lastIndex CHR '':'' c of
       None \<Rightarrow> Some (components, '''')
     | Some idx \<Rightarrow> if idx = 0 then None else Some (butlast components @ [take idx c], drop (idx + 1) c))"

definition gatewayServe :: "gateway \<Rightarrow> 'h serve_table \<Rightarrow> rest_request \<Rightarrow> 'h dispatched" where
  "gatewayServe gw mux r =
     (if \<not> prefix ''/'' (rqPath r) then refusal 400
      else case parsePath (tl (rqPath r)) of
        None \<Rightarrow> refusal 404
      | Some (components, verb) \<Rightarrow>
          let override = goIndex (rqHeader r) ''X-HTTP-Method-Override'' in
          if override \<noteq> '''' \<and> isPathLengthFallback r then
            let r = r\<lparr>rqMethod := toUpper override\<rparr> in
            (case gwParseForm gw r of
              Some err \<Rightarrow> Refused 400 (errorText err)
            | None \<Rightarrow> findHandler gw mux (formRead r) components verb)
          else findHandler gw mux r components verb)"

section \<open>Decoding a query\<close>

text \<open>The fields of a message that is decoded from a query, as reflection lists them: the name in the proto
  file, the name in JSON where it differs, and what it is; each Go struct has three fields of its own.\<close>

datatype query_field = FieldName | FieldNames | FieldBookkeeping

type_synonym field_list = "(string \<times> string \<times> query_field) list"

definition bookkeepingFields :: field_list where
  "bookkeepingFields = [(''XXX_NoUnkeyedLiteral'', '''', FieldBookkeeping), (''XXX_unrecognized'', '''', FieldBookkeeping),
     (''XXX_sizecache'', '''', FieldBookkeeping)]"

text \<open>\<open>GetClusterMsg\<close>, \<open>DeleteClusterMsg\<close> and \<open>GetUpgradeClusterInformationMsg\<close> have the same field.\<close>

definition nameFields :: field_list where
  "nameFields = (''name'', '''', FieldName) # bookkeepingFields"

definition GetClusterNodesStatusMsgFields :: field_list where
  "GetClusterNodesStatusMsgFields = (''clusterName'', '''', FieldName) # bookkeepingFields"

definition DeleteNodePoolMsgFields :: field_list where
  "DeleteNodePoolMsgFields =
     (''clusterName'', '''', FieldName) # (''node_pool_names'', ''nodePoolNames'', FieldNames) # bookkeepingFields"

fun fieldByProtoName :: "field_list \<Rightarrow> string \<Rightarrow> query_field option" where
  "fieldByProtoName [] name = None"
| "fieldByProtoName ((origName, jsonName, field) # props) name =
     (if origName = name then Some field
      else if jsonName = name then Some field
      else fieldByProtoName props name)"

text \<open>A string cannot be part of a longer path, and takes the first value; a list takes all of them.\<close>

definition populateFieldValueFromPath ::
  "gateway \<Rightarrow> field_list \<Rightarrow> string list \<Rightarrow> string list \<Rightarrow> query_msg \<Rightarrow> go_error + query_msg" where
  "populateFieldValueFromPath gw props fieldPath values msg = (case fieldPath of
       [] \<Rightarrow> Inr msg
     | fieldName # rest \<Rightarrow> (case fieldByProtoName props fieldName of
           None \<Rightarrow> Inr msg
         | Some FieldName \<Rightarrow>
             if rest \<noteq> [] then Inl (PlainError (''unexpected nested field '' @ rest ! 0 @ '' in '' @ fieldName))
             else (case values of
               [] \<Rightarrow> Inl (PlainError (''no value of field: '' @ joinWith ''.'' fieldPath))
             | v # _ \<Rightarrow> Inr (msg\<lparr>qmName := v\<rparr>))
         | Some FieldNames \<Rightarrow>
             if rest \<noteq> [] then Inl (PlainError (''unexpected repeated field in '' @ joinWith ''.'' fieldPath))
             else Inr (msg\<lparr>qmNames := values\<rparr>)
         | Some FieldBookkeeping \<Rightarrow> gwBookkeeping gw fieldPath values msg))"

text \<open>The expression \<^verbatim>\<open>^(.*)\[(.*)\]$\<close>: a key that ends in a bracket gives what is in it as the first value.\<close>

definition mapKey :: "string \<Rightarrow> (string \<times> string) option" where
  "mapKey key =
     (if key = '''' \<or> last key \<noteq> CHR '']'' \<or> CHR 0x0A \<in> set key then None
      else case lastIndex CHR ''['' key of
        None \<Rightarrow> None
      | Some i \<Rightarrow> Some (take i key, butlast (drop (i + 1) key)))"

fun PopulateQueryParameters ::
  "gateway \<Rightarrow> field_list \<Rightarrow> (string \<times> string list) list \<Rightarrow> query_msg \<Rightarrow> go_error + query_msg" where
  "PopulateQueryParameters gw props [] msg = Inr msg"
| "PopulateQueryParameters gw props ((key, values) # rest) msg =
     (case (case mapKey key of None \<Rightarrow> (key, values) | Some (k, v) \<Rightarrow> (k, v # values)) of (key, values) \<Rightarrow>
      case populateFieldValueFromPath gw props (splitOn CHR ''.'' key) values msg of
        Inl err \<Rightarrow> Inl err
      | Inr msg \<Rightarrow> PopulateQueryParameters gw props rest msg)"

section \<open>The generated requests\<close>

type_synonym rest_result = "(rest_status + rest_reply) go io"
type_synonym cluster_client = "rest_call \<Rightarrow> rest_result"

abbreviation invalid :: "go_error \<Rightarrow> (rest_status + 'a) go" where
  "invalid err \<equiv> Returns (Inl (CodeInvalidArgument, errorText err))"

definition withBody :: "gateway \<Rightarrow> (string \<Rightarrow> 'm decoded) \<Rightarrow> 'm \<Rightarrow> rest_request \<Rightarrow> ('m \<Rightarrow> rest_result) \<Rightarrow> rest_result" where
  "withBody gw decode protoReq req rpc = (case gwReadBody gw req of
       Some berr \<Rightarrow> ret (invalid berr)
     | None \<Rightarrow> (case decode (rqBody req) of
           Malformed err \<Rightarrow> ret (invalid err)
         | AtEOF \<Rightarrow> rpc protoReq
         | Decoded protoReq \<Rightarrow> rpc protoReq))"

definition withQuery :: "gateway \<Rightarrow> field_list \<Rightarrow> rest_request \<Rightarrow> (query_msg \<Rightarrow> rest_result) \<Rightarrow> rest_result" where
  "withQuery gw props req rpc = (case PopulateQueryParameters gw props (rqQuery req) \<lparr>qmName = '''', qmNames = []\<rparr> of
       Inl err \<Rightarrow> ret (invalid err)
     | Inr protoReq \<Rightarrow> rpc protoReq)"

type_synonym rest_handler = "gateway \<Rightarrow> cluster_client \<Rightarrow> rest_request \<Rightarrow> string go_map \<Rightarrow> rest_result"

definition request_Cluster_CreateCluster_0 :: rest_handler where
  "request_Cluster_CreateCluster_0 gw client req pathParams =
     withBody gw (gwDecodeCreateCluster gw)
       \<lparr>ccName = '''', ccK8SVersion = '''', ccControlPlaneNodes = None, ccWorkerNodePools = []\<rparr> req
       (\<lambda>protoReq. client (CallCreateCluster protoReq))"

definition request_Cluster_GetCluster_0 :: rest_handler where
  "request_Cluster_GetCluster_0 gw client req pathParams =
     withQuery gw nameFields req (\<lambda>protoReq. client (CallGetCluster (qmName protoReq)))"

definition request_Cluster_DeleteCluster_0 :: rest_handler where
  "request_Cluster_DeleteCluster_0 gw client req pathParams =
     withQuery gw nameFields req (\<lambda>protoReq. client (CallDeleteCluster (qmName protoReq)))"

definition request_Cluster_GetClusterList_0 :: rest_handler where
  "request_Cluster_GetClusterList_0 gw client req pathParams = client CallGetClusterList"

definition request_Cluster_GetClusterNodesStatus_0 :: rest_handler where
  "request_Cluster_GetClusterNodesStatus_0 gw client req pathParams =
     withQuery gw GetClusterNodesStatusMsgFields req (\<lambda>protoReq. client (CallGetClusterNodesStatus (qmName protoReq)))"

definition request_Cluster_GetVersionInformation_0 :: rest_handler where
  "request_Cluster_GetVersionInformation_0 gw client req pathParams = client CallGetVersionInformation"

definition request_Cluster_AddNodePool_0 :: rest_handler where
  "request_Cluster_AddNodePool_0 gw client req pathParams =
     withBody gw (gwDecodeAddNodePool gw) ('''', []) req
       (\<lambda>(clName, pools). client (CallAddNodePool clName pools))"

definition request_Cluster_DeleteNodePool_0 :: rest_handler where
  "request_Cluster_DeleteNodePool_0 gw client req pathParams =
     withQuery gw DeleteNodePoolMsgFields req
       (\<lambda>protoReq. client (CallDeleteNodePool (qmName protoReq) (qmNames protoReq)))"

definition request_Cluster_ScaleNodePool_0 :: rest_handler where
  "request_Cluster_ScaleNodePool_0 gw client req pathParams =
     withBody gw (gwDecodeScaleNodePool gw) ('''', []) req
       (\<lambda>(clName, pools). client (CallScaleNodePool clName pools))"

definition request_Cluster_GetUpgradeClusterInformation_0 :: rest_handler where
  "request_Cluster_GetUpgradeClusterInformation_0 gw client req pathParams =
     withQuery gw nameFields req (\<lambda>protoReq. client (CallGetUpgradeClusterInformation (qmName protoReq)))"

definition request_Cluster_UpgradeCluster_0 :: rest_handler where
  "request_Cluster_UpgradeCluster_0 gw client req pathParams =
     withBody gw (gwDecodeUpgradeCluster gw) ('''', '''') req
       (\<lambda>(clName, version). client (CallUpgradeCluster clName version))"

section \<open>The answer\<close>

definition HTTPStatusFromCode :: "status_code \<Rightarrow> nat" where
  "HTTPStatusFromCode code = (case code of
       CodeOK \<Rightarrow> 200 | CodeCanceled \<Rightarrow> 408 | CodeUnknown \<Rightarrow> 500 | CodeInvalidArgument \<Rightarrow> 400
     | CodeDeadlineExceeded \<Rightarrow> 504 | CodeNotFound \<Rightarrow> 404 | CodeAlreadyExists \<Rightarrow> 409
     | CodePermissionDenied \<Rightarrow> 403 | CodeUnauthenticated \<Rightarrow> 401 | CodeResourceExhausted \<Rightarrow> 429
     | CodeFailedPrecondition \<Rightarrow> 412 | CodeAborted \<Rightarrow> 409 | CodeOutOfRange \<Rightarrow> 400
     | CodeUnimplemented \<Rightarrow> 501 | CodeInternal \<Rightarrow> 500 | CodeUnavailable \<Rightarrow> 503 | CodeDataLoss \<Rightarrow> 500)"

definition jsonHeader :: "string go_map" where
  "jsonHeader = [(''Content-Type'', ''application/json'')]"

definition HTTPError :: "gateway \<Rightarrow> rest_status \<Rightarrow> http_response" where
  "HTTPError gw err = (case gwMarshalError gw err of
       None \<Rightarrow> \<lparr>htStatus = 500, htHeader = jsonHeader, htBody = ''{\"error\": \"failed to marshal error message\"}''\<rparr>
     | Some buf \<Rightarrow> \<lparr>htStatus = HTTPStatusFromCode (fst err), htHeader = jsonHeader, htBody = buf\<rparr>)"

definition ForwardResponseMessage :: "gateway \<Rightarrow> rest_reply \<Rightarrow> http_response" where
  "ForwardResponseMessage gw resp = (case gwMarshal gw resp of
       Inl err \<Rightarrow> HTTPError gw err
     | Inr buf \<Rightarrow> \<lparr>htStatus = 200, htHeader = jsonHeader, htBody = buf\<rparr>)"

type_synonym response_io = "http_response go io"
type_synonym registered_handler = "rest_request \<Rightarrow> string go_map \<Rightarrow> response_io"

text \<open>The function literal that is registered for each call; the eleven differ in the request only.\<close>

definition serveCall :: "gateway \<Rightarrow> (rest_request \<Rightarrow> string go_map \<Rightarrow> rest_result) \<Rightarrow> registered_handler" where
  "serveCall gw request req pathParams = (case gwAnnotate gw req of
       Some err \<Rightarrow> ret (Returns (HTTPError gw err))
     | None \<Rightarrow> do {
         r \<leftarrow> request req pathParams;
         ret (case r of
           Panics \<Rightarrow> Panics
         | Returns (Inl err) \<Rightarrow> Returns (HTTPError gw err)
         | Returns (Inr resp) \<Rightarrow> Returns (ForwardResponseMessage gw resp))
       })"

section \<open>The registration\<close>

definition pattern_Cluster_CreateCluster_0 :: path_pattern where
  "pattern_Cluster_CreateCluster_0 = MustPattern (NewPattern 1 [2, 0, 2, 1, 2, 2] [''api'', ''v1'', ''cluster''] '''')"

definition pattern_Cluster_GetCluster_0 :: path_pattern where
  "pattern_Cluster_GetCluster_0 = MustPattern (NewPattern 1 [2, 0, 2, 1, 2, 2] [''api'', ''v1'', ''cluster''] '''')"

definition pattern_Cluster_DeleteCluster_0 :: path_pattern where
  "pattern_Cluster_DeleteCluster_0 = MustPattern (NewPattern 1 [2, 0, 2, 1, 2, 2] [''api'', ''v1'', ''cluster''] '''')"

definition pattern_Cluster_GetClusterList_0 :: path_pattern where
  "pattern_Cluster_GetClusterList_0 =
     MustPattern (NewPattern 1 [2, 0, 2, 1, 2, 2, 2, 3] [''api'', ''v1'', ''cluster'', ''list''] '''')"

definition pattern_Cluster_GetClusterNodesStatus_0 :: path_pattern where
  "pattern_Cluster_GetClusterNodesStatus_0 =
     MustPattern (NewPattern 1 [2, 0, 2, 1, 2, 2, 2, 3] [''api'', ''v1'', ''cluster'', ''nodesstatus''] '''')"

definition pattern_Cluster_GetVersionInformation_0 :: path_pattern where
  "pattern_Cluster_GetVersionInformation_0 = MustPattern (NewPattern 1 [2, 0, 2, 1, 2, 2] [''api'', ''v1'', ''version''] '''')"

definition pattern_Cluster_AddNodePool_0 :: path_pattern where
  "pattern_Cluster_AddNodePool_0 =
     MustPattern (NewPattern 1 [2, 0, 2, 1, 2, 2, 2, 3] [''api'', ''v1'', ''cluster'', ''pool''] '''')"

definition pattern_Cluster_DeleteNodePool_0 :: path_pattern where
  "pattern_Cluster_DeleteNodePool_0 =
     MustPattern (NewPattern 1 [2, 0, 2, 1, 2, 2, 2, 3] [''api'', ''v1'', ''cluster'', ''pool''] '''')"

definition pattern_Cluster_ScaleNodePool_0 :: path_pattern where
  "pattern_Cluster_ScaleNodePool_0 =
     MustPattern (NewPattern 1 [2, 0, 2, 1, 2, 2, 2, 3] [''api'', ''v1'', ''cluster'', ''pool''] '''')"

definition pattern_Cluster_GetUpgradeClusterInformation_0 :: path_pattern where
  "pattern_Cluster_GetUpgradeClusterInformation_0 =
     MustPattern (NewPattern 1 [2, 0, 2, 1, 2, 2, 2, 3] [''api'', ''v1'', ''cluster'', ''upgrade''] '''')"

definition pattern_Cluster_UpgradeCluster_0 :: path_pattern where
  "pattern_Cluster_UpgradeCluster_0 =
     MustPattern (NewPattern 1 [2, 0, 2, 1, 2, 2, 2, 3] [''api'', ''v1'', ''cluster'', ''upgrade''] '''')"

text \<open>The handlers, one for each call.\<close>

definition handle_Cluster_CreateCluster_0 :: "gateway \<Rightarrow> cluster_client \<Rightarrow> registered_handler" where
  "handle_Cluster_CreateCluster_0 gw client = serveCall gw (request_Cluster_CreateCluster_0 gw client)"

definition handle_Cluster_GetCluster_0 :: "gateway \<Rightarrow> cluster_client \<Rightarrow> registered_handler" where
  "handle_Cluster_GetCluster_0 gw client = serveCall gw (request_Cluster_GetCluster_0 gw client)"

definition handle_Cluster_DeleteCluster_0 :: "gateway \<Rightarrow> cluster_client \<Rightarrow> registered_handler" where
  "handle_Cluster_DeleteCluster_0 gw client = serveCall gw (request_Cluster_DeleteCluster_0 gw client)"

definition handle_Cluster_GetClusterList_0 :: "gateway \<Rightarrow> cluster_client \<Rightarrow> registered_handler" where
  "handle_Cluster_GetClusterList_0 gw client = serveCall gw (request_Cluster_GetClusterList_0 gw client)"

definition handle_Cluster_GetClusterNodesStatus_0 :: "gateway \<Rightarrow> cluster_client \<Rightarrow> registered_handler" where
  "handle_Cluster_GetClusterNodesStatus_0 gw client = serveCall gw (request_Cluster_GetClusterNodesStatus_0 gw client)"

definition handle_Cluster_GetVersionInformation_0 :: "gateway \<Rightarrow> cluster_client \<Rightarrow> registered_handler" where
  "handle_Cluster_GetVersionInformation_0 gw client = serveCall gw (request_Cluster_GetVersionInformation_0 gw client)"

definition handle_Cluster_AddNodePool_0 :: "gateway \<Rightarrow> cluster_client \<Rightarrow> registered_handler" where
  "handle_Cluster_AddNodePool_0 gw client = serveCall gw (request_Cluster_AddNodePool_0 gw client)"

definition handle_Cluster_DeleteNodePool_0 :: "gateway \<Rightarrow> cluster_client \<Rightarrow> registered_handler" where
  "handle_Cluster_DeleteNodePool_0 gw client = serveCall gw (request_Cluster_DeleteNodePool_0 gw client)"

definition handle_Cluster_ScaleNodePool_0 :: "gateway \<Rightarrow> cluster_client \<Rightarrow> registered_handler" where
  "handle_Cluster_ScaleNodePool_0 gw client = serveCall gw (request_Cluster_ScaleNodePool_0 gw client)"

definition handle_Cluster_GetUpgradeClusterInformation_0 :: "gateway \<Rightarrow> cluster_client \<Rightarrow> registered_handler" where
  "handle_Cluster_GetUpgradeClusterInformation_0 gw client = serveCall gw (request_Cluster_GetUpgradeClusterInformation_0 gw client)"

definition handle_Cluster_UpgradeCluster_0 :: "gateway \<Rightarrow> cluster_client \<Rightarrow> registered_handler" where
  "handle_Cluster_UpgradeCluster_0 gw client = serveCall gw (request_Cluster_UpgradeCluster_0 gw client)"

lemmas handle_defs =
  handle_Cluster_CreateCluster_0_def handle_Cluster_GetCluster_0_def handle_Cluster_DeleteCluster_0_def
  handle_Cluster_GetClusterList_0_def handle_Cluster_GetClusterNodesStatus_0_def handle_Cluster_GetVersionInformation_0_def
  handle_Cluster_AddNodePool_0_def handle_Cluster_DeleteNodePool_0_def handle_Cluster_ScaleNodePool_0_def
  handle_Cluster_GetUpgradeClusterInformation_0_def handle_Cluster_UpgradeCluster_0_def

definition RegisterClusterHandlerClient ::
  "gateway \<Rightarrow> cluster_client \<Rightarrow> registered_handler serve_table \<Rightarrow> registered_handler serve_table" where
  "RegisterClusterHandlerClient gw client mux = (let
       mux = muxHandle ''POST'' pattern_Cluster_CreateCluster_0 (handle_Cluster_CreateCluster_0 gw client) mux;
       mux = muxHandle ''GET'' pattern_Cluster_GetCluster_0 (handle_Cluster_GetCluster_0 gw client) mux;
       mux = muxHandle ''DELETE'' pattern_Cluster_DeleteCluster_0 (handle_Cluster_DeleteCluster_0 gw client) mux;
       mux = muxHandle ''GET'' pattern_Cluster_GetClusterList_0 (handle_Cluster_GetClusterList_0 gw client) mux;
       mux = muxHandle ''GET'' pattern_Cluster_GetClusterNodesStatus_0 (handle_Cluster_GetClusterNodesStatus_0 gw client) mux;
       mux = muxHandle ''GET'' pattern_Cluster_GetVersionInformation_0 (handle_Cluster_GetVersionInformation_0 gw client) mux;
       mux = muxHandle ''POST'' pattern_Cluster_AddNodePool_0 (handle_Cluster_AddNodePool_0 gw client) mux;
       mux = muxHandle ''DELETE'' pattern_Cluster_DeleteNodePool_0 (handle_Cluster_DeleteNodePool_0 gw client) mux;
       mux = muxHandle ''PUT'' pattern_Cluster_ScaleNodePool_0 (handle_Cluster_ScaleNodePool_0 gw client) mux;
       mux = muxHandle ''GET'' pattern_Cluster_GetUpgradeClusterInformation_0 (handle_Cluster_GetUpgradeClusterInformation_0 gw client) mux;
       mux = muxHandle ''PUT'' pattern_Cluster_UpgradeCluster_0 (handle_Cluster_UpgradeCluster_0 gw client) mux
     in mux)"

end
