(* ===== verification/Rest_Api.thy ===== *)
theory Rest_Api
  imports Gateway Activities
begin

text \<open>
  The service over HTTP, from the port to the handlers: the routes, the cross-origin rule, the gateway, the
  gRPC client it uses and the server behind it; and the service as \<^verbatim>\<open>api/api.proto\<close> documents it, which the
  generated code is shown to implement.
\<close>

section \<open>The server behind the gateway\<close>

text \<open>What arrives of an error: an error without a code has the code \<open>Unknown\<close>.\<close>

fun statusOf :: "rpc_error \<Rightarrow> rest_status" where
  "statusOf (Grpc Internal msg) = (CodeInternal, msg)"
| "statusOf (Grpc NotFound msg) = (CodeNotFound, msg)"
| "statusOf (Raw err) = (CodeUnknown, errorText err)"

definition answerWith :: "('a \<Rightarrow> rest_reply) \<Rightarrow> 'a rpc \<Rightarrow> rest_result" where
  "answerWith f m = do {
     r \<leftarrow> m;
     ret (case r of
       Panics \<Rightarrow> Panics
     | Returns (Inl err) \<Rightarrow> Returns (Inl (statusOf err))
     | Returns (Inr reply) \<Rightarrow> Returns (Inr (f reply)))
   }"

fun serverCall :: "env \<Rightarrow> gateway \<Rightarrow> rest_call \<Rightarrow> rest_result" where
  "serverCall E gw (CallCreateCluster msg) = answerWith ReplyCluster (CreateCluster E msg)"
| "serverCall E gw (CallGetCluster name) = answerWith ReplyClusterDetail (GetCluster E name)"
| "serverCall E gw (CallDeleteCluster name) = answerWith (\<lambda>(ok, status). ReplyDelete ok status) (DeleteCluster E name)"
| "serverCall E gw CallGetClusterList = answerWith (\<lambda>(ok, clusters). ReplyList ok clusters) (GetClusterList E)"
| "serverCall E gw (CallGetClusterNodesStatus name) = answerWith ReplyNodes (GetClusterNodesStatus E name)"
| "serverCall E gw CallGetVersionInformation =
     ret (Returns (Inr (ReplyVersion (fst (gwVersion gw)) (snd (gwVersion gw)))))"
| "serverCall E gw (CallAddNodePool name pools) = answerWith ReplyOk (AddNodePool E name pools)"
| "serverCall E gw (CallDeleteNodePool name names) = answerWith ReplyOk (DeleteNodePool E name names)"
| "serverCall E gw (CallScaleNodePool name pools) = answerWith ReplyOk (ScaleNodePool E name pools)"
| "serverCall E gw (CallGetUpgradeClusterInformation name) =
     answerWith (\<lambda>(ok, versions). ReplyUpgrades ok versions) GetUpgradeClusterInformation"
| "serverCall E gw (CallUpgradeCluster name version) = answerWith ReplyOk (UpgradeCluster E name version)"

definition grpcClient :: "env \<Rightarrow> gateway \<Rightarrow> cluster_client" where
  "grpcClient E gw rpc = (case gwTransport gw rpc of
       Delivered \<Rightarrow> serverCall E gw rpc
     | Undelivered err \<Rightarrow> ret (Returns (Inl err))
     | AnswerLost err \<Rightarrow> do {
         r \<leftarrow> serverCall E gw rpc;
         ret (case r of Panics \<Rightarrow> Panics | Returns _ \<Rightarrow> Returns (Inl err))
       })"

definition clusterGateway :: "env \<Rightarrow> gateway \<Rightarrow> registered_handler serve_table" where
  "clusterGateway E gw = RegisterClusterHandlerClient gw (grpcClient E gw) []"

definition refuse :: "nat \<Rightarrow> string \<Rightarrow> response_io" where
  "refuse code text = ret (Returns \<lparr>htStatus = code, htHeader = [(''Content-Type'', ''text/plain; charset=utf-8''),
       (''X-Content-Type-Options'', ''nosniff'')],
     htBody = text @ newline\<rparr>)"

definition gatewayHTTP :: "env \<Rightarrow> gateway \<Rightarrow> rest_request \<Rightarrow> response_io" where
  "gatewayHTTP E gw r = (case gatewayServe gw (clusterGateway E gw) r of
       Refused code text \<Rightarrow> refuse code text
     | Handled h r pathParams \<Rightarrow> h r pathParams)"

definition corsRequest :: "rest_request \<Rightarrow> http_request" where
  "corsRequest r = \<lparr>hrMethod = rqMethod r, hrOrigin = goIndex (rqHeader r) ''Origin'',
     hrRequestMethod = goIndex (rqHeader r) ''Access-Control-Request-Method''\<rparr>"

definition withHeader :: "string go_map \<Rightarrow> response_io \<Rightarrow> response_io" where
  "withHeader header m = do {
     resp \<leftarrow> m;
     ret (case resp of Panics \<Rightarrow> Panics | Returns resp \<Rightarrow> Returns (resp\<lparr>htHeader := header @ htHeader resp\<rparr>))
   }"

text \<open>The server for HTTP/1. The handler behind the cross-origin rule sets other headers than the rule.\<close>

definition httpServer :: "env \<Rightarrow> gateway \<Rightarrow> rest_request \<Rightarrow> response_io" where
  "httpServer E gw r = (case route (rqPath r) of
       None \<Rightarrow> refuse 404 ''404 page not found''
     | Some (FileServer pre fs) \<Rightarrow> ret (Returns (gwFile gw pre fs r))
     | Some GatewayWithCORS \<Rightarrow> (case allowCORS (corsRequest r) [] of (header, goesOn) \<Rightarrow>
         if goesOn then withHeader header (gatewayHTTP E gw r)
         else ret (Returns \<lparr>htStatus = 200, htHeader = header, htBody = ''''\<rparr>)))"

section \<open>The documented service\<close>

text \<open>The rules for HTTP of the service in \<^verbatim>\<open>api.proto\<close>.\<close>

datatype rpc_name =
    RpcCreateCluster | RpcGetCluster | RpcDeleteCluster | RpcGetClusterList | RpcGetClusterNodesStatus
  | RpcGetVersionInformation | RpcAddNodePool | RpcDeleteNodePool | RpcScaleNodePool
  | RpcGetUpgradeClusterInformation | RpcUpgradeCluster

definition protoRules :: "((string \<times> string) \<times> rpc_name) list" where
  "protoRules = [
     ((''POST'', ''/api/v1/cluster''), RpcCreateCluster),
     ((''GET'', ''/api/v1/cluster''), RpcGetCluster),
     ((''DELETE'', ''/api/v1/cluster''), RpcDeleteCluster),
     ((''GET'', ''/api/v1/cluster/list''), RpcGetClusterList),
     ((''GET'', ''/api/v1/cluster/nodesstatus''), RpcGetClusterNodesStatus),
     ((''GET'', ''/api/v1/version''), RpcGetVersionInformation),
     ((''POST'', ''/api/v1/cluster/pool''), RpcAddNodePool),
     ((''DELETE'', ''/api/v1/cluster/pool''), RpcDeleteNodePool),
     ((''PUT'', ''/api/v1/cluster/pool''), RpcScaleNodePool),
     ((''GET'', ''/api/v1/cluster/upgrade''), RpcGetUpgradeClusterInformation),
     ((''PUT'', ''/api/v1/cluster/upgrade''), RpcUpgradeCluster)]"

text \<open>The message of a call: of the body where the rule has one, otherwise of the query.\<close>

definition bodyOf :: "gateway \<Rightarrow> (string \<Rightarrow> 'm decoded) \<Rightarrow> 'm \<Rightarrow> rest_request \<Rightarrow> rest_status + 'm" where
  "bodyOf gw decode zero r = (case gwReadBody gw r of
       Some err \<Rightarrow> Inl (CodeInvalidArgument, errorText err)
     | None \<Rightarrow> (case decode (rqBody r) of
           Malformed err \<Rightarrow> Inl (CodeInvalidArgument, errorText err) | AtEOF \<Rightarrow> Inr zero | Decoded m \<Rightarrow> Inr m))"

definition queryOf :: "gateway \<Rightarrow> field_list \<Rightarrow> rest_request \<Rightarrow> rest_status + query_msg" where
  "queryOf gw props r = (case PopulateQueryParameters gw props (rqQuery r) \<lparr>qmName = '''', qmNames = []\<rparr> of
       Inl err \<Rightarrow> Inl (CodeInvalidArgument, errorText err) | Inr m \<Rightarrow> Inr m)"

fun decodeCall :: "gateway \<Rightarrow> rest_request \<Rightarrow> rpc_name \<Rightarrow> rest_status + rest_call" where
  "decodeCall gw r RpcCreateCluster = map_sum id CallCreateCluster (bodyOf gw (gwDecodeCreateCluster gw)
     \<lparr>ccName = '''', ccK8SVersion = '''', ccControlPlaneNodes = None, ccWorkerNodePools = []\<rparr> r)"
| "decodeCall gw r RpcGetCluster = map_sum id (\<lambda>m. CallGetCluster (qmName m)) (queryOf gw nameFields r)"
| "decodeCall gw r RpcDeleteCluster = map_sum id (\<lambda>m. CallDeleteCluster (qmName m)) (queryOf gw nameFields r)"
| "decodeCall gw r RpcGetClusterList = Inr CallGetClusterList"
| "decodeCall gw r RpcGetClusterNodesStatus =
     map_sum id (\<lambda>m. CallGetClusterNodesStatus (qmName m)) (queryOf gw GetClusterNodesStatusMsgFields r)"
| "decodeCall gw r RpcGetVersionInformation = Inr CallGetVersionInformation"
| "decodeCall gw r RpcAddNodePool =
     map_sum id (\<lambda>(n, pools). CallAddNodePool n pools) (bodyOf gw (gwDecodeAddNodePool gw) ('''', []) r)"
| "decodeCall gw r RpcDeleteNodePool =
     map_sum id (\<lambda>m. CallDeleteNodePool (qmName m) (qmNames m)) (queryOf gw DeleteNodePoolMsgFields r)"
| "decodeCall gw r RpcScaleNodePool =
     map_sum id (\<lambda>(n, pools). CallScaleNodePool n pools) (bodyOf gw (gwDecodeScaleNodePool gw) ('''', []) r)"
| "decodeCall gw r RpcGetUpgradeClusterInformation =
     map_sum id (\<lambda>m. CallGetUpgradeClusterInformation (qmName m)) (queryOf gw nameFields r)"
| "decodeCall gw r RpcUpgradeCluster =
     map_sum id (\<lambda>(n, version). CallUpgradeCluster n version) (bodyOf gw (gwDecodeUpgradeCluster gw) ('''', '''') r)"

definition respond :: "gateway \<Rightarrow> (rest_status + rest_reply) go \<Rightarrow> http_response go" where
  "respond gw r = (case r of
       Panics \<Rightarrow> Panics
     | Returns (Inl err) \<Rightarrow> Returns (HTTPError gw err)
     | Returns (Inr resp) \<Rightarrow> Returns (ForwardResponseMessage gw resp))"

text \<open>One colon at the end of a path is dropped.\<close>

definition withoutColon :: "string \<Rightarrow> string" where
  "withoutColon path = (if path \<noteq> '''' \<and> last path = CHR '':'' then butlast path else path)"

definition documented :: "env \<Rightarrow> gateway \<Rightarrow> rest_request \<Rightarrow> response_io" where
  "documented E gw r = (let path = withoutColon (rqPath r) in
     case map_of protoRules (rqMethod r, path) of
       None \<Rightarrow> if path \<in> (snd \<circ> fst) ` set protoRules then refuse 405 ''Method Not Allowed'' else refuse 404 ''Not Found''
     | Some name \<Rightarrow> (case gwAnnotate gw r of
           Some err \<Rightarrow> ret (Returns (HTTPError gw err))
         | None \<Rightarrow> (case decodeCall gw r name of
               Inl err \<Rightarrow> ret (Returns (HTTPError gw err))
             | Inr rpc \<Rightarrow> do {
                 resp \<leftarrow> grpcClient E gw rpc;
                 ret (respond gw resp)
               })))"

end
