(* ===== verification/Rest_Facts.thy ===== *)
theory Rest_Facts
  imports Rest_Api
begin

text \<open>
  The service over HTTP: how paths are matched, that the generated gateway implements the rules of
  \<^verbatim>\<open>api.proto\<close>, that each request performs at most one activity and a \<open>GET\<close> none that writes, and how a
  missing cluster is reported.
\<close>

section \<open>Paths\<close>

lemma literal3:
  "matchPattern (MustPattern (NewPattern 1 [2, 0, 2, 1, 2, 2] [a, b, c] '''')) cs verb =
     (if verb = '''' \<and> cs = [a, b, c] then Some [] else None)"
proof -
  consider "length cs < 3" | "length cs = 3" | "3 < length cs" by linarith
  then show ?thesis
  proof cases
    case 2
    then obtain x y z where "cs = [x, y, z]" by (auto simp: numeral_eq_Suc length_Suc_conv)
    then show ?thesis
      by (simp add: NewPattern_def opcodeOf_def pushed_def MustPattern_def matchPattern_def)
  qed (auto simp: NewPattern_def opcodeOf_def pushed_def MustPattern_def matchPattern_def)
qed

lemma literal4:
  "matchPattern (MustPattern (NewPattern 1 [2, 0, 2, 1, 2, 2, 2, 3] [a, b, c, d] '''')) cs verb =
     (if verb = '''' \<and> cs = [a, b, c, d] then Some [] else None)"
proof -
  consider "length cs < 4" | "length cs = 4" | "4 < length cs" by linarith
  then show ?thesis
  proof cases
    case 2
    then obtain x y z w where "cs = [x, y, z, w]" by (auto simp: numeral_eq_Suc length_Suc_conv)
    then show ?thesis
      by (simp add: NewPattern_def opcodeOf_def pushed_def MustPattern_def matchPattern_def)
  qed (auto simp: NewPattern_def opcodeOf_def pushed_def MustPattern_def matchPattern_def)
qed

lemma lastIndex_None: "lastIndex c s = None \<longleftrightarrow> c \<notin> set s"
  by (induction s) (auto split: option.splits)

lemma lastIndex_Some:
  "lastIndex c s = Some i \<longleftrightarrow> (\<exists>s1 s2. s = s1 @ c # s2 \<and> length s1 = i \<and> c \<notin> set s2)"
proof (induction s arbitrary: i)
  case (Cons x xs)
  show ?case
  proof (cases "lastIndex c xs")
    case None
    then have "c \<notin> set xs" by (simp add: lastIndex_None)
    with None show ?thesis by (auto simp: Cons_eq_append_conv)
  next
    case (Some j)
    then obtain s1 s2 where xs: "xs = s1 @ c # s2" "length s1 = j" "c \<notin> set s2" using Cons.IH by blast
    show ?thesis
    proof
      assume "lastIndex c (x # xs) = Some i"
      with Some xs show "\<exists>s1 s2. x # xs = s1 @ c # s2 \<and> length s1 = i \<and> c \<notin> set s2"
        by (intro exI [of _ "x # s1"] exI [of _ s2]) simp
    next
      assume "\<exists>s1 s2. x # xs = s1 @ c # s2 \<and> length s1 = i \<and> c \<notin> set s2"
      then obtain t1 t2 where t: "x # xs = t1 @ c # t2" "length t1 = i" "c \<notin> set t2" by blast
      from t xs have "t1 \<noteq> []" by (cases t1) auto
      with t obtain u where "t1 = x # u" "xs = u @ c # t2" by (cases t1) auto
      with t Cons.IH [of "length u"] show "lastIndex c (x # xs) = Some i" by auto
    qed
  qed
qed simp

text \<open>A path of plain components: none is empty, none has a slash or a colon.\<close>

definition plain :: "string list \<Rightarrow> bool" where
  "plain cs \<longleftrightarrow> cs \<noteq> [] \<and> list_all (\<lambda>f. f \<noteq> '''' \<and> CHR ''/'' \<notin> set f \<and> CHR '':'' \<notin> set f) cs"

lemma joinWith_snoc: "joinWith sep (fs @ [f @ g]) = joinWith sep (fs @ [f]) @ g"
  by (induction fs rule: induct_list012) (auto simp: joinWith_Cons)

lemma splitOn_eq: "list_all (\<lambda>f. c \<notin> set f) fs \<Longrightarrow> fs \<noteq> [] \<Longrightarrow> splitOn c s = fs \<longleftrightarrow> s = joinWith [c] fs"
  using joinWith_splitOn [of c s] splitOn_joinWith [of fs c] by (auto simp: list_all_iff)

lemma last_joinWith: "fs \<noteq> [] \<Longrightarrow> last fs \<noteq> [] \<Longrightarrow> joinWith sep fs \<noteq> [] \<and> last (joinWith sep fs) = last (last fs)"
  by (induction fs rule: induct_list012) (auto simp: joinWith_Cons)

lemma parsePath_plain:
  assumes "plain cs"
  shows "parsePath p = Some (cs, '''') \<longleftrightarrow> p = joinWith ''/'' cs \<or> p = joinWith ''/'' cs @ '':''"
proof -
  from assms obtain fs f where cs: "cs = fs @ [f]" by (cases cs rule: rev_exhaust) (auto simp: plain_def)
  with assms have f: "f \<noteq> ''''" "CHR '':'' \<notin> set f" "CHR ''/'' \<notin> set f" "list_all (\<lambda>f. CHR ''/'' \<notin> set f) fs"
    by (auto simp: plain_def list_all_iff)
  have direct: "p = joinWith ''/'' cs \<longleftrightarrow> splitOn CHR ''/'' p = cs"
    using f by (subst splitOn_eq) (auto simp: cs)
  have colon: "p = joinWith ''/'' cs @ '':'' \<longleftrightarrow> splitOn CHR ''/'' p = fs @ [f @ '':'']"
    using f by (subst splitOn_eq) (auto simp: cs joinWith_snoc)
  show ?thesis
  proof
    assume parsed: "parsePath p = Some (cs, '''')"
    show "p = joinWith ''/'' cs \<or> p = joinWith ''/'' cs @ '':''"
    proof (cases "lastIndex CHR '':'' (last (splitOn CHR ''/'' p))")
      case None
      with parsed direct show ?thesis by (simp add: parsePath_def Let_def)
    next
      case (Some i)
      then obtain s1 s2 where s: "last (splitOn CHR ''/'' p) = s1 @ CHR '':'' # s2" "length s1 = i"
        by (auto simp: lastIndex_Some)
      with parsed Some have "splitOn CHR ''/'' p = fs @ [f @ '':'']"
        using append_butlast_last_id [OF splitOn_not_Nil, of "CHR ''/''" p]
        by (auto simp: parsePath_def Let_def cs split: if_splits)
      with colon show ?thesis by simp
    qed
  next
    assume "p = joinWith ''/'' cs \<or> p = joinWith ''/'' cs @ '':''"
    then show "parsePath p = Some (cs, '''')"
    proof
      assume "p = joinWith ''/'' cs"
      moreover from f have "lastIndex CHR '':'' f = None" by (simp add: lastIndex_None)
      ultimately show ?thesis using direct by (simp add: parsePath_def Let_def cs)
    next
      assume "p = joinWith ''/'' cs @ '':''"
      with colon have split: "splitOn CHR ''/'' p = fs @ [f @ '':'']" by simp
      have "lastIndex CHR '':'' (f @ '':'') = Some (length f)"
        by (simp add: lastIndex_Some) (intro exI [of _ f] exI [of _ "[]"], simp)
      with split f show ?thesis by (simp add: parsePath_def Let_def cs)
    qed
  qed
qed

lemma withoutColon_plain:
  assumes "plain cs"
  shows "withoutColon (CHR ''/'' # p) = CHR ''/'' # joinWith ''/'' cs \<longleftrightarrow> p = joinWith ''/'' cs \<or> p = joinWith ''/'' cs @ '':''"
proof -
  have last: "joinWith ''/'' cs \<noteq> ''''" "last (joinWith ''/'' cs) \<noteq> CHR '':''"
    using last_joinWith [of cs "''/''"] assms by (auto simp: plain_def list_all_iff) (metis last_in_set)+
  show ?thesis
  proof (cases "p \<noteq> '''' \<and> last p = CHR '':''")
    case True
    then obtain q where "p = q @ '':''" by (metis append_butlast_last_id)
    moreover from last(2) have "joinWith ''/'' cs \<noteq> q @ '':''" by (metis last_snoc)
    ultimately show ?thesis using last by (auto simp: withoutColon_def butlast_append)
  next
    case False
    with last show ?thesis by (auto simp: withoutColon_def)
  qed
qed

lemma parsed_iff:
  "plain cs \<Longrightarrow> parsePath p = Some (cs, '''') \<longleftrightarrow> withoutColon (CHR ''/'' # p) = CHR ''/'' # joinWith ''/'' cs"
  by (simp add: parsePath_plain withoutColon_plain)

section \<open>The gateway implements the documented service\<close>

lemma endpoints:
  assumes "prefix ''/'' path"
  shows "parsePath (tl path) = Some ([''api'', ''v1'', ''cluster''], '''') \<longleftrightarrow> withoutColon path = ''/api/v1/cluster''"
    "parsePath (tl path) = Some ([''api'', ''v1'', ''version''], '''') \<longleftrightarrow> withoutColon path = ''/api/v1/version''"
    "parsePath (tl path) = Some ([''api'', ''v1'', ''cluster'', ''list''], '''') \<longleftrightarrow> withoutColon path = ''/api/v1/cluster/list''"
    "parsePath (tl path) = Some ([''api'', ''v1'', ''cluster'', ''nodesstatus''], '''')
       \<longleftrightarrow> withoutColon path = ''/api/v1/cluster/nodesstatus''"
    "parsePath (tl path) = Some ([''api'', ''v1'', ''cluster'', ''pool''], '''') \<longleftrightarrow> withoutColon path = ''/api/v1/cluster/pool''"
    "parsePath (tl path) = Some ([''api'', ''v1'', ''cluster'', ''upgrade''], '''')
       \<longleftrightarrow> withoutColon path = ''/api/v1/cluster/upgrade''"
proof -
  obtain p where "path = CHR ''/'' # p" using assms by (cases path) auto
  then show "parsePath (tl path) = Some ([''api'', ''v1'', ''cluster''], '''') \<longleftrightarrow> withoutColon path = ''/api/v1/cluster''"
    "parsePath (tl path) = Some ([''api'', ''v1'', ''version''], '''') \<longleftrightarrow> withoutColon path = ''/api/v1/version''"
    "parsePath (tl path) = Some ([''api'', ''v1'', ''cluster'', ''list''], '''') \<longleftrightarrow> withoutColon path = ''/api/v1/cluster/list''"
    "parsePath (tl path) = Some ([''api'', ''v1'', ''cluster'', ''nodesstatus''], '''')
       \<longleftrightarrow> withoutColon path = ''/api/v1/cluster/nodesstatus''"
    "parsePath (tl path) = Some ([''api'', ''v1'', ''cluster'', ''pool''], '''') \<longleftrightarrow> withoutColon path = ''/api/v1/cluster/pool''"
    "parsePath (tl path) = Some ([''api'', ''v1'', ''cluster'', ''upgrade''], '''')
       \<longleftrightarrow> withoutColon path = ''/api/v1/cluster/upgrade''"
    by (simp_all add: parsed_iff plain_def)
qed

lemmas cluster_patterns = pattern_Cluster_CreateCluster_0_def pattern_Cluster_GetCluster_0_def
  pattern_Cluster_DeleteCluster_0_def pattern_Cluster_GetClusterList_0_def pattern_Cluster_GetClusterNodesStatus_0_def
  pattern_Cluster_GetVersionInformation_0_def pattern_Cluster_AddNodePool_0_def pattern_Cluster_DeleteNodePool_0_def
  pattern_Cluster_ScaleNodePool_0_def pattern_Cluster_GetUpgradeClusterInformation_0_def
  pattern_Cluster_UpgradeCluster_0_def

lemmas cluster_requests = request_Cluster_CreateCluster_0_def request_Cluster_GetCluster_0_def
  request_Cluster_DeleteCluster_0_def request_Cluster_GetClusterList_0_def request_Cluster_GetClusterNodesStatus_0_def
  request_Cluster_GetVersionInformation_0_def request_Cluster_AddNodePool_0_def request_Cluster_DeleteNodePool_0_def
  request_Cluster_ScaleNodePool_0_def request_Cluster_GetUpgradeClusterInformation_0_def
  request_Cluster_UpgradeCluster_0_def

fun requestFor :: "rpc_name \<Rightarrow> rest_handler" where
  "requestFor RpcCreateCluster = request_Cluster_CreateCluster_0"
| "requestFor RpcGetCluster = request_Cluster_GetCluster_0"
| "requestFor RpcDeleteCluster = request_Cluster_DeleteCluster_0"
| "requestFor RpcGetClusterList = request_Cluster_GetClusterList_0"
| "requestFor RpcGetClusterNodesStatus = request_Cluster_GetClusterNodesStatus_0"
| "requestFor RpcGetVersionInformation = request_Cluster_GetVersionInformation_0"
| "requestFor RpcAddNodePool = request_Cluster_AddNodePool_0"
| "requestFor RpcDeleteNodePool = request_Cluster_DeleteNodePool_0"
| "requestFor RpcScaleNodePool = request_Cluster_ScaleNodePool_0"
| "requestFor RpcGetUpgradeClusterInformation = request_Cluster_GetUpgradeClusterInformation_0"
| "requestFor RpcUpgradeCluster = request_Cluster_UpgradeCluster_0"

lemma request_decodes:
  "requestFor name gw client r params = (case decodeCall gw r name of
     Inl err \<Rightarrow> ret (Returns (Inl err)) | Inr rpc \<Rightarrow> client rpc)"
  by (cases name)
    (auto simp: cluster_requests withBody_def withQuery_def bodyOf_def queryOf_def split: option.split decoded.split sum.split)

lemma gateway_handlers:
  assumes "prefix ''/'' path" and "parsePath (tl path) = Some (components, verb)"
  shows "firstMatch (muxHandlers (clusterGateway E gw) m) components verb = map_option
     (\<lambda>name. (serveCall gw (requestFor name gw (grpcClient E gw)), [])) (map_of protoRules (m, withoutColon path))"
proof -
  have endpoint: "verb = '''' \<and> components = cs \<longleftrightarrow> parsePath (tl path) = Some (cs, '''')" for cs
    using assms(2) by auto
  have "m \<in> {''POST'', ''GET'', ''DELETE'', ''PUT''} \<or> muxHandlers (clusterGateway E gw) m = []
      \<and> map_of protoRules (m, withoutColon path) = None"
    by (auto simp: clusterGateway_def RegisterClusterHandlerClient_def handle_defs muxHandle_def muxHandlers_def goGet_def goPut_def
        update_conv' protoRules_def Let_def)
  then show ?thesis
    by (elim disjE insertE)
      (simp_all add: clusterGateway_def RegisterClusterHandlerClient_def handle_defs muxHandle_def muxHandlers_def Let_def
        protoRules_def cluster_patterns literal3 literal4 endpoint endpoints [OF assms(1)])
qed

lemma otherMethods_refuse:
  "\<not> isPathLengthFallback r \<Longrightarrow> otherMethods gw mux r components verb ms =
     (if \<exists>m \<in> set ms. m \<noteq> rqMethod r \<and> firstMatch (muxHandlers mux m) components verb \<noteq> None then refusal 405 else refusal 404)"
  by (induction ms) (auto split: option.splits)

lemma documented_paths:
  "path \<in> (snd \<circ> fst) ` set protoRules \<longleftrightarrow>
     (\<exists>m \<in> {''POST'', ''GET'', ''DELETE'', ''PUT''}. map_of protoRules (m, path) \<noteq> None)"
  by (auto simp: protoRules_def)

lemma no_rule:
  assumes "prefix ''/'' path" and "parsePath (tl path) = None"
  shows "map_of protoRules (m, withoutColon path) = None"
  using assms endpoints [OF assms(1)] by (auto simp: protoRules_def)

lemma findHandler_rule:
  assumes "prefix ''/'' (rqPath r)" and "parsePath (tl (rqPath r)) = Some (components, verb)"
    and "\<not> isPathLengthFallback r" and "set (gwOrder gw r) = {''POST'', ''GET'', ''DELETE'', ''PUT''}"
  shows "findHandler gw (clusterGateway E gw) r components verb =
     (case map_of protoRules (rqMethod r, withoutColon (rqPath r)) of
        Some name \<Rightarrow> Handled (serveCall gw (requestFor name gw (grpcClient E gw))) r []
      | None \<Rightarrow> if withoutColon (rqPath r) \<in> (snd \<circ> fst) ` set protoRules then refusal 405 else refusal 404)"
proof (cases "map_of protoRules (rqMethod r, withoutColon (rqPath r))")
  case None
  have other: "(\<exists>m \<in> set (gwOrder gw r). m \<noteq> rqMethod r \<and> map_of protoRules (m, withoutColon (rqPath r)) \<noteq> None)
      \<longleftrightarrow> withoutColon (rqPath r) \<in> (snd \<circ> fst) ` set protoRules"
    unfolding documented_paths assms(4) by (rule bex_cong [OF refl]) (metis None)
  show ?thesis
    by (simp only: findHandler_def gateway_handlers [OF assms(1,2)] otherMethods_refuse [OF assms(3)] None
        option.map option.case map_option_is_None other)
qed (simp add: findHandler_def gateway_handlers [OF assms(1,2)])

lemma serveCall_rule:
  "serveCall gw (requestFor name gw (grpcClient E gw)) r [] = (case gwAnnotate gw r of
       Some err \<Rightarrow> ret (Returns (HTTPError gw err))
     | None \<Rightarrow> (case decodeCall gw r name of
           Inl err \<Rightarrow> ret (Returns (HTTPError gw err))
         | Inr rpc \<Rightarrow> do {
             resp \<leftarrow> grpcClient E gw rpc;
             ret (respond gw resp)
           }))"
  by (simp add: serveCall_def request_decodes respond_def split: option.split sum.split)

lemma gateway_documented:
  assumes "prefix ''/'' (rqPath r)" and "\<not> isPathLengthFallback r"
    and "set (gwOrder gw r) = {''POST'', ''GET'', ''DELETE'', ''PUT''}"
  shows "gatewayHTTP E gw r = documented E gw r"
proof (cases "parsePath (tl (rqPath r))")
  case None
  with assms(1) have "withoutColon (rqPath r) \<notin> (snd \<circ> fst) ` set protoRules"
    by (simp only: documented_paths) (simp add: no_rule)
  with None assms show ?thesis
    by (simp add: gatewayHTTP_def gatewayServe_def documented_def no_rule refusal_def Let_def)
next
  case (Some cv)
  then obtain components verb where parsed: "parsePath (tl (rqPath r)) = Some (components, verb)" by (cases cv) auto
  have "gatewayServe gw (clusterGateway E gw) r = findHandler gw (clusterGateway E gw) r components verb"
    using assms parsed by (simp add: gatewayServe_def Let_def)
  then show ?thesis
    by (simp add: gatewayHTTP_def findHandler_rule [OF assms(1) parsed assms(2,3)] serveCall_rule documented_def
        refusal_def Let_def split: option.split del: map_of.simps)
qed

lemma httpServer_documented:
  assumes "prefix ''/api/'' (rqPath r)" and "\<not> isPathLengthFallback r"
    and "set (gwOrder gw r) = {''POST'', ''GET'', ''DELETE'', ''PUT''}" and "snd (allowCORS (corsRequest r) [])"
  shows "httpServer E gw r = withHeader (fst (allowCORS (corsRequest r) [])) (documented E gw r)"
proof -
  have slash: "prefix ''/'' (rqPath r)" using assms(1) by (auto simp: prefix_def)
  with gateway_paths [OF slash] assms show ?thesis
    by (simp add: httpServer_def gateway_documented split_beta)
qed

section \<open>What a request does\<close>

text \<open>The activity that serves a call; two calls touch nothing.\<close>

fun activityOf :: "rest_call \<Rightarrow> activity option" where
  "activityOf (CallCreateCluster msg) = Some (CreatesCluster msg)"
| "activityOf (CallGetCluster name) = Some (ShowsCluster name)"
| "activityOf (CallDeleteCluster name) = Some (DeletesCluster name)"
| "activityOf CallGetClusterList = Some ListsClusters"
| "activityOf (CallGetClusterNodesStatus name) = Some (ShowsNodes name)"
| "activityOf CallGetVersionInformation = None"
| "activityOf (CallAddNodePool name pools) = Some (AddsNodePool name pools)"
| "activityOf (CallDeleteNodePool name names) = Some (DeletesNodePool name names)"
| "activityOf (CallScaleNodePool name pools) = Some (ScalesNodePool name pools)"
| "activityOf (CallGetUpgradeClusterInformation name) = None"
| "activityOf (CallUpgradeCluster name version) = Some (UpgradesCluster name version)"

abbreviation eventsOf :: "'a io \<Rightarrow> trace \<Rightarrow> trace" where "eventsOf m t \<equiv> snd (run_state m t)"

lemma eventsOf_bind_ret [simp]: "eventsOf (do { r \<leftarrow> m; ret (f r) }) t = eventsOf m t"
  by (simp add: split_beta)

lemma eventsOf_case_go [simp]:
  "eventsOf (do { r \<leftarrow> m; ret (case r of Panics \<Rightarrow> Panics | Returns a \<Rightarrow> f a) }) t = eventsOf m t"
  by (simp add: split_beta)

lemma serverCall_events:
  "eventsOf (serverCall E gw rpc) t = (case activityOf rpc of None \<Rightarrow> t | Some a \<Rightarrow> eventsOf (perform E a) t)"
  by (cases rpc) (simp_all add: answerWith_def toItsEnd_def split_beta GetUpgradeClusterInformation_def)

lemma grpcClient_events:
  "eventsOf (grpcClient E gw rpc) t = t \<or> (\<exists>a. activityOf rpc = Some a \<and> eventsOf (grpcClient E gw rpc) t = eventsOf (perform E a) t)"
  by (cases "gwTransport gw rpc") (auto simp: grpcClient_def serverCall_events split_beta split: option.split)

lemma otherMethods_handled:
  "otherMethods gw mux r components verb ms = Handled h r' ps \<Longrightarrow>
     isPathLengthFallback r \<and> (\<exists>m. firstMatch (muxHandlers mux m) components verb = Some (h, ps))"
  by (induction ms) (auto simp: refusal_def split: if_splits option.splits)

lemma findHandler_handled:
  "findHandler gw mux r components verb = Handled h r' ps \<Longrightarrow>
     \<exists>m. firstMatch (muxHandlers mux m) components verb = Some (h, ps) \<and> (rqMethod r \<noteq> ''POST'' \<longrightarrow> m = rqMethod r)"
  by (auto simp: findHandler_def isPathLengthFallback_def split: option.splits dest!: otherMethods_handled)

lemma gatewayServe_handled:
  assumes "gatewayServe gw (clusterGateway E gw) r = Handled h r' ps"
  shows "\<exists>name m. h = serveCall gw (requestFor name gw (grpcClient E gw)) \<and> ps = []
    \<and> map_of protoRules (m, withoutColon (rqPath r)) = Some name \<and> (rqMethod r = ''GET'' \<longrightarrow> m = ''GET'')"
proof -
  from assms obtain components verb r1 where slash: "prefix ''/'' (rqPath r)"
    and parsed: "parsePath (tl (rqPath r)) = Some (components, verb)"
    and found: "findHandler gw (clusterGateway E gw) r1 components verb = Handled h r' ps"
    and get: "rqMethod r = ''GET'' \<longrightarrow> rqMethod r1 = ''GET''"
    by (auto simp: gatewayServe_def refusal_def isPathLengthFallback_def Let_def split: if_splits option.splits)
  from findHandler_handled [OF found] obtain m where
    m: "firstMatch (muxHandlers (clusterGateway E gw) m) components verb = Some (h, ps)" "rqMethod r1 \<noteq> ''POST'' \<longrightarrow> m = rqMethod r1"
    by blast
  from m(1) obtain name where "map_of protoRules (m, withoutColon (rqPath r)) = Some name"
    "h = serveCall gw (requestFor name gw (grpcClient E gw))" "ps = []"
    unfolding gateway_handlers [OF slash parsed] by (auto simp: map_option_eq_Some)
  with m(2) get show ?thesis by auto
qed

definition readingRpc :: "rpc_name \<Rightarrow> bool" where
  "readingRpc name \<longleftrightarrow> name \<in> {RpcGetCluster, RpcGetClusterList, RpcGetClusterNodesStatus, RpcGetVersionInformation,
     RpcGetUpgradeClusterInformation}"

lemma get_reads: "map_of protoRules (''GET'', path) = Some name \<Longrightarrow> readingRpc name"
  by (auto simp: protoRules_def readingRpc_def split: if_splits)

fun readsOnly :: "activity \<Rightarrow> bool" where
  "readsOnly (ShowsCluster name) \<longleftrightarrow> True"
| "readsOnly (ShowsNodes name) \<longleftrightarrow> True"
| "readsOnly ListsClusters \<longleftrightarrow> True"
| "readsOnly a \<longleftrightarrow> False"

lemma map_sum_Inr: "map_sum f g x = Inr y \<longleftrightarrow> (\<exists>z. x = Inr z \<and> y = g z)"
  by (cases x) auto

lemma reading_call:
  "readingRpc name \<Longrightarrow> decodeCall gw r name = Inr rpc \<Longrightarrow> activityOf rpc = Some a \<Longrightarrow> readsOnly a"
  by (cases name) (auto simp: readingRpc_def map_sum_Inr)

lemma readsOnly_quiet: "readsOnly a \<Longrightarrow> emits (\<lambda>e. \<not> isWrite e) (perform E a)"
  by (cases a)
    (auto simp: GetCluster_def GetClusterNodesStatus_def GetClusterList_def GetKubeConfig_def world_defs intro!: safe_intros)

lemma handler_events:
  "eventsOf (serveCall gw (requestFor name gw client) r ps) t =
     (case (gwAnnotate gw r, decodeCall gw r name) of (None, Inr rpc) \<Rightarrow> eventsOf (client rpc) t | _ \<Rightarrow> t)"
  by (simp add: serveCall_def request_decodes split_beta split: option.split sum.split)

lemma gatewayHTTP_events:
  "eventsOf (gatewayHTTP E gw r) t = t \<or> (\<exists>a. eventsOf (gatewayHTTP E gw r) t = eventsOf (perform E a) t
     \<and> (rqMethod r = ''GET'' \<longrightarrow> readsOnly a))"
proof (cases "gatewayServe gw (clusterGateway E gw) r")
  case (Handled h r' ps)
  then obtain name m where h: "h = serveCall gw (requestFor name gw (grpcClient E gw))"
    "map_of protoRules (m, withoutColon (rqPath r)) = Some name" "rqMethod r = ''GET'' \<longrightarrow> m = ''GET''"
    using gatewayServe_handled by blast
  have run: "eventsOf (gatewayHTTP E gw r) t = eventsOf (h r' ps) t"
    using Handled by (simp add: gatewayHTTP_def)
  show ?thesis
  proof (cases "\<exists>rpc. gwAnnotate gw r' = None \<and> decodeCall gw r' name = Inr rpc")
    case True
    then obtain rpc where rpc: "gwAnnotate gw r' = None" "decodeCall gw r' name = Inr rpc" by blast
    with run h(1) have "eventsOf (gatewayHTTP E gw r) t = eventsOf (grpcClient E gw rpc) t"
      by (simp add: handler_events)
    with grpcClient_events [of E gw rpc t] h(2,3) rpc(2) show ?thesis
      by (auto dest: get_reads intro: reading_call)
  next
    case False
    with run h(1) show ?thesis by (auto simp: handler_events split: option.splits sum.splits)
  qed
next
  case (Refused code msg)
  then show ?thesis by (simp add: gatewayHTTP_def refuse_def)
qed

text \<open>C14: Whatever is sent to the server over HTTP, a form with another method in its header included, it makes
  no external call or exactly those of one activity of the operator, so that what is shown of all runs of its
  activities holds for all its users; and a request with the method \<open>GET\<close> writes nothing.\<close>

theorem requests_are_activities:
  "(eventsOf (httpServer E gw r) t = t \<or> (\<exists>a. eventsOf (httpServer E gw r) t = eventsOf (perform E a) t))
     \<and> (rqMethod r = ''GET'' \<longrightarrow> writes (eventsOf (httpServer E gw r) t) = writes t)"
proof -
  have same: "eventsOf (httpServer E gw r) t = t \<or> eventsOf (httpServer E gw r) t = eventsOf (gatewayHTTP E gw r) t"
    by (auto simp: httpServer_def withHeader_def refuse_def split_beta split: option.split http_handler.split)
  have quiet: "writes (eventsOf (perform E a) t) = writes t" if "readsOnly a" for a
    using wp_noWrites [OF readsOnly_quiet [OF that], where Q = "\<lambda>_ t'. writes t' = writes t"] by (simp add: wp_iff)
  from same gatewayHTTP_events [of E gw r t] quiet show ?thesis by metis
qed

section \<open>The service over HTTP\<close>


text \<open>A gateway whose messages are all empty and arrive, and two requests.\<close>

definition quietGateway :: gateway where
  "quietGateway = \<lparr>gwOrder = \<lambda>_. [''POST'', ''GET'', ''DELETE'', ''PUT''], gwParseForm = \<lambda>_. None, gwReadBody = \<lambda>_. None,
     gwDecodeCreateCluster = \<lambda>_. AtEOF, gwDecodeAddNodePool = \<lambda>_. AtEOF, gwDecodeScaleNodePool = \<lambda>_. AtEOF,
     gwDecodeUpgradeCluster = \<lambda>_. AtEOF, gwBookkeeping = \<lambda>_ _ m. Inr m, gwAnnotate = \<lambda>_. None,
     gwTransport = \<lambda>_. Delivered, gwMarshal = \<lambda>_. Inr ''{}'', gwMarshalError = \<lambda>err. Some (snd err),
     gwVersion = (True, \<lparr>vrGitVersion = '''', vrGitCommit = '''', vrGitTreeState = '''', vrBuildDate = '''',
       vrGoVersion = '''', vrCompiler = '''', vrPlatform = ''''\<rparr>),
     gwFile = \<lambda>_ _ _. \<lparr>htStatus = 200, htHeader = [], htBody = ''''\<rparr>\<rparr>"

definition askCluster :: rest_request where
  "askCluster = \<lparr>rqMethod = ''GET'', rqPath = ''/api/v1/cluster'', rqHeader = [], rqQuery = [(''name'', [''c''])], rqBody = ''''\<rparr>"

definition patchCluster :: rest_request where
  "patchCluster = askCluster\<lparr>rqMethod := ''PATCH''\<rparr>"

lemma quietGateway_simps [simp]:
  "gwOrder quietGateway r = [''POST'', ''GET'', ''DELETE'', ''PUT'']" "gwAnnotate quietGateway r = None"
  "gwTransport quietGateway rpc = Delivered" "gwMarshalError quietGateway err = Some (snd err)"
  by (simp_all add: quietGateway_def)

lemma askCluster_simps [simp]:
  "rqMethod askCluster = ''GET''" "rqPath askCluster = ''/api/v1/cluster''" "\<not> isPathLengthFallback askCluster"
  "snd (allowCORS (corsRequest askCluster) [])" "decodeCall gw askCluster RpcGetCluster = Inr (CallGetCluster ''c'')"
  by (simp_all add: askCluster_def isPathLengthFallback_def allowCORS_def corsRequest_def goIndex_def queryOf_def
      mapKey_def populateFieldValueFromPath_def nameFields_def)


theorem requests_are_activities_witness:
  "writes (eventsOf (httpServer offline quietGateway askCluster) []) = []"
  using requests_are_activities [of offline quietGateway askCluster "[]"] by simp

text \<open>The cluster a call is about.\<close>

fun clusterOfCall :: "rest_call \<Rightarrow> string option" where
  "clusterOfCall (CallGetCluster name) = Some name"
| "clusterOfCall (CallDeleteCluster name) = Some name"
| "clusterOfCall (CallGetClusterNodesStatus name) = Some name"
| "clusterOfCall (CallAddNodePool name pools) = Some name"
| "clusterOfCall (CallDeleteNodePool name names) = Some name"
| "clusterOfCall (CallScaleNodePool name pools) = Some name"
| "clusterOfCall (CallUpgradeCluster name version) = Some name"
| "clusterOfCall _ = None"

lemma answerWith_missing:
  "reportsMissing m err t \<Longrightarrow>
     wp (answerWith f m) (\<lambda>r t'. r = Returns (Inl (CodeNotFound, errorText err)) \<and> writes t' = writes t) t"
  by (auto simp: reportsMissing_def answerWith_def elim!: wp_mono)

lemma serverCall_missing:
  assumes "clusterOfCall rpc = Some cl" and "\<And>t'. envGetCluster E t' (objectKey cl cl) = Inl err" and "isNotFound err"
  shows "wp (serverCall E gw rpc) (\<lambda>r t'. r = Returns (Inl (CodeNotFound, errorText err)) \<and> writes t' = writes t) t"
  using assms(1) missing_cluster_not_found [OF assms(2,3)] by (cases rpc) (simp_all add: answerWith_missing)



end
