(* ===== verification/Deep_Copy.thy ===== *)
theory Deep_Copy
  imports Prelude
begin

text \<open>
  Go values with their references, for the deep copies of the API objects: a heap of cells, the idioms of
  which the generated code is made (a new variable, a slice that is copied element by element, a map that
  is copied entry by entry), and the copy of a value as its type directs, which is the reference the
  generated functions are compared with.
\<close>

section \<open>Values and the heap\<close>

datatype go_scalar = GoString string | GoInt int | GoBool bool | GoTime int

text \<open>A struct is given by its fields; a slice by its backing array, where it begins in it and its length.\<close>

datatype go_value =
    Scalar go_scalar
  | Struct "string \<Rightarrow> go_value"
  | NilRef
  | Ptr nat
  | Slice nat nat nat
  | MapRef nat

datatype go_cell = Var go_value | Backing "go_value list" | Table "go_value go_map"

record go_heap =
  ghCells :: "nat \<rightharpoonup> go_cell"
  ghNext :: nat

type_synonym 'a go_run = "(go_heap, 'a) state"

definition allocCell :: "go_cell \<Rightarrow> nat go_run" where
  "allocCell c = State (\<lambda>h. (ghNext h, h\<lparr>ghCells := (ghCells h)(ghNext h \<mapsto> c), ghNext := Suc (ghNext h)\<rparr>))"

definition loadCell :: "nat \<Rightarrow> go_cell option go_run" where
  "loadCell a = State (\<lambda>h. (ghCells h a, h))"

definition storeCell :: "nat \<Rightarrow> go_cell \<Rightarrow> unit go_run" where
  "storeCell a c = State (\<lambda>h. ((), h\<lparr>ghCells := (ghCells h)(a \<mapsto> c)\<rparr>))"

fun varOf :: "go_cell option \<Rightarrow> go_value" where
  "varOf (Some (Var x)) = x"
| "varOf _ = NilRef"

fun elementsOf :: "go_cell option \<Rightarrow> go_value list" where
  "elementsOf (Some (Backing xs)) = xs"
| "elementsOf _ = []"

fun entriesOf :: "go_cell option \<Rightarrow> go_value go_map" where
  "entriesOf (Some (Table m)) = m"
| "entriesOf _ = []"

fun fieldOf :: "string \<Rightarrow> go_value \<Rightarrow> go_value" where
  "fieldOf n (Struct f) = f n"
| "fieldOf n _ = NilRef"

fun setField :: "string \<Rightarrow> go_value \<Rightarrow> go_value \<Rightarrow> go_value" where
  "setField n x (Struct f) = Struct (f(n := x))"
| "setField n x v = v"

section \<open>The idioms of the generated code\<close>

text \<open>\<open>out := new(T)\<close> and a copy of what a pointer points to, where the pointer is not nil. A new variable or
  element has no value of interest before the copy is stored in it.\<close>

definition newCopy :: "(go_value \<Rightarrow> go_value go_run) \<Rightarrow> go_value \<Rightarrow> go_value go_run" where
  "newCopy into v = (case v of
       Ptr a \<Rightarrow> do {
         out \<leftarrow> allocCell (Var NilRef);
         c \<leftarrow> loadCell a;
         x \<leftarrow> into (varOf c);
         _ \<leftarrow> storeCell out (Var x);
         ret (Ptr out)
       }
     | _ \<Rightarrow> ret v)"

definition setElement :: "nat \<Rightarrow> nat \<Rightarrow> go_value \<Rightarrow> unit go_run" where
  "setElement out i y = do {
     c \<leftarrow> loadCell out;
     storeCell out (Backing ((elementsOf c)[i := y]))
   }"

fun copyElements :: "(go_value \<Rightarrow> go_value go_run) \<Rightarrow> nat \<Rightarrow> nat \<Rightarrow> go_value list \<Rightarrow> unit go_run" where
  "copyElements into out i [] = ret ()"
| "copyElements into out i (x # xs) = do {
     y \<leftarrow> into x;
     _ \<leftarrow> setElement out i y;
     copyElements into out (i + 1) xs
   }"

definition copySlice :: "(go_value \<Rightarrow> go_value go_run) \<Rightarrow> go_value \<Rightarrow> go_value go_run" where
  "copySlice into v = (case v of
       Slice a i n \<Rightarrow> do {
         out \<leftarrow> allocCell (Backing (replicate n NilRef));
         c \<leftarrow> loadCell a;
         _ \<leftarrow> copyElements into out 0 (take n (drop i (elementsOf c)));
         ret (Slice out 0 n)
       }
     | _ \<Rightarrow> ret v)"

text \<open>\<open>copy\<close> of the whole slice.\<close>

definition copyPlain :: "go_value \<Rightarrow> go_value go_run" where
  "copyPlain v = (case v of
       Slice a i n \<Rightarrow> do {
         out \<leftarrow> allocCell (Backing (replicate n NilRef));
         c \<leftarrow> loadCell a;
         _ \<leftarrow> storeCell out (Backing (take n (drop i (elementsOf c))));
         ret (Slice out 0 n)
       }
     | _ \<Rightarrow> ret v)"

fun copyEntries :: "nat \<Rightarrow> go_value go_map \<Rightarrow> unit go_run" where
  "copyEntries out [] = ret ()"
| "copyEntries out ((key, val) # rest) = do {
     c \<leftarrow> loadCell out;
     _ \<leftarrow> storeCell out (Table (goPut key val (entriesOf c)));
     copyEntries out rest
   }"

definition copyMap :: "go_value \<Rightarrow> go_value go_run" where
  "copyMap v = (case v of
       MapRef a \<Rightarrow> do {
         out \<leftarrow> allocCell (Table []);
         c \<leftarrow> loadCell a;
         _ \<leftarrow> copyEntries out (entriesOf c);
         ret (MapRef out)
       }
     | _ \<Rightarrow> ret v)"

text \<open>A field of the copy.\<close>

definition copyField :: "string \<Rightarrow> (go_value \<Rightarrow> go_value go_run) \<Rightarrow> go_value \<Rightarrow> go_value \<Rightarrow> go_value go_run" where
  "copyField n f in' out = do {
     x \<leftarrow> f (fieldOf n in');
     ret (setField n x out)
   }"

section \<open>The copy that a type directs\<close>

datatype go_type = TScalar | TStruct "(string \<times> go_type) list" | TPtr go_type | TSlice go_type | TMap

text \<open>Types without references, which are copied by assignment.\<close>

fun plainType :: "go_type \<Rightarrow> bool" where
  "plainType TScalar \<longleftrightarrow> True"
| "plainType (TStruct fs) \<longleftrightarrow> list_all (\<lambda>(n, t). plainType t) fs"
| "plainType _ \<longleftrightarrow> False"

fun deepCopy :: "go_type \<Rightarrow> go_value \<Rightarrow> go_value go_run"
  and copyFields :: "(string \<times> go_type) list \<Rightarrow> go_value \<Rightarrow> go_value \<Rightarrow> go_value go_run" where
  "deepCopy TScalar v = ret v"
| "deepCopy (TStruct fs) v = copyFields fs v v"
| "deepCopy (TPtr t) v = newCopy (deepCopy t) v"
| "deepCopy (TSlice t) v = (if plainType t then copyPlain v else copySlice (deepCopy t) v)"
| "deepCopy TMap v = copyMap v"
| "copyFields [] in' out = ret out"
| "copyFields ((n, t) # fs) in' out =
     (if plainType t then copyFields fs in' out
      else do {
        out \<leftarrow> copyField n (deepCopy t) in' out;
        copyFields fs in' out
      })"

section \<open>What a value stands for\<close>

fun isScalar :: "go_value \<Rightarrow> bool" where
  "isScalar (Scalar s) \<longleftrightarrow> True"
| "isScalar _ \<longleftrightarrow> False"

fun hasType :: "go_heap \<Rightarrow> go_type \<Rightarrow> go_value \<Rightarrow> bool" where
  "hasType h TScalar v \<longleftrightarrow> isScalar v"
| "hasType h (TStruct fs) v \<longleftrightarrow> (case v of
       Struct f \<Rightarrow> distinct (map fst fs) \<and> list_all (\<lambda>(n, t). hasType h t (f n)) fs
     | _ \<Rightarrow> False)"
| "hasType h (TPtr t) v \<longleftrightarrow> (case v of
       NilRef \<Rightarrow> True
     | Ptr a \<Rightarrow> (case ghCells h a of Some (Var x) \<Rightarrow> hasType h t x | _ \<Rightarrow> False)
     | _ \<Rightarrow> False)"
| "hasType h (TSlice t) v \<longleftrightarrow> (case v of
       NilRef \<Rightarrow> True
     | Slice a i n \<Rightarrow> (case ghCells h a of
           Some (Backing xs) \<Rightarrow> i + n \<le> length xs \<and> list_all (hasType h t) (take n (drop i xs)) | _ \<Rightarrow> False)
     | _ \<Rightarrow> False)"
| "hasType h TMap v \<longleftrightarrow> (case v of
       NilRef \<Rightarrow> True
     | MapRef a \<Rightarrow> (case ghCells h a of Some (Table m) \<Rightarrow> go_map_wf m \<and> list_all (isScalar \<circ> snd) m | _ \<Rightarrow> False)
     | _ \<Rightarrow> False)"

text \<open>The value as a tree without references.\<close>

datatype go_tree = Leaf go_value | Node "(string \<times> go_tree) list" | NilTree | Pointee go_tree
  | Elements "go_tree list" | Entries "string \<rightharpoonup> go_value"

fun treeOf :: "go_heap \<Rightarrow> go_type \<Rightarrow> go_value \<Rightarrow> go_tree" where
  "treeOf h TScalar v = Leaf v"
| "treeOf h (TStruct fs) v = Node (map (\<lambda>(n, t). (n, treeOf h t (fieldOf n v))) fs)"
| "treeOf h (TPtr t) v = (case v of Ptr a \<Rightarrow> Pointee (treeOf h t (varOf (ghCells h a))) | _ \<Rightarrow> NilTree)"
| "treeOf h (TSlice t) v = (case v of
       Slice a i n \<Rightarrow> Elements (map (treeOf h t) (take n (drop i (elementsOf (ghCells h a))))) | _ \<Rightarrow> NilTree)"
| "treeOf h TMap v = (case v of MapRef a \<Rightarrow> Entries (map_of (entriesOf (ghCells h a))) | _ \<Rightarrow> NilTree)"

text \<open>The cells it uses.\<close>

fun cellsOf :: "go_heap \<Rightarrow> go_type \<Rightarrow> go_value \<Rightarrow> nat list" where
  "cellsOf h TScalar v = []"
| "cellsOf h (TStruct fs) v = concat (map (\<lambda>(n, t). cellsOf h t (fieldOf n v)) fs)"
| "cellsOf h (TPtr t) v = (case v of Ptr a \<Rightarrow> a # cellsOf h t (varOf (ghCells h a)) | _ \<Rightarrow> [])"
| "cellsOf h (TSlice t) v = (case v of
       Slice a i n \<Rightarrow> a # concat (map (cellsOf h t) (take n (drop i (elementsOf (ghCells h a))))) | _ \<Rightarrow> [])"
| "cellsOf h TMap v = (case v of MapRef a \<Rightarrow> [a] | _ \<Rightarrow> [])"

end
