(* ===== verification/Deep_Copies.thy ===== *)
theory Deep_Copies
  imports Deep_Copy
begin

text \<open>
  The generated deep copies of the API objects (\<^verbatim>\<open>pkg/apis/cluster/v1alpha1/zz_generated.deepcopy.go\<close> and
  \<^verbatim>\<open>pkg/apis/addons/v1alpha1/zz_generated.deepcopy.go\<close>) and the vendored copies they call. \<open>X_DeepCopyInto\<close> gets
  the struct \<open>*in\<close> and gives what it has written into \<open>*out\<close>, which begins as \<open>*in\<close>; \<open>T_X\<close> is the Go type
  \<open>X\<close>. A time is copied by assignment, as the library does: it is a value that is never changed in place.
\<close>

section \<open>The library the generated code calls\<close>

text \<open>The metadata of an object, its selector and its taints, from the vendored API machinery.\<close>

definition T_TypeMeta :: go_type where
  "T_TypeMeta = TStruct
    [(''Kind'', TScalar), (''APIVersion'', TScalar)]"

definition T_ListMeta :: go_type where
  "T_ListMeta = TStruct
    [(''SelfLink'', TScalar), (''ResourceVersion'', TScalar), (''Continue'', TScalar)]"

definition Time_DeepCopyInto :: "go_value \<Rightarrow> go_value go_run" where
  "Time_DeepCopyInto in' = ret in'"

definition Time_DeepCopy :: "go_value \<Rightarrow> go_value go_run" where
  "Time_DeepCopy = newCopy Time_DeepCopyInto"

definition T_OwnerReference :: go_type where
  "T_OwnerReference = TStruct
    [(''APIVersion'', TScalar), (''Kind'', TScalar), (''Name'', TScalar), (''UID'', TScalar),
     (''Controller'', TPtr TScalar), (''BlockOwnerDeletion'', TPtr TScalar)]"

definition OwnerReference_DeepCopyInto :: "go_value \<Rightarrow> go_value go_run" where
  "OwnerReference_DeepCopyInto in' = do {
     let out = in';
     out \<leftarrow> copyField ''Controller'' (newCopy ret) in' out;
     out \<leftarrow> copyField ''BlockOwnerDeletion'' (newCopy ret) in' out;
     ret out
   }"

definition T_StatusCause :: go_type where
  "T_StatusCause = TStruct
    [(''Type'', TScalar), (''Message'', TScalar), (''Field'', TScalar)]"

definition T_StatusDetails :: go_type where
  "T_StatusDetails = TStruct
    [(''Name'', TScalar), (''Group'', TScalar), (''Kind'', TScalar), (''UID'', TScalar),
     (''Causes'', TSlice T_StatusCause), (''RetryAfterSeconds'', TScalar)]"

definition StatusDetails_DeepCopyInto :: "go_value \<Rightarrow> go_value go_run" where
  "StatusDetails_DeepCopyInto in' = do {
     let out = in';
     out \<leftarrow> copyField ''Causes'' copyPlain in' out;
     ret out
   }"

definition T_Status :: go_type where
  "T_Status = TStruct
    [(''TypeMeta'', T_TypeMeta), (''ListMeta'', T_ListMeta), (''Status'', TScalar), (''Message'', TScalar),
     (''Reason'', TScalar), (''Details'', TPtr T_StatusDetails), (''Code'', TScalar)]"

definition Status_DeepCopyInto :: "go_value \<Rightarrow> go_value go_run" where
  "Status_DeepCopyInto in' = do {
     let out = in';
     let out = setField ''TypeMeta'' (fieldOf ''TypeMeta'' in') out;
     let out = setField ''ListMeta'' (fieldOf ''ListMeta'' in') out;
     out \<leftarrow> copyField ''Details'' (newCopy StatusDetails_DeepCopyInto) in' out;
     ret out
   }"

definition T_Initializer :: go_type where
  "T_Initializer = TStruct
    [(''Name'', TScalar)]"

definition T_Initializers :: go_type where
  "T_Initializers = TStruct
    [(''Pending'', TSlice T_Initializer), (''Result'', TPtr T_Status)]"

definition Initializers_DeepCopyInto :: "go_value \<Rightarrow> go_value go_run" where
  "Initializers_DeepCopyInto in' = do {
     let out = in';
     out \<leftarrow> copyField ''Pending'' copyPlain in' out;
     out \<leftarrow> copyField ''Result'' (newCopy Status_DeepCopyInto) in' out;
     ret out
   }"

definition T_ObjectMeta :: go_type where
  "T_ObjectMeta = TStruct
    [(''Name'', TScalar), (''GenerateName'', TScalar), (''Namespace'', TScalar), (''SelfLink'', TScalar),
     (''UID'', TScalar), (''ResourceVersion'', TScalar), (''Generation'', TScalar),
     (''CreationTimestamp'', TScalar), (''DeletionTimestamp'', TPtr TScalar),
     (''DeletionGracePeriodSeconds'', TPtr TScalar), (''Labels'', TMap), (''Annotations'', TMap),
     (''OwnerReferences'', TSlice T_OwnerReference), (''Initializers'', TPtr T_Initializers),
     (''Finalizers'', TSlice TScalar), (''ClusterName'', TScalar)]"

definition ObjectMeta_DeepCopyInto :: "go_value \<Rightarrow> go_value go_run" where
  "ObjectMeta_DeepCopyInto in' = do {
     let out = in';
     out \<leftarrow> copyField ''CreationTimestamp'' Time_DeepCopyInto in' out;
     out \<leftarrow> copyField ''DeletionTimestamp'' Time_DeepCopy in' out;
     out \<leftarrow> copyField ''DeletionGracePeriodSeconds'' (newCopy ret) in' out;
     out \<leftarrow> copyField ''Labels'' copyMap in' out;
     out \<leftarrow> copyField ''Annotations'' copyMap in' out;
     out \<leftarrow> copyField ''OwnerReferences'' (copySlice OwnerReference_DeepCopyInto) in' out;
     out \<leftarrow> copyField ''Initializers'' (newCopy Initializers_DeepCopyInto) in' out;
     out \<leftarrow> copyField ''Finalizers'' copyPlain in' out;
     ret out
   }"

definition T_LabelSelectorRequirement :: go_type where
  "T_LabelSelectorRequirement = TStruct
    [(''Key'', TScalar), (''Operator'', TScalar), (''Values'', TSlice TScalar)]"

definition LabelSelectorRequirement_DeepCopyInto :: "go_value \<Rightarrow> go_value go_run" where
  "LabelSelectorRequirement_DeepCopyInto in' = do {
     let out = in';
     out \<leftarrow> copyField ''Values'' copyPlain in' out;
     ret out
   }"

definition T_LabelSelector :: go_type where
  "T_LabelSelector = TStruct
    [(''MatchLabels'', TMap), (''MatchExpressions'', TSlice T_LabelSelectorRequirement)]"

definition LabelSelector_DeepCopyInto :: "go_value \<Rightarrow> go_value go_run" where
  "LabelSelector_DeepCopyInto in' = do {
     let out = in';
     out \<leftarrow> copyField ''MatchLabels'' copyMap in' out;
     out \<leftarrow> copyField ''MatchExpressions'' (copySlice LabelSelectorRequirement_DeepCopyInto) in' out;
     ret out
   }"

definition T_Taint :: go_type where
  "T_Taint = TStruct
    [(''Key'', TScalar), (''Value'', TScalar), (''Effect'', TScalar), (''TimeAdded'', TPtr TScalar)]"

definition Taint_DeepCopyInto :: "go_value \<Rightarrow> go_value go_run" where
  "Taint_DeepCopyInto in' = do {
     let out = in';
     out \<leftarrow> copyField ''TimeAdded'' Time_DeepCopy in' out;
     ret out
   }"

section \<open>Clusters\<close>

definition T_APIEndpoint :: go_type where
  "T_APIEndpoint = TStruct
    [(''Host'', TScalar), (''Port'', TScalar)]"

definition APIEndpoint_DeepCopyInto :: "go_value \<Rightarrow> go_value go_run" where
  "APIEndpoint_DeepCopyInto in' = ret in'"

definition APIEndpoint_DeepCopy :: "go_value \<Rightarrow> go_value go_run" where
  "APIEndpoint_DeepCopy = newCopy APIEndpoint_DeepCopyInto"

definition T_ClusterSpec :: go_type where
  "T_ClusterSpec = TStruct
    [(''KubernetesVersion'', TScalar)]"

definition ClusterSpec_DeepCopyInto :: "go_value \<Rightarrow> go_value go_run" where
  "ClusterSpec_DeepCopyInto in' = ret in'"

definition ClusterSpec_DeepCopy :: "go_value \<Rightarrow> go_value go_run" where
  "ClusterSpec_DeepCopy = newCopy ClusterSpec_DeepCopyInto"

definition T_ClusterStatus :: go_type where
  "T_ClusterStatus = TStruct
    [(''LastUpdated'', TPtr TScalar), (''APIEndpoint'', TScalar), (''Phase'', TScalar)]"

definition ClusterStatus_DeepCopyInto :: "go_value \<Rightarrow> go_value go_run" where
  "ClusterStatus_DeepCopyInto in' = do {
     let out = in';
     out \<leftarrow> copyField ''LastUpdated'' Time_DeepCopy in' out;
     ret out
   }"

definition ClusterStatus_DeepCopy :: "go_value \<Rightarrow> go_value go_run" where
  "ClusterStatus_DeepCopy = newCopy ClusterStatus_DeepCopyInto"

definition T_CnctCluster :: go_type where
  "T_CnctCluster = TStruct
    [(''TypeMeta'', T_TypeMeta), (''ObjectMeta'', T_ObjectMeta), (''Spec'', T_ClusterSpec),
     (''Status'', T_ClusterStatus)]"

definition CnctCluster_DeepCopyInto :: "go_value \<Rightarrow> go_value go_run" where
  "CnctCluster_DeepCopyInto in' = do {
     let out = in';
     let out = setField ''TypeMeta'' (fieldOf ''TypeMeta'' in') out;
     out \<leftarrow> copyField ''ObjectMeta'' ObjectMeta_DeepCopyInto in' out;
     let out = setField ''Spec'' (fieldOf ''Spec'' in') out;
     out \<leftarrow> copyField ''Status'' ClusterStatus_DeepCopyInto in' out;
     ret out
   }"

definition CnctCluster_DeepCopy :: "go_value \<Rightarrow> go_value go_run" where
  "CnctCluster_DeepCopy = newCopy CnctCluster_DeepCopyInto"

definition CnctCluster_DeepCopyObject :: "go_value \<Rightarrow> go_value option go_run" where
  "CnctCluster_DeepCopyObject in' = do {
     c \<leftarrow> CnctCluster_DeepCopy in';
     ret (if c \<noteq> NilRef then Some c else None)
   }"

definition T_CnctClusterList :: go_type where
  "T_CnctClusterList = TStruct
    [(''TypeMeta'', T_TypeMeta), (''ListMeta'', T_ListMeta), (''Items'', TSlice T_CnctCluster)]"

definition CnctClusterList_DeepCopyInto :: "go_value \<Rightarrow> go_value go_run" where
  "CnctClusterList_DeepCopyInto in' = do {
     let out = in';
     let out = setField ''TypeMeta'' (fieldOf ''TypeMeta'' in') out;
     let out = setField ''ListMeta'' (fieldOf ''ListMeta'' in') out;
     out \<leftarrow> copyField ''Items'' (copySlice CnctCluster_DeepCopyInto) in' out;
     ret out
   }"

definition CnctClusterList_DeepCopy :: "go_value \<Rightarrow> go_value go_run" where
  "CnctClusterList_DeepCopy = newCopy CnctClusterList_DeepCopyInto"

definition CnctClusterList_DeepCopyObject :: "go_value \<Rightarrow> go_value option go_run" where
  "CnctClusterList_DeepCopyObject in' = do {
     c \<leftarrow> CnctClusterList_DeepCopy in';
     ret (if c \<noteq> NilRef then Some c else None)
   }"

section \<open>Machines\<close>

definition T_MachineSpec :: go_type where
  "T_MachineSpec = TStruct
    [(''Taints'', TSlice T_Taint), (''Roles'', TSlice TScalar), (''ProviderID'', TPtr TScalar),
     (''InstanceType'', TScalar)]"

definition MachineSpec_DeepCopyInto :: "go_value \<Rightarrow> go_value go_run" where
  "MachineSpec_DeepCopyInto in' = do {
     let out = in';
     out \<leftarrow> copyField ''Taints'' (copySlice Taint_DeepCopyInto) in' out;
     out \<leftarrow> copyField ''Roles'' copyPlain in' out;
     out \<leftarrow> copyField ''ProviderID'' (newCopy ret) in' out;
     ret out
   }"

definition MachineSpec_DeepCopy :: "go_value \<Rightarrow> go_value go_run" where
  "MachineSpec_DeepCopy = newCopy MachineSpec_DeepCopyInto"

definition T_MachineSshConfigInfo :: go_type where
  "T_MachineSshConfigInfo = TStruct
    [(''Username'', TScalar), (''Host'', TScalar), (''Port'', TScalar)]"

definition MachineSshConfigInfo_DeepCopyInto :: "go_value \<Rightarrow> go_value go_run" where
  "MachineSshConfigInfo_DeepCopyInto in' = ret in'"

definition MachineSshConfigInfo_DeepCopy :: "go_value \<Rightarrow> go_value go_run" where
  "MachineSshConfigInfo_DeepCopy = newCopy MachineSshConfigInfo_DeepCopyInto"

definition T_MachineStatus :: go_type where
  "T_MachineStatus = TStruct
    [(''LastUpdated'', TPtr TScalar), (''Phase'', TScalar), (''KubernetesVersion'', TScalar),
     (''SshConfig'', T_MachineSshConfigInfo), (''SystemId'', TScalar)]"

definition MachineStatus_DeepCopyInto :: "go_value \<Rightarrow> go_value go_run" where
  "MachineStatus_DeepCopyInto in' = do {
     let out = in';
     out \<leftarrow> copyField ''LastUpdated'' Time_DeepCopy in' out;
     let out = setField ''SshConfig'' (fieldOf ''SshConfig'' in') out;
     ret out
   }"

definition MachineStatus_DeepCopy :: "go_value \<Rightarrow> go_value go_run" where
  "MachineStatus_DeepCopy = newCopy MachineStatus_DeepCopyInto"

definition T_CnctMachine :: go_type where
  "T_CnctMachine = TStruct
    [(''TypeMeta'', T_TypeMeta), (''ObjectMeta'', T_ObjectMeta), (''Spec'', T_MachineSpec),
     (''Status'', T_MachineStatus)]"

definition CnctMachine_DeepCopyInto :: "go_value \<Rightarrow> go_value go_run" where
  "CnctMachine_DeepCopyInto in' = do {
     let out = in';
     let out = setField ''TypeMeta'' (fieldOf ''TypeMeta'' in') out;
     out \<leftarrow> copyField ''ObjectMeta'' ObjectMeta_DeepCopyInto in' out;
     out \<leftarrow> copyField ''Spec'' MachineSpec_DeepCopyInto in' out;
     out \<leftarrow> copyField ''Status'' MachineStatus_DeepCopyInto in' out;
     ret out
   }"

definition CnctMachine_DeepCopy :: "go_value \<Rightarrow> go_value go_run" where
  "CnctMachine_DeepCopy = newCopy CnctMachine_DeepCopyInto"

definition CnctMachine_DeepCopyObject :: "go_value \<Rightarrow> go_value option go_run" where
  "CnctMachine_DeepCopyObject in' = do {
     c \<leftarrow> CnctMachine_DeepCopy in';
     ret (if c \<noteq> NilRef then Some c else None)
   }"

definition T_CnctMachineList :: go_type where
  "T_CnctMachineList = TStruct
    [(''TypeMeta'', T_TypeMeta), (''ListMeta'', T_ListMeta), (''Items'', TSlice T_CnctMachine)]"

definition CnctMachineList_DeepCopyInto :: "go_value \<Rightarrow> go_value go_run" where
  "CnctMachineList_DeepCopyInto in' = do {
     let out = in';
     let out = setField ''TypeMeta'' (fieldOf ''TypeMeta'' in') out;
     let out = setField ''ListMeta'' (fieldOf ''ListMeta'' in') out;
     out \<leftarrow> copyField ''Items'' (copySlice CnctMachine_DeepCopyInto) in' out;
     ret out
   }"

definition CnctMachineList_DeepCopy :: "go_value \<Rightarrow> go_value go_run" where
  "CnctMachineList_DeepCopy = newCopy CnctMachineList_DeepCopyInto"

definition CnctMachineList_DeepCopyObject :: "go_value \<Rightarrow> go_value option go_run" where
  "CnctMachineList_DeepCopyObject in' = do {
     c \<leftarrow> CnctMachineList_DeepCopy in';
     ret (if c \<noteq> NilRef then Some c else None)
   }"

section \<open>Machine sets\<close>

definition T_MachineTemplate :: go_type where
  "T_MachineTemplate = TStruct
    [(''ObjectMeta'', T_ObjectMeta), (''Spec'', T_MachineSpec)]"

definition MachineTemplate_DeepCopyInto :: "go_value \<Rightarrow> go_value go_run" where
  "MachineTemplate_DeepCopyInto in' = do {
     let out = in';
     out \<leftarrow> copyField ''ObjectMeta'' ObjectMeta_DeepCopyInto in' out;
     out \<leftarrow> copyField ''Spec'' MachineSpec_DeepCopyInto in' out;
     ret out
   }"

definition MachineTemplate_DeepCopy :: "go_value \<Rightarrow> go_value go_run" where
  "MachineTemplate_DeepCopy = newCopy MachineTemplate_DeepCopyInto"

definition T_MachineSetSpec :: go_type where
  "T_MachineSetSpec = TStruct
    [(''Replicas'', TScalar), (''Selector'', T_LabelSelector), (''MachineTemplate'', T_MachineTemplate)]"

definition MachineSetSpec_DeepCopyInto :: "go_value \<Rightarrow> go_value go_run" where
  "MachineSetSpec_DeepCopyInto in' = do {
     let out = in';
     out \<leftarrow> copyField ''Selector'' LabelSelector_DeepCopyInto in' out;
     out \<leftarrow> copyField ''MachineTemplate'' MachineTemplate_DeepCopyInto in' out;
     ret out
   }"

definition MachineSetSpec_DeepCopy :: "go_value \<Rightarrow> go_value go_run" where
  "MachineSetSpec_DeepCopy = newCopy MachineSetSpec_DeepCopyInto"

definition T_MachineSetStatus :: go_type where
  "T_MachineSetStatus = TStruct
    [(''LastUpdated'', TPtr TScalar), (''Phase'', TScalar), (''Replicas'', TScalar),
     (''FullyLabeledReplicas'', TScalar), (''ReadyReplicas'', TScalar), (''ObservedGeneration'', TScalar),
     (''ErrorReason'', TPtr TScalar), (''ErrorMessage'', TPtr TScalar)]"

definition MachineSetStatus_DeepCopyInto :: "go_value \<Rightarrow> go_value go_run" where
  "MachineSetStatus_DeepCopyInto in' = do {
     let out = in';
     out \<leftarrow> copyField ''LastUpdated'' Time_DeepCopy in' out;
     out \<leftarrow> copyField ''ErrorReason'' (newCopy ret) in' out;
     out \<leftarrow> copyField ''ErrorMessage'' (newCopy ret) in' out;
     ret out
   }"

definition MachineSetStatus_DeepCopy :: "go_value \<Rightarrow> go_value go_run" where
  "MachineSetStatus_DeepCopy = newCopy MachineSetStatus_DeepCopyInto"

definition T_CnctMachineSet :: go_type where
  "T_CnctMachineSet = TStruct
    [(''TypeMeta'', T_TypeMeta), (''ObjectMeta'', T_ObjectMeta), (''Spec'', T_MachineSetSpec),
     (''Status'', T_MachineSetStatus)]"

definition CnctMachineSet_DeepCopyInto :: "go_value \<Rightarrow> go_value go_run" where
  "CnctMachineSet_DeepCopyInto in' = do {
     let out = in';
     let out = setField ''TypeMeta'' (fieldOf ''TypeMeta'' in') out;
     out \<leftarrow> copyField ''ObjectMeta'' ObjectMeta_DeepCopyInto in' out;
     out \<leftarrow> copyField ''Spec'' MachineSetSpec_DeepCopyInto in' out;
     out \<leftarrow> copyField ''Status'' MachineSetStatus_DeepCopyInto in' out;
     ret out
   }"

definition CnctMachineSet_DeepCopy :: "go_value \<Rightarrow> go_value go_run" where
  "CnctMachineSet_DeepCopy = newCopy CnctMachineSet_DeepCopyInto"

definition CnctMachineSet_DeepCopyObject :: "go_value \<Rightarrow> go_value option go_run" where
  "CnctMachineSet_DeepCopyObject in' = do {
     c \<leftarrow> CnctMachineSet_DeepCopy in';
     ret (if c \<noteq> NilRef then Some c else None)
   }"

definition T_CnctMachineSetList :: go_type where
  "T_CnctMachineSetList = TStruct
    [(''TypeMeta'', T_TypeMeta), (''ListMeta'', T_ListMeta), (''Items'', TSlice T_CnctMachineSet)]"

definition CnctMachineSetList_DeepCopyInto :: "go_value \<Rightarrow> go_value go_run" where
  "CnctMachineSetList_DeepCopyInto in' = do {
     let out = in';
     let out = setField ''TypeMeta'' (fieldOf ''TypeMeta'' in') out;
     let out = setField ''ListMeta'' (fieldOf ''ListMeta'' in') out;
     out \<leftarrow> copyField ''Items'' (copySlice CnctMachineSet_DeepCopyInto) in' out;
     ret out
   }"

definition CnctMachineSetList_DeepCopy :: "go_value \<Rightarrow> go_value go_run" where
  "CnctMachineSetList_DeepCopy = newCopy CnctMachineSetList_DeepCopyInto"

definition CnctMachineSetList_DeepCopyObject :: "go_value \<Rightarrow> go_value option go_run" where
  "CnctMachineSetList_DeepCopyObject in' = do {
     c \<leftarrow> CnctMachineSetList_DeepCopy in';
     ret (if c \<noteq> NilRef then Some c else None)
   }"

section \<open>App bundles\<close>

definition T_AppBundleSpec :: go_type where
  "T_AppBundleSpec = TStruct
    [(''Image'', TScalar), (''Command'', TScalar)]"

definition AppBundleSpec_DeepCopyInto :: "go_value \<Rightarrow> go_value go_run" where
  "AppBundleSpec_DeepCopyInto in' = ret in'"

definition AppBundleSpec_DeepCopy :: "go_value \<Rightarrow> go_value go_run" where
  "AppBundleSpec_DeepCopy = newCopy AppBundleSpec_DeepCopyInto"

definition T_AppBundleStatus :: go_type where
  "T_AppBundleStatus = TStruct
    [(''Phase'', TScalar)]"

definition AppBundleStatus_DeepCopyInto :: "go_value \<Rightarrow> go_value go_run" where
  "AppBundleStatus_DeepCopyInto in' = ret in'"

definition AppBundleStatus_DeepCopy :: "go_value \<Rightarrow> go_value go_run" where
  "AppBundleStatus_DeepCopy = newCopy AppBundleStatus_DeepCopyInto"

definition T_AppBundle :: go_type where
  "T_AppBundle = TStruct
    [(''TypeMeta'', T_TypeMeta), (''ObjectMeta'', T_ObjectMeta), (''Spec'', T_AppBundleSpec),
     (''Status'', T_AppBundleStatus)]"

definition AppBundle_DeepCopyInto :: "go_value \<Rightarrow> go_value go_run" where
  "AppBundle_DeepCopyInto in' = do {
     let out = in';
     let out = setField ''TypeMeta'' (fieldOf ''TypeMeta'' in') out;
     out \<leftarrow> copyField ''ObjectMeta'' ObjectMeta_DeepCopyInto in' out;
     let out = setField ''Spec'' (fieldOf ''Spec'' in') out;
     let out = setField ''Status'' (fieldOf ''Status'' in') out;
     ret out
   }"

definition AppBundle_DeepCopy :: "go_value \<Rightarrow> go_value go_run" where
  "AppBundle_DeepCopy = newCopy AppBundle_DeepCopyInto"

definition AppBundle_DeepCopyObject :: "go_value \<Rightarrow> go_value option go_run" where
  "AppBundle_DeepCopyObject in' = do {
     c \<leftarrow> AppBundle_DeepCopy in';
     ret (if c \<noteq> NilRef then Some c else None)
   }"

definition T_AppBundleList :: go_type where
  "T_AppBundleList = TStruct
    [(''TypeMeta'', T_TypeMeta), (''ListMeta'', T_ListMeta), (''Items'', TSlice T_AppBundle)]"

definition AppBundleList_DeepCopyInto :: "go_value \<Rightarrow> go_value go_run" where
  "AppBundleList_DeepCopyInto in' = do {
     let out = in';
     let out = setField ''TypeMeta'' (fieldOf ''TypeMeta'' in') out;
     let out = setField ''ListMeta'' (fieldOf ''ListMeta'' in') out;
     out \<leftarrow> copyField ''Items'' (copySlice AppBundle_DeepCopyInto) in' out;
     ret out
   }"

definition AppBundleList_DeepCopy :: "go_value \<Rightarrow> go_value go_run" where
  "AppBundleList_DeepCopy = newCopy AppBundleList_DeepCopyInto"

definition AppBundleList_DeepCopyObject :: "go_value \<Rightarrow> go_value option go_run" where
  "AppBundleList_DeepCopyObject in' = do {
     c \<leftarrow> AppBundleList_DeepCopy in';
     ret (if c \<noteq> NilRef then Some c else None)
   }"

section \<open>All of them\<close>

text \<open>Every generated \<open>DeepCopy\<close> of the API types, with the type of its receiver.\<close>

definition generatedCopies :: "(go_type \<times> (go_value \<Rightarrow> go_value go_run)) list" where
  "generatedCopies =
    [(TPtr T_APIEndpoint, APIEndpoint_DeepCopy),
     (TPtr T_ClusterSpec, ClusterSpec_DeepCopy),
     (TPtr T_ClusterStatus, ClusterStatus_DeepCopy),
     (TPtr T_CnctCluster, CnctCluster_DeepCopy),
     (TPtr T_CnctClusterList, CnctClusterList_DeepCopy),
     (TPtr T_MachineSpec, MachineSpec_DeepCopy),
     (TPtr T_MachineSshConfigInfo, MachineSshConfigInfo_DeepCopy),
     (TPtr T_MachineStatus, MachineStatus_DeepCopy),
     (TPtr T_CnctMachine, CnctMachine_DeepCopy),
     (TPtr T_CnctMachineList, CnctMachineList_DeepCopy),
     (TPtr T_MachineTemplate, MachineTemplate_DeepCopy),
     (TPtr T_MachineSetSpec, MachineSetSpec_DeepCopy),
     (TPtr T_MachineSetStatus, MachineSetStatus_DeepCopy),
     (TPtr T_CnctMachineSet, CnctMachineSet_DeepCopy),
     (TPtr T_CnctMachineSetList, CnctMachineSetList_DeepCopy),
     (TPtr T_AppBundleSpec, AppBundleSpec_DeepCopy),
     (TPtr T_AppBundleStatus, AppBundleStatus_DeepCopy),
     (TPtr T_AppBundle, AppBundle_DeepCopy),
     (TPtr T_AppBundleList, AppBundleList_DeepCopy)]"

text \<open>And every \<open>DeepCopyObject\<close>, with the copy of the same type.\<close>

definition generatedObjectCopies :: "(go_type \<times> (go_value \<Rightarrow> go_value option go_run)) list" where
  "generatedObjectCopies =
    [(TPtr T_CnctCluster, CnctCluster_DeepCopyObject),
     (TPtr T_CnctClusterList, CnctClusterList_DeepCopyObject),
     (TPtr T_CnctMachine, CnctMachine_DeepCopyObject),
     (TPtr T_CnctMachineList, CnctMachineList_DeepCopyObject),
     (TPtr T_CnctMachineSet, CnctMachineSet_DeepCopyObject),
     (TPtr T_CnctMachineSetList, CnctMachineSetList_DeepCopyObject),
     (TPtr T_AppBundle, AppBundle_DeepCopyObject),
     (TPtr T_AppBundleList, AppBundleList_DeepCopyObject)]"

end
