(* ===== verification/Deep_Copy_Facts.thy ===== *)
theory Deep_Copy_Facts
  imports Deep_Copy
begin

text \<open>
  What the copy that a type directs does: it stands for the same value as the original, is made of new cells
  only and leaves every other cell alone. A value depends on the cells it uses and on no other.
\<close>

named_theorems directed

section \<open>What a copy stands for\<close>

definition wfHeap :: "go_heap \<Rightarrow> bool" where
  "wfHeap h \<longleftrightarrow> dom (ghCells h) \<subseteq> {..<ghNext h}"

text \<open>Two heaps that hold the same in the cells of a value cannot tell it apart.\<close>

definition sameAt :: "nat set \<Rightarrow> go_heap \<Rightarrow> go_heap \<Rightarrow> bool" where
  "sameAt A h h' \<longleftrightarrow> (\<forall>a\<in>A. ghCells h' a = ghCells h a)"

lemma sameAt_Un [simp]: "sameAt (A \<union> B) h h' \<longleftrightarrow> sameAt A h h' \<and> sameAt B h h'"
  by (auto simp: sameAt_def)

lemma sameAt_insert [simp]: "sameAt (insert a A) h h' \<longleftrightarrow> ghCells h' a = ghCells h a \<and> sameAt A h h'"
  by (auto simp: sameAt_def)

lemma sameAt_UN: "sameAt (\<Union>x\<in>X. B x) h h' \<longleftrightarrow> (\<forall>x\<in>X. sameAt (B x) h h')"
  by (auto simp: sameAt_def)

lemma sameAt_mono: "sameAt A h h' \<Longrightarrow> B \<subseteq> A \<Longrightarrow> sameAt B h h'"
  by (auto simp: sameAt_def)

lemma sameAt_trans: "sameAt A h h' \<Longrightarrow> sameAt A h' h'' \<Longrightarrow> sameAt A h h''"
  by (auto simp: sameAt_def)

definition sameValue :: "go_heap \<Rightarrow> go_heap \<Rightarrow> go_type \<Rightarrow> go_value \<Rightarrow> bool" where
  "sameValue h h' T v \<longleftrightarrow>
     treeOf h' T v = treeOf h T v \<and> cellsOf h' T v = cellsOf h T v \<and> hasType h' T v = hasType h T v"

lemma sameValueI: "sameAt (set (cellsOf h T v)) h h' \<Longrightarrow> sameValue h h' T v"
proof (induction T arbitrary: v)
  case (TStruct fs)
  have "sameValue h h' t (fieldOf n v)" if "(n, t) \<in> set fs" for n t
    using TStruct that by (fastforce simp: sameAt_UN)
  then have field: "treeOf h' t (fieldOf n v) = treeOf h t (fieldOf n v) \<and> cellsOf h' t (fieldOf n v) = cellsOf h t (fieldOf n v)
      \<and> hasType h' t (fieldOf n v) = hasType h t (fieldOf n v)" if "(n, t) \<in> set fs" for n t
    using that by (auto simp: sameValue_def)
  have "map (\<lambda>(n, t). (n, treeOf h' t (fieldOf n v))) fs = map (\<lambda>(n, t). (n, treeOf h t (fieldOf n v))) fs"
    "map (\<lambda>(n, t). cellsOf h' t (fieldOf n v)) fs = map (\<lambda>(n, t). cellsOf h t (fieldOf n v)) fs"
    using field by auto
  moreover have "hasType h' (TStruct fs) v = hasType h (TStruct fs) v"
    using field by (cases v) (fastforce simp: list_all_iff)+
  ultimately show ?case by (simp only: sameValue_def treeOf.simps cellsOf.simps)
next
  case (TPtr t)
  then show ?case by (cases v) (auto simp: sameValue_def split: option.splits go_cell.splits)
next
  case (TSlice t)
  show ?case
  proof (cases v)
    case (Slice a i n)
    define xs where "xs = take n (drop i (elementsOf (ghCells h a)))"
    have a: "ghCells h' a = ghCells h a" using TSlice.prems Slice by simp
    have "sameValue h h' t x" if "x \<in> set xs" for x
      using TSlice Slice that by (auto simp: xs_def sameAt_UN)
    then have "map (treeOf h' t) xs = map (treeOf h t) xs" "map (cellsOf h' t) xs = map (cellsOf h t) xs"
      "list_all (hasType h' t) xs = list_all (hasType h t) xs"
      by (auto simp: sameValue_def list_all_iff)
    then show ?thesis using Slice
      by (auto simp: sameValue_def a xs_def simp del: map_eq_conv split: option.splits go_cell.splits)
  qed (auto simp: sameValue_def)
next
  case TMap
  then show ?case by (cases v) (auto simp: sameValue_def)
qed (simp add: sameValue_def)

lemma cells_below:
  "wfHeap h \<Longrightarrow> hasType h T v \<Longrightarrow> set (cellsOf h T v) \<subseteq> {..<ghNext h}"
proof (induction T arbitrary: v)
  case (TStruct fs)
  then obtain f where v: "v = Struct f" by (cases v) auto
  have "set (cellsOf h t (f n)) \<subseteq> {..<ghNext h}" if "(n, t) \<in> set fs" for n t
    using TStruct v that by (fastforce simp: list_all_iff)
  then show ?case using v by auto
next
  case (TPtr t)
  then show ?case by (cases v) (fastforce simp: wfHeap_def split: option.splits go_cell.splits)+
next
  case (TSlice t)
  show ?case
  proof (cases v)
    case (Slice a i n)
    with TSlice.prems obtain xs where xs: "ghCells h a = Some (Backing xs)" "list_all (hasType h t) (take n (drop i xs))"
      by (auto split: option.splits go_cell.splits)
    then have "set (cellsOf h t x) \<subseteq> {..<ghNext h}" if "x \<in> set (take n (drop i xs))" for x
      using TSlice that by (auto simp: list_all_iff)
    then show ?thesis using Slice xs TSlice.prems(1) by (auto simp: wfHeap_def)
  qed auto
next
  case TMap
  then show ?case by (cases v) (auto simp: wfHeap_def split: option.splits go_cell.splits)
qed simp

lemma plain_cells: "plainType T \<Longrightarrow> cellsOf h T v = []"
  by (induction T arbitrary: v) (fastforce simp: list_all_iff)+

lemma plain_concat: "plainType T \<Longrightarrow> concat (map (cellsOf h T) xs) = []"
  by (simp add: plain_cells)

lemma plain_same: "plainType T \<Longrightarrow> sameValue h h' T v"
  by (rule sameValueI) (simp add: plain_cells sameAt_def)

section \<open>What a copy changes\<close>

text \<open>A run that only adds cells, and changes none of those there were but those in \<open>S\<close>.\<close>

definition adds :: "nat set \<Rightarrow> go_heap \<Rightarrow> go_heap \<Rightarrow> bool" where
  "adds S h h' \<longleftrightarrow> wfHeap h' \<and> ghNext h \<le> ghNext h' \<and> sameAt ({..<ghNext h} - S) h h'"

lemma adds_refl [simp]: "adds S h h \<longleftrightarrow> wfHeap h"
  by (simp add: adds_def sameAt_def)

lemma adds_trans: "adds S h h' \<Longrightarrow> adds S h' h'' \<Longrightarrow> adds S h h''"
  by (auto simp: adds_def sameAt_def)

lemma adds_mono: "adds S h h' \<Longrightarrow> S \<subseteq> S' \<Longrightarrow> adds S' h h'"
  by (auto simp: adds_def sameAt_def)

lemma adds_same:
  "adds S h h' \<Longrightarrow> wfHeap h \<Longrightarrow> hasType h T v \<Longrightarrow> set (cellsOf h T v) \<inter> S = {} \<Longrightarrow> sameValue h h' T v"
  by (rule sameValueI, rule sameAt_mono [where A = "{..<ghNext h} - S"]) (auto simp: adds_def dest: cells_below)

text \<open>The values \<open>ys\<close> of the types \<open>ts\<close>, made after the heap \<open>h0\<close>: they are made of new cells, each used once.\<close>

definition freshCells :: "go_heap \<Rightarrow> go_heap \<Rightarrow> nat list \<Rightarrow> bool" where
  "freshCells h h' cs \<longleftrightarrow> distinct cs \<and> set cs \<subseteq> {ghNext h..<ghNext h'}"

lemma freshCells_Nil [simp]: "freshCells h h' []"
  by (simp add: freshCells_def)

lemma freshCells_append:
  "freshCells h h' cs \<Longrightarrow> freshCells h' h'' ds \<Longrightarrow> ghNext h \<le> ghNext h' \<Longrightarrow> ghNext h' \<le> ghNext h'' \<Longrightarrow> freshCells h h'' (cs @ ds)"
  by (fastforce simp: freshCells_def)

definition copied :: "go_heap \<Rightarrow> go_type \<Rightarrow> go_value \<Rightarrow> go_value \<Rightarrow> go_heap \<Rightarrow> bool" where
  "copied h T v v' h' \<longleftrightarrow> adds {} h h' \<and> hasType h' T v' \<and> treeOf h' T v' = treeOf h T v \<and> freshCells h h' (cellsOf h' T v')"

definition copies :: "go_type \<Rightarrow> (go_value \<Rightarrow> go_value go_run) \<Rightarrow> bool" where
  "copies T f \<longleftrightarrow> (\<forall>h v. wfHeap h \<longrightarrow> hasType h T v \<longrightarrow> wp (f v) (copied h T v) h)"

lemma wp_loadCell [simp]: "wp (loadCell a) Q = (\<lambda>h. Q (ghCells h a) h)"
  by (rule ext) (simp add: wp_def loadCell_def)

lemma wp_storeCell [simp]: "wp (storeCell a c) Q = (\<lambda>h. Q () (h\<lparr>ghCells := (ghCells h)(a \<mapsto> c)\<rparr>))"
  by (rule ext) (simp add: wp_def storeCell_def)

lemma wp_allocCell [simp]:
  "wp (allocCell c) Q = (\<lambda>h. Q (ghNext h) (h\<lparr>ghCells := (ghCells h)(ghNext h \<mapsto> c), ghNext := Suc (ghNext h)\<rparr>))"
  by (rule ext) (simp add: wp_def allocCell_def)

abbreviation newCell :: "go_heap \<Rightarrow> go_cell \<Rightarrow> go_heap" where
  "newCell h c \<equiv> h\<lparr>ghCells := (ghCells h)(ghNext h \<mapsto> c), ghNext := Suc (ghNext h)\<rparr>"

abbreviation setCell :: "go_heap \<Rightarrow> nat \<Rightarrow> go_cell \<Rightarrow> go_heap" where
  "setCell h a c \<equiv> h\<lparr>ghCells := (ghCells h)(a \<mapsto> c)\<rparr>"

lemma adds_newCell: "wfHeap h \<Longrightarrow> adds S h (newCell h c)"
  by (auto simp: adds_def wfHeap_def sameAt_def)

lemma adds_setCell: "wfHeap h \<Longrightarrow> a \<in> S \<Longrightarrow> a < ghNext h \<Longrightarrow> adds S h (setCell h a c)"
  by (auto simp: adds_def wfHeap_def sameAt_def)

text \<open>\<open>directed\<close> collects which function the type of a value directs, and which types are plain.\<close>

lemma deepCopy_fun [directed]:
  "deepCopy TScalar = ret"
  "deepCopy (TStruct fs) = (\<lambda>v. copyFields fs v v)"
  "deepCopy (TPtr t) = newCopy (deepCopy t)"
  "deepCopy (TSlice t) = (if plainType t then copyPlain else copySlice (deepCopy t))"
  "deepCopy TMap = copyMap"
  by (rule ext, simp)+

lemma newCopy_copies: "copies T f \<Longrightarrow> copies (TPtr T) (newCopy f)"
  unfolding copies_def
proof (intro allI impI)
  fix h v assume f: "\<forall>h v. wfHeap h \<longrightarrow> hasType h T v \<longrightarrow> wp (f v) (copied h T v) h" and h: "wfHeap h" and ty: "hasType h (TPtr T) v"
  show "wp (newCopy f v) (copied h (TPtr T) v) h"
  proof (cases v)
    case (Ptr a)
    let ?n = "ghNext h" and ?h = "newCell h (Var NilRef)"
    obtain x where x: "ghCells h a = Some (Var x)" "hasType h T x" using ty Ptr by (auto split: option.splits go_cell.splits)
    have new: "adds {} h ?h" using h by (rule adds_newCell)
    have a: "a < ?n" using x(1) h by (auto simp: wfHeap_def)
    have sx: "sameValue h ?h T x" using adds_same [OF new h x(2)] by simp
    have wf: "wfHeap ?h" using new by (simp add: adds_def)
    have "wp (f x) (copied ?h T x) ?h" using f wf sx x(2) by (simp add: sameValue_def)
    then have "wp (f x) (\<lambda>y h'. copied h (TPtr T) v (Ptr ?n) (setCell h' ?n (Var y))) ?h"
    proof (rule wp_mono)
      fix y h' assume c: "copied ?h T x y h'"
      let ?h' = "setCell h' ?n (Var y)"
      have n: "?n < ghNext h'" using c by (auto simp: copied_def adds_def)
      have set: "adds {?n} h' ?h'" using c n by (intro adds_setCell) (auto simp: copied_def adds_def)
      have wf': "wfHeap h'" using c by (simp add: copied_def adds_def)
      have "?n \<notin> set (cellsOf h' T y)" using c by (auto simp: copied_def freshCells_def)
      then have sy: "sameValue h' ?h' T y" using c wf' by (intro adds_same [OF set]) (auto simp: copied_def)
      have "adds {} h ?h'" using new c set by (auto simp: adds_def sameAt_def copied_def)
      moreover have "freshCells h ?h' (?n # cellsOf h' T y)" using c n by (auto simp: copied_def freshCells_def)
      ultimately show "copied h (TPtr T) v (Ptr ?n) ?h'"
        using c sy sx x Ptr by (auto simp: copied_def sameValue_def)
    qed
    moreover have "ghCells ?h a = Some (Var x)" using x(1) a by simp
    ultimately show ?thesis using Ptr by (simp add: newCopy_def)
  qed (use ty h in \<open>auto simp: newCopy_def copied_def\<close>)
qed


text \<open>The values \<open>zs\<close> that stand at \<open>h'\<close> for what \<open>xs\<close> stands for at \<open>h\<close>.\<close>

definition copiedAll :: "go_heap \<Rightarrow> go_type \<Rightarrow> go_value list \<Rightarrow> go_value list \<Rightarrow> go_heap \<Rightarrow> bool" where
  "copiedAll h T xs zs h' \<longleftrightarrow> map (treeOf h' T) zs = map (treeOf h T) xs \<and> list_all (hasType h' T) zs
     \<and> freshCells h h' (concat (map (cellsOf h' T) zs))"

lemma sameValues:
  assumes "\<And>x. x \<in> set xs \<Longrightarrow> sameValue h h' T x"
  shows "map (treeOf h' T) xs = map (treeOf h T) xs" "list_all (hasType h' T) xs = list_all (hasType h T) xs"
    "map (cellsOf h' T) xs = map (cellsOf h T) xs"
  using assms by (auto simp: sameValue_def list_all_iff)

lemma copiedAll_Cons:
  assumes x: "copied h T x y h1" and set: "adds {out} h1 h2" and nxt: "ghNext h2 = ghNext h1" and out: "out < ghNext h"
    and same: "\<And>z. z \<in> set xs \<Longrightarrow> sameValue h h2 T z"
    and rest: "adds {out} h2 h'" "copiedAll h2 T xs zs h'"
  shows "copiedAll h T (x # xs) (y # zs) h'"
proof -
  have "adds {out} h1 h'" using set rest(1) by (rule adds_trans)
  moreover have "out \<notin> set (cellsOf h1 T y)" using x out by (auto simp: copied_def freshCells_def)
  ultimately have y: "sameValue h1 h' T y" using x by (intro adds_same) (auto simp: copied_def adds_def)
  have "freshCells h h' (cellsOf h1 T y @ concat (map (cellsOf h' T) zs))"
    using x rest nxt by (intro freshCells_append [where h' = h1]) (auto simp: copied_def copiedAll_def adds_def freshCells_def)
  then show ?thesis
    using x y rest(2) sameValues(1) [OF same] by (simp add: copiedAll_def copied_def sameValue_def)
qed

lemma copyElements_copies:
  assumes f: "copies T f"
  shows "wfHeap h \<Longrightarrow> ghCells h out = Some (Backing ys) \<Longrightarrow> length ys = i + length xs \<Longrightarrow> list_all (hasType h T) xs \<Longrightarrow>
     \<forall>x\<in>set xs. out \<notin> set (cellsOf h T x) \<Longrightarrow>
     wp (copyElements f out i xs)
       (\<lambda>_ h'. \<exists>zs. adds {out} h h' \<and> ghCells h' out = Some (Backing (take i ys @ zs)) \<and> copiedAll h T xs zs h') h"
proof (induction xs arbitrary: h ys i)
  case Nil
  then show ?case by (intro exI [of _ "[]"] | simp add: copiedAll_def)+
next
  case (Cons x xs)
  have out: "out < ghNext h" using Cons.prems(1,2) by (auto simp: wfHeap_def)
  have "wp (f x) (copied h T x) h" using f Cons.prems by (simp add: copies_def)
  then have "wp (f x) (\<lambda>y. wp (setElement out i y) (\<lambda>_. wp (copyElements f out (i + 1) xs)
      (\<lambda>_ h'. \<exists>zs. adds {out} h h' \<and> ghCells h' out = Some (Backing (take i ys @ zs)) \<and> copiedAll h T (x # xs) zs h'))) h"
  proof (rule wp_mono)
    fix y h1 assume c: "copied h T x y h1"
    let ?h2 = "setCell h1 out (Backing (ys[i := y]))"
    have o1: "ghCells h1 out = Some (Backing ys)" using c out Cons.prems(2) by (auto simp: copied_def adds_def sameAt_def)
    have set: "adds {out} h1 ?h2" using c out by (intro adds_setCell) (auto simp: copied_def adds_def)
    have "adds {out} h h1" using c by (auto simp: copied_def intro: adds_mono)
    then have h2: "adds {out} h ?h2" using set by (rule adds_trans)
    have same: "sameValue h ?h2 T z" if "z \<in> set xs" for z
      using that Cons.prems by (intro adds_same [OF h2]) (auto simp: list_all_iff)
    have typed: "list_all (hasType ?h2 T) xs" using Cons.prems(4) sameValues(2) [OF same] by simp
    have apart: "\<forall>z\<in>set xs. out \<notin> set (cellsOf ?h2 T z)" using Cons.prems(5) same by (auto simp: sameValue_def)
    have "wp (copyElements f out (i + 1) xs)
        (\<lambda>_ h'. \<exists>zs. adds {out} ?h2 h' \<and> ghCells h' out = Some (Backing (take (i + 1) (ys[i := y]) @ zs)) \<and> copiedAll ?h2 T xs zs h') ?h2"
      using h2 Cons.prems(3) typed apart by (intro Cons.IH) (auto simp: adds_def)
    then have "wp (copyElements f out (i + 1) xs)
        (\<lambda>_ h'. \<exists>zs. adds {out} h h' \<and> ghCells h' out = Some (Backing (take i ys @ zs)) \<and> copiedAll h T (x # xs) zs h') ?h2"
    proof (rule wp_mono)
      fix u h' assume "\<exists>zs. adds {out} ?h2 h' \<and> ghCells h' out = Some (Backing (take (i + 1) (ys[i := y]) @ zs)) \<and> copiedAll ?h2 T xs zs h'"
      then obtain zs where r: "adds {out} ?h2 h'" "ghCells h' out = Some (Backing (take (i + 1) (ys[i := y]) @ zs))" "copiedAll ?h2 T xs zs h'"
        by blast
      have "take (i + 1) (ys[i := y]) @ zs = take i ys @ (y # zs)"
        using Cons.prems(3) by (simp add: take_Suc_conv_app_nth)
      moreover have "copiedAll h T (x # xs) (y # zs) h'"
        by (rule copiedAll_Cons [OF c set _ out same r(1,3)]) simp
      ultimately show "\<exists>zs. adds {out} h h' \<and> ghCells h' out = Some (Backing (take i ys @ zs)) \<and> copiedAll h T (x # xs) zs h'"
        using adds_trans [OF h2 r(1)] r(2) by metis
    qed
    then show "wp (setElement out i y) (\<lambda>_. wp (copyElements f out (i + 1) xs)
      (\<lambda>_ h'. \<exists>zs. adds {out} h h' \<and> ghCells h' out = Some (Backing (take i ys @ zs)) \<and> copiedAll h T (x # xs) zs h')) h1"
      by (simp add: setElement_def o1)
  qed
  then show ?case by simp
qed


lemma slice_copied:
  assumes h: "wfHeap h" and ty: "hasType h (TSlice T) (Slice a i n)" and cell: "ghCells h a = Some (Backing xs)"
    and run: "adds {ghNext h} (newCell h (Backing ws)) h'" "ghCells h' (ghNext h) = Some (Backing zs)"
      "copiedAll (newCell h (Backing ws)) T (take n (drop i xs)) zs h'"
  shows "copied h (TSlice T) (Slice a i n) (Slice (ghNext h) 0 n) h'"
proof -
  let ?h1 = "newCell h (Backing ws)"
  have h1: "adds {} h ?h1" using h by (rule adds_newCell)
  have "sameValue h ?h1 T x" if "x \<in> set (take n (drop i xs))" for x
    using that ty cell h by (intro adds_same [OF h1]) (auto simp: list_all_iff)
  then have tree: "map (treeOf h' T) zs = map (treeOf h T) (take n (drop i xs))"
    using run(3) by (auto simp: copiedAll_def sameValue_def)
  then have "length zs = length (take n (drop i xs))" by (metis length_map)
  moreover have "n \<le> length xs - i" using ty cell by auto
  ultimately have len: "length zs = n" by (simp add: min_absorb2)
  have "adds {} h h'" using h1 run(1) by (auto simp: adds_def sameAt_def)
  moreover have "freshCells h h' (ghNext h # concat (map (cellsOf h' T) zs))"
    using run(1,3) by (auto simp: copiedAll_def freshCells_def adds_def)
  ultimately show ?thesis
    using run len tree cell by (simp add: copied_def copiedAll_def)
qed

lemma slice_cell:
  assumes "hasType h (TSlice T) (Slice a i n)" and "wfHeap h"
  obtains xs where "ghCells h a = Some (Backing xs)" "a < ghNext h"
    "list_all (hasType h T) (take n (drop i xs))" "i + n \<le> length xs"
  using assms by (auto simp: wfHeap_def split: option.splits go_cell.splits)

lemma copySlice_copies: "copies T f \<Longrightarrow> copies (TSlice T) (copySlice f)"
  unfolding copies_def [of "TSlice T"]
proof (intro allI impI)
  fix h v assume f: "copies T f" and h: "wfHeap h" and ty: "hasType h (TSlice T) v"
  show "wp (copySlice f v) (copied h (TSlice T) v) h"
  proof (cases v)
    case (Slice a i n)
    from ty h obtain xs where xs: "ghCells h a = Some (Backing xs)" "a < ghNext h"
      "list_all (hasType h T) (take n (drop i xs))" "i + n \<le> length xs"
      unfolding Slice by (rule slice_cell)
    let ?ws = "replicate n NilRef" and ?xs = "take n (drop i xs)"
    let ?h1 = "newCell h (Backing ?ws)"
    have h1: "adds {} h ?h1" using h by (rule adds_newCell)
    have same: "sameValue h ?h1 T x" if "x \<in> set ?xs" for x
      using that xs h by (intro adds_same [OF h1]) (auto simp: list_all_iff)
    have "wp (copyElements f (ghNext h) 0 ?xs)
        (\<lambda>_ h'. \<exists>zs. adds {ghNext h} ?h1 h' \<and> ghCells h' (ghNext h) = Some (Backing (take 0 ?ws @ zs)) \<and> copiedAll ?h1 T ?xs zs h') ?h1"
    proof (rule copyElements_copies [OF f])
      show "wfHeap ?h1" using h1 by (simp add: adds_def)
      show "list_all (hasType ?h1 T) ?xs" using xs(3) sameValues(2) [OF same] by simp
      show "\<forall>x\<in>set ?xs. ghNext h \<notin> set (cellsOf ?h1 T x)"
      proof
        fix x assume x: "x \<in> set ?xs"
        then have "hasType h T x" using xs(3) by (simp add: list_all_iff)
        then have "ghNext h \<notin> set (cellsOf h T x)" using cells_below [OF h] by blast
        then show "ghNext h \<notin> set (cellsOf ?h1 T x)" using same [OF x] by (simp add: sameValue_def)
      qed
    qed (use xs in simp_all)
    then have "wp (copyElements f (ghNext h) 0 ?xs) (\<lambda>_. copied h (TSlice T) (Slice a i n) (Slice (ghNext h) 0 n)) ?h1"
      by (rule wp_mono) (auto intro: slice_copied [OF h ty [unfolded Slice] xs(1)])
    then show ?thesis using Slice xs by (simp add: copySlice_def)
  qed (use ty h in \<open>auto simp: copySlice_def copied_def\<close>)
qed

lemma copyPlain_copies: "plainType T \<Longrightarrow> copies (TSlice T) copyPlain"
  unfolding copies_def
proof (intro allI impI)
  fix h v assume T: "plainType T" and h: "wfHeap h" and ty: "hasType h (TSlice T) v"
  show "wp (copyPlain v) (copied h (TSlice T) v) h"
  proof (cases v)
    case (Slice a i n)
    from ty h obtain xs where xs: "ghCells h a = Some (Backing xs)" "a < ghNext h"
      "list_all (hasType h T) (take n (drop i xs))" "i + n \<le> length xs"
      unfolding Slice by (rule slice_cell)
    let ?h1 = "newCell h (Backing (replicate n NilRef))" and ?xs = "take n (drop i xs)"
    let ?h2 = "setCell ?h1 (ghNext h) (Backing ?xs)"
    have "sameValue h ?h2 T x" "sameValue h ?h1 T x" for x by (rule plain_same [OF T])+
    then have "copiedAll ?h1 T ?xs ?xs ?h2"
      using xs(3) by (simp add: copiedAll_def sameValue_def plain_concat [OF T] list_all_iff)
    moreover have "wfHeap ?h1" using adds_newCell [OF h] by (simp add: adds_def)
    then have "adds {ghNext h} ?h1 ?h2" by (rule adds_setCell) simp_all
    ultimately have "copied h (TSlice T) (Slice a i n) (Slice (ghNext h) 0 n) ?h2"
      using ty xs(1) unfolding Slice by (intro slice_copied [OF h]) auto
    then show ?thesis using Slice xs by (simp add: copyPlain_def)
  qed (use ty h in \<open>auto simp: copyPlain_def copied_def\<close>)
qed

lemma goPut_new: "key \<notin> fst ` set m \<Longrightarrow> goPut key x m = m @ [(key, x)]"
  unfolding goPut_def by (induction m) auto

lemma copyEntries_runs:
  "wfHeap h \<Longrightarrow> ghCells h out = Some (Table m) \<Longrightarrow> go_map_wf (m @ rest) \<Longrightarrow>
     wp (copyEntries out rest) (\<lambda>_ h'. adds {out} h h' \<and> ghCells h' out = Some (Table (m @ rest))) h"
proof (induction rest arbitrary: h m)
  case (Cons e rest)
  obtain key x where e: "e = (key, x)" by (cases e)
  have out: "out < ghNext h" using Cons.prems by (auto simp: wfHeap_def)
  have put: "goPut key x m = m @ [e]" using Cons.prems(3) e by (auto simp: go_map_wf_def intro: goPut_new)
  let ?h1 = "setCell h out (Table (m @ [e]))"
  have h1: "adds {out} h ?h1" using Cons.prems(1) out by (intro adds_setCell) auto
  have "wp (copyEntries out rest) (\<lambda>_ h'. adds {out} ?h1 h' \<and> ghCells h' out = Some (Table ((m @ [e]) @ rest))) ?h1"
    using h1 Cons.prems(3) by (intro Cons.IH) (auto simp: adds_def)
  then have "wp (copyEntries out rest) (\<lambda>_ h'. adds {out} h h' \<and> ghCells h' out = Some (Table (m @ e # rest))) ?h1"
    by (rule wp_mono) (auto intro: adds_trans [OF h1])
  then show ?case using Cons.prems(2) by (simp add: e put [unfolded e])
qed simp

lemma copyMap_copies: "copies TMap copyMap"
  unfolding copies_def
proof (intro allI impI)
  fix h v assume h: "wfHeap h" and ty: "hasType h TMap v"
  show "wp (copyMap v) (copied h TMap v) h"
  proof (cases v)
    case (MapRef a)
    with ty h obtain m where m: "ghCells h a = Some (Table m)" "a < ghNext h" "go_map_wf m" "list_all (isScalar \<circ> snd) m"
      by (auto simp: wfHeap_def split: option.splits go_cell.splits)
    let ?h1 = "newCell h (Table [])"
    have h1: "adds {} h ?h1" using h by (rule adds_newCell)
    have "wp (copyEntries (ghNext h) m) (\<lambda>_ h'. adds {ghNext h} ?h1 h' \<and> ghCells h' (ghNext h) = Some (Table ([] @ m))) ?h1"
      using h1 m by (intro copyEntries_runs) (auto simp: adds_def)
    then have "wp (copyEntries (ghNext h) m) (\<lambda>_. copied h TMap (MapRef a) (MapRef (ghNext h))) ?h1"
    proof (rule wp_mono)
      fix u h' assume "adds {ghNext h} ?h1 h' \<and> ghCells h' (ghNext h) = Some (Table ([] @ m))"
      then have "adds {} h h'" "ghNext h < ghNext h'" "ghCells h' (ghNext h) = Some (Table m)"
        using h1 by (auto simp: adds_def sameAt_def)
      then show "copied h TMap (MapRef a) (MapRef (ghNext h)) h'" using m by (simp add: copied_def freshCells_def)
    qed
    then show ?thesis using MapRef m by (simp add: copyMap_def)
  qed (use ty h in \<open>auto simp: copyMap_def copied_def\<close>)
qed


section \<open>Every copy the types direct\<close>

lemma copyFields_copies:
  assumes "\<And>n t. (n, t) \<in> set fs \<Longrightarrow> \<not> plainType t \<Longrightarrow> copies t (deepCopy t)"
  shows "wfHeap h \<Longrightarrow> distinct (map fst fs) \<Longrightarrow> list_all (\<lambda>(n, t). hasType h t (f n)) fs \<Longrightarrow>
     \<forall>n\<in>fst ` set fs. g n = f n \<Longrightarrow>
     wp (copyFields fs (Struct f) (Struct g)) (\<lambda>v' h'. \<exists>g'. v' = Struct g' \<and> adds {} h h' \<and> (\<forall>n. n \<notin> fst ` set fs \<longrightarrow> g' n = g n)
       \<and> list_all (\<lambda>(n, t). hasType h' t (g' n) \<and> treeOf h' t (g' n) = treeOf h t (f n)) fs
       \<and> freshCells h h' (concat (map (\<lambda>(n, t). cellsOf h' t (g' n)) fs))) h"
  using assms
proof (induction fs arbitrary: h g)
  case (Cons p fs)
  obtain n t where p: "p = (n, t)" by (cases p)
  have n: "n \<notin> fst ` set fs" "distinct (map fst fs)" "hasType h t (f n)" "g n = f n" using Cons.prems p by auto
  let ?Q = "\<lambda>h fs v' h'. \<exists>g'. v' = Struct g' \<and> adds {} h h' \<and> (\<forall>m. m \<notin> fst ` set fs \<longrightarrow> g' m = g m)
       \<and> list_all (\<lambda>(n, t). hasType h' t (g' n) \<and> treeOf h' t (g' n) = treeOf h t (f n)) fs
       \<and> freshCells h h' (concat (map (\<lambda>(n, t). cellsOf h' t (g' n)) fs))"
  have fs: "\<forall>m\<in>fst ` set fs. g m = f m" "list_all (\<lambda>(n, t). hasType h t (f n)) fs" using Cons.prems by auto
  have IH: "(\<And>n t. (n, t) \<in> set fs \<Longrightarrow> \<not> plainType t \<Longrightarrow> copies t (deepCopy t))" using Cons.prems(5) by auto
  show ?case
  proof (cases "plainType t")
    case True
    have "wp (copyFields fs (Struct f) (Struct g)) (?Q h fs) h"
      by (rule Cons.IH [OF Cons.prems(1) n(2) fs(2,1)]) (rule IH)
    then have "wp (copyFields fs (Struct f) (Struct g)) (?Q h (p # fs)) h"
    proof (rule wp_mono)
      fix v' h' assume "?Q h fs v' h'"
      then obtain g' where g': "v' = Struct g'" "adds {} h h'" "\<forall>m. m \<notin> fst ` set fs \<longrightarrow> g' m = g m"
        "list_all (\<lambda>(n, t). hasType h' t (g' n) \<and> treeOf h' t (g' n) = treeOf h t (f n)) fs"
        "freshCells h h' (concat (map (\<lambda>(n, t). cellsOf h' t (g' n)) fs))" by blast
      have "sameValue h h' t (f n)" using True by (rule plain_same)
      then show "?Q h (p # fs) v' h'"
        using g' n p plain_cells [OF True] by (intro exI [of _ g']) (auto simp: sameValue_def)
    qed
    then show ?thesis using True p by simp
  next
    case False
    have "wp (deepCopy t (f n)) (copied h t (f n)) h"
      using Cons.prems(5) [of n t] False p n(3) Cons.prems(1) by (simp add: copies_def)
    then have "wp (deepCopy t (f n)) (\<lambda>x. wp (copyFields fs (Struct f) (Struct (g(n := x)))) (?Q h (p # fs))) h"
    proof (rule wp_mono)
      fix x h1 assume c: "copied h t (f n) x h1"
      then have h1: "adds {} h h1" by (simp add: copied_def)
      have same: "sameValue h h1 s (f m)" if "(m, s) \<in> set fs" for m s
        using that fs(2) Cons.prems(1) by (intro adds_same [OF h1]) (auto simp: list_all_iff)
      have "wp (copyFields fs (Struct f) (Struct (g(n := x))))
        (\<lambda>v' h'. \<exists>g'. v' = Struct g' \<and> adds {} h1 h' \<and> (\<forall>m. m \<notin> fst ` set fs \<longrightarrow> g' m = (g(n := x)) m)
          \<and> list_all (\<lambda>(n, t). hasType h' t (g' n) \<and> treeOf h' t (g' n) = treeOf h1 t (f n)) fs
          \<and> freshCells h1 h' (concat (map (\<lambda>(n, t). cellsOf h' t (g' n)) fs))) h1"
      proof (rule Cons.IH [OF _ n(2)])
        show "wfHeap h1" using h1 by (simp add: adds_def)
        show "list_all (\<lambda>(n, t). hasType h1 t (f n)) fs" using fs(2) same by (fastforce simp: list_all_iff sameValue_def)
        show "\<forall>m\<in>fst ` set fs. (g(n := x)) m = f m" using fs(1) n(1) by auto
      qed (rule IH)
      then show "wp (copyFields fs (Struct f) (Struct (g(n := x)))) (?Q h (p # fs)) h1"
      proof (rule wp_mono)
        fix v' h' assume "\<exists>g'. v' = Struct g' \<and> adds {} h1 h' \<and> (\<forall>m. m \<notin> fst ` set fs \<longrightarrow> g' m = (g(n := x)) m)
          \<and> list_all (\<lambda>(n, t). hasType h' t (g' n) \<and> treeOf h' t (g' n) = treeOf h1 t (f n)) fs
          \<and> freshCells h1 h' (concat (map (\<lambda>(n, t). cellsOf h' t (g' n)) fs))"
        then obtain g' where g': "v' = Struct g'" "adds {} h1 h'" "\<forall>m. m \<notin> fst ` set fs \<longrightarrow> g' m = (g(n := x)) m"
          "list_all (\<lambda>(n, t). hasType h' t (g' n) \<and> treeOf h' t (g' n) = treeOf h1 t (f n)) fs"
          "freshCells h1 h' (concat (map (\<lambda>(n, t). cellsOf h' t (g' n)) fs))" by blast
        have gn: "g' n = x" using g'(3) n(1) by simp
        have x: "sameValue h1 h' t x" using c h1 by (intro adds_same [OF g'(2)]) (auto simp: copied_def adds_def)
        have "freshCells h h' (cellsOf h1 t x @ concat (map (\<lambda>(n, t). cellsOf h' t (g' n)) fs))"
          using c g'(2,5) h1 by (intro freshCells_append [where h' = h1]) (auto simp: copied_def adds_def)
        moreover have "list_all (\<lambda>(n, t). hasType h' t (g' n) \<and> treeOf h' t (g' n) = treeOf h t (f n)) fs"
          using g'(4) same by (fastforce simp: list_all_iff sameValue_def)
        moreover have "adds {} h h'" using h1 g'(2) by (rule adds_trans)
        ultimately show "?Q h (p # fs) v' h'"
          using g'(1,3) x c gn p by (intro exI [of _ g']) (auto simp: sameValue_def copied_def)
      qed
    qed
    then show ?thesis using False p by (simp add: copyField_def)
  qed
qed simp

lemma struct_copies:
  assumes "\<And>n t. (n, t) \<in> set fs \<Longrightarrow> \<not> plainType t \<Longrightarrow> copies t (deepCopy t)"
  shows "copies (TStruct fs) (deepCopy (TStruct fs))"
  unfolding copies_def
proof (intro allI impI)
  fix h v assume h: "wfHeap h" and ty: "hasType h (TStruct fs) v"
  then obtain f where v: "v = Struct f" by (cases v) auto
  show "wp (deepCopy (TStruct fs) v) (copied h (TStruct fs) v) h"
    using ty h unfolding v deepCopy.simps
    by (intro wp_mono [OF copyFields_copies [OF assms, where f = f and g = f]])
      (auto simp: copied_def list_all_iff)
qed

theorem deepCopy_copies: "copies T (deepCopy T)"
proof (induction T)
  case (TStruct fs)
  then show ?case by (intro struct_copies) auto
qed (simp_all add: deepCopy_fun newCopy_copies copySlice_copies copyPlain_copies copyMap_copies, simp add: copies_def copied_def)

end
