(* ===== verification/Deep_Copies_Facts.thy ===== *)
theory Deep_Copies_Facts
  imports Deep_Copies Deep_Copy_Facts
begin

text \<open>
  Every generated copy is the copy its type directs, and such a copy stands for the same value as the
  original and shares no cell with it.
\<close>

section \<open>The generated copies\<close>

lemma setField_same [simp]: "setField n (fieldOf n v) v = v"
  by (cases v) auto

lemma setField_kept [simp]: "n \<noteq> m \<Longrightarrow> setField n (fieldOf n v) (setField m x v) = setField m x v"
  by (cases v) auto

lemma setField_kept2 [simp]:
  "n \<noteq> m \<Longrightarrow> setField n (fieldOf n v) (setField k (fieldOf k v) (setField m x v)) = setField k (fieldOf k v) (setField m x v)"
  by (cases v) auto

lemma copyField_ret [simp]: "copyField n ret in' out = ret (setField n (fieldOf n in') out)"
  by (simp add: copyField_def)

lemma copyField_kept [simp]:
  "n \<noteq> m \<Longrightarrow> copyField m f v v \<bind> (\<lambda>out. g (setField n (fieldOf n v) out)) = copyField m f v v \<bind> g"
  by (simp add: copyField_def)

lemma copyField_kept2 [simp]:
  "n \<noteq> m \<Longrightarrow> k \<noteq> m \<Longrightarrow>
     copyField m f v v \<bind> (\<lambda>out. g (setField n (fieldOf n v) (setField k (fieldOf k v) out))) = copyField m f v v \<bind> g"
  by (simp add: copyField_def)

lemma copyFields_directed [directed]:
  "copyFields [] in' = ret"
  "copyFields ((n, t) # fs) in' =
     (if plainType t then copyFields fs in' else (\<lambda>out. copyField n (deepCopy t) in' out \<bind> copyFields fs in'))"
  by (rule ext, simp)+

lemma Time_directed [simp]: "Time_DeepCopyInto = ret" "Time_DeepCopy = newCopy ret"
proof -
  show into: "Time_DeepCopyInto = ret" by (rule ext) (simp add: Time_DeepCopyInto_def)
  show "Time_DeepCopy = newCopy ret" by (simp add: Time_DeepCopy_def into)
qed

lemma plain_directed [directed]:
  "plainType T_TypeMeta"
  "plainType T_ListMeta"
  "plainType T_StatusCause"
  "plainType T_Initializer"
  "plainType T_APIEndpoint"
  "plainType T_ClusterSpec"
  "plainType T_MachineSshConfigInfo"
  "plainType T_AppBundleSpec"
  "plainType T_AppBundleStatus"
  by (simp_all add: T_TypeMeta_def T_ListMeta_def T_StatusCause_def T_Initializer_def T_APIEndpoint_def
      T_ClusterSpec_def T_MachineSshConfigInfo_def T_AppBundleSpec_def T_AppBundleStatus_def)

lemma not_plain_directed [directed]:
  "\<not> plainType T_OwnerReference"
  "\<not> plainType T_StatusDetails"
  "\<not> plainType T_Status"
  "\<not> plainType T_Initializers"
  "\<not> plainType T_ObjectMeta"
  "\<not> plainType T_LabelSelectorRequirement"
  "\<not> plainType T_LabelSelector"
  "\<not> plainType T_Taint"
  "\<not> plainType T_ClusterStatus"
  "\<not> plainType T_CnctCluster"
  "\<not> plainType T_CnctClusterList"
  "\<not> plainType T_MachineSpec"
  "\<not> plainType T_MachineStatus"
  "\<not> plainType T_CnctMachine"
  "\<not> plainType T_CnctMachineList"
  "\<not> plainType T_MachineTemplate"
  "\<not> plainType T_MachineSetSpec"
  "\<not> plainType T_MachineSetStatus"
  "\<not> plainType T_CnctMachineSet"
  "\<not> plainType T_CnctMachineSetList"
  "\<not> plainType T_AppBundle"
  "\<not> plainType T_AppBundleList"
  by (simp_all add: T_OwnerReference_def T_StatusDetails_def T_Status_def T_Initializers_def
      T_ObjectMeta_def T_LabelSelectorRequirement_def T_LabelSelector_def T_Taint_def T_ClusterStatus_def
      T_CnctCluster_def T_CnctClusterList_def T_MachineSpec_def T_MachineStatus_def T_CnctMachine_def
      T_CnctMachineList_def T_MachineTemplate_def T_MachineSetSpec_def T_MachineSetStatus_def
      T_CnctMachineSet_def T_CnctMachineSetList_def T_AppBundle_def T_AppBundleList_def)

lemma OwnerReference_directed [directed]: "deepCopy T_OwnerReference = OwnerReference_DeepCopyInto"
  by (rule ext) (simp add: OwnerReference_DeepCopyInto_def T_OwnerReference_def directed)

lemma StatusDetails_directed [directed]: "deepCopy T_StatusDetails = StatusDetails_DeepCopyInto"
  by (rule ext) (simp add: StatusDetails_DeepCopyInto_def T_StatusDetails_def directed)

lemma Status_directed [directed]: "deepCopy T_Status = Status_DeepCopyInto"
  by (rule ext) (simp add: Status_DeepCopyInto_def T_Status_def directed)

lemma Initializers_directed [directed]: "deepCopy T_Initializers = Initializers_DeepCopyInto"
  by (rule ext) (simp add: Initializers_DeepCopyInto_def T_Initializers_def directed)

lemma ObjectMeta_directed [directed]: "deepCopy T_ObjectMeta = ObjectMeta_DeepCopyInto"
  by (rule ext) (simp add: ObjectMeta_DeepCopyInto_def T_ObjectMeta_def directed)

lemma LabelSelectorRequirement_directed [directed]: "deepCopy T_LabelSelectorRequirement = LabelSelectorRequirement_DeepCopyInto"
  by (rule ext) (simp add: LabelSelectorRequirement_DeepCopyInto_def T_LabelSelectorRequirement_def directed)

lemma LabelSelector_directed [directed]: "deepCopy T_LabelSelector = LabelSelector_DeepCopyInto"
  by (rule ext) (simp add: LabelSelector_DeepCopyInto_def T_LabelSelector_def directed)

lemma Taint_directed [directed]: "deepCopy T_Taint = Taint_DeepCopyInto"
  by (rule ext) (simp add: Taint_DeepCopyInto_def T_Taint_def directed)

lemma APIEndpoint_directed [directed]: "deepCopy T_APIEndpoint = APIEndpoint_DeepCopyInto"
  by (rule ext) (simp add: APIEndpoint_DeepCopyInto_def T_APIEndpoint_def directed)

lemma ClusterSpec_directed [directed]: "deepCopy T_ClusterSpec = ClusterSpec_DeepCopyInto"
  by (rule ext) (simp add: ClusterSpec_DeepCopyInto_def T_ClusterSpec_def directed)

lemma ClusterStatus_directed [directed]: "deepCopy T_ClusterStatus = ClusterStatus_DeepCopyInto"
  by (rule ext) (simp add: ClusterStatus_DeepCopyInto_def T_ClusterStatus_def directed)

lemma CnctCluster_directed [directed]: "deepCopy T_CnctCluster = CnctCluster_DeepCopyInto"
  by (rule ext) (simp add: CnctCluster_DeepCopyInto_def T_CnctCluster_def directed)

lemma CnctClusterList_directed [directed]: "deepCopy T_CnctClusterList = CnctClusterList_DeepCopyInto"
  by (rule ext) (simp add: CnctClusterList_DeepCopyInto_def T_CnctClusterList_def directed)

lemma MachineSpec_directed [directed]: "deepCopy T_MachineSpec = MachineSpec_DeepCopyInto"
  by (rule ext) (simp add: MachineSpec_DeepCopyInto_def T_MachineSpec_def directed)

lemma MachineSshConfigInfo_directed [directed]: "deepCopy T_MachineSshConfigInfo = MachineSshConfigInfo_DeepCopyInto"
  by (rule ext) (simp add: MachineSshConfigInfo_DeepCopyInto_def T_MachineSshConfigInfo_def directed)

lemma MachineStatus_directed [directed]: "deepCopy T_MachineStatus = MachineStatus_DeepCopyInto"
  by (rule ext) (simp add: MachineStatus_DeepCopyInto_def T_MachineStatus_def directed)

lemma CnctMachine_directed [directed]: "deepCopy T_CnctMachine = CnctMachine_DeepCopyInto"
  by (rule ext) (simp add: CnctMachine_DeepCopyInto_def T_CnctMachine_def directed)

lemma CnctMachineList_directed [directed]: "deepCopy T_CnctMachineList = CnctMachineList_DeepCopyInto"
  by (rule ext) (simp add: CnctMachineList_DeepCopyInto_def T_CnctMachineList_def directed)

lemma MachineTemplate_directed [directed]: "deepCopy T_MachineTemplate = MachineTemplate_DeepCopyInto"
  by (rule ext) (simp add: MachineTemplate_DeepCopyInto_def T_MachineTemplate_def directed)

lemma MachineSetSpec_directed [directed]: "deepCopy T_MachineSetSpec = MachineSetSpec_DeepCopyInto"
  by (rule ext) (simp add: MachineSetSpec_DeepCopyInto_def T_MachineSetSpec_def directed)

lemma MachineSetStatus_directed [directed]: "deepCopy T_MachineSetStatus = MachineSetStatus_DeepCopyInto"
  by (rule ext) (simp add: MachineSetStatus_DeepCopyInto_def T_MachineSetStatus_def directed)

lemma CnctMachineSet_directed [directed]: "deepCopy T_CnctMachineSet = CnctMachineSet_DeepCopyInto"
  by (rule ext) (simp add: CnctMachineSet_DeepCopyInto_def T_CnctMachineSet_def directed)

lemma CnctMachineSetList_directed [directed]: "deepCopy T_CnctMachineSetList = CnctMachineSetList_DeepCopyInto"
  by (rule ext) (simp add: CnctMachineSetList_DeepCopyInto_def T_CnctMachineSetList_def directed)

lemma AppBundleSpec_directed [directed]: "deepCopy T_AppBundleSpec = AppBundleSpec_DeepCopyInto"
  by (rule ext) (simp add: AppBundleSpec_DeepCopyInto_def T_AppBundleSpec_def directed)

lemma AppBundleStatus_directed [directed]: "deepCopy T_AppBundleStatus = AppBundleStatus_DeepCopyInto"
  by (rule ext) (simp add: AppBundleStatus_DeepCopyInto_def T_AppBundleStatus_def directed)

lemma AppBundle_directed [directed]: "deepCopy T_AppBundle = AppBundle_DeepCopyInto"
  by (rule ext) (simp add: AppBundle_DeepCopyInto_def T_AppBundle_def directed)

lemma AppBundleList_directed [directed]: "deepCopy T_AppBundleList = AppBundleList_DeepCopyInto"
  by (rule ext) (simp add: AppBundleList_DeepCopyInto_def T_AppBundleList_def directed)

lemmas copy_defs =
  APIEndpoint_DeepCopy_def ClusterSpec_DeepCopy_def ClusterStatus_DeepCopy_def CnctCluster_DeepCopy_def
  CnctClusterList_DeepCopy_def MachineSpec_DeepCopy_def MachineSshConfigInfo_DeepCopy_def
  MachineStatus_DeepCopy_def CnctMachine_DeepCopy_def CnctMachineList_DeepCopy_def
  MachineTemplate_DeepCopy_def MachineSetSpec_DeepCopy_def MachineSetStatus_DeepCopy_def
  CnctMachineSet_DeepCopy_def CnctMachineSetList_DeepCopy_def AppBundleSpec_DeepCopy_def
  AppBundleStatus_DeepCopy_def AppBundle_DeepCopy_def AppBundleList_DeepCopy_def

lemmas object_copy_defs =
  CnctCluster_DeepCopyObject_def CnctClusterList_DeepCopyObject_def CnctMachine_DeepCopyObject_def
  CnctMachineList_DeepCopyObject_def CnctMachineSet_DeepCopyObject_def CnctMachineSetList_DeepCopyObject_def
  AppBundle_DeepCopyObject_def AppBundleList_DeepCopyObject_def

lemma generated_directed: "list_all (\<lambda>(T, copy). copy = deepCopy T) generatedCopies"
  by (simp add: generatedCopies_def copy_defs directed)

lemma generated_copies: "(T, copy) \<in> set generatedCopies \<Longrightarrow> copies T copy"
  using generated_directed deepCopy_copies by (auto simp: list_all_iff)

section \<open>Properties\<close>

text \<open>C18: The generated code is the code the types call for: each of the nineteen \<open>DeepCopy\<close> functions of the API
  types is the copy its type directs, field by field (no field with a reference is left out, none is copied at
  the wrong type), and each of the eight \<open>DeepCopyObject\<close> functions gives that copy as an object, or the nil
  object for a nil receiver.\<close>

theorem generated_copies_follow_the_types:
  "list_all (\<lambda>(T, copy). copy = deepCopy T) generatedCopies
   \<and> list_all (\<lambda>(T, object). object = (\<lambda>v. deepCopy T v \<bind> (\<lambda>c. ret (if c \<noteq> NilRef then Some c else None)))) generatedObjectCopies"
  by (rule conjI [OF generated_directed])
    (simp add: generatedObjectCopies_def object_copy_defs copy_defs directed fun_eq_iff)

text \<open>C17: A deep copy is a copy and is deep: of a well-formed object it makes a value that reads the same, changing
  no cell that was there; and whatever is then done to the cells of the copy cannot be seen in the original,
  nor the other way round. This is what \<open>updateMachineSetStatus\<close> relies on when it sets the status of a copy of
  the object it got from the shared cache.\<close>

theorem deep_copies_isolate:
  assumes "(T, copy) \<in> set generatedCopies" and "wfHeap h" and "hasType h T v" and "run_state (copy v) h = (v', h')"
  shows "treeOf h' T v' = treeOf h T v \<and> sameAt {..<ghNext h} h h'
    \<and> (\<forall>h''. sameAt (- set (cellsOf h' T v')) h' h'' \<longrightarrow> treeOf h'' T v = treeOf h T v)
    \<and> (\<forall>h''. sameAt (- set (cellsOf h T v)) h' h'' \<longrightarrow> treeOf h'' T v' = treeOf h T v)"
proof -
  have "copied h T v v' h'"
    using generated_copies [OF assms(1)] assms(2-4) by (auto simp: copies_def dest: wp_run)
  then have run: "adds {} h h'" "treeOf h' T v' = treeOf h T v" "set (cellsOf h' T v') \<subseteq> {ghNext h..<ghNext h'}"
    by (auto simp: copied_def freshCells_def)
  have old: "sameValue h h' T v" using adds_same [OF run(1) assms(2,3)] by simp
  have below: "set (cellsOf h T v) \<subseteq> {..<ghNext h}" using assms(2,3) by (rule cells_below)
  have apart: "set (cellsOf h T v) \<inter> set (cellsOf h' T v') = {}" using below run(3) by fastforce
  have "treeOf h'' T v = treeOf h T v" if "sameAt (- set (cellsOf h' T v')) h' h''" for h''
  proof -
    have "sameAt (set (cellsOf h' T v)) h' h''" using that apart old by (auto simp: sameAt_def sameValue_def)
    then have "sameValue h' h'' T v" using old by (intro sameValueI) (simp add: sameValue_def)
    then show ?thesis using old by (simp add: sameValue_def)
  qed
  moreover have "treeOf h'' T v' = treeOf h T v" if "sameAt (- set (cellsOf h T v)) h' h''" for h''
  proof -
    have "sameAt (set (cellsOf h' T v')) h' h''" using that apart by (auto simp: sameAt_def)
    then have "sameValue h' h'' T v'" by (rule sameValueI)
    then show ?thesis using run(2) by (simp add: sameValue_def)
  qed
  ultimately show ?thesis using run(1,2) by (auto simp: adds_def)
qed

text \<open>A machine spec with one role: the copy has the same role in a backing array of its own.\<close>

definition workerSpec :: "string \<Rightarrow> go_value" where
  "workerSpec n = (if n = ''Roles'' then Slice 0 0 1
     else if n = ''Taints'' \<or> n = ''ProviderID'' then NilRef else Scalar (GoString ''standard''))"

definition specHeap :: go_heap where
  "specHeap = \<lparr>ghCells = [0 \<mapsto> Backing [Scalar (GoString ''worker'')], 1 \<mapsto> Var (Struct workerSpec)], ghNext = 2\<rparr>"

lemma specHeap_holds: "wfHeap specHeap" "hasType specHeap (TPtr T_MachineSpec) (Ptr 1)"
  by (auto simp: wfHeap_def specHeap_def T_MachineSpec_def workerSpec_def)

lemma specHeap_runs: "\<exists>h'. run_state (MachineSpec_DeepCopy (Ptr 1)) specHeap = (Ptr 2, h') \<and> 3 \<in> set (cellsOf h' (TPtr T_MachineSpec) (Ptr 2))"
  by (simp add: MachineSpec_DeepCopy_def MachineSpec_DeepCopyInto_def newCopy_def copyField_def copySlice_def copyPlain_def
      allocCell_def loadCell_def storeCell_def State_Monad.bind_def State_Monad.return_def specHeap_def workerSpec_def T_MachineSpec_def)

lemma deep_copies_isolate_witness:
  "treeOf (snd (run_state (MachineSpec_DeepCopy (Ptr 1)) specHeap)) (TPtr T_MachineSpec) (Ptr 2) = treeOf specHeap (TPtr T_MachineSpec) (Ptr 1)"
proof -
  obtain h' where r: "run_state (MachineSpec_DeepCopy (Ptr 1)) specHeap = (Ptr 2, h')" using specHeap_runs by blast
  show ?thesis
    using deep_copies_isolate [of "TPtr T_MachineSpec" MachineSpec_DeepCopy specHeap "Ptr 1" "Ptr 2" h'] specHeap_holds r by (simp add: generatedCopies_def)
qed

end
