(* ===== verification/Embedded_Files.thy ===== *)
theory Embedded_Files
  imports Prelude
begin

text \<open>
  The files embedded in the program by vfsgen: the resource definitions (\<^verbatim>\<open>pkg/crd/crd_vfsdata.go\<close>) and the four
  sites of \<^verbatim>\<open>pkg/ui/website\<close>. The five generated files hold a table each and the same code, which is modelled
  once; only the table of the Swagger site has files that are not compressed. The bytes of a file are given by the
  parameter \<open>content\<close>, as a string of characters up to 255, and the gzip reader is the record \<open>gzip_library\<close>.
  All modification times are the zero time and are left out.
\<close>

section \<open>Nodes\<close>

text \<open>A compressed file has its name, its compressed bytes and its uncompressed size, a plain one its name and
  bytes, a directory its name and its entries, which are the nodes at the paths that are listed.\<close>

datatype vfs_node =
    CompressedFileInfo string string int
  | FileInfo string string
  | DirInfo string "string list"

type_synonym vfs = "vfs_node go_map"

record file_info =
  fiName :: string
  fiSize :: int
  fiMode :: nat
  fiIsDir :: bool

text \<open>\<open>os.ModeDir\<close> is the highest of the 32 bits of a mode.\<close>

definition modeDir :: nat where
  "modeDir = 2 ^ 31"

fun Stat :: "vfs_node \<Rightarrow> file_info" where
  "Stat (CompressedFileInfo name bytes uncompressedSize) =
     \<lparr>fiName = name, fiSize = uncompressedSize, fiMode = 4 * 64 + 4 * 8 + 4, fiIsDir = False\<rparr>"
| "Stat (FileInfo name bytes) = \<lparr>fiName = name, fiSize = int (length bytes), fiMode = 4 * 64 + 4 * 8 + 4, fiIsDir = False\<rparr>"
| "Stat (DirInfo name entries) = \<lparr>fiName = name, fiSize = 0, fiMode = 7 * 64 + 5 * 8 + 5 + modeDir, fiIsDir = True\<rparr>"

section \<open>The five trees\<close>

definition Crd :: "(string \<Rightarrow> string) \<Rightarrow> vfs" where
  "Crd content = [
     (''/'', DirInfo ''/'' [''/addons_v1alpha1_appbundle.yaml'',
        ''/cluster_v1alpha1_cnctcluster.yaml'',
        ''/cluster_v1alpha1_cnctmachine.yaml'',
        ''/cluster_v1alpha1_cnctmachineset.yaml'']),
     (''/addons_v1alpha1_appbundle.yaml'', CompressedFileInfo ''addons_v1alpha1_appbundle.yaml''
        (content ''/addons_v1alpha1_appbundle.yaml'') 1938),
     (''/cluster_v1alpha1_cnctcluster.yaml'', CompressedFileInfo ''cluster_v1alpha1_cnctcluster.yaml''
        (content ''/cluster_v1alpha1_cnctcluster.yaml'') 2054),
     (''/cluster_v1alpha1_cnctmachine.yaml'', CompressedFileInfo ''cluster_v1alpha1_cnctmachine.yaml''
        (content ''/cluster_v1alpha1_cnctmachine.yaml'') 3341),
     (''/cluster_v1alpha1_cnctmachineset.yaml'', CompressedFileInfo ''cluster_v1alpha1_cnctmachineset.yaml''
        (content ''/cluster_v1alpha1_cnctmachineset.yaml'') 5980)]"

definition Api :: "(string \<Rightarrow> string) \<Rightarrow> vfs" where
  "Api content = [
     (''/'', DirInfo ''/'' [''/api.proto'', ''/third_party'']),
     (''/api.proto'', CompressedFileInfo ''api.proto'' (content ''/api.proto'') 10426),
     (''/third_party'', DirInfo ''third_party'' [''/third_party/README'',
        ''/third_party/google'',
        ''/third_party/protoc-gen-swagger'']),
     (''/third_party/README'', CompressedFileInfo ''README'' (content ''/third_party/README'') 962),
     (''/third_party/google'', DirInfo ''google'' [''/third_party/google/api'']),
     (''/third_party/google/api'', DirInfo ''api'' [''/third_party/google/api/annotations.proto'',
        ''/third_party/google/api/http.proto'',
        ''/third_party/google/api/httpbody.proto'']),
     (''/third_party/google/api/annotations.proto'', CompressedFileInfo ''annotations.proto''
        (content ''/third_party/google/api/annotations.proto'') 1055),
     (''/third_party/google/api/http.proto'', CompressedFileInfo ''http.proto''
        (content ''/third_party/google/api/http.proto'') 12233),
     (''/third_party/google/api/httpbody.proto'', CompressedFileInfo ''httpbody.proto''
        (content ''/third_party/google/api/httpbody.proto'') 2688),
     (''/third_party/protoc-gen-swagger'', DirInfo ''protoc-gen-swagger'' [''/third_party/protoc-gen-swagger/options'']),
     (''/third_party/protoc-gen-swagger/options'', DirInfo ''options'' [''/third_party/protoc-gen-swagger/options/annotations.proto'',
        ''/third_party/protoc-gen-swagger/options/openapiv2.proto'']),
     (''/third_party/protoc-gen-swagger/options/annotations.proto'', CompressedFileInfo ''annotations.proto''
        (content ''/third_party/protoc-gen-swagger/options/annotations.proto'') 1801),
     (''/third_party/protoc-gen-swagger/options/openapiv2.proto'', CompressedFileInfo ''openapiv2.proto''
        (content ''/third_party/protoc-gen-swagger/options/openapiv2.proto'') 13854)]"

definition Homepage :: "(string \<Rightarrow> string) \<Rightarrow> vfs" where
  "Homepage content = [
     (''/'', DirInfo ''/'' [''/index.html'']),
     (''/index.html'', CompressedFileInfo ''index.html'' (content ''/index.html'') 390)]"

definition Swagger :: "(string \<Rightarrow> string) \<Rightarrow> vfs" where
  "Swagger content = [
     (''/'', DirInfo ''/'' [''/api.swagger.json'']),
     (''/api.swagger.json'', CompressedFileInfo ''api.swagger.json''
        (content ''/api.swagger.json'') 19135)]"

definition SwaggerUI :: "(string \<Rightarrow> string) \<Rightarrow> vfs" where
  "SwaggerUI content = [
     (''/'', DirInfo ''/'' [''/favicon-16x16.png'',
        ''/favicon-32x32.png'',
        ''/index.html'',
        ''/oauth2-redirect.html'',
        ''/swagger-ui-bundle.js'',
        ''/swagger-ui-standalone-preset.js'',
        ''/swagger-ui.css'',
        ''/swagger-ui.js'']),
     (''/favicon-16x16.png'', FileInfo ''favicon-16x16.png'' (content ''/favicon-16x16.png'')),
     (''/favicon-32x32.png'', FileInfo ''favicon-32x32.png'' (content ''/favicon-32x32.png'')),
     (''/index.html'', CompressedFileInfo ''index.html'' (content ''/index.html'') 1359),
     (''/oauth2-redirect.html'', CompressedFileInfo ''oauth2-redirect.html''
        (content ''/oauth2-redirect.html'') 2388),
     (''/swagger-ui-bundle.js'', CompressedFileInfo ''swagger-ui-bundle.js''
        (content ''/swagger-ui-bundle.js'') 938077),
     (''/swagger-ui-standalone-preset.js'', CompressedFileInfo ''swagger-ui-standalone-preset.js''
        (content ''/swagger-ui-standalone-preset.js'') 305717),
     (''/swagger-ui.css'', CompressedFileInfo ''swagger-ui.css'' (content ''/swagger-ui.css'') 153768),
     (''/swagger-ui.js'', CompressedFileInfo ''swagger-ui.js'' (content ''/swagger-ui.js'') 753081)]"


section \<open>Opened files\<close>

text \<open>\<open>gzReset\<close> is \<open>gzip.NewReader\<close> and \<open>Reset\<close>: of compressed bytes an error or the bytes that reading will give.
  \<open>gzRead rest n\<close> is a \<open>Read\<close> into a buffer of length \<open>n\<close> when \<open>rest\<close> is still to come: how many bytes it delivers and
  its error.\<close>

record gzip_library =
  gzReset :: "string \<Rightarrow> go_error + string"
  gzRead :: "string \<Rightarrow> nat \<Rightarrow> nat \<times> go_error option"
  gzClose :: "string \<Rightarrow> go_error option"

definition EOF :: go_error where
  "EOF = PlainError ''EOF''"

record compressed_file =
  cfName :: string
  compressedContent :: string
  uncompressedSize :: int
  gr :: string
  grPos :: int
  seekPos :: int

record plain_file =
  pfName :: string
  pfContent :: string
  pfPos :: int

record open_dir =
  odName :: string
  odEntries :: "file_info list"
  odPos :: int

datatype vfs_file = CompressedFile compressed_file | PlainFile plain_file | Dir open_dir

text \<open>\<open>path.Clean\<close> of a path that begins with a slash.\<close>

definition cleanStep :: "string list \<Rightarrow> string \<Rightarrow> string list" where
  "cleanStep stack c = (if c = [] \<or> c = ''.'' then stack else if c = ''..'' then butlast stack else stack @ [c])"

definition cleanRooted :: "string \<Rightarrow> string" where
  "cleanRooted p = ''/'' @ joinWith ''/'' (foldl cleanStep [] (splitOn CHR ''/'' p))"

definition notExist :: "string \<Rightarrow> go_error" where
  "notExist path = Wrapped (''open '' @ path) (PlainError ''file does not exist'')"

definition Open :: "gzip_library \<Rightarrow> vfs \<Rightarrow> string \<Rightarrow> (go_error + vfs_file) go" where
  "Open z fs path = (let path = cleanRooted (''/'' @ path) in case goGet fs path of
       None \<Rightarrow> Returns (Inl (notExist path))
     | Some (CompressedFileInfo name bytes n) \<Rightarrow> (case gzReset z bytes of
           Inl err \<Rightarrow> Panics
         | Inr data \<Rightarrow> Returns (Inr (CompressedFile \<lparr>cfName = name, compressedContent = bytes, uncompressedSize = n,
             gr = data, grPos = 0, seekPos = 0\<rparr>)))
     | Some (FileInfo name bytes) \<Rightarrow> Returns (Inr (PlainFile \<lparr>pfName = name, pfContent = bytes, pfPos = 0\<rparr>))
     | Some (DirInfo name entries) \<Rightarrow>
         Returns (Inr (Dir \<lparr>odName = name, odEntries = map (Stat \<circ> the \<circ> goGet fs) entries, odPos = 0\<rparr>)))"

section \<open>Compressed files\<close>

text \<open>The reader of the compressed bytes only goes forward. \<open>grPos\<close> is where it is and \<open>seekPos\<close> where the next
  \<open>Read\<close> is to begin. Each operation gives its result and the file after it.\<close>

definition rewind :: "gzip_library \<Rightarrow> compressed_file \<Rightarrow> go_error + compressed_file" where
  "rewind z f = (if grPos f > seekPos f
     then (case gzReset z (compressedContent f) of Inl err \<Rightarrow> Inl err | Inr data \<Rightarrow> Inr (f\<lparr>gr := data, grPos := 0\<rparr>))
     else Inr f)"

text \<open>\<open>io.CopyN(ioutil.Discard, rest, n)\<close>: what is left and the error.\<close>

definition discardN :: "string \<Rightarrow> nat \<Rightarrow> string \<times> go_error option" where
  "discardN rest n = (drop n rest, if n \<le> length rest then None else Some EOF)"

definition fastForward :: "compressed_file \<Rightarrow> compressed_file \<times> go_error option" where
  "fastForward f = (if grPos f < seekPos f
     then (case discardN (gr f) (nat (seekPos f - grPos f)) of
         (rest, Some err) \<Rightarrow> (f\<lparr>gr := rest\<rparr>, Some err)
       | (rest, None) \<Rightarrow> (f\<lparr>gr := rest, grPos := seekPos f\<rparr>, None))
     else (f, None))"

definition Read :: "gzip_library \<Rightarrow> nat \<Rightarrow> compressed_file \<Rightarrow> (string \<times> go_error option) \<times> compressed_file" where
  "Read z lenp f = (case rewind z f of
       Inl err \<Rightarrow> (([], Some err), f)
     | Inr f \<Rightarrow> (case fastForward f of
         (f, Some err) \<Rightarrow> (([], Some err), f)
       | (f, None) \<Rightarrow>
           let (n, err) = gzRead z (gr f) lenp;
               p = take n (gr f);
               f = f\<lparr>gr := drop n (gr f), grPos := grPos f + int n\<rparr>;
               f = f\<lparr>seekPos := grPos f\<rparr>
           in ((p, err), f)))"

definition seekStart :: int where "seekStart = 0"
definition seekCurrent :: int where "seekCurrent = 1"
definition seekEnd :: int where "seekEnd = 2"

definition Seek :: "int \<Rightarrow> int \<Rightarrow> compressed_file \<Rightarrow> ((go_error + int) \<times> compressed_file) go" where
  "Seek offset whence f =
     (if whence = seekStart then let f = f\<lparr>seekPos := 0 + offset\<rparr> in Returns (Inr (seekPos f), f)
      else if whence = seekCurrent then let f = f\<lparr>seekPos := seekPos f + offset\<rparr> in Returns (Inr (seekPos f), f)
      else if whence = seekEnd then let f = f\<lparr>seekPos := uncompressedSize f + offset\<rparr> in Returns (Inr (seekPos f), f)
      else Panics)"

definition Close_compressed :: "gzip_library \<Rightarrow> compressed_file \<Rightarrow> go_error option" where
  "Close_compressed z f = gzClose z (gr f)"

definition Readdir_compressed :: "compressed_file \<Rightarrow> int \<Rightarrow> go_error + file_info list" where
  "Readdir_compressed f limit = Inl (PlainError (''cannot Readdir from file '' @ cfName f))"

definition GzipBytes :: "compressed_file \<Rightarrow> string" where
  "GzipBytes f = compressedContent f"

section \<open>Plain files\<close>

text \<open>A plain file embeds a \<open>bytes.Reader\<close>, whose methods are these two.\<close>

definition Read_plain :: "nat \<Rightarrow> plain_file \<Rightarrow> (string \<times> go_error option) \<times> plain_file" where
  "Read_plain lenp f = (if pfPos f \<ge> int (length (pfContent f)) then (([], Some EOF), f)
     else let p = take lenp (drop (nat (pfPos f)) (pfContent f)) in ((p, None), f\<lparr>pfPos := pfPos f + int (length p)\<rparr>))"

definition Seek_plain :: "int \<Rightarrow> int \<Rightarrow> plain_file \<Rightarrow> ((go_error + int) \<times> plain_file) go" where
  "Seek_plain offset whence f =
     (if whence \<notin> {seekStart, seekCurrent, seekEnd} then Returns (Inl (PlainError ''bytes.Reader.Seek: invalid whence''), f)
      else let position = (if whence = seekStart then offset else if whence = seekCurrent then pfPos f + offset
                           else int (length (pfContent f)) + offset) in
        if position < 0 then Returns (Inl (PlainError ''bytes.Reader.Seek: negative position''), f)
        else Returns (Inr position, f\<lparr>pfPos := position\<rparr>))"

definition Readdir_plain :: "plain_file \<Rightarrow> int \<Rightarrow> go_error + file_info list" where
  "Readdir_plain f limit = Inl (PlainError (''cannot Readdir from file '' @ pfName f))"

definition Close_plain :: "plain_file \<Rightarrow> go_error option" where
  "Close_plain f = None"

section \<open>Directories\<close>

definition Seek_dir :: "int \<Rightarrow> int \<Rightarrow> open_dir \<Rightarrow> (int \<times> go_error option) \<times> open_dir" where
  "Seek_dir offset whence d = (if offset = 0 \<and> whence = seekStart then ((0, None), d\<lparr>odPos := 0\<rparr>)
     else ((0, Some (PlainError (''unsupported Seek in directory '' @ odName d))), d))"

definition Readdir :: "int \<Rightarrow> open_dir \<Rightarrow> (go_error + file_info list) \<times> open_dir" where
  "Readdir limit d =
     (if odPos d \<ge> int (length (odEntries d)) \<and> limit > 0 then (Inl EOF, d)
      else let limit = (if limit \<le> 0 \<or> limit > int (length (odEntries d)) - odPos d
                        then int (length (odEntries d)) - odPos d else limit);
               e = take (nat limit) (drop (nat (odPos d)) (odEntries d))
           in (Inr e, d\<lparr>odPos := odPos d + limit\<rparr>))"

definition Read_dir :: "open_dir \<Rightarrow> nat \<times> go_error option" where
  "Read_dir d = (0, Some (PlainError (''cannot Read from directory '' @ odName d)))"

definition Close_dir :: "open_dir \<Rightarrow> go_error option" where
  "Close_dir d = None"

section \<open>The interface\<close>

text \<open>What a client has is an \<^verbatim>\<open>http.File\<close>, whose calls go to the kind of file it is.\<close>

definition readFile :: "gzip_library \<Rightarrow> nat \<Rightarrow> vfs_file \<Rightarrow> (string \<times> go_error option) \<times> vfs_file" where
  "readFile z lenp file = (case file of
       CompressedFile f \<Rightarrow> map_prod id CompressedFile (Read z lenp f)
     | PlainFile f \<Rightarrow> map_prod id PlainFile (Read_plain lenp f)
     | Dir d \<Rightarrow> (([], snd (Read_dir d)), Dir d))"

definition seekFile :: "int \<Rightarrow> int \<Rightarrow> vfs_file \<Rightarrow> ((go_error + int) \<times> vfs_file) go" where
  "seekFile offset whence file = (case file of
       CompressedFile f \<Rightarrow> (case Seek offset whence f of Panics \<Rightarrow> Panics | Returns (r, f) \<Rightarrow> Returns (r, CompressedFile f))
     | PlainFile f \<Rightarrow> (case Seek_plain offset whence f of Panics \<Rightarrow> Panics | Returns (r, f) \<Rightarrow> Returns (r, PlainFile f))
     | Dir d \<Rightarrow> (case Seek_dir offset whence d of
           ((n, Some err), d) \<Rightarrow> Returns (Inl err, Dir d)
         | ((n, None), d) \<Rightarrow> Returns (Inr n, Dir d)))"

end
