(* ===== verification/Embedded_Facts.thy ===== *)
theory Embedded_Facts
  imports Embedded_Files Startup
begin

text \<open>
  The embedded files: the trees are complete, an opened file, compressed or plain, is read like an array of bytes as
  long as no seek leaves it, and the resource definitions the operator installs are embedded. The contract of an
  opened file is the locale \<open>byte_file\<close>; it is interpreted on the two kinds of h and on the interface over them.
\<close>

section \<open>A file of bytes with a cursor\<close>

text \<open>The specification: what a client of an opened file does and sees.\<close>

datatype file_op = OpSeek int int | OpRead nat

datatype file_result = Sought "go_error + int" | ReadBytes string "go_error option"

text \<open>A read delivers the next bytes, at most as many as are asked for and at least one if there is one, and \<open>EOF\<close>
  only at the end.\<close>

definition readsAs :: "string \<Rightarrow> nat \<Rightarrow> nat \<Rightarrow> string \<Rightarrow> go_error option \<Rightarrow> bool" where
  "readsAs data pos n p err \<longleftrightarrow> p = take (length p) (drop pos data) \<and> length p \<le> n
     \<and> (err = None \<or> err = Some EOF \<and> pos + length p \<ge> length data)
     \<and> (n > 0 \<longrightarrow> (if pos < length data then p \<noteq> [] else err = Some EOF))"

definition seeksTo :: "string \<Rightarrow> nat \<Rightarrow> int \<Rightarrow> int \<Rightarrow> int" where
  "seeksTo data pos offset whence =
     (if whence = seekStart then offset else if whence = seekCurrent then int pos + offset else int (length data) + offset)"

fun cursorRun :: "string \<Rightarrow> nat \<Rightarrow> file_op list \<Rightarrow> file_result list \<Rightarrow> bool" where
  "cursorRun data pos [] [] \<longleftrightarrow> True"
| "cursorRun data pos (OpSeek offset whence # ops) (Sought (Inr p) # rs) \<longleftrightarrow>
     p = seeksTo data pos offset whence \<and> cursorRun data (nat p) ops rs"
| "cursorRun data pos (OpRead n # ops) (ReadBytes p err # rs) \<longleftrightarrow>
     readsAs data pos n p err \<and> cursorRun data (pos + length p) ops rs"
| "cursorRun data pos _ _ \<longleftrightarrow> False"

text \<open>The same operations on a file that has the operations \<open>read\<close> and \<open>seek\<close>.\<close>

fun fileRun :: "(nat \<Rightarrow> 'f \<Rightarrow> (string \<times> go_error option) \<times> 'f) \<Rightarrow> (int \<Rightarrow> int \<Rightarrow> 'f \<Rightarrow> ((go_error + int) \<times> 'f) go)
    \<Rightarrow> file_op list \<Rightarrow> 'f \<Rightarrow> (file_result list \<times> 'f) go" where
  "fileRun read seek [] f = Returns ([], f)"
| "fileRun read seek (OpSeek offset whence # ops) f = (case seek offset whence f of
       Panics \<Rightarrow> Panics
     | Returns (p, f) \<Rightarrow> (case fileRun read seek ops f of Panics \<Rightarrow> Panics | Returns (rs, f) \<Rightarrow> Returns (Sought p # rs, f)))"
| "fileRun read seek (OpRead n # ops) f = (case read n f of ((p, err), f) \<Rightarrow>
       (case fileRun read seek ops f of Panics \<Rightarrow> Panics | Returns (rs, f) \<Rightarrow> Returns (ReadBytes p err # rs, f)))"

text \<open>Every seek names one of the three origins, and every seek stays in a file of \<open>n\<close> bytes.\<close>

fun validSeek :: "file_op \<Rightarrow> bool" where
  "validSeek (OpSeek offset whence) \<longleftrightarrow> whence \<in> {seekStart, seekCurrent, seekEnd}"
| "validSeek (OpRead n) \<longleftrightarrow> True"

definition validSeeks :: "file_op list \<Rightarrow> bool" where
  "validSeeks ops \<longleftrightarrow> list_all validSeek ops"

definition staysInside :: "nat \<Rightarrow> file_result list \<Rightarrow> bool" where
  "staysInside n rs \<longleftrightarrow> list_all (\<lambda>x. case x of Sought (Inr p) \<Rightarrow> 0 \<le> p \<and> p \<le> int n | Sought (Inl err) \<Rightarrow> False | _ \<Rightarrow> True) rs"

text \<open>Reading on to the end: what the reads gave.\<close>

fun bytesRead :: "file_result \<Rightarrow> string" where
  "bytesRead (ReadBytes p err) = p"
| "bytesRead _ = []"

lemma readsAs_inside: "readsAs data pos n p err \<Longrightarrow> pos \<le> length data \<Longrightarrow> pos + length p \<le> length data"
  unfolding readsAs_def by (metis length_drop length_take min.cobounded1 le_diff_conv2 add.commute)

lemma cursorRun_all:
  "cursorRun data pos (replicate (Suc m) (OpRead n)) rs \<Longrightarrow> 0 < n \<Longrightarrow> pos \<le> length data \<Longrightarrow> length data - pos \<le> m \<Longrightarrow>
     concat (map bytesRead rs) = drop pos data \<and> last rs = ReadBytes [] (Some EOF)"
proof (induction m arbitrary: pos rs)
  case 0
  then obtain p err where rs: "rs = [ReadBytes p err]" "readsAs data pos n p err"
    by (cases rs; cases "tl rs"; cases "hd rs") auto
  then show ?case using 0 by (auto simp: readsAs_def)
next
  case (Suc m)
  then obtain p err rs1 where rs: "rs = ReadBytes p err # rs1" "readsAs data pos n p err"
    "cursorRun data (pos + length p) (replicate (Suc m) (OpRead n)) rs1"
    by (cases rs; cases "hd rs") auto
  have p: "p = take (length p) (drop pos data)" using rs(2) by (simp add: readsAs_def)
  have "pos < length data \<Longrightarrow> length p > 0" using rs(2) Suc.prems(2) by (simp add: readsAs_def)
  then have "length data - (pos + length p) \<le> m" using Suc.prems(4) by (cases "pos < length data"; cases p) auto
  then have "concat (map bytesRead rs1) = drop (pos + length p) data \<and> last rs1 = ReadBytes [] (Some EOF)"
    using Suc.IH [OF rs(3)] Suc.prems readsAs_inside [OF rs(2)] by simp
  moreover have "p @ drop (pos + length p) data = drop pos data"
    using p by (metis append_take_drop_id drop_drop add.commute)
  moreover have "rs1 \<noteq> []" using rs(3) by (cases rs1) auto
  ultimately show ?case using rs(1) by simp
qed

section \<open>The contract of an opened file\<close>

text \<open>\<open>holds data pos f\<close>: the h has the bytes \<open>data\<close> and its cursor is at \<open>pos\<close>. A seek out of the h need not keep it.\<close>

locale byte_file =
  fixes holds :: "string \<Rightarrow> nat \<Rightarrow> 'f \<Rightarrow> bool"
    and read :: "nat \<Rightarrow> 'f \<Rightarrow> (string \<times> go_error option) \<times> 'f"
    and seek :: "int \<Rightarrow> int \<Rightarrow> 'f \<Rightarrow> ((go_error + int) \<times> 'f) go"
  assumes read_at: "holds data pos f \<Longrightarrow> pos \<le> length data \<Longrightarrow> read n f = ((p, err), f') \<Longrightarrow>
      readsAs data pos n p err \<and> holds data (pos + length p) f'"
    and seek_at: "holds data pos f \<Longrightarrow> seek offset whence f = Returns (Inr q, f') \<Longrightarrow> 0 \<le> q \<Longrightarrow>
      q = seeksTo data pos offset whence \<and> holds data (nat q) f'"
    and seek_returns: "whence \<in> {seekStart, seekCurrent, seekEnd} \<Longrightarrow> \<exists>r f'. seek offset whence f = Returns (r, f')"
begin

lemma run_returns: "validSeeks ops \<Longrightarrow> \<exists>rs f'. fileRun read seek ops f = Returns (rs, f')"
proof (induction ops arbitrary: f)
  case (Cons op ops)
  then have valid: "validSeeks ops" by (simp add: validSeeks_def)
  show ?case
  proof (cases op)
    case (OpSeek offset whence)
    then have "whence \<in> {seekStart, seekCurrent, seekEnd}" using Cons.prems by (simp add: validSeeks_def)
    then obtain r f1 where "seek offset whence f = Returns (r, f1)" using seek_returns by blast
    moreover obtain rs f' where "fileRun read seek ops f1 = Returns (rs, f')" using Cons.IH [OF valid] by blast
    ultimately show ?thesis using OpSeek by simp
  next
    case (OpRead n)
    obtain p err f1 where "read n f = ((p, err), f1)" by (metis surj_pair)
    moreover obtain rs f' where "fileRun read seek ops f1 = Returns (rs, f')" using Cons.IH [OF valid] by blast
    ultimately show ?thesis using OpRead by simp
  qed
qed simp

lemma run_refines:
  "holds data pos f \<Longrightarrow> pos \<le> length data \<Longrightarrow> fileRun read seek ops f = Returns (rs, f') \<Longrightarrow> staysInside (length data) rs \<Longrightarrow>
    cursorRun data pos ops rs"
proof (induction ops arbitrary: pos f rs)
  case (Cons op ops)
  show ?case
  proof (cases op)
    case (OpSeek offset whence)
    then obtain r f1 rs1 where s: "seek offset whence f = Returns (r, f1)" "fileRun read seek ops f1 = Returns (rs1, f')" "rs = Sought r # rs1"
      using Cons.prems(3) by (auto split: go.splits prod.splits)
    then obtain p where p: "r = Inr p" "0 \<le> p" "p \<le> int (length data)" "staysInside (length data) rs1"
      using Cons.prems(4) by (cases r) (auto simp: staysInside_def)
    then have "p = seeksTo data pos offset whence" "holds data (nat p) f1" using seek_at Cons.prems(1) s(1) by auto
    then show ?thesis using Cons.IH [OF _ _ s(2) p(4)] p s(3) OpSeek by auto
  next
    case (OpRead n)
    obtain p err f1 where r: "read n f = ((p, err), f1)" by (metis surj_pair)
    then obtain rs1 where s: "fileRun read seek ops f1 = Returns (rs1, f')" "rs = ReadBytes p err # rs1"
      using Cons.prems(3) OpRead by (auto split: go.splits prod.splits)
    have at: "readsAs data pos n p err" "holds data (pos + length p) f1" using read_at [OF Cons.prems(1,2) r] by auto
    then show ?thesis
      using Cons.IH [OF at(2) readsAs_inside [OF at(1) Cons.prems(2)] s(1)] s(2) Cons.prems(4) OpRead by (auto simp: staysInside_def)
  qed
qed simp

lemma only_reads: "fileRun read seek (replicate m (OpRead n)) f = Returns (rs, f') \<Longrightarrow> staysInside k rs"
  by (induction m arbitrary: f rs) (auto simp: staysInside_def split: go.splits prod.splits)

lemma reads_everything:
  assumes "holds data 0 f" and "0 < n"
  obtains rs f' where "fileRun read seek (replicate (Suc (length data)) (OpRead n)) f = Returns (rs, f')"
    "concat (map bytesRead rs) = data" "last rs = ReadBytes [] (Some EOF)"
proof -
  let ?ops = "replicate (Suc (length data)) (OpRead n)"
  have "validSeeks ?ops" by (simp add: validSeeks_def list_all_iff)
  then obtain rs f' where r: "fileRun read seek ?ops f = Returns (rs, f')" using run_returns by blast
  then show ?thesis using cursorRun_all [OF run_refines [OF assms(1) _ r only_reads [OF r]] assms(2)] that by simp
qed

end

section \<open>Compressed files\<close>

text \<open>What the gzip package documents: a \<open>Read\<close> delivers bytes in order as \<open>io.Reader\<close> asks of it.\<close>

definition gzipReads :: "gzip_library \<Rightarrow> bool" where
  "gzipReads z \<longleftrightarrow> (\<forall>rest n. case gzRead z rest n of (k, err) \<Rightarrow>
     k \<le> n \<and> k \<le> length rest \<and> (err = None \<or> err = Some EOF \<and> k = length rest)
     \<and> (n > 0 \<longrightarrow> (if rest = [] then err = Some EOF else k > 0)))"

text \<open>A file that holds \<open>data\<close> and stands at \<open>pos\<close>.\<close>

definition cursorAt :: "gzip_library \<Rightarrow> string \<Rightarrow> nat \<Rightarrow> compressed_file \<Rightarrow> bool" where
  "cursorAt z data pos f \<longleftrightarrow> gzReset z (compressedContent f) = Inr data \<and> uncompressedSize f = int (length data)
     \<and> seekPos f = int pos \<and> (\<exists>g \<le> length data. grPos f = int g \<and> gr f = drop g data)"

lemma fastForward_at:
  assumes "cursorAt z data pos f" and "pos \<le> length data" and "grPos f \<le> int pos"
  shows "fastForward f = (f\<lparr>gr := drop pos data, grPos := int pos\<rparr>, None)"
proof -
  obtain g where g: "grPos f = int g" "gr f = drop g data" "seekPos f = int pos" using assms(1) by (auto simp: cursorAt_def)
  show ?thesis
  proof (cases "g < pos")
    case True
    then have "nat (int pos - int g) = pos - g" by simp
    then show ?thesis using True g assms(2) by (simp add: fastForward_def discardN_def)
  next
    case False
    then have "g = pos" using g(1) assms(3) by simp
    then show ?thesis using g by (cases f) (simp add: fastForward_def)
  qed
qed

lemma Read_at:
  assumes z: "gzipReads z" and f: "cursorAt z data pos f" and pos: "pos \<le> length data" and r: "Read z n f = ((p, err), f')"
  shows "readsAs data pos n p err \<and> cursorAt z data (pos + length p) f'"
proof -
  obtain f1 where f1: "rewind z f = Inr f1" "cursorAt z data pos f1" "grPos f1 \<le> int pos"
    using f by (cases "grPos f > seekPos f") (auto simp: rewind_def cursorAt_def)
  obtain f2 where f2: "fastForward f1 = (f2, None)" "cursorAt z data pos f2" "grPos f2 = int pos" "gr f2 = drop pos data"
    using fastForward_at [OF f1(2) pos f1(3)] f1(2) pos by (force simp: cursorAt_def)
  obtain k where k: "gzRead z (drop pos data) n = (k, err)" "p = take k (drop pos data)"
    "f' = f2\<lparr>gr := drop k (drop pos data), grPos := int pos + int k, seekPos := int pos + int k\<rparr>"
    using r f1(1) f2 by (auto simp: Read_def Let_def split: prod.splits)
  have law: "k \<le> n" "k \<le> length data - pos" "err = None \<or> err = Some EOF \<and> k = length data - pos"
    "n > 0 \<Longrightarrow> if drop pos data = [] then err = Some EOF else k > 0"
    using z k(1) unfolding gzipReads_def by (auto dest!: spec [of _ "drop pos data"] spec [of _ n])
  have len: "length p = k" using k(2) law(2) by simp
  have "readsAs data pos n p err"
    using law k(2) len pos by (auto simp: readsAs_def split: if_splits)
  moreover have "cursorAt z data (pos + length p) f'"
    using f2(2) k(3) law(2) pos len by (auto simp: cursorAt_def add.commute intro!: exI [of _ "pos + k"])
  ultimately show ?thesis by simp
qed

lemma Seek_at:
  assumes "cursorAt z data pos f" and "Seek offset whence f = Returns (Inr p, f')" and "0 \<le> p"
  shows "p = seeksTo data pos offset whence \<and> cursorAt z data (nat p) f'"
  using assms by (auto simp: Seek_def cursorAt_def seeksTo_def Let_def split: if_splits)

lemma Seek_returns: "whence \<in> {seekStart, seekCurrent, seekEnd} \<Longrightarrow> \<exists>r f'. Seek offset whence f = Returns (r, f')"
  by (auto simp: Seek_def Let_def)

interpretation compressed: byte_file "\<lambda>data pos f. gzipReads z \<and> cursorAt z data pos f" "Read z" Seek for z
  by unfold_locales (use Read_at Seek_at Seek_returns in \<open>simp_all, blast+\<close>)

section \<open>Plain files\<close>

definition plainAt :: "string \<Rightarrow> nat \<Rightarrow> plain_file \<Rightarrow> bool" where
  "plainAt data pos f \<longleftrightarrow> pfContent f = data \<and> pfPos f = int pos"

lemma Read_plain_at:
  "plainAt data pos f \<Longrightarrow> pos \<le> length data \<Longrightarrow> Read_plain n f = ((p, err), f') \<Longrightarrow>
     readsAs data pos n p err \<and> plainAt data (pos + length p) f'"
  by (auto simp: Read_plain_def plainAt_def readsAs_def Let_def min_def split: if_splits)

lemma Seek_plain_at:
  "plainAt data pos f \<Longrightarrow> Seek_plain offset whence f = Returns (Inr p, f') \<Longrightarrow> 0 \<le> p \<Longrightarrow>
     p = seeksTo data pos offset whence \<and> plainAt data (nat p) f'"
  by (auto simp: Seek_plain_def plainAt_def seeksTo_def Let_def split: if_splits)

lemma Seek_plain_returns: "\<exists>r f'. Seek_plain offset whence f = Returns (r, f')"
  by (auto simp: Seek_plain_def Let_def)

interpretation plain: byte_file plainAt Read_plain Seek_plain
  by unfold_locales (rule Read_plain_at Seek_plain_at Seek_plain_returns; assumption)+

section \<open>Any file\<close>

definition fileAt :: "gzip_library \<Rightarrow> string \<Rightarrow> nat \<Rightarrow> vfs_file \<Rightarrow> bool" where
  "fileAt z data pos h = (case h of CompressedFile f \<Rightarrow> cursorAt z data pos f | PlainFile f \<Rightarrow> plainAt data pos f | Dir d \<Rightarrow> False)"

lemma readFile_at:
  assumes "gzipReads z" and "fileAt z data pos h" and "pos \<le> length data" and "readFile z n h = ((p, err), h')"
  shows "readsAs data pos n p err \<and> fileAt z data (pos + length p) h'"
proof (cases h)
  case (CompressedFile f)
  then obtain f1 where "Read z n f = ((p, err), f1)" "h' = CompressedFile f1" using assms(4) by (cases "Read z n f") (auto simp: readFile_def)
  then show ?thesis using compressed.read_at [of z data pos f n p err f1] assms CompressedFile by (simp add: fileAt_def)
next
  case (PlainFile f)
  then obtain f1 where "Read_plain n f = ((p, err), f1)" "h' = PlainFile f1" using assms(4) by (cases "Read_plain n f") (auto simp: readFile_def)
  then show ?thesis using plain.read_at [of data pos f n p err f1] assms PlainFile by (simp add: fileAt_def)
qed (use assms in \<open>simp add: fileAt_def\<close>)

lemma seekFile_at:
  assumes "fileAt z data pos h" and "seekFile offset whence h = Returns (Inr p, h')" and "0 \<le> p"
  shows "p = seeksTo data pos offset whence \<and> fileAt z data (nat p) h'"
proof (cases h)
  case (CompressedFile f)
  then obtain f1 where "Seek offset whence f = Returns (Inr p, f1)" "h' = CompressedFile f1"
    using assms(2) by (auto simp: seekFile_def split: go.splits)
  then show ?thesis using Seek_at [of z data pos f] assms CompressedFile by (simp add: fileAt_def)
next
  case (PlainFile f)
  then obtain f1 where "Seek_plain offset whence f = Returns (Inr p, f1)" "h' = PlainFile f1"
    using assms(2) by (auto simp: seekFile_def split: go.splits)
  then show ?thesis using plain.seek_at [of data pos f] assms PlainFile by (simp add: fileAt_def)
qed (use assms in \<open>simp add: fileAt_def\<close>)

lemma seekFile_returns: "whence \<in> {seekStart, seekCurrent, seekEnd} \<Longrightarrow> \<exists>r h'. seekFile offset whence h = Returns (r, h')"
  using Seek_returns Seek_plain_returns
  by (auto simp: seekFile_def Seek_def Seek_plain_def Seek_dir_def Let_def split: vfs_file.splits)

interpretation opened: byte_file "\<lambda>data pos f. gzipReads z \<and> fileAt z data pos f" "readFile z" seekFile for z
  by unfold_locales (use readFile_at seekFile_at seekFile_returns in \<open>simp_all, blast+\<close>)

text \<open>A file that was opened holds its bytes: a plain file its content, a compressed one what gzip makes of it, if that
  has the size that was generated for it.\<close>

definition hasBytes :: "gzip_library \<Rightarrow> string \<Rightarrow> vfs_file \<Rightarrow> bool" where
  "hasBytes z data h = (case h of
       CompressedFile f \<Rightarrow> gzReset z (compressedContent f) = Inr data \<and> uncompressedSize f = int (length data)
     | PlainFile f \<Rightarrow> pfContent f = data
     | Dir d \<Rightarrow> False)"

lemma Open_at: "Open z fs path = Returns (Inr h) \<Longrightarrow> hasBytes z data h \<Longrightarrow> fileAt z data 0 h"
  by (auto simp: Open_def hasBytes_def fileAt_def cursorAt_def plainAt_def Let_def split: option.splits vfs_node.splits sum.splits)

section \<open>The trees\<close>

fun nodeName :: "vfs_node \<Rightarrow> string" where
  "nodeName node = fiName (Stat node)"

fun entryPaths :: "vfs_node \<Rightarrow> string list" where
  "entryPaths (DirInfo name entries) = entries"
| "entryPaths _ = []"

definition childPath :: "string \<Rightarrow> string \<Rightarrow> string" where
  "childPath dir name = (if dir = ''/'' then ''/'' @ name else dir @ ''/'' @ name)"

text \<open>A tree in which every path is clean and but for the root is an entry of one directory, whose path and its own
  name make it up.\<close>

definition completeTree :: "vfs \<Rightarrow> bool" where
  "completeTree fs \<longleftrightarrow> go_map_wf fs \<and> list_all (\<lambda>(path, node). cleanRooted path = path) fs
     \<and> list_all (\<lambda>(path, node). list_all (\<lambda>e. case goGet fs e of None \<Rightarrow> False | Some sub \<Rightarrow> e = childPath path (nodeName sub)) (entryPaths node)) fs
     \<and> distinct (concat (map (entryPaths \<circ> snd) fs)) \<and> set (map fst fs) = insert ''/'' (set (concat (map (entryPaths \<circ> snd) fs)))"

lemma complete_trees:
  "completeTree (Crd content)" "completeTree (Homepage content)" "completeTree (Swagger content)"
  unfolding completeTree_def Crd_def Homepage_def Swagger_def
  by (simp_all add: go_map_wf_def cleanRooted_def cleanStep_def goGet_def childPath_def)

lemma complete_SwaggerUI: "completeTree (SwaggerUI content)"
  unfolding completeTree_def SwaggerUI_def
  by (simp_all add: go_map_wf_def cleanRooted_def cleanStep_def goGet_def childPath_def)

lemma complete_Api: "completeTree (Api content)"
  unfolding completeTree_def Api_def
  by (simp add: go_map_wf_def cleanRooted_def cleanStep_def goGet_def childPath_def insert_commute)


section \<open>Listing a directory\<close>

text \<open>The loop of a client that lists a directory in pages, until it gets an error; the fuel bounds the pages.\<close>

fun readPages :: "nat \<Rightarrow> int \<Rightarrow> open_dir \<Rightarrow> file_info list list \<times> go_error option" where
  "readPages 0 limit d = ([], None)"
| "readPages (Suc k) limit d = (case Readdir limit d of
       (Inl err, d) \<Rightarrow> ([], Some err)
     | (Inr e, d) \<Rightarrow> (case readPages k limit d of (es, err) \<Rightarrow> (e # es, err)))"

lemma readPages_all:
  "0 < limit \<Longrightarrow> odPos d = int i \<Longrightarrow> i \<le> length (odEntries d) \<Longrightarrow> length (odEntries d) - i < k \<Longrightarrow>
     \<exists>es. readPages k limit d = (es, Some EOF) \<and> concat es = drop i (odEntries d)"
proof (induction k arbitrary: d i)
  case (Suc k)
  show ?case
  proof (cases "i = length (odEntries d)")
    case True
    then show ?thesis using Suc.prems by (simp add: Readdir_def)
  next
    case False
    define c where "c = (if limit > int (length (odEntries d)) - int i then length (odEntries d) - i else nat limit)"
    have c: "0 < c" "i + c \<le> length (odEntries d)" using False Suc.prems by (auto simp: c_def)
    have k: "length (odEntries d) - (i + c) < k" using Suc.prems(4) c by linarith
    have r: "Readdir limit d = (Inr (take c (drop i (odEntries d))), d\<lparr>odPos := int (i + c)\<rparr>)"
      using False Suc.prems by (auto simp: Readdir_def c_def Let_def of_nat_diff)
    obtain es where "readPages k limit (d\<lparr>odPos := int (i + c)\<rparr>) = (es, Some EOF)" "concat es = drop (i + c) (odEntries d)"
      using Suc.IH [of "d\<lparr>odPos := int (i + c)\<rparr>" "i + c"] Suc.prems c k by auto
    then show ?thesis using r by (simp add: add.commute) (metis append_take_drop_id drop_drop add.commute)
  qed
qed simp

section \<open>Properties\<close>

text \<open>C19: An opened embedded file, compressed or plain, behaves like an array of bytes with a cursor: whatever the sequence
  of seeks and reads, whatever pieces the gzip reader delivers and however often it has to be rewound, as long as no
  seek leaves the file each read gives the bytes at the cursor and each seek the position it asks for, and no valid
  seek panics.\<close>

theorem opened_file_refines:
  assumes "gzipReads z" and "Open z fs path = Returns (Inr h)" and "hasBytes z data h" and "validSeeks ops"
  shows "\<exists>rs h'. fileRun (readFile z) seekFile ops h = Returns (rs, h') \<and> (staysInside (length data) rs \<longrightarrow> cursorRun data 0 ops rs)"
proof -
  obtain rs h' where r: "fileRun (readFile z) seekFile ops h = Returns (rs, h')"
    using opened.run_returns assms(1,4) by blast
  show ?thesis using r opened.run_refines [of z data 0 h ops rs h'] assms(1) Open_at [OF assms(2,3)] by auto
qed

text \<open>A gzip reader that delivers what there is, for files that are stored as they are.\<close>

definition storedGzip :: gzip_library where
  "storedGzip = \<lparr>gzReset = Inr, gzRead = (\<lambda>rest n. (min n (length rest), if rest = [] then Some EOF else None)), gzClose = \<lambda>_. None\<rparr>"

lemma storedGzip_reads: "gzipReads storedGzip"
  by (auto simp: gzipReads_def storedGzip_def)

definition helloFile :: compressed_file where
  "helloFile = \<lparr>cfName = ''a'', compressedContent = ''hello'', uncompressedSize = 5, gr = ''hello'', grPos = 0, seekPos = 0\<rparr>"

lemma helloFile_opened:
  "Open storedGzip [(''/a'', CompressedFileInfo ''a'' ''hello'' 5)] ''a'' = Returns (Inr (CompressedFile helloFile))"
  by (simp add: Open_def storedGzip_def helloFile_def cleanRooted_def cleanStep_def goGet_def)

lemma helloFile_run:
  "\<exists>h'. fileRun (readFile storedGzip) seekFile [OpRead 2, OpSeek 1 seekStart, OpRead 3] (CompressedFile helloFile)
     = Returns ([ReadBytes ''he'' None, Sought (Inr 1), ReadBytes ''ell'' None], h')"
  by (simp add: readFile_def seekFile_def Read_def rewind_def fastForward_def discardN_def Seek_def Let_def seekStart_def storedGzip_def helloFile_def eval_nat_numeral)

lemma opened_file_refines_witness:
  "cursorRun ''hello'' 0 [OpRead 2, OpSeek 1 seekStart, OpRead 3] [ReadBytes ''he'' None, Sought (Inr 1), ReadBytes ''ell'' None]"
proof -
  let ?ops = "[OpRead 2, OpSeek 1 seekStart, OpRead 3]"
  have "\<exists>rs h'. fileRun (readFile storedGzip) seekFile ?ops (CompressedFile helloFile) = Returns (rs, h')
      \<and> (staysInside (length ''hello'') rs \<longrightarrow> cursorRun ''hello'' 0 ?ops rs)"
    by (rule opened_file_refines [OF storedGzip_reads helloFile_opened]) (simp_all add: hasBytes_def validSeeks_def helloFile_def storedGzip_def)
  moreover obtain h' where "fileRun (readFile storedGzip) seekFile ?ops (CompressedFile helloFile)
      = Returns ([ReadBytes ''he'' None, Sought (Inr 1), ReadBytes ''ell'' None], h')"
    using helloFile_run by blast
  moreover have "staysInside (length ''hello'') [ReadBytes ''he'' None, Sought (Inr 1), ReadBytes ''ell'' None]" by (simp add: staysInside_def)
  ultimately show ?thesis by (auto simp del: fileRun.simps cursorRun.simps)
qed

text \<open>A read past the end spoils an embedded file: after a seek beyond the end and a read, which finds nothing, a seek
  back to the start and every read after it gives nothing either, whatever the file holds, because the reader has
  moved on and \<open>grPos\<close> has not.\<close>

theorem read_past_the_end_spoils:
  assumes "gzipReads z" and "Open z fs path = Returns (Inr (CompressedFile f))"
    and "gzReset z (compressedContent f) = Inr data" and "int (length data) < e" and "0 < n"
  shows "\<exists>f'. fileRun (Read z) Seek ([OpSeek e seekStart, OpRead n, OpSeek 0 seekStart] @ replicate m (OpRead n)) f
     = Returns ([Sought (Inr e), ReadBytes [] (Some EOF), Sought (Inr 0)] @ replicate m (ReadBytes [] (Some EOF)), f')"
proof -
  have f: "gr f = data" "grPos f = 0" "seekPos f = 0"
    using assms(2,3) by (auto simp: Open_def Let_def split: option.splits vfs_node.splits sum.splits)
  let ?f = "f\<lparr>gr := [], seekPos := 0\<rparr>"
  have eof: "gzRead z [] n = (0, Some EOF)" using spec [OF spec [OF assms(1) [unfolded gzipReads_def], of "[]"], of n] assms(5) by (auto split: prod.splits)
  then have "Read z n ?f = (([], Some EOF), ?f)" using f(2) by (cases f) (simp add: Read_def rewind_def fastForward_def)
  then have "fileRun (Read z) Seek (replicate m (OpRead n)) ?f = Returns (replicate m (ReadBytes [] (Some EOF)), ?f)"
    by (induction m) simp_all
  moreover have "\<not> nat e \<le> length data" using assms(4) by simp
  then have "Read z n (f\<lparr>seekPos := e\<rparr>) = (([], Some EOF), f\<lparr>gr := [], seekPos := e\<rparr>)"
    using f assms(4) by (cases f) (simp add: Read_def rewind_def fastForward_def discardN_def)
  ultimately show ?thesis by (simp add: Seek_def seekStart_def Let_def)
qed

lemma read_past_the_end_spoils_witness:
  "\<exists>f'. fileRun (Read storedGzip) Seek ([OpSeek 6 seekStart, OpRead 9, OpSeek 0 seekStart] @ replicate 2 (OpRead 9)) helloFile
     = Returns ([Sought (Inr 6), ReadBytes [] (Some EOF), Sought (Inr 0)] @ replicate 2 (ReadBytes [] (Some EOF)), f')"
  using read_past_the_end_spoils [OF storedGzip_reads helloFile_opened, of "''hello''" 6 9 2]
  by (simp add: helloFile_def storedGzip_def)

text \<open>The literals of a tree are what its files were compressed to.\<close>

definition embeds :: "gzip_library \<Rightarrow> (string \<Rightarrow> string) \<Rightarrow> vfs \<Rightarrow> bool" where
  "embeds z data fs \<longleftrightarrow> list_all (\<lambda>(path, node). case node of
     CompressedFileInfo name bytes n \<Rightarrow> gzReset z bytes = Inr (data path) \<and> n = int (length (data path)) | _ \<Rightarrow> True) fs"

text \<open>C20: The embedded trees are complete: in each of the five every path is clean and is, but for the root, the entry of
  exactly one directory, under its own name; and the file of each resource definition that the operator installs
  is embedded: it opens, and reading it in pieces of any size delivers the whole file and then its end.\<close>

theorem definitions_are_embedded:
  assumes "gzipReads z" and "embeds z data (Crd content)" and "crd \<in> set operatorCrds" and "0 < n"
  shows "list_all completeTree [Crd content, Api content, Homepage content, Swagger content, SwaggerUI content]
    \<and> (\<exists>h rs h'. Open z (Crd content) (snd crd) = Returns (Inr h)
      \<and> fileRun (readFile z) seekFile (replicate (Suc (length (data (snd crd)))) (OpRead n)) h = Returns (rs, h')
      \<and> concat (map bytesRead rs) = data (snd crd) \<and> last rs = ReadBytes [] (Some EOF))"
proof -
  obtain h where h: "Open z (Crd content) (snd crd) = Returns (Inr h)" "fileAt z (data (snd crd)) 0 h"
    using assms(2,3) by (auto simp: Open_def Crd_def embeds_def operatorCrds_def cleanRooted_def cleanStep_def goGet_def fileAt_def cursorAt_def Let_def)
  obtain rs h' where "fileRun (readFile z) seekFile (replicate (Suc (length (data (snd crd)))) (OpRead n)) h = Returns (rs, h')"
    "concat (map bytesRead rs) = data (snd crd)" "last rs = ReadBytes [] (Some EOF)"
    using opened.reads_everything [of z "data (snd crd)" h n] assms(1,4) h(2) by blast
  then show ?thesis using h(1) complete_trees complete_SwaggerUI complete_Api by auto
qed

definition fillerData :: "string \<Rightarrow> string" where
  "fillerData path = replicate (if path = ''/addons_v1alpha1_appbundle.yaml'' then 1938
     else if path = ''/cluster_v1alpha1_cnctcluster.yaml'' then 2054
     else if path = ''/cluster_v1alpha1_cnctmachine.yaml'' then 3341 else 5980) CHR ''x''"

lemma definitions_are_embedded_witness:
  "\<exists>h. Open storedGzip (Crd fillerData) ''/cluster_v1alpha1_cnctcluster.yaml'' = Returns (Inr h)"
  using definitions_are_embedded [OF storedGzip_reads, of fillerData fillerData "operatorCrds ! 0" 100]
  by (auto simp: embeds_def Crd_def storedGzip_def fillerData_def operatorCrds_def)


text \<open>Listing an embedded directory in pages of any size ends, with \<open>EOF\<close>, and gives each of its entries once and in
  order; a seek to the start begins the list anew.\<close>

theorem directory_lists_once:
  assumes "Open z fs path = Returns (Inr (Dir d))" and "0 < limit"
  shows "\<exists>es. readPages (Suc (length (odEntries d))) limit d = (es, Some EOF) \<and> concat es = odEntries d
    \<and> snd (Seek_dir 0 seekStart (d\<lparr>odPos := p\<rparr>)) = d"
proof -
  have "odPos d = 0" using assms(1) by (auto simp: Open_def Let_def split: option.splits vfs_node.splits sum.splits)
  then show ?thesis using readPages_all [OF assms(2), of d 0] by (cases d) (simp add: Seek_dir_def del: readPages.simps)
qed

lemma directory_lists_once_witness:
  "\<exists>es. readPages 2 1 \<lparr>odName = ''/'', odEntries = [Stat (CompressedFileInfo ''index.html'' [] 390)], odPos = 0\<rparr> = (es, Some EOF)"
  using directory_lists_once [of storedGzip "Homepage (\<lambda>_. [])" "''/''" "\<lparr>odName = ''/'', odEntries = [Stat (CompressedFileInfo ''index.html'' [] 390)], odPos = 0\<rparr>" 1 0]
  by (auto simp: Open_def Homepage_def cleanRooted_def cleanStep_def goGet_def Let_def eval_nat_numeral)

end
