(* ===== verification/Work_Queue.thy ===== *)
theory Work_Queue
  imports Requests
begin

text \<open>
  The queue between a change and a reconcile: the work queue of client-go with its delays
  (\<^verbatim>\<open>k8s.io/client-go/util/workqueue\<close>), the worker of controller-runtime that serves it
  (\<^verbatim>\<open>sigs.k8s.io/controller-runtime/pkg/internal/controller\<close>), and the steps in which the informers, the workers and
  the waiting loop use it. The lock of the queue makes each of its operations one step. Metrics are left out.
\<close>

section \<open>The queue\<close>

record 'a work_queue =
  queue :: "'a list"
  dirty :: "'a set"
  processing :: "'a set"
  shuttingDown :: bool

definition newQueue :: "'a work_queue" where
  "newQueue = \<lparr>queue = [], dirty = {}, processing = {}, shuttingDown = False\<rparr>"

definition Add :: "'a \<Rightarrow> 'a work_queue \<Rightarrow> 'a work_queue" where
  "Add item q = (if shuttingDown q then q
     else if item \<in> dirty q then q
     else let q = q\<lparr>dirty := insert item (dirty q)\<rparr> in
       if item \<in> processing q then q
       else q\<lparr>queue := queue q @ [item]\<rparr>)"

text \<open>\<open>Get\<close> waits while there is no item, which is \<open>None\<close>; it gives no item when the queue is shut down and empty.\<close>

definition Get :: "'a work_queue \<Rightarrow> ('a option \<times> 'a work_queue) option" where
  "Get q = (if queue q = [] \<and> \<not> shuttingDown q then None
     else if queue q = [] then Some (None, q)
     else let item = hd (queue q);
              q = q\<lparr>queue := tl (queue q)\<rparr>;
              q = q\<lparr>processing := insert item (processing q)\<rparr>;
              q = q\<lparr>dirty := dirty q - {item}\<rparr>
          in Some (Some item, q))"

definition Done :: "'a \<Rightarrow> 'a work_queue \<Rightarrow> 'a work_queue" where
  "Done item q = (let q = q\<lparr>processing := processing q - {item}\<rparr> in
     if item \<in> dirty q then q\<lparr>queue := queue q @ [item]\<rparr> else q)"

definition ShutDown :: "'a work_queue \<Rightarrow> 'a work_queue" where
  "ShutDown q = q\<lparr>shuttingDown := True\<rparr>"

section \<open>Items that are added later\<close>

text \<open>What is sent to the waiting loop is in a buffered channel; the loop keeps its entries in a heap by the time they
  are ready, of which at most one is for the same item: here the list in the order of the heap. Times are in
  seconds.\<close>

record 'a delaying_queue =
  dqQueue :: "'a work_queue"
  waitingForAddCh :: "('a \<times> int) list"
  waitingForQueue :: "('a \<times> int) list"

definition channelSize :: nat where
  "channelSize = 1000"

text \<open>\<open>None\<close> is a sender that waits for the channel.\<close>

definition AddAfter :: "int \<Rightarrow> 'a \<Rightarrow> int \<Rightarrow> 'a delaying_queue \<Rightarrow> 'a delaying_queue option" where
  "AddAfter now item duration q =
     (if shuttingDown (dqQueue q) then Some q
      else if duration \<le> 0 then Some (q\<lparr>dqQueue := Add item (dqQueue q)\<rparr>)
      else if length (waitingForAddCh q) < channelSize
        then Some (q\<lparr>waitingForAddCh := waitingForAddCh q @ [(item, now + duration)]\<rparr>)
      else None)"

text \<open>\<open>heap.Push\<close>, \<open>heap.Fix\<close> and \<open>heap.Pop\<close> keep the entry that is ready first at the head.\<close>

definition insertEntry :: "'a \<times> int \<Rightarrow> ('a \<times> int) list \<Rightarrow> ('a \<times> int) list" where
  "insertEntry entry q = (case map_of q (fst entry) of
       Some readyAt \<Rightarrow>
         if readyAt > snd entry then insort_key snd entry (filter (\<lambda>e. fst e \<noteq> fst entry) q) else q
     | None \<Rightarrow> insort_key snd entry q)"

fun addReady :: "int \<Rightarrow> ('a \<times> int) list \<Rightarrow> 'a work_queue \<Rightarrow> ('a \<times> int) list \<times> 'a work_queue" where
  "addReady now [] q = ([], q)"
| "addReady now ((item, readyAt) # rest) q =
     (if readyAt > now then ((item, readyAt) # rest, q) else addReady now rest (Add item q))"

text \<open>A round of the waiting loop: it adds what is ready, and it takes an entry from the channel.\<close>

definition addReadyEntries :: "int \<Rightarrow> 'a delaying_queue \<Rightarrow> 'a delaying_queue" where
  "addReadyEntries now q = (if shuttingDown (dqQueue q) then q
     else case addReady now (waitingForQueue q) (dqQueue q) of
       (rest, wq) \<Rightarrow> q\<lparr>waitingForQueue := rest, dqQueue := wq\<rparr>)"

definition takeEntry :: "int \<Rightarrow> 'a delaying_queue \<Rightarrow> 'a delaying_queue" where
  "takeEntry now q = (case waitingForAddCh q of
       [] \<Rightarrow> q
     | waitEntry # rest \<Rightarrow>
         let q = q\<lparr>waitingForAddCh := rest\<rparr> in
         if snd waitEntry > now then q\<lparr>waitingForQueue := insertEntry waitEntry (waitingForQueue q)\<rparr>
         else q\<lparr>dqQueue := Add (fst waitEntry) (dqQueue q)\<rparr>)"

section \<open>A controller and its workers\<close>

text \<open>\<open>busy\<close> says which request a worker is reconciling.\<close>

record 'a controller =
  Queue :: "'a delaying_queue"
  busy :: "nat \<rightharpoonup> 'a"

text \<open>A reconcile that returns, with its result and its error; one that panics ends the process. \<open>delay\<close> is the answer
  of the rate limiter's \<open>When\<close>.\<close>

type_synonym reconcile_return = "reconcile_result \<times> go_error option"

definition requeue :: "int \<Rightarrow> int \<Rightarrow> 'a \<Rightarrow> reconcile_return \<Rightarrow> 'a delaying_queue \<Rightarrow> 'a delaying_queue option" where
  "requeue now delay req outcome q = (case outcome of (result, err) \<Rightarrow>
     if err \<noteq> None then AddAfter now req delay q
     else if rrRequeueAfter result > 0 then AddAfter now req (int (rrRequeueAfter result)) q
     else if rrRequeue result then AddAfter now req delay q
     else Some q)"

text \<open>The two ends of \<open>processNextWorkItem\<close>, between which the reconciler runs.\<close>

definition startNext :: "nat \<Rightarrow> 'a controller \<Rightarrow> ('a option \<times> 'a controller) option" where
  "startNext w c = (case Get (dqQueue (Queue c)) of
       None \<Rightarrow> None
     | Some (None, q) \<Rightarrow> Some (None, c\<lparr>Queue := (Queue c)\<lparr>dqQueue := q\<rparr>\<rparr>)
     | Some (Some req, q) \<Rightarrow> Some (Some req, c\<lparr>Queue := (Queue c)\<lparr>dqQueue := q\<rparr>, busy := (busy c)(w \<mapsto> req)\<rparr>))"

definition finish :: "int \<Rightarrow> int \<Rightarrow> nat \<Rightarrow> 'a \<Rightarrow> reconcile_return \<Rightarrow> 'a controller \<Rightarrow> 'a controller option" where
  "finish now delay w req outcome c = (case requeue now delay req outcome (Queue c) of
       None \<Rightarrow> None
     | Some q \<Rightarrow> Some (c\<lparr>Queue := q\<lparr>dqQueue := Done req (dqQueue q)\<rparr>, busy := (busy c)(w := None)\<rparr>))"

text \<open>\<open>MaxConcurrentReconciles\<close>, where it is not set.\<close>

definition maxConcurrentReconciles :: "nat \<Rightarrow> nat" where
  "maxConcurrentReconciles n = (if n = 0 then 1 else n)"

section \<open>The steps\<close>

datatype 'a queue_event = Added 'a | Started nat 'a | Finished nat 'a reconcile_return | Looped | Stopped

definition addRequest :: "'a \<Rightarrow> 'a controller \<Rightarrow> 'a controller" where
  "addRequest item c = c\<lparr>Queue := (Queue c)\<lparr>dqQueue := Add item (dqQueue (Queue c))\<rparr>\<rparr>"

text \<open>A controller with \<open>n\<close> workers. The answers of the rate limiter and of the clock are arbitrary.\<close>

inductive queue_step :: "nat \<Rightarrow> 'a controller \<Rightarrow> 'a queue_event \<Rightarrow> 'a controller \<Rightarrow> bool" for n where
  informs: "queue_step n c (Added item) (addRequest item c)"
| starts: "w < n \<Longrightarrow> busy c w = None \<Longrightarrow> startNext w c = Some (Some item, c') \<Longrightarrow> queue_step n c (Started w item) c'"
| finishes: "busy c w = Some item \<Longrightarrow> finish now delay w item outcome c = Some c' \<Longrightarrow> queue_step n c (Finished w item outcome) c'"
| adds: "queue_step n c Looped (c\<lparr>Queue := addReadyEntries now (Queue c)\<rparr>)"
| takes: "queue_step n c Looped (c\<lparr>Queue := takeEntry now (Queue c)\<rparr>)"
| stops: "queue_step n c Stopped (c\<lparr>Queue := (Queue c)\<lparr>dqQueue := ShutDown (dqQueue (Queue c))\<rparr>\<rparr>)"

inductive queue_run :: "nat \<Rightarrow> 'a controller \<Rightarrow> 'a queue_event list \<Rightarrow> 'a controller \<Rightarrow> bool" for n where
  stays: "queue_run n c [] c"
| goes: "queue_run n c es c1 \<Longrightarrow> queue_step n c1 e c2 \<Longrightarrow> queue_run n c (es @ [e]) c2"

definition idleController :: "'a controller" where
  "idleController = \<lparr>Queue = \<lparr>dqQueue = newQueue, waitingForAddCh = [], waitingForQueue = []\<rparr>, busy = Map.empty\<rparr>"

end
