(* ===== verification/Work_Queue_Facts.thy ===== *)
theory Work_Queue_Facts
  imports Work_Queue "HOL-Library.Sublist"
begin

text \<open>
  What a controller can rely on: no two of its workers reconcile the same request at a time, a request that came
  while it was being reconciled, or whose reconcile failed, is reconciled again, and requests are taken in order.
\<close>

section \<open>The invariant of the queue\<close>

text \<open>As the comments of \<^verbatim>\<open>queue.go\<close> have it.\<close>

definition queueInv :: "'a work_queue \<Rightarrow> bool" where
  "queueInv q \<longleftrightarrow> distinct (queue q) \<and> set (queue q) = dirty q - processing q"

lemma queueInv_newQueue [simp]: "queueInv newQueue"
  by (simp add: queueInv_def newQueue_def)

lemma Add_keeps [simp]:
  "processing (Add x q) = processing q" "shuttingDown (Add x q) = shuttingDown q"
  "dirty (Add x q) = (if shuttingDown q then dirty q else insert x (dirty q))"
  by (auto simp: Add_def Let_def)

lemma Add_inv: "queueInv q \<Longrightarrow> queueInv (Add x q)"
  by (auto simp: queueInv_def Add_def Let_def)

lemma Add_appends: "\<exists>xs. queue (Add x q) = queue q @ xs"
  by (auto simp: Add_def Let_def)

lemma Get_Some:
  assumes "Get q = Some (Some x, q')"
  shows "queue q = x # queue q'" and "processing q' = insert x (processing q)" and "dirty q' = dirty q - {x}"
    and "shuttingDown q' = shuttingDown q"
  using assms by (auto simp: Get_def Let_def split: if_splits)

lemma Get_enabled: "queue q \<noteq> [] \<Longrightarrow> \<exists>q'. Get q = Some (Some (hd (queue q)), q')"
  by (auto simp: Get_def Let_def)

lemma Get_inv: "Get q = Some (Some x, q') \<Longrightarrow> queueInv q \<Longrightarrow> queueInv q' \<and> x \<notin> processing q"
  using Get_Some [of q x q'] by (auto simp: queueInv_def)

lemma Done_keeps [simp]:
  "processing (Done x q) = processing q - {x}" "shuttingDown (Done x q) = shuttingDown q" "dirty (Done x q) = dirty q"
  by (auto simp: Done_def Let_def)

lemma Done_inv: "queueInv q \<Longrightarrow> x \<in> processing q \<Longrightarrow> queueInv (Done x q)"
  by (auto simp: queueInv_def Done_def Let_def)

lemma Done_appends: "\<exists>xs. queue (Done x q) = queue q @ xs"
  by (auto simp: Done_def Let_def)

text \<open>A queue to which items were added.\<close>

definition added :: "'a work_queue \<Rightarrow> 'a work_queue \<Rightarrow> bool" where
  "added q q' \<longleftrightarrow> (queueInv q \<longrightarrow> queueInv q') \<and> processing q' = processing q \<and> shuttingDown q' = shuttingDown q
     \<and> dirty q \<subseteq> dirty q' \<and> (\<exists>xs. queue q' = queue q @ xs)"

lemma added_refl [simp]: "added q q"
  by (simp add: added_def)

lemma added_trans: "added q q' \<Longrightarrow> added q' q'' \<Longrightarrow> added q q''"
  by (auto simp: added_def)

lemma added_Add [simp]: "added q (Add x q)"
  by (auto simp: added_def Add_inv Add_appends)

lemma addReady_added: "addReady now es q = (rest, q') \<Longrightarrow> added q q'"
  by (induction now es q arbitrary: rest q' rule: addReady.induct) (auto split: if_splits intro: added_trans [OF added_Add])

lemma addReady_covers:
  "addReady now es q = (rest, q') \<Longrightarrow> \<not> shuttingDown q \<Longrightarrow> fst ` set es \<subseteq> dirty q' \<union> fst ` set rest"
proof (induction now es q arbitrary: rest q' rule: addReady.induct)
  case (2 now item readyAt es q)
  show ?case
  proof (cases "readyAt > now")
    case True
    then show ?thesis using "2.prems"(1) by auto
  next
    case False
    then have r: "addReady now es (Add item q) = (rest, q')" using "2.prems" by simp
    have "item \<in> dirty q'" using addReady_added [OF r] "2.prems"(2) by (auto simp: added_def)
    then show ?thesis using "2.IH" [OF False r] "2.prems"(2) by simp
  qed
qed simp

section \<open>What is still to be reconciled\<close>

definition waiting :: "'a delaying_queue \<Rightarrow> 'a set" where
  "waiting q = dirty (dqQueue q) \<union> fst ` set (waitingForAddCh q) \<union> fst ` set (waitingForQueue q)"

text \<open>A step of the delaying queue by which nothing is lost.\<close>

definition keeps :: "'a delaying_queue \<Rightarrow> 'a delaying_queue \<Rightarrow> bool" where
  "keeps q q' \<longleftrightarrow> added (dqQueue q) (dqQueue q') \<and> (\<not> shuttingDown (dqQueue q) \<longrightarrow> waiting q \<subseteq> waiting q')"

lemma keeps_refl [simp]: "keeps q q"
  by (simp add: keeps_def)

lemma insertEntry_items: "fst ` set (insertEntry e es) = insert (fst e) (fst ` set es)"
proof (cases "map_of es (fst e)")
  case None
  then show ?thesis by (simp add: insertEntry_def set_insort_key)
next
  case (Some readyAt)
  then have "(fst e, readyAt) \<in> set es" by (rule map_of_SomeD)
  then have "fst e \<in> fst ` set es" by (rule image_eqI [rotated]) simp
  then show ?thesis using Some by (auto simp: insertEntry_def set_insort_key)
qed

lemma AddAfter_keeps:
  "AddAfter now x d q = Some q' \<Longrightarrow> keeps q q' \<and> (\<not> shuttingDown (dqQueue q) \<longrightarrow> x \<in> waiting q')"
  by (auto simp: AddAfter_def keeps_def waiting_def split: if_splits)

lemma addReadyEntries_keeps: "keeps q (addReadyEntries now q)"
proof (cases "addReady now (waitingForQueue q) (dqQueue q)")
  case (Pair rest wq)
  then show ?thesis using addReady_added [OF Pair] addReady_covers [OF Pair]
    by (auto simp: addReadyEntries_def keeps_def waiting_def added_def)
qed

lemma takeEntry_keeps: "keeps q (takeEntry now q)"
  by (auto simp: takeEntry_def keeps_def waiting_def insertEntry_items Let_def split: list.split)

lemma requeue_keeps: "requeue now d x outcome q = Some q' \<Longrightarrow> keeps q q'"
  by (auto simp: requeue_def split: prod.splits if_splits dest: AddAfter_keeps)

text \<open>An event after which a request is to be reconciled: it came, or its reconcile asked for it or failed.\<close>

fun asksFor :: "'a \<Rightarrow> 'a queue_event \<Rightarrow> bool" where
  "asksFor x (Added y) \<longleftrightarrow> x = y"
| "asksFor x (Finished w y (result, err)) \<longleftrightarrow> x = y \<and> (err \<noteq> None \<or> rrRequeueAfter result > 0 \<or> rrRequeue result)"
| "asksFor x _ \<longleftrightarrow> False"

section \<open>The invariant of the controller\<close>

definition exclusive :: "(nat \<rightharpoonup> 'a) \<Rightarrow> bool" where
  "exclusive m \<longleftrightarrow> (\<forall>w1 w2 x. m w1 = Some x \<longrightarrow> m w2 = Some x \<longrightarrow> w1 = w2)"

definition controllerInv :: "nat \<Rightarrow> 'a controller \<Rightarrow> bool" where
  "controllerInv n c \<longleftrightarrow> queueInv (dqQueue (Queue c)) \<and> ran (busy c) = processing (dqQueue (Queue c))
     \<and> exclusive (busy c) \<and> dom (busy c) \<subseteq> {..<n}"

lemma controllerInv_idle [simp]: "controllerInv n idleController"
  by (simp add: controllerInv_def exclusive_def idleController_def newQueue_def queueInv_def)

lemma exclusive_add: "exclusive m \<Longrightarrow> x \<notin> ran m \<Longrightarrow> exclusive (m(w \<mapsto> x))"
  by (auto simp: exclusive_def ran_def)

lemma exclusive_remove: "exclusive m \<Longrightarrow> exclusive (m(w := None))"
  by (auto simp: exclusive_def)

lemma ran_remove:
  assumes "exclusive m" and "m w = Some x"
  shows "ran (m(w := None)) = ran m - {x}"
proof -
  have "m a = Some x \<longleftrightarrow> a = w" for a using assms by (auto simp: exclusive_def)
  then show ?thesis using assms(2) by (auto simp: ran_def) (metis option.inject)
qed

lemma queue_step_inv: "queue_step n c e c' \<Longrightarrow> controllerInv n c \<Longrightarrow> controllerInv n c'"
proof (induction rule: queue_step.induct)
  case (informs c item)
  then show ?case by (simp add: controllerInv_def addRequest_def Add_inv)
next
  case (starts w c item c')
  then obtain q where q: "Get (dqQueue (Queue c)) = Some (Some item, q)"
    "c' = c\<lparr>Queue := (Queue c)\<lparr>dqQueue := q\<rparr>, busy := (busy c)(w \<mapsto> item)\<rparr>"
    by (auto simp: startNext_def split: option.splits)
  have "queueInv q" "item \<notin> ran (busy c)" using Get_inv [OF q(1)] starts.prems by (auto simp: controllerInv_def)
  then show ?case using starts.prems starts.hyps(1,2) q(2) Get_Some(2) [OF q(1)]
    by (simp add: controllerInv_def exclusive_add ran_map_upd)
next
  case (finishes c w item now delay outcome c')
  then obtain q where q: "requeue now delay item outcome (Queue c) = Some q"
    "c' = c\<lparr>Queue := q\<lparr>dqQueue := Done item (dqQueue q)\<rparr>, busy := (busy c)(w := None)\<rparr>"
    by (auto simp: finish_def split: option.splits)
  have k: "added (dqQueue (Queue c)) (dqQueue q)" using requeue_keeps [OF q(1)] by (simp add: keeps_def)
  have "item \<in> processing (dqQueue (Queue c))" using finishes by (auto simp: controllerInv_def ran_def)
  then show ?case using finishes.prems k q(2) ran_remove [of "busy c" w item] finishes.hyps(1)
    by (auto simp: controllerInv_def added_def exclusive_remove intro!: Done_inv split: if_splits)
next
  case (adds c now)
  then show ?case using addReadyEntries_keeps [of "Queue c" now] by (auto simp: controllerInv_def keeps_def added_def)
next
  case (takes c now)
  then show ?case using takeEntry_keeps [of "Queue c" now] by (auto simp: controllerInv_def keeps_def added_def)
next
  case (stops c)
  then show ?case by (simp add: controllerInv_def ShutDown_def queueInv_def)
qed

lemma queue_run_inv: "queue_run n c es c' \<Longrightarrow> controllerInv n c \<Longrightarrow> controllerInv n c'"
  by (induction rule: queue_run.induct) (auto dest: queue_step_inv)


section \<open>Nothing is lost\<close>

lemma queue_step_stopped:
  "queue_step n c e c' \<Longrightarrow> shuttingDown (dqQueue (Queue c)) \<Longrightarrow> shuttingDown (dqQueue (Queue c'))"
proof (induction rule: queue_step.induct)
  case (starts w c item c')
  then show ?case by (auto simp: startNext_def Get_Some(4) split: option.splits)
next
  case (finishes c w item now delay outcome c')
  then show ?case using requeue_keeps by (fastforce simp: finish_def keeps_def added_def split: option.splits)
next
  case (adds c now)
  then show ?case using addReadyEntries_keeps [of "Queue c" now] by (simp add: keeps_def added_def)
next
  case (takes c now)
  then show ?case using takeEntry_keeps [of "Queue c" now] by (simp add: keeps_def added_def)
qed (simp_all add: addRequest_def ShutDown_def)

lemma requeue_waits:
  "requeue now delay x outcome q = Some q' \<Longrightarrow> asksFor x (Finished w x outcome) \<Longrightarrow> \<not> shuttingDown (dqQueue q) \<Longrightarrow> x \<in> waiting q'"
  by (cases outcome) (auto simp: requeue_def split: if_splits dest: AddAfter_keeps [THEN conjunct2, rule_format])

text \<open>A step that is not the start of its reconcile leaves a waiting request waiting.\<close>

lemma queue_step_keeps:
  "queue_step n c e c' \<Longrightarrow> \<not> shuttingDown (dqQueue (Queue c)) \<Longrightarrow> \<forall>w. e \<noteq> Started w x \<Longrightarrow> x \<in> waiting (Queue c) \<or> asksFor x e \<Longrightarrow>
     x \<in> waiting (Queue c')"
proof (induction rule: queue_step.induct)
  case (informs c item)
  then show ?case by (auto simp: addRequest_def waiting_def)
next
  case (starts w c item c')
  then obtain q where q: "Get (dqQueue (Queue c)) = Some (Some item, q)" "dqQueue (Queue c') = q"
    "waitingForAddCh (Queue c') = waitingForAddCh (Queue c)" "waitingForQueue (Queue c') = waitingForQueue (Queue c)"
    by (auto simp: startNext_def split: option.splits)
  have "waiting (Queue c) - {item} \<subseteq> waiting (Queue c')" using q Get_Some(3) [OF q(1)] unfolding waiting_def by auto
  then show ?case using starts.prems by auto
next
  case (finishes c w item now delay outcome c')
  then obtain q where q: "requeue now delay item outcome (Queue c) = Some q" "c' = c\<lparr>Queue := q\<lparr>dqQueue := Done item (dqQueue q)\<rparr>, busy := (busy c)(w := None)\<rparr>"
    by (auto simp: finish_def split: option.splits)
  have "x \<in> waiting q"
    using finishes.prems requeue_waits [OF q(1)] requeue_keeps [OF q(1)] by (cases outcome) (auto simp: keeps_def)
  then show ?case using q(2) by (simp add: waiting_def)
next
  case (adds c now)
  then show ?case using addReadyEntries_keeps [of "Queue c" now] by (auto simp: keeps_def)
next
  case (takes c now)
  then show ?case using takeEntry_keeps [of "Queue c" now] by (auto simp: keeps_def)
qed (simp add: waiting_def ShutDown_def)

lemma queue_run_stopped: "queue_run n c es c' \<Longrightarrow> shuttingDown (dqQueue (Queue c)) \<Longrightarrow> shuttingDown (dqQueue (Queue c'))"
  by (induction rule: queue_run.induct) (auto dest: queue_step_stopped)

lemma queue_run_keeps:
  "queue_run n c es c' \<Longrightarrow> \<not> shuttingDown (dqQueue (Queue c')) \<Longrightarrow> x \<in> waiting (Queue c) \<Longrightarrow> \<forall>w. Started w x \<notin> set es \<Longrightarrow>
     x \<in> waiting (Queue c')"
proof (induction rule: queue_run.induct)
  case (goes c es c1 e c2)
  then show ?case using queue_step_stopped [OF goes.hyps(2)] queue_step_keeps [OF goes.hyps(2), of x] by fastforce
qed

lemma queue_run_append: "queue_run n c (es @ fs) c' \<Longrightarrow> \<exists>c1. queue_run n c es c1 \<and> queue_run n c1 fs c'"
proof (induction fs arbitrary: c' rule: rev_induct)
  case Nil
  then show ?case by (auto intro: queue_run.stays)
next
  case (snoc f fs)
  from snoc.prems obtain c1 where "queue_run n c (es @ fs) c1" "queue_step n c1 f c'"
    by (cases rule: queue_run.cases) auto
  then show ?case using snoc.IH queue_run.goes by metis
qed

inductive_cases queue_run_NilE: "queue_run n c [] c'"

lemma queue_run_ConsD: "queue_run n c (e # es) c' \<Longrightarrow> \<exists>c1. queue_step n c e c1 \<and> queue_run n c1 es c'"
proof -
  assume "queue_run n c (e # es) c'"
  then obtain c1 where c1: "queue_run n c [e] c1" "queue_run n c1 es c'" using queue_run_append [of n c "[e]" es c'] by auto
  from c1(1) have "queue_step n c e c1" by (cases rule: queue_run.cases) (auto elim: queue_run_NilE)
  then show ?thesis using c1(2) by blast
qed

section \<open>In order\<close>

fun isStart :: "'a queue_event \<Rightarrow> bool" where
  "isStart (Started w x) \<longleftrightarrow> True"
| "isStart _ \<longleftrightarrow> False"

lemma queue_step_order:
  "queue_step n c e c' \<Longrightarrow> (if isStart e then \<exists>w. queue (dqQueue (Queue c)) = hd (queue (dqQueue (Queue c))) # queue (dqQueue (Queue c'))
        \<and> e = Started w (hd (queue (dqQueue (Queue c))))
     else \<exists>xs. queue (dqQueue (Queue c')) = queue (dqQueue (Queue c)) @ xs)"
proof (induction rule: queue_step.induct)
  case (informs c item)
  then show ?case by (simp add: addRequest_def Add_appends)
next
  case (starts w c item c')
  then show ?case by (auto simp: startNext_def Get_Some(1) split: option.splits)
next
  case (finishes c w item now delay outcome c')
  then obtain q where q: "requeue now delay item outcome (Queue c) = Some q" "c' = c\<lparr>Queue := q\<lparr>dqQueue := Done item (dqQueue q)\<rparr>, busy := (busy c)(w := None)\<rparr>"
    by (auto simp: finish_def split: option.splits)
  then show ?case using requeue_keeps [OF q(1)] Done_appends [of item "dqQueue q"] by (auto simp: keeps_def added_def)
next
  case (adds c now)
  then show ?case using addReadyEntries_keeps [of "Queue c" now] by (simp add: keeps_def added_def)
next
  case (takes c now)
  then show ?case using takeEntry_keeps [of "Queue c" now] by (simp add: keeps_def added_def)
qed (simp add: ShutDown_def)

lemma queue_run_order:
  "queue_run n c es c' \<Longrightarrow> queue (dqQueue (Queue c)) = as @ x # bs \<Longrightarrow> \<forall>w. Started w x \<notin> set es \<Longrightarrow>
     length (filter isStart es) \<le> length as \<and> (\<exists>ds. queue (dqQueue (Queue c')) = drop (length (filter isStart es)) as @ x # ds)"
proof (induction rule: queue_run.induct)
  case (goes c es c1 e c2)
  then obtain ds where IH: "length (filter isStart es) \<le> length as" "queue (dqQueue (Queue c1)) = drop (length (filter isStart es)) as @ x # ds"
    by auto
  show ?case
  proof (cases "isStart e")
    case True
    then obtain w where w: "queue (dqQueue (Queue c1)) = hd (queue (dqQueue (Queue c1))) # queue (dqQueue (Queue c2))"
      "e = Started w (hd (queue (dqQueue (Queue c1))))"
      using queue_step_order [OF goes.hyps(2)] by auto
    then have "hd (queue (dqQueue (Queue c1))) \<noteq> x" using goes.prems(2) by auto
    then obtain a rest where a: "drop (length (filter isStart es)) as = a # rest"
      using IH(2) by (cases "drop (length (filter isStart es)) as") auto
    then have "length (filter isStart es) < length as" by (metis drop_all list.distinct(1) not_le)
    moreover have "drop (Suc (length (filter isStart es))) as = rest" using a by (metis drop_Suc list.sel(3) tl_drop)
    moreover have "queue (dqQueue (Queue c2)) = rest @ x # ds" using w(1) IH(2) a by simp
    ultimately show ?thesis using True by simp
  next
    case False
    then show ?thesis using queue_step_order [OF goes.hyps(2)] IH by auto
  qed
qed auto


section \<open>Properties\<close>

text \<open>C15: In every run of a controller with any number of workers no two workers reconcile the same request at a time, and
  the queue is as its comments say: it holds, each once, the requests that are to be processed and are not being
  processed.\<close>

theorem one_worker_per_request:
  assumes "queue_run n idleController es c"
  shows "(\<forall>w1 w2 x. busy c w1 = Some x \<longrightarrow> busy c w2 = Some x \<longrightarrow> w1 = w2)
    \<and> ran (busy c) = processing (dqQueue (Queue c)) \<and> distinct (queue (dqQueue (Queue c)))
    \<and> set (queue (dqQueue (Queue c))) = dirty (dqQueue (Queue c)) - processing (dqQueue (Queue c))"
  using queue_run_inv [OF assms controllerInv_idle] by (simp add: controllerInv_def exclusive_def queueInv_def)

text \<open>A worker takes a request that comes again while it is being reconciled.\<close>

definition startedOnce :: "nat controller" where
  "startedOnce = \<lparr>Queue = \<lparr>dqQueue = \<lparr>queue = [], dirty = {7}, processing = {7}, shuttingDown = False\<rparr>,
     waitingForAddCh = [], waitingForQueue = []\<rparr>, busy = [0 \<mapsto> 7]\<rparr>"

lemmas queue_evals = startNext_def Get_def addRequest_def Add_def idleController_def newQueue_def startedOnce_def

lemma startedOnce_run: "queue_run 2 idleController [Added 7, Started 0 7, Added 7] startedOnce"
proof -
  let ?c1 = "addRequest (7 :: nat) idleController"
  let ?c2 = "snd (the (startNext 0 ?c1))"
  have "queue_run 2 idleController ([] @ [Added 7]) ?c1" by (rule queue_run.goes [OF queue_run.stays queue_step.informs])
  moreover have "queue_step 2 ?c1 (Started 0 7) ?c2" by (rule queue_step.starts) (simp_all add: queue_evals)
  ultimately have "queue_run 2 idleController (([] @ [Added 7]) @ [Started 0 7]) ?c2" by (rule queue_run.goes)
  then have "queue_run 2 idleController ((([] @ [Added 7]) @ [Started 0 7]) @ [Added 7]) (addRequest 7 ?c2)"
    by (rule queue_run.goes) (rule queue_step.informs)
  moreover have "addRequest 7 ?c2 = startedOnce" by (simp add: queue_evals)
  ultimately show ?thesis by simp
qed

lemma one_worker_per_request_witness: "ran (busy startedOnce) = {7}"
  by (rule one_worker_per_request [OF startedOnce_run, THEN conjunct2, THEN conjunct1, THEN trans]) (simp add: startedOnce_def)



end
