(* ===== verification/Schemes.thy ===== *)
theory Schemes
  imports Prelude
begin

text \<open>
  The registration of the API types with the scheme of the manager (\<^verbatim>\<open>pkg/apis\<close>), with the scheme of
  apimachinery and the builder of controller-runtime it uses. A Go type is given by its package and its name; the
  conversion functions and defaults that are registered beside the types are left out.
\<close>

section \<open>The scheme\<close>

type_synonym group_version = "string \<times> string"
type_synonym group_version_kind = "group_version \<times> string"
type_synonym go_struct = "string \<times> string"

record scheme =
  gvkToType :: "group_version_kind \<rightharpoonup> go_struct"
  typeToGVK :: "go_struct \<rightharpoonup> group_version_kind list"
  unversionedTypes :: "go_struct \<rightharpoonup> group_version_kind"
  unversionedKinds :: "string \<rightharpoonup> go_struct"
  observedVersions :: "group_version list"

definition APIVersionInternal :: string where
  "APIVersionInternal = ''__internal''"

definition addObservedVersion :: "group_version \<Rightarrow> scheme \<Rightarrow> scheme" where
  "addObservedVersion version s =
     (if snd version = [] \<or> snd version = APIVersionInternal then s
      else if version \<in> set (observedVersions s) then s
      else s\<lparr>observedVersions := observedVersions s @ [version]\<rparr>)"

definition AddKnownTypeWithName :: "group_version_kind \<Rightarrow> go_struct \<Rightarrow> scheme \<Rightarrow> scheme go" where
  "AddKnownTypeWithName gvk t s = (let s = addObservedVersion (fst gvk) s in
     if snd (fst gvk) = [] then Panics
     else if gvkToType s gvk \<noteq> None \<and> gvkToType s gvk \<noteq> Some t then Panics
     else let s = s\<lparr>gvkToType := (gvkToType s)(gvk \<mapsto> t)\<rparr>;
              existing = (case typeToGVK s t of None \<Rightarrow> [] | Some gvks \<Rightarrow> gvks)
          in Returns (if gvk \<in> set existing then s else s\<lparr>typeToGVK := (typeToGVK s)(t \<mapsto> existing @ [gvk])\<rparr>))"

fun addTypes :: "group_version \<Rightarrow> go_struct list \<Rightarrow> scheme \<Rightarrow> scheme go" where
  "addTypes gv [] s = Returns s"
| "addTypes gv (t # ts) s = (case AddKnownTypeWithName (gv, snd t) t s of
       Panics \<Rightarrow> Panics | Returns s \<Rightarrow> addTypes gv ts s)"

definition AddKnownTypes :: "group_version \<Rightarrow> go_struct list \<Rightarrow> scheme \<Rightarrow> scheme go" where
  "AddKnownTypes gv types s = addTypes gv types (addObservedVersion gv s)"

fun markUnversioned :: "group_version \<Rightarrow> go_struct list \<Rightarrow> scheme \<Rightarrow> scheme go" where
  "markUnversioned version [] s = Returns s"
| "markUnversioned version (t # ts) s = (let s = s\<lparr>unversionedTypes := (unversionedTypes s)(t \<mapsto> (version, snd t))\<rparr> in
     if unversionedKinds s (snd t) \<noteq> None \<and> unversionedKinds s (snd t) \<noteq> Some t then Panics
     else markUnversioned version ts (s\<lparr>unversionedKinds := (unversionedKinds s)(snd t \<mapsto> t)\<rparr>))"

definition AddUnversionedTypes :: "group_version \<Rightarrow> go_struct list \<Rightarrow> scheme \<Rightarrow> scheme go" where
  "AddUnversionedTypes version types s = (case AddKnownTypes version types (addObservedVersion version s) of
     Panics \<Rightarrow> Panics | Returns s \<Rightarrow> markUnversioned version types s)"

definition ObjectKinds :: "go_struct \<Rightarrow> scheme \<Rightarrow> (group_version_kind list \<times> bool) option" where
  "ObjectKinds t s = (case typeToGVK s t of
     None \<Rightarrow> None | Some gvks \<Rightarrow> Some (gvks, unversionedTypes s t \<noteq> None))"

text \<open>What a handler for owners makes of the type of the owners: it needs exactly one kind.\<close>

definition parseOwnerTypeGroupKind :: "go_struct \<Rightarrow> scheme \<Rightarrow> (string \<times> string) option" where
  "parseOwnerTypeGroupKind t s = (case ObjectKinds t s of
     None \<Rightarrow> None
   | Some (kinds, _) \<Rightarrow> if length kinds \<noteq> 1 then None else Some (fst (fst (hd kinds)), snd (hd kinds)))"

section \<open>The builders\<close>

definition metaV1 :: "string \<Rightarrow> go_struct" where
  "metaV1 name = (''k8s.io/apimachinery/pkg/apis/meta/v1'', name)"

definition Unversioned :: group_version where
  "Unversioned = ('''', ''v1'')"

definition AddToGroupVersion :: "group_version \<Rightarrow> scheme \<Rightarrow> scheme go" where
  "AddToGroupVersion gv s = (case AddKnownTypeWithName (gv, ''WatchEvent'') (metaV1 ''WatchEvent'') s of
     Panics \<Rightarrow> Panics
   | Returns s \<Rightarrow> (case AddKnownTypeWithName ((fst gv, APIVersionInternal), ''WatchEvent'') (metaV1 ''InternalEvent'') s of
       Panics \<Rightarrow> Panics
     | Returns s \<Rightarrow> (case AddKnownTypes gv (map metaV1
             [''ListOptions'', ''ExportOptions'', ''GetOptions'', ''DeleteOptions'', ''CreateOptions'', ''UpdateOptions'']) s of
         Panics \<Rightarrow> Panics
       | Returns s \<Rightarrow> AddUnversionedTypes Unversioned (map metaV1
             [''Status'', ''APIVersions'', ''APIGroupList'', ''APIGroup'', ''APIResourceList'']) s)))"

type_synonym scheme_func = "scheme \<Rightarrow> (go_error option \<times> scheme) go"

fun SchemeBuilder_AddToScheme :: "scheme_func list \<Rightarrow> scheme_func" where
  "SchemeBuilder_AddToScheme [] s = Returns (None, s)"
| "SchemeBuilder_AddToScheme (f # fs) s = (case f s of
       Panics \<Rightarrow> Panics
     | Returns (Some err, s) \<Rightarrow> Returns (Some err, s)
     | Returns (None, s) \<Rightarrow> SchemeBuilder_AddToScheme fs s)"

record scheme_builder =
  sbGroupVersion :: group_version
  sbFuncs :: "scheme_func list"

definition registered_func :: "group_version \<Rightarrow> go_struct list \<Rightarrow> scheme_func" where
  "registered_func gv objects s = (case AddKnownTypes gv objects s of
     Panics \<Rightarrow> Panics
   | Returns s \<Rightarrow> (case AddToGroupVersion gv s of Panics \<Rightarrow> Panics | Returns s \<Rightarrow> Returns (None, s)))"

definition Register :: "go_struct list \<Rightarrow> scheme_builder \<Rightarrow> scheme_builder" where
  "Register objects bld = bld\<lparr>sbFuncs := sbFuncs bld @ [registered_func (sbGroupVersion bld) objects]\<rparr>"

section \<open>The types of the operator\<close>

definition clusterType :: "string \<Rightarrow> go_struct" where
  "clusterType name = (''github.com/samsung-cnct/cma-ssh/pkg/apis/cluster/v1alpha1'', name)"

definition addonsType :: "string \<Rightarrow> go_struct" where
  "addonsType name = (''github.com/samsung-cnct/cma-ssh/pkg/apis/addons/v1alpha1'', name)"

definition cluster_SchemeGroupVersion :: group_version where
  "cluster_SchemeGroupVersion = (''cluster.cnct.sds.samsung.com'', ''v1alpha1'')"

definition addons_SchemeGroupVersion :: group_version where
  "addons_SchemeGroupVersion = (''addons.cnct.sds.samsung.com'', ''v1alpha1'')"

text \<open>The builders as the \<open>init\<close> functions leave them, file by file.\<close>

definition init_cluster_types :: "scheme_builder \<Rightarrow> scheme_builder" where
  "init_cluster_types = Register [clusterType ''CnctCluster'', clusterType ''CnctClusterList'']"

definition init_machine_types :: "scheme_builder \<Rightarrow> scheme_builder" where
  "init_machine_types = Register [clusterType ''CnctMachine'', clusterType ''CnctMachineList'']"

definition init_machineset_types :: "scheme_builder \<Rightarrow> scheme_builder" where
  "init_machineset_types = Register [clusterType ''CnctMachineSet'', clusterType ''CnctMachineSetList'']"

definition init_appbundle_types :: "scheme_builder \<Rightarrow> scheme_builder" where
  "init_appbundle_types = Register [addonsType ''AppBundle'', addonsType ''AppBundleList'']"

definition cluster_SchemeBuilder :: scheme_builder where
  "cluster_SchemeBuilder = init_machineset_types (init_machine_types (init_cluster_types
     \<lparr>sbGroupVersion = cluster_SchemeGroupVersion, sbFuncs = []\<rparr>))"

definition addons_SchemeBuilder :: scheme_builder where
  "addons_SchemeBuilder = init_appbundle_types \<lparr>sbGroupVersion = addons_SchemeGroupVersion, sbFuncs = []\<rparr>"

definition addtoscheme_addons :: "scheme_func list \<Rightarrow> scheme_func list" where
  "addtoscheme_addons fs = fs @ [SchemeBuilder_AddToScheme (sbFuncs addons_SchemeBuilder)]"

definition addtoscheme_cluster :: "scheme_func list \<Rightarrow> scheme_func list" where
  "addtoscheme_cluster fs = fs @ [SchemeBuilder_AddToScheme (sbFuncs cluster_SchemeBuilder)]"

definition AddToSchemes :: "scheme_func list" where
  "AddToSchemes = addtoscheme_cluster (addtoscheme_addons [])"

definition AddToScheme :: scheme_func where
  "AddToScheme s = SchemeBuilder_AddToScheme AddToSchemes s"

end
