(* ===== verification/Scheme_Facts.thy ===== *)
theory Scheme_Facts
  imports Schemes
begin

text \<open>
  What the registration gives: every API type under exactly one kind, beside whatever the scheme knew before.
\<close>

section \<open>A scheme that follows a table\<close>

text \<open>\<open>K\<close> is the table of all registrations, \<open>U\<close> that of the unversioned kinds and \<open>own\<close> says which types have only
  one kind. A scheme follows them when it knows nothing against them.\<close>

type_synonym tables = "(group_version_kind \<rightharpoonup> go_struct) \<times> (string \<rightharpoonup> go_struct) \<times> (go_struct \<rightharpoonup> group_version_kind)"

fun follows :: "tables \<Rightarrow> scheme \<Rightarrow> bool" where
  "follows (K, U, own) s \<longleftrightarrow> (\<forall>g t. gvkToType s g = Some t \<longrightarrow> K g = None \<or> K g = Some t)
     \<and> (\<forall>k t. unversionedKinds s k = Some t \<longrightarrow> U k = None \<or> U k = Some t)
     \<and> (\<forall>t g. own t = Some g \<longrightarrow> typeToGVK s t = (if gvkToType s g = Some t then Some [g] else None) \<and> unversionedTypes s t = None)"

lemma follows_kinds: "follows (K, U, own) s \<Longrightarrow> K g = Some t \<Longrightarrow> gvkToType s g = None \<or> gvkToType s g = Some t"
  unfolding follows.simps by (metis option.distinct(1) option.exhaust)

lemma follows_own:
  "follows (K, U, own) s \<Longrightarrow> own t = Some g \<Longrightarrow> gvkToType s g = Some t \<Longrightarrow> typeToGVK s t = Some [g] \<and> unversionedTypes s t = None"
  unfolding follows.simps by (simp del: split_paired_All)

lemma follows_unversioned: "follows (K, U, own) s \<Longrightarrow> U k = Some t \<Longrightarrow> unversionedKinds s k = None \<or> unversionedKinds s k = Some t"
  unfolding follows.simps by (metis option.distinct(1) option.exhaust)

text \<open>A registration that the tables have.\<close>

fun tabled :: "tables \<Rightarrow> group_version \<Rightarrow> go_struct \<Rightarrow> string \<Rightarrow> bool" where
  "tabled (K, U, own) gv t kind \<longleftrightarrow> K (gv, kind) = Some t \<and> snd gv \<noteq> [] \<and> (own t = None \<or> own t = Some (gv, kind))"

definition knowsMore :: "scheme \<Rightarrow> scheme \<Rightarrow> bool" where
  "knowsMore s s' \<longleftrightarrow> gvkToType s \<subseteq>\<^sub>m gvkToType s'"

lemma knowsMore_refl [simp]: "knowsMore s s"
  by (simp add: knowsMore_def)

lemma knowsMore_trans: "knowsMore s s' \<Longrightarrow> knowsMore s' s'' \<Longrightarrow> knowsMore s s''"
  unfolding knowsMore_def by (rule map_le_trans)

lemma knowsMore_known: "knowsMore s s' \<Longrightarrow> gvkToType s g = Some t \<Longrightarrow> gvkToType s' g = Some t"
  unfolding knowsMore_def map_le_def by (metis domI)

lemma addObservedVersion_same [simp]:
  "gvkToType (addObservedVersion gv s) = gvkToType s" "typeToGVK (addObservedVersion gv s) = typeToGVK s"
  "unversionedTypes (addObservedVersion gv s) = unversionedTypes s" "unversionedKinds (addObservedVersion gv s) = unversionedKinds s"
  by (simp_all add: addObservedVersion_def)

lemma follows_observed [simp]: "follows T (addObservedVersion gv s) = follows T s" "knowsMore s (addObservedVersion gv s)"
  by (cases T; simp add: knowsMore_def)+

text \<open>What every operation gives: no panic, a scheme that follows the tables and knows more.\<close>

definition succeeds :: "tables \<Rightarrow> scheme \<Rightarrow> group_version \<Rightarrow> go_struct list \<Rightarrow> scheme go \<Rightarrow> bool" where
  "succeeds T s gv ts r \<longleftrightarrow> (\<exists>s'. r = Returns s' \<and> follows T s' \<and> knowsMore s s'
     \<and> list_all (\<lambda>t. gvkToType s' (gv, snd t) = Some t) ts)"

lemma AddKnownTypeWithName_follows:
  assumes f: "follows T s" and t: "tabled T gv t kind"
  shows "\<exists>s'. AddKnownTypeWithName (gv, kind) t s = Returns s' \<and> follows T s' \<and> knowsMore s s' \<and> gvkToType s' (gv, kind) = Some t"
proof -
  obtain K U own where T: "T = (K, U, own)" by (cases T)
  have known: "gvkToType s (gv, kind) = None \<or> gvkToType s (gv, kind) = Some t" using follows_kinds [OF f [unfolded T], of "(gv, kind)" t] t T by simp
  define s0 where "s0 = (addObservedVersion gv s)\<lparr>gvkToType := (gvkToType s)((gv, kind) \<mapsto> t)\<rparr>"
  define gvks where "gvks = (case typeToGVK s t of None \<Rightarrow> [] | Some gvks \<Rightarrow> gvks)"
  define s' where "s' = (if (gv, kind) \<in> set gvks then s0 else s0\<lparr>typeToGVK := (typeToGVK s)(t \<mapsto> gvks @ [(gv, kind)])\<rparr>)"
  have run: "AddKnownTypeWithName (gv, kind) t s = Returns s'"
    using known t T by (auto simp: AddKnownTypeWithName_def Let_def s'_def s0_def gvks_def)
  have types: "gvkToType s' = (gvkToType s)((gv, kind) \<mapsto> t)" by (simp add: s'_def s0_def)
  have others: "unversionedTypes s' = unversionedTypes s" "unversionedKinds s' = unversionedKinds s" by (simp_all add: s'_def s0_def)
  have kinds: "typeToGVK s' t' = typeToGVK s t'" if "t' \<noteq> t" for t' using that by (simp add: s'_def s0_def)
  have "typeToGVK s' t' = (if gvkToType s' g = Some t' then Some [g] else None)" if own: "own t' = Some g" for t' g
  proof (cases "t' = t")
    case True
    then have g: "g = (gv, kind)" using own t T by auto
    have "typeToGVK s t = (if gvkToType s g = Some t then Some [g] else None)" using f T own True by (auto simp del: split_paired_All)
    then show ?thesis using g True known by (auto simp: s'_def s0_def gvks_def split: if_splits)
  next
    case False
    then show ?thesis using f T own known by (auto simp: kinds types simp del: split_paired_All)
  qed
  then have "follows T s'" using f t T by (auto simp: types others simp del: split_paired_All)
  moreover have "knowsMore s s'" using known by (auto simp: knowsMore_def types map_le_def)
  ultimately show ?thesis using run by (simp add: types)
qed

lemma addTypes_follows:
  "follows T s \<Longrightarrow> list_all (\<lambda>t. tabled T gv t (snd t)) ts \<Longrightarrow> succeeds T s gv ts (addTypes gv ts s)"
proof (induction ts arbitrary: s)
  case (Cons t ts)
  then obtain s1 where s1: "AddKnownTypeWithName (gv, snd t) t s = Returns s1" "follows T s1" "knowsMore s s1" "gvkToType s1 (gv, snd t) = Some t"
    using AddKnownTypeWithName_follows [of T s gv t "snd t"] by auto
  from Cons.IH [OF s1(2)] Cons.prems obtain s2 where s2: "addTypes gv ts s1 = Returns s2" "follows T s2" "knowsMore s1 s2"
    "list_all (\<lambda>t. gvkToType s2 (gv, snd t) = Some t) ts" by (auto simp: succeeds_def)
  then show ?case using s1 by (auto simp: succeeds_def intro: knowsMore_trans knowsMore_known)
qed (simp add: succeeds_def)

lemma AddKnownTypes_follows:
  "follows T s \<Longrightarrow> list_all (\<lambda>t. tabled T gv t (snd t)) ts \<Longrightarrow> succeeds T s gv ts (AddKnownTypes gv ts s)"
  using addTypes_follows [of T "addObservedVersion gv s" gv ts]
  by (auto simp: AddKnownTypes_def succeeds_def knowsMore_def)

lemma markUnversioned_follows:
  "follows (K, U, own) s \<Longrightarrow> list_all (\<lambda>t. U (snd t) = Some t \<and> own t = None) ts \<Longrightarrow>
     \<exists>s'. markUnversioned gv ts s = Returns s' \<and> follows (K, U, own) s' \<and> gvkToType s' = gvkToType s"
proof (induction ts arbitrary: s)
  case (Cons t ts)
  let ?s = "s\<lparr>unversionedTypes := (unversionedTypes s)(t \<mapsto> (gv, snd t)), unversionedKinds := (unversionedKinds s)(snd t \<mapsto> t)\<rparr>"
  have "follows (K, U, own) ?s" using Cons.prems by (auto simp del: split_paired_All)
  moreover have "unversionedKinds s (snd t) = None \<or> unversionedKinds s (snd t) = Some t"
    using follows_unversioned [OF Cons.prems(1), of "snd t" t] Cons.prems(2) by simp
  ultimately show ?case using Cons.IH [of ?s] Cons.prems(2) by (auto simp: Let_def)
qed simp

lemma AddUnversionedTypes_follows:
  assumes "follows (K, U, own) s" and "list_all (\<lambda>t. tabled (K, U, own) gv t (snd t) \<and> U (snd t) = Some t \<and> own t = None) ts"
  shows "succeeds (K, U, own) s gv ts (AddUnversionedTypes gv ts s)"
proof -
  have "succeeds (K, U, own) (addObservedVersion gv s) gv ts (AddKnownTypes gv ts (addObservedVersion gv s))"
    using assms by (intro AddKnownTypes_follows) (auto simp: list_all_iff)
  then obtain s1 where s1: "AddKnownTypes gv ts (addObservedVersion gv s) = Returns s1" "follows (K, U, own) s1" "knowsMore s s1"
    "list_all (\<lambda>t. gvkToType s1 (gv, snd t) = Some t) ts" by (auto simp: succeeds_def knowsMore_def)
  then obtain s2 where "markUnversioned gv ts s1 = Returns s2" "follows (K, U, own) s2" "gvkToType s2 = gvkToType s1"
    using markUnversioned_follows [OF s1(2), of ts gv] assms(2) by (auto simp: list_all_iff)
  then show ?thesis using s1 by (auto simp: AddUnversionedTypes_def succeeds_def knowsMore_def)
qed


section \<open>The builders\<close>

text \<open>The kinds that \<open>AddToGroupVersion\<close> adds to each group, and the unversioned ones.\<close>

definition metaKinds :: "string list" where
  "metaKinds = [''ListOptions'', ''ExportOptions'', ''GetOptions'', ''DeleteOptions'', ''CreateOptions'', ''UpdateOptions'']"

definition unversioned :: "string list" where
  "unversioned = [''Status'', ''APIVersions'', ''APIGroupList'', ''APIGroup'', ''APIResourceList'']"

fun tabledGroup :: "tables \<Rightarrow> group_version \<Rightarrow> bool" where
  "tabledGroup (K, U, own) gv \<longleftrightarrow> tabled (K, U, own) gv (metaV1 ''WatchEvent'') ''WatchEvent''
     \<and> tabled (K, U, own) (fst gv, APIVersionInternal) (metaV1 ''InternalEvent'') ''WatchEvent''
     \<and> list_all (\<lambda>k. tabled (K, U, own) gv (metaV1 k) k) metaKinds
     \<and> list_all (\<lambda>k. tabled (K, U, own) Unversioned (metaV1 k) k \<and> U k = Some (metaV1 k) \<and> own (metaV1 k) = None) unversioned"

lemma snd_metaV1 [simp]: "snd (metaV1 k) = k"
  by (simp add: metaV1_def)

lemma AddToGroupVersion_follows:
  assumes "follows T s" and "tabledGroup T gv"
  shows "\<exists>s'. AddToGroupVersion gv s = Returns s' \<and> follows T s' \<and> knowsMore s s'"
proof -
  obtain K U own where T: "T = (K, U, own)" by (cases T)
  obtain s1 where s1: "AddKnownTypeWithName (gv, ''WatchEvent'') (metaV1 ''WatchEvent'') s = Returns s1" "follows T s1" "knowsMore s s1"
    using AddKnownTypeWithName_follows [OF assms(1), of gv "metaV1 ''WatchEvent''" "''WatchEvent''"] assms(2) T by auto
  obtain s2 where s2: "AddKnownTypeWithName ((fst gv, APIVersionInternal), ''WatchEvent'') (metaV1 ''InternalEvent'') s1 = Returns s2"
    "follows T s2" "knowsMore s1 s2"
    using AddKnownTypeWithName_follows [OF s1(2), of "(fst gv, APIVersionInternal)" "metaV1 ''InternalEvent''" "''WatchEvent''"] assms(2) T
    by auto
  have "succeeds T s2 gv (map metaV1 metaKinds) (AddKnownTypes gv (map metaV1 metaKinds) s2)"
    using assms(2) T by (intro AddKnownTypes_follows [OF s2(2)]) (simp add: list_all_iff)
  then obtain s3 where s3: "AddKnownTypes gv (map metaV1 metaKinds) s2 = Returns s3" "follows T s3" "knowsMore s2 s3"
    by (auto simp: succeeds_def)
  have "succeeds T s3 Unversioned (map metaV1 unversioned) (AddUnversionedTypes Unversioned (map metaV1 unversioned) s3)"
    using assms(2) s3(2) unfolding T by (intro AddUnversionedTypes_follows) (simp_all add: list_all_iff)
  then obtain s4 where "AddUnversionedTypes Unversioned (map metaV1 unversioned) s3 = Returns s4" "follows T s4" "knowsMore s3 s4"
    by (auto simp: succeeds_def)
  then show ?thesis
    using s1(1,3) s2(1,3) s3(1,3) by (auto simp: AddToGroupVersion_def metaKinds_def unversioned_def intro: knowsMore_trans)
qed

text \<open>A function that registers types, without an error.\<close>

definition registersTypes :: "tables \<Rightarrow> scheme_func \<Rightarrow> (group_version \<times> go_struct) list \<Rightarrow> bool" where
  "registersTypes T f ts \<longleftrightarrow> (\<forall>s. follows T s \<longrightarrow> (\<exists>s'. f s = Returns (None, s') \<and> follows T s' \<and> knowsMore s s'
     \<and> list_all (\<lambda>(gv, t). gvkToType s' (gv, snd t) = Some t) ts))"

lemma registered_func_registers:
  assumes "list_all (\<lambda>t. tabled T gv t (snd t)) ts" and "tabledGroup T gv"
  shows "registersTypes T (registered_func gv ts) (map (Pair gv) ts)"
  unfolding registersTypes_def
proof (intro allI impI)
  fix s assume "follows T s"
  then obtain s1 where s1: "AddKnownTypes gv ts s = Returns s1" "follows T s1" "knowsMore s s1"
    "list_all (\<lambda>t. gvkToType s1 (gv, snd t) = Some t) ts"
    using AddKnownTypes_follows [OF _ assms(1)] by (auto simp: succeeds_def)
  then obtain s2 where s2: "AddToGroupVersion gv s1 = Returns s2" "follows T s2" "knowsMore s1 s2"
    using AddToGroupVersion_follows assms(2) by blast
  show "\<exists>s'. registered_func gv ts s = Returns (None, s') \<and> follows T s' \<and> knowsMore s s'
      \<and> list_all (\<lambda>(gv, t). gvkToType s' (gv, snd t) = Some t) (map (Pair gv) ts)"
    using s1 s2 knowsMore_known [OF s2(3)] knowsMore_trans by (auto simp: registered_func_def list_all_iff)
qed

lemma builder_registers:
  "list_all2 (registersTypes T) fs tss \<Longrightarrow> registersTypes T (SchemeBuilder_AddToScheme fs) (concat tss)"
proof (induction rule: list_all2_induct)
  case Nil
  then show ?case by (simp add: registersTypes_def)
next
  case (Cons f fs ts tss)
  show ?case
    unfolding registersTypes_def
  proof (intro allI impI)
    fix s assume "follows T s"
    then obtain s1 where s1: "f s = Returns (None, s1)" "follows T s1" "knowsMore s s1"
      "list_all (\<lambda>(gv, t). gvkToType s1 (gv, snd t) = Some t) ts" using Cons(1) by (auto simp: registersTypes_def)
    then obtain s2 where s2: "SchemeBuilder_AddToScheme fs s1 = Returns (None, s2)" "follows T s2" "knowsMore s1 s2"
      "list_all (\<lambda>(gv, t). gvkToType s2 (gv, snd t) = Some t) (concat tss)" using Cons(3) unfolding registersTypes_def by blast
    have "list_all (\<lambda>(gv, t). gvkToType s2 (gv, snd t) = Some t) ts"
      using s1(4) knowsMore_known [OF s2(3)] by (auto simp: list_all_iff)
    then show "\<exists>s'. SchemeBuilder_AddToScheme (f # fs) s = Returns (None, s') \<and> follows T s' \<and> knowsMore s s'
        \<and> list_all (\<lambda>(gv, t). gvkToType s' (gv, snd t) = Some t) (concat (ts # tss))"
      using s1(1,3) s2 knowsMore_trans by auto
  qed
qed

section \<open>The tables of the operator\<close>

definition operatorTypes :: "(group_version \<times> go_struct) list" where
  "operatorTypes = map (\<lambda>name. (addons_SchemeGroupVersion, addonsType name)) [''AppBundle'', ''AppBundleList'']
     @ map (\<lambda>name. (cluster_SchemeGroupVersion, clusterType name))
       [''CnctCluster'', ''CnctClusterList'', ''CnctMachine'', ''CnctMachineList'', ''CnctMachineSet'', ''CnctMachineSetList'']"

definition groupTable :: "group_version \<Rightarrow> (group_version_kind \<times> go_struct) list" where
  "groupTable gv = ((gv, ''WatchEvent''), metaV1 ''WatchEvent'') # (((fst gv, APIVersionInternal), ''WatchEvent''), metaV1 ''InternalEvent'')
     # map (\<lambda>k. ((gv, k), metaV1 k)) metaKinds"

definition operatorTables :: tables where
  "operatorTables =
     (map_of (map (\<lambda>(gv, t). ((gv, snd t), t)) operatorTypes @ groupTable addons_SchemeGroupVersion
        @ groupTable cluster_SchemeGroupVersion @ map (\<lambda>k. ((Unversioned, k), metaV1 k)) unversioned),
      map_of (map (\<lambda>k. (k, metaV1 k)) unversioned),
      map_of (map (\<lambda>(gv, t). (t, (gv, snd t))) operatorTypes))"

lemmas table_defs = operatorTables_def operatorTypes_def groupTable_def metaKinds_def unversioned_def metaV1_def
  cluster_SchemeGroupVersion_def addons_SchemeGroupVersion_def clusterType_def addonsType_def Unversioned_def APIVersionInternal_def

lemma groups_tabled: "tabledGroup operatorTables addons_SchemeGroupVersion" "tabledGroup operatorTables cluster_SchemeGroupVersion"
  by (simp_all add: table_defs)

lemma types_tabled: "list_all (\<lambda>(gv, t). tabled operatorTables gv t (snd t)) operatorTypes"
  by (simp add: table_defs)


lemma AddToScheme_registers: "registersTypes operatorTables AddToScheme operatorTypes"
proof -
  have reg: "registersTypes operatorTables (registered_func gv ts) (map (Pair gv) ts)"
    if "set (map (Pair gv) ts) \<subseteq> set operatorTypes" "tabledGroup operatorTables gv" for gv ts
    using that types_tabled by (intro registered_func_registers) (auto simp: list_all_iff)
  have "registersTypes operatorTables (registered_func addons_SchemeGroupVersion [addonsType ''AppBundle'', addonsType ''AppBundleList''])
      (map (Pair addons_SchemeGroupVersion) [addonsType ''AppBundle'', addonsType ''AppBundleList''])"
    by (rule reg) (simp_all add: operatorTypes_def groups_tabled)
  then have addons: "registersTypes operatorTables (SchemeBuilder_AddToScheme (sbFuncs addons_SchemeBuilder)) (take 2 operatorTypes)"
    using builder_registers [of operatorTables "sbFuncs addons_SchemeBuilder" "[take 2 operatorTypes]"]
    by (simp add: addons_SchemeBuilder_def init_appbundle_types_def Register_def operatorTypes_def)
  have cluster: "registersTypes operatorTables (registered_func cluster_SchemeGroupVersion (map clusterType names))
      (map (Pair cluster_SchemeGroupVersion) (map clusterType names))"
    if "set (map (Pair cluster_SchemeGroupVersion \<circ> clusterType) names) \<subseteq> set operatorTypes" for names
    using that by (intro reg groups_tabled) simp
  have "registersTypes operatorTables (SchemeBuilder_AddToScheme (sbFuncs cluster_SchemeBuilder))
      (concat (map (map (Pair cluster_SchemeGroupVersion)) (map (map clusterType)
        [[''CnctCluster'', ''CnctClusterList''], [''CnctMachine'', ''CnctMachineList''], [''CnctMachineSet'', ''CnctMachineSetList'']])))"
    using cluster [of "[''CnctCluster'', ''CnctClusterList'']"] cluster [of "[''CnctMachine'', ''CnctMachineList'']"]
      cluster [of "[''CnctMachineSet'', ''CnctMachineSetList'']"]
    by (intro builder_registers)
      (simp add: cluster_SchemeBuilder_def init_cluster_types_def init_machine_types_def init_machineset_types_def Register_def operatorTypes_def)
  then have "registersTypes operatorTables (SchemeBuilder_AddToScheme (sbFuncs cluster_SchemeBuilder)) (drop 2 operatorTypes)"
    by (simp add: operatorTypes_def)
  with addons have "registersTypes operatorTables (SchemeBuilder_AddToScheme [SchemeBuilder_AddToScheme (sbFuncs addons_SchemeBuilder),
      SchemeBuilder_AddToScheme (sbFuncs cluster_SchemeBuilder)]) (concat [take 2 operatorTypes, drop 2 operatorTypes])"
    by (intro builder_registers) simp
  moreover have "AddToScheme = SchemeBuilder_AddToScheme [SchemeBuilder_AddToScheme (sbFuncs addons_SchemeBuilder),
      SchemeBuilder_AddToScheme (sbFuncs cluster_SchemeBuilder)]"
    by (rule ext) (simp add: AddToScheme_def AddToSchemes_def addtoscheme_cluster_def addtoscheme_addons_def)
  ultimately show ?thesis by (simp only: concat.simps append_take_drop_id append_Nil2)
qed

lemma own_kinds: "list_all (\<lambda>(gv, t). snd (snd operatorTables) t = Some (gv, snd t)) operatorTypes"
  by (simp add: table_defs)

section \<open>Properties\<close>

text \<open>C21: Registration: with a scheme that knows nothing against them, as that of client-go, the program registers its types
  without an error or a panic; afterwards each of the eight types is known by exactly one kind, in its group and
  under its name, which is what a watch for owners needs of it, and whatever was known before still is.\<close>

theorem types_are_registered:
  assumes "follows operatorTables s"
  shows "\<exists>s'. AddToScheme s = Returns (None, s') \<and> (\<forall>g t. gvkToType s g = Some t \<longrightarrow> gvkToType s' g = Some t)
    \<and> list_all (\<lambda>(gv, t). gvkToType s' (gv, snd t) = Some t \<and> ObjectKinds t s' = Some ([(gv, snd t)], False)
        \<and> parseOwnerTypeGroupKind t s' = Some (fst gv, snd t)) operatorTypes"
proof -
  obtain s' where s': "AddToScheme s = Returns (None, s')" "follows operatorTables s'" "knowsMore s s'"
    "list_all (\<lambda>(gv, t). gvkToType s' (gv, snd t) = Some t) operatorTypes"
    using AddToScheme_registers assms unfolding registersTypes_def by blast
  obtain K U own where T: "operatorTables = (K, U, own)" by (cases operatorTables)
  have kinds: "ObjectKinds t s' = Some ([(gv, snd t)], False)" if "(gv, t) \<in> set operatorTypes" for gv t
  proof -
    have "own t = Some (gv, snd t)" "gvkToType s' (gv, snd t) = Some t"
      using bspec [OF own_kinds [unfolded list_all_iff T] that] bspec [OF s'(4) [unfolded list_all_iff] that] by simp_all
    then show ?thesis using follows_own [OF s'(2) [unfolded T]] by (simp add: ObjectKinds_def)
  qed
  then show ?thesis using s' knowsMore_known [OF s'(3)]
    by (intro exI [of _ s']) (auto simp: list_all_iff parseOwnerTypeGroupKind_def)
qed

definition emptyScheme :: scheme where
  "emptyScheme = \<lparr>gvkToType = Map.empty, typeToGVK = Map.empty, unversionedTypes = Map.empty, unversionedKinds = Map.empty, observedVersions = []\<rparr>"

lemma types_are_registered_witness: "\<exists>s'. AddToScheme emptyScheme = Returns (None, s')"
proof -
  obtain K U own where "operatorTables = (K, U, own)" by (cases operatorTables)
  have "follows (K, U, own) emptyScheme" by (simp add: emptyScheme_def)
  with \<open>operatorTables = (K, U, own)\<close> have "follows operatorTables emptyScheme" by (rule ssubst)
  from types_are_registered [OF this] show ?thesis by blast
qed

end
