(* ===== verification/Connections.thy ===== *)
theory Connections
  imports Prelude "HOL-Library.Sublist"
begin

text \<open>
  The port: how a connection gets to one of the two servers that share it (\<^verbatim>\<open>pkg/apiserver/apiserver.go\<close>), with the
  connection multiplexer it uses (\<^verbatim>\<open>github.com/soheilhy/cmux\<close>). A connection is the string of the bytes it sends
  first, as far as the matchers read them.
\<close>

section \<open>A tree of prefixes\<close>

text \<open>The tree of cmux: a node has a prefix, the subtrees after it by their first byte, and says whether a string
  ends here.\<close>

datatype pt_node = Node (nodePrefix: string) (nodeNext: "(char \<times> pt_node) list") (nodeTerminal: bool)

text \<open>The loop of \<open>splitPrefix\<close>: as long as all strings have the same nxt byte.\<close>

function commonPrefix :: "string list \<Rightarrow> string" where
  "commonPrefix bss = (if bss \<noteq> [] \<and> list_all (\<lambda>b. b \<noteq> [] \<and> hd b = hd (hd bss)) bss
     then hd (hd bss) # commonPrefix (map tl bss) else [])"
  by pat_completeness auto
termination
  by (relation "measure (\<lambda>bss. length (hd bss))") (auto simp: list_all_iff hd_map)

declare commonPrefix.simps [simp del]

definition splitPrefix :: "string list \<Rightarrow> string \<times> string list" where
  "splitPrefix bss =
     (if bss = [] \<or> hd bss = [] then ([], bss)
      else if length bss = 1 then (hd bss, [[]])
      else let prefix = commonPrefix bss in (prefix, map (drop (length prefix)) bss))"

text \<open>The strings that go on with a byte, without it.\<close>

definition nexts :: "string list \<Rightarrow> char \<Rightarrow> string list" where
  "nexts strs c = map tl (filter (\<lambda>s. s \<noteq> [] \<and> hd s = c) strs)"

definition firsts :: "string list \<Rightarrow> char list" where
  "firsts strs = remdups (map hd (filter (\<lambda>s. s \<noteq> []) strs))"

lemma sum_nexts: "c \<in> set (firsts strs) \<Longrightarrow> sum_list (map length (nexts strs c)) < sum_list (map length strs)"
proof (induction strs)
  case (Cons s strs)
  show ?case
  proof (cases "c \<in> set (firsts strs)")
    case True
    then show ?thesis using Cons.IH by (auto simp: nexts_def)
  next
    case False
    then have "nexts strs c = []" by (auto simp: firsts_def nexts_def filter_empty_conv)
    moreover have "s \<noteq> []" "hd s = c" using Cons.prems False by (auto simp: firsts_def split: if_splits)
    ultimately show ?thesis by (cases s) (auto simp: nexts_def)
  qed
qed (simp add: firsts_def)

lemma sum_drop: "sum_list (map length (map (drop k) strs)) \<le> sum_list (map length strs)"
  by (induction strs) auto

lemma splitPrefix_sum: "splitPrefix strs = (p, rest) \<Longrightarrow> sum_list (map length rest) \<le> sum_list (map length strs)"
  using sum_drop [of "length (commonPrefix strs)" strs]
  by (auto simp: splitPrefix_def Let_def split: if_splits)

lemma newNode_smaller:
  "(p, rest) = splitPrefix strs \<Longrightarrow> c \<in> set (firsts rest) \<Longrightarrow> sum_list (map length (nexts rest c)) < sum_list (map length strs)"
  using sum_nexts [of c rest] splitPrefix_sum [of strs p rest] by simp

function newNode :: "string list \<Rightarrow> pt_node" where
  "newNode strs =
     (if strs = [] then Node [] [] True
      else if length strs = 1 then Node (hd strs) [] True
      else let (p, rest) = splitPrefix strs in
        Node p (map (\<lambda>c. (c, newNode (nexts rest c))) (firsts rest)) ([] \<in> set rest))"
  by pat_completeness auto
termination
  by (relation "measure (\<lambda>strs. sum_list (map length strs))") (auto dest: newNode_smaller)

declare newNode.simps [simp del]

lemma size_next: "(c, n) \<in> set nxt \<Longrightarrow> size n < Suc (size_list (size_prod (\<lambda>x. 0) size) nxt)"
  by (induction "nxt") auto

function matchNode :: "pt_node \<Rightarrow> string \<Rightarrow> bool \<Rightarrow> bool" where
  "matchNode (Node p nxt terminal) b pre = (let l = min (length p) (length b) in
     if length p > 0 \<and> take l b \<noteq> p then False
     else if terminal \<and> (pre \<or> length p = length b) then True
     else if l \<ge> length b then False
     else case map_of nxt (b ! l) of
       None \<Rightarrow> False
     | Some nextN \<Rightarrow> matchNode nextN (drop (l + 1) b) pre)"
  by pat_completeness auto
termination
  by (relation "measure (size \<circ> fst)") (auto dest!: map_of_SomeD intro: size_next)


declare matchNode.simps [simp del]

text \<open>\<open>matchPrefix\<close> reads one byte more than the longest string has.\<close>

definition maxDepth :: "string list \<Rightarrow> nat" where
  "maxDepth strs = foldr max (map length strs) 0 + 1"

definition matchPrefix :: "string list \<Rightarrow> string \<Rightarrow> bool" where
  "matchPrefix strs r = matchNode (newNode strs) (take (maxDepth strs) r) True"

section \<open>It finds the prefixes\<close>

lemma commonPrefix_prefix: "bss \<noteq> [] \<Longrightarrow> s \<in> set bss \<Longrightarrow> prefix (commonPrefix bss) s"
proof (induction bss arbitrary: s rule: commonPrefix.induct)
  case (1 bss)
  show ?case
  proof (cases "list_all (\<lambda>b. b \<noteq> [] \<and> hd b = hd (hd bss)) bss")
    case True
    have tl: "prefix (commonPrefix (map tl bss)) (tl s)" using "1.IH" [OF conjI [OF "1.prems"(1) True], of "tl s"] "1.prems" by simp
    have "s \<noteq> [] \<and> hd s = hd (hd bss)" using True "1.prems"(2) unfolding list_all_iff by (rule bspec)
    then have s: "s = hd (hd bss) # tl s" by (metis list.collapse)
    have "commonPrefix bss = hd (hd bss) # commonPrefix (map tl bss)" using True "1.prems"(1) by (subst commonPrefix.simps) simp
    moreover have "prefix (hd (hd bss) # commonPrefix (map tl bss)) (hd (hd bss) # tl s)" using tl by simp
    ultimately show ?thesis using s by simp
  next
    case False
    then show ?thesis by (subst commonPrefix.simps) auto
  qed
qed

lemma splitPrefix_split: "splitPrefix strs = (p, rest) \<Longrightarrow> strs = map ((@) p) rest"
proof (cases "strs = [] \<or> hd strs = [] \<or> length strs = 1")
  case True
  assume "splitPrefix strs = (p, rest)"
  with True show ?thesis by (cases strs) (auto simp: splitPrefix_def intro!: map_idI [symmetric] split: if_splits)
next
  case False
  assume r: "splitPrefix strs = (p, rest)"
  have "s = commonPrefix strs @ drop (length (commonPrefix strs)) s" if "s \<in> set strs" for s
    using commonPrefix_prefix [OF _ that] False by (metis append_eq_conv_conj prefix_def)
  then show ?thesis using r False by (auto simp: splitPrefix_def Let_def comp_def intro!: map_idI [symmetric])
qed

lemma matchNode_prefix:
  "matchNode (Node p nxt t) b True \<longleftrightarrow> prefix p b \<and> (t \<or> (case drop (length p) b of [] \<Rightarrow> False
     | c # b' \<Rightarrow> (case map_of nxt c of None \<Rightarrow> False | Some n \<Rightarrow> matchNode n b' True)))"
proof (cases "prefix p b")
  case True
  then obtain b1 where b: "b = p @ b1" by (auto simp: prefix_def)
  show ?thesis
    by (subst matchNode.simps) (auto simp: b Let_def nth_append split: list.split option.split)
next
  case False
  then have "length p > 0 \<and> take (min (length p) (length b)) b \<noteq> p" by (auto simp: prefix_def) (metis append_take_drop_id take_all nat_le_linear min_def)
  then show ?thesis using False by (subst matchNode.simps) (simp add: Let_def)
qed

lemma nexts_set: "r \<in> set (nexts strs c) \<longleftrightarrow> c # r \<in> set strs"
  by (force simp: nexts_def)

lemma firsts_set: "c \<in> set (firsts strs) \<longleftrightarrow> (\<exists>r. c # r \<in> set strs)"
  by (auto simp: firsts_def image_iff neq_Nil_conv)

lemma newNode_matches: "strs \<noteq> [] \<Longrightarrow> matchNode (newNode strs) b True \<longleftrightarrow> (\<exists>s \<in> set strs. prefix s b)"
proof (induction strs arbitrary: b rule: newNode.induct)
  case (1 strs)
  show ?case
  proof (cases "length strs = 1")
    case True
    then obtain s where "strs = [s]" by (metis One_nat_def length_0_conv length_Suc_conv)
    then show ?thesis by (subst newNode.simps) (simp add: matchNode_prefix)
  next
    case False
    obtain p rest where split: "splitPrefix strs = (p, rest)" by (cases "splitPrefix strs")
    have node: "newNode strs = Node p (map (\<lambda>c. (c, newNode (nexts rest c))) (firsts rest)) ([] \<in> set rest)"
      using False "1.prems" split by (subst newNode.simps) simp
    have IH: "matchNode (newNode (nexts rest c)) b' True \<longleftrightarrow> (\<exists>s \<in> set (nexts rest c). prefix s b')" if "c \<in> set (firsts rest)" for c b'
      using "1.IH" [OF "1.prems" False split [symmetric] refl that] that by (metis firsts_set nexts_set empty_iff list.set(1))
    have "(case drop (length p) b of [] \<Rightarrow> False | c # b' \<Rightarrow>
        (case map_of (map (\<lambda>c. (c, newNode (nexts rest c))) (firsts rest)) c of None \<Rightarrow> False | Some n \<Rightarrow> matchNode n b' True))
      \<longleftrightarrow> (\<exists>c r. c # r \<in> set rest \<and> prefix (c # r) (drop (length p) b))"
      by (cases "drop (length p) b") (auto simp: map_of_map_restrict restrict_map_def IH nexts_set firsts_set)
    moreover have "(\<exists>s \<in> set strs. prefix s b) \<longleftrightarrow> prefix p b \<and> (\<exists>r \<in> set rest. prefix r (drop (length p) b))"
      using splitPrefix_split [OF split] by (fastforce simp: prefix_def)
    moreover have "(\<exists>r \<in> set rest. prefix r b1) \<longleftrightarrow> [] \<in> set rest \<or> (\<exists>c r. c # r \<in> set rest \<and> prefix (c # r) b1)" for b1
      by (metis Nil_prefix list.exhaust)
    ultimately show ?thesis by (simp add: node matchNode_prefix)
  qed
qed

lemma length_maxDepth: "s \<in> set strs \<Longrightarrow> length s < maxDepth strs"
  by (induction strs) (auto simp: maxDepth_def)

lemma matchPrefix_prefixes: "strs \<noteq> [] \<Longrightarrow> matchPrefix strs r \<longleftrightarrow> (\<exists>s \<in> set strs. prefix s r)"
proof -
  have "prefix s (take (maxDepth strs) r) \<longleftrightarrow> prefix s r" if "s \<in> set strs" for s
    using length_maxDepth [OF that] by (auto simp: prefix_def take_append)
      (metis append_take_drop_id append.assoc)
  then show "strs \<noteq> [] \<Longrightarrow> ?thesis" by (simp add: matchPrefix_def newNode_matches)
qed


section \<open>The matchers\<close>

text \<open>The frames of a connection of HTTP/2, as the library reads and decodes them: whether settings are an
  acknowledgement; the header fields of a block, if it can be decoded, and whether it is the last.\<close>

datatype h2_frame =
    SettingsFrame bool
  | HeadersFrame "(string \<times> string) list option" bool
  | ContinuationFrame "(string \<times> string) list option" bool
  | OtherFrame

text \<open>What a connection sends before it gets an answer: its bytes in the pieces in which they arrive, and the frames
  after the preface; after these a read fails. \<open>cnWrites\<close> says whether settings can be written to it.\<close>

record connection =
  cnPieces :: "string list"
  cnFrames :: "h2_frame list"
  cnWrites :: bool

definition ClientPreface :: string where
  "ClientPreface = ''PRI * HTTP/2.0'' @ [CHR 0x0D, CHR 0x0A, CHR 0x0D, CHR 0x0A] @ ''SM'' @ [CHR 0x0D, CHR 0x0A, CHR 0x0D, CHR 0x0A]"

fun prefaceLoop :: "string \<Rightarrow> string list \<Rightarrow> bool" where
  "prefaceLoop b [] = False"
| "prefaceLoop b (piece # pieces) = (let b = b @ take (length ClientPreface - length b) piece;
       eq = (b = take (length b) ClientPreface) in
     if length b = length ClientPreface then eq
     else if \<not> eq then False
     else prefaceLoop b pieces)"

definition hasHTTP2Preface :: "connection \<Rightarrow> bool" where
  "hasHTTP2Preface c = prefaceLoop [] (cnPieces c)"

text \<open>The call-back of the decoder, for each field: \<open>done\<close> and \<open>matched\<close>.\<close>

fun emitFields :: "string \<Rightarrow> (string \<Rightarrow> bool) \<Rightarrow> (string \<times> string) list \<Rightarrow> bool \<times> bool \<Rightarrow> bool \<times> bool" where
  "emitFields name matches [] (fin, matched) = (fin, matched)"
| "emitFields name matches ((n, v) # hfs) (fin, matched) =
     (if n = name then emitFields name matches hfs (True, matched \<or> matches v) else emitFields name matches hfs (fin, matched))"

fun frameLoop :: "string \<Rightarrow> (string \<Rightarrow> bool) \<Rightarrow> bool \<Rightarrow> bool \<Rightarrow> h2_frame list \<Rightarrow> bool" where
  "frameLoop name matches writes matched [] = False"
| "frameLoop name matches writes matched (SettingsFrame ack # frames) =
     (if \<not> ack \<and> \<not> writes then False else frameLoop name matches writes matched frames)"
| "frameLoop name matches writes matched (HeadersFrame block endHeaders # frames) = (case block of
       None \<Rightarrow> False
     | Some hfs \<Rightarrow> (case emitFields name matches hfs (False, matched) of (fin, matched) \<Rightarrow>
         if fin \<or> endHeaders then matched else frameLoop name matches writes matched frames))"
| "frameLoop name matches writes matched (ContinuationFrame block endHeaders # frames) = (case block of
       None \<Rightarrow> False
     | Some hfs \<Rightarrow> (case emitFields name matches hfs (False, matched) of (fin, matched) \<Rightarrow>
         if fin \<or> endHeaders then matched else frameLoop name matches writes matched frames))"
| "frameLoop name matches writes matched (OtherFrame # frames) = frameLoop name matches writes matched frames"

definition matchHTTP2Field :: "string \<Rightarrow> (string \<Rightarrow> bool) \<Rightarrow> connection \<Rightarrow> bool" where
  "matchHTTP2Field name matches c = (if \<not> hasHTTP2Preface c then False
     else frameLoop name matches (cnWrites c) False (cnFrames c))"

definition HTTP2MatchHeaderFieldPrefixSendSettings :: "string \<Rightarrow> string \<Rightarrow> connection \<Rightarrow> bool" where
  "HTTP2MatchHeaderFieldPrefixSendSettings name valuePrefix = matchHTTP2Field name (prefix valuePrefix)"

definition defaultHTTPMethods :: "string list" where
  "defaultHTTPMethods = [''OPTIONS'', ''GET'', ''HEAD'', ''POST'', ''PUT'', ''DELETE'', ''TRACE'', ''CONNECT'']"

definition HTTP1Fast :: "connection \<Rightarrow> bool" where
  "HTTP1Fast c = matchPrefix defaultHTTPMethods (concat (cnPieces c))"

section \<open>The multiplexer and the two servers\<close>

datatype server = GrpcServer | HttpServer

type_synonym c_mux = "((connection \<Rightarrow> bool) list \<times> server) list"

definition MatchWithWriters :: "(connection \<Rightarrow> bool) list \<Rightarrow> server \<Rightarrow> c_mux \<Rightarrow> c_mux" where
  "MatchWithWriters matchers listener m = m @ [(matchers, listener)]"

text \<open>The listener that gets a connection; \<open>None\<close> is one that is closed.\<close>

fun serveConnection :: "c_mux \<Rightarrow> connection \<Rightarrow> server option" where
  "serveConnection [] c = None"
| "serveConnection ((matchers, listener) # sls) c =
     (if list_ex (\<lambda>s. s c) matchers then Some listener else serveConnection sls c)"

definition addGRPCServer :: "c_mux \<Rightarrow> c_mux" where
  "addGRPCServer = MatchWithWriters [HTTP2MatchHeaderFieldPrefixSendSettings ''content-type'' ''application/grpc''] GrpcServer"

definition addHTTPServer :: "c_mux \<Rightarrow> c_mux" where
  "addHTTPServer = MatchWithWriters [HTTP1Fast] HttpServer"

definition AddServersToMux :: "c_mux \<Rightarrow> c_mux" where
  "AddServersToMux m = addHTTPServer (addGRPCServer m)"

section \<open>Which connection is served\<close>

lemma prefaceLoop_prefix:
  "prefix b ClientPreface \<Longrightarrow> length b < length ClientPreface \<Longrightarrow> prefaceLoop b pieces \<longleftrightarrow> prefix ClientPreface (b @ concat pieces)"
proof (induction pieces arbitrary: b)
  case Nil
  then show ?case by (auto dest: prefix_length_le)
next
  case (Cons piece pieces)
  let ?n = "length ClientPreface"
  define b1 where "b1 = b @ take (?n - length b) piece"
  have len: "length b1 \<le> ?n" using Cons.prems by (simp add: b1_def)
  have all: "b @ concat (piece # pieces) = b1 @ drop (?n - length b) piece @ concat pieces" by (simp add: b1_def)
  have eq: "b1 = take (length b1) ClientPreface \<longleftrightarrow> prefix b1 ClientPreface" by (metis append_eq_conv_conj prefix_def take_is_prefix)
  show ?case
  proof (cases "length b1 = ?n")
    case True
    have "prefix ClientPreface (b1 @ xs) \<longleftrightarrow> b1 = ClientPreface" for xs
      using True by (metis append_eq_append_conv prefix_def prefixI)
    then show ?thesis using True all by (simp add: b1_def [symmetric] Let_def del: concat.simps)
  next
    case False
    then have short: "length b1 < ?n" using len by simp
    then have "length piece < ?n - length b" by (auto simp: b1_def min_def split: if_splits)
    then have b1: "b1 = b @ piece" by (simp add: b1_def)
    have "prefix ClientPreface (b1 @ concat pieces) \<Longrightarrow> prefix b1 ClientPreface"
      using short by (metis less_imp_le prefixI prefix_length_prefix)
    then show ?thesis using Cons.IH [of b1] short False eq by (auto simp: b1_def [symmetric] b1 Let_def)
  qed
qed

lemma hasHTTP2Preface_prefix: "hasHTTP2Preface c \<longleftrightarrow> prefix ClientPreface (concat (cnPieces c))"
  unfolding hasHTTP2Preface_def by (subst prefaceLoop_prefix) (auto simp: ClientPreface_def)

lemma HTTP1Fast_methods: "HTTP1Fast c \<longleftrightarrow> (\<exists>m \<in> set defaultHTTPMethods. prefix m (concat (cnPieces c)))"
  unfolding HTTP1Fast_def by (rule matchPrefix_prefixes) (simp add: defaultHTTPMethods_def)

lemma preface_no_method: "prefix ClientPreface s \<Longrightarrow> m \<in> set defaultHTTPMethods \<Longrightarrow> \<not> prefix m s"
  by (auto simp: ClientPreface_def defaultHTTPMethods_def prefix_def)


end
