(* ===== verification/Spec2Isabelle.thy ===== *)
theory Spec2Isabelle
  imports Cert_Gen Eviction MachineSet_Facts App_Bundle_Facts System Fleet_Releases Command_Line Rest_Facts
    Deep_Copies_Facts Embedded_Facts Work_Queue_Facts Scheme_Facts Connections
begin

text \<open>
  A verification development for cma-ssh, the Kubernetes operator that builds clusters out of the
  bare machines of a MaaS server.

  \<^bold>\<open>The program.\<close> The operator keeps four kinds of custom resources: a cluster, a machine, a
  machine set and an application bundle (\<^verbatim>\<open>pkg/apis\<close>). Each kind has a controller, a function
  \<^verbatim>\<open>Reconcile\<close> that is called with the key of a changed object and brings the world closer to what
  the object asks for (\<^verbatim>\<open>pkg/controller\<close>). The machine controller talks to MaaS
  (\<^verbatim>\<open>pkg/maas\<close>) and to the API server of the cluster that it builds.

  \<^bold>\<open>The model.\<close> Go code that has effects is a program of type \<open>'a io\<close> (theory World): a function
  of the trace of the events so far that returns a value and the trace with its own events at the
  end. What the outside answers - the Kubernetes API, MaaS, the managed cluster, the random source,
  the clock, the cryptographic library - is a field of the record \<open>env\<close>, a function of the trace
  and of the arguments, so that every answer and every failure at every moment is covered, and an
  answer may depend on all that happened before. A panic is the value \<open>Panics\<close> of the type
  \<open>'a go\<close>, an error a value of the datatype \<open>go_error\<close>, whose constructors are the error types
  that the code tells apart. Properties of programs are stated with \<open>wp\<close>: \<open>wp p Q t\<close> says that
  the program, run after the trace \<open>t\<close>, returns and that its value and the trace after it satisfy
  \<open>Q\<close>; it is total, the programs being functions. A Go map is an association list with distinct
  keys, used through \<open>goGet\<close> and \<open>goPut\<close>; a slice is a list; a pointer that is written through is returned.

  \<^bold>\<open>Theories and what they model.\<close>
  \<^item> Prelude, World, Api_Types: strings, lists, Go maps, the trace monad, its rules, the environment
    with its calls and events; the API objects of \<^verbatim>\<open>pkg/apis\<close> and the constants of
    \<^verbatim>\<open>common/consts.go\<close>.
  \<^item> Util: \<^verbatim>\<open>pkg/util\<close>, the status of a cluster computed from its machines and the watch mappers.
  \<^item> Images: \<^verbatim>\<open>machine/images.go\<close>, the parser of image names and the search.
  \<^item> Base64, Cert, Cert_Gen: \<^verbatim>\<open>pkg/cert/gen_cert.go\<close>, the certificate bundle, its map form and its
    archive (with the base64 encoder of the standard library) and its generation.
  \<^item> Maas: \<^verbatim>\<open>pkg/maas/client.go\<close>. \<open>outstanding t\<close> reads from a trace which machines of the pool are
    allocated and not released; the locale \<open>machine_provider\<close> is the contract the machine
    controller relies on, and it is interpreted on the client.
  \<^item> Userdata, Pipeline, Machine_Create, Machine_Create_Facts: \<^verbatim>\<open>machine/create.go\<close>, the creator, its
    steps with the sticky error, the two pipelines, the cloud-init texts. The locale
    \<open>sticky_steps\<close> is the contract of a step: on an error that is set it does nothing, otherwise it
    keeps an invariant; it is interpreted on the creator.
  \<^item> Polling, Machine_Delete, Machine_Delete_Facts: \<^verbatim>\<open>machine/delete.go\<close> and
    \<^verbatim>\<open>wait.PollImmediate\<close>. Eviction: the goroutines that the handler starts, as a step relation
    over their program counters and the buffered channel.
  \<^item> Machine_Controller, Machine_Facts: \<^verbatim>\<open>machine/machine_controller.go\<close>, the reconciler, the wait
    for the node, the upgrade handler.
  \<^item> Lifecycle: the abstract phase machine of a machine object and the proof that the reconciler
    refines it.
  \<^item> Machine_Life: the states a machine object can be in, as an inductive set: it is born without a status,
    and each version follows from one before by a legal step of the phase machine, or by a change of
    labels, owner or deletion mark. Every write of the machine controller is such a step.
  \<^item> Selectors, Delete_Policy, MachineSet: \<^verbatim>\<open>pkg/controller/machineset\<close>, the machine set controller
    with the label selectors it uses, the choice of the machines to delete, the deletions as
    goroutines. MachineSet_Claims, MachineSet_Scaling, MachineSet_Facts: what it claims, how it scales,
    what a reconcile writes.
  \<^item> Adoption: the locale \<open>adopter\<close>, the contract of an object that makes itself the controller of
    machines; it is interpreted on the machine set and on the cluster.
  \<^item> Cluster_Controller, Cluster_Facts: \<^verbatim>\<open>cluster/cluster_controller.go\<close>, the secret, the phases, the
    clean-up, with the abstract machine of cluster phases.
  \<^item> Ensure: the locale \<open>ensurer\<close>, the contract of looking an object up and creating it when it is not
    found; App_Bundle, App_Bundle_Facts: \<^verbatim>\<open>pkg/controller/appbundle\<close>, and Startup, the start of the
    operator in \<^verbatim>\<open>cmd/root.go\<close> with its resource definitions, interpret it.
  \<^item> Watches: the functions \<open>add\<close> of the four controllers and \<^verbatim>\<open>pkg/controller/add_*.go\<close>, which register
    them with their watches, and the handlers of \<^verbatim>\<open>controller-runtime/pkg/handler\<close>, which turn the change of
    an object into requests.
  \<^item> Frontend: \<^verbatim>\<open>pkg/version\<close> with its command and its handler, and the routes of the HTTP server in
    \<^verbatim>\<open>pkg/ui/website/website.go\<close> and \<^verbatim>\<open>pkg/apiserver\<close>. Command_Line: \<^verbatim>\<open>Execute\<close> and the end of the process.
  \<^item> Connections: the port that the two servers of \<^verbatim>\<open>pkg/apiserver\<close> share, with the matchers of cmux and its tree of
    prefixes. What the framer of HTTP/2 decodes is a field of the record \<open>connection\<close>.
  \<^item> Gateway: \<^verbatim>\<open>pkg/generated/api/api.pb.gw.go\<close>, the HTTP form of the service, with the runtime of grpc-gateway
    that it calls. Rest_Api: the way of a request from the port to the handler, and the service as
    \<^verbatim>\<open>api/api.proto\<close> documents it. Rest_Facts: that the two agree, and what a request can do.
  \<^item> Work_Queue, Work_Queue_Facts: what is between a request and its reconcile, the work queue of client-go with
    its delays and the workers of controller-runtime, as the step relation \<open>queue_step\<close> over an idle controller.
  \<^item> Schemes, Scheme_Facts: \<^verbatim>\<open>pkg/apis\<close>, the registration of the API types with the scheme, whose answer is
    \<open>plScheme\<close> in Startup.
  \<^item> Deep_Copy, Deep_Copy_Facts, Deep_Copies, Deep_Copies_Facts: the generated \<^verbatim>\<open>zz_generated.deepcopy.go\<close>. The
    first two hold Go values with references in a heap and the copy that a type directs, with the proof that it
    is separate from its original; the others the functions themselves and that they are such copies. This is why the
    other theories can copy an object by its value.
  \<^item> Embedded_Files, Embedded_Facts: the \<^verbatim>\<open>*_vfsdata.go\<close> files, the trees of embedded files and the file system they
    are served from, with the resource definitions that Startup installs. The locale \<open>byte_file\<close> is the contract of
    an opened file, interpreted on compressed files, on plain files and on the interface over them.
  \<^item> Api_Server, Api_Server_Facts: \<^verbatim>\<open>internal/apiserver\<close>, the handlers of the gRPC service, and the
    cross-origin rule of \<^verbatim>\<open>pkg/apiserver\<close>. A handler returns an error, a reply or panics.
  \<^item> Footprints: which events a program adds to the trace. System: properties across components.
  \<^item> Activities, Fleet, Fleet_Books, Fleet_Releases: the whole operator. An \<open>activity\<close> is a call of one of the
    reconcilers or handlers; \<open>guarded\<close> is its rely and guarantee, that it writes only legal versions of
    machines as long as it reads such. The inductive relation \<open>system\<close> interleaves any number of activities,
    one external call at a time, with the actions of others and with crashes.

  \<^bold>\<open>How the parts interact.\<close> The API server creates the cluster, the machine of the control plane, the
  machine sets and the add-on bundle, all in the namespace of the cluster. The cluster controller
  puts the certificate bundle into the secret of that namespace; the machine controller reads it,
  adds the kubeconfig, and stores the machine; the cluster and the app bundle controller connect with
  that kubeconfig; the API server returns it. The machine set controller creates and deletes the
  machines of the pools. They share nothing but the stored objects. A change of an object wakes the
  controllers through the watches.

  \<^bold>\<open>The operator as a whole.\<close> A step of \<open>system\<close> appends one event to the trace of the world. A task is the
  run of an activity against an environment of its own, which stands for what the others and the outside
  answer to it. Assumptions bind these answers to the trace. \<open>honest\<close>: a machine that is read, from the
  API server or from a cache, has the status, the owners and the operator's finalizer of some version that
  the API server accepted before, and the mark of deletion if that version had it (\<open>served\<close>); it may be old,
  no order is assumed. \<open>soundEnv\<close>: the same holds of what an accepted update returns, MaaS gives its machines
  ids, and the libraries do not return the error types of the program. \<open>foreign\<close>: others create machines
  without a status and with at most one controller, do not change the status, the owners or the finalizer of
  one, and leave alone the part of the pool that is the operator's. A crash (\<open>killed\<close>) may end all tasks at
  any point. Nothing is assumed of the order of steps, of fairness or of conflicts, and two tasks may
  reconcile the same machine at once.

  \<^bold>\<open>What is shown.\<close> The functions without effects are characterised completely: parsing inverts
  naming, a bundle survives the secret it is stored in, the status of a cluster agrees with the questions asked before an upgrade or a
  deletion, the machines to delete are chosen by their priority. For the programs with effects the
  theorems speak of the calls: whatever fails, the books of the pool stay balanced, except on the one
  path that is shown to leak; a finalizer goes only after the release was asked for; the phases that
  are stored follow the abstract machines; a token that is used or made is valid; a bundle that is
  generated is a chain of trust and is found by the controllers that need it; a machine set touches
  only machines that are its own and scales by exactly the difference in every interleaving of its
  goroutines; an app bundle is recorded as installed only when all of it is there; the objects of a
  new cluster are created in order. Of the whole operator it is shown that each version of a machine object
  that was ever accepted is a state of the abstract machine of lives (Fleet), that each machine of the pool
  that is allocated is recorded in a stored object or its activity is not at its end or had a failure that is
  named (Fleet_Books), that only the machine of a deleted object, or one whose own creation failed, is
  released (Fleet_Releases), and that no change of a machine goes unnoticed (Watches). The service over HTTP is the
  documented one, and each request is one activity of the operator (Rest_Facts). A request for a reconcile is not
  lost, and no two workers of a controller reconcile the same one at a time (Work_Queue_Facts). Where the code does not do what it means to, a theorem says what
  it does instead.

  \<^bold>\<open>Bounds.\<close> \<open>PollImmediate\<close> runs its condition at once and then after each of at most
  \<open>envPollTicks\<close> ticks of its ticker, a number that the environment chooses: between none and what
  interval and timeout allow; intervals are in milliseconds. The goroutines that delete machines make
  two steps each, and \<open>deleters\<close> runs for twice their number of steps, after which none is left, which
  \<open>runDeleters_law\<close> shows; \<open>envPick\<close> chooses whose step is next. A program that waits for ever has the
  value \<open>None\<close> of the type \<open>blocking\<close>. \<open>make(chan error, diff)\<close> and \<open>sync.WaitGroup\<close> are modelled
  with the limits at which they panic. Replica counts are words of 64 and 32 bits. No other
  definition has fuel; every loop is a recursion on a list.

  \<^bold>\<open>Parameters.\<close> \<open>sort.Sort\<close> is the field \<open>envSort\<close>, of which the predicate \<open>sorts\<close> states the documented
  behaviour, an ordered permutation; \<open>insertionSort\<close> satisfies it. The selectors of
  \<^verbatim>\<open>k8s.io/apimachinery\<close> are modelled except for the syntax of label keys and values, whose checks are
  \<open>envLabelKey\<close> and \<open>envLabelValue\<close>. The gzip reader of the embedded files is the record \<open>gzip_library\<close>, of which
  \<open>gzipReads\<close> states what \<^verbatim>\<open>io.Reader\<close> asks of it, and their bytes are the parameter \<open>content\<close>; \<open>embeds\<close> says that
  they are compressed files of the sizes in the table. The answers of the rate limiter and the clock in \<open>queue_step\<close>
  are arbitrary.

  \<^bold>\<open>Not modelled.\<close> Log calls and metrics; the listeners; the messages and stubs that protoc generates, which
  are accessors and wiring; the wrappers of the asset directories, which only a development build uses; the
  conversion functions and defaults that are registered with the scheme; the vendored libraries but for the watch
  handlers, the work queue, the scheme, the deep copies, the connection multiplexer and the gateway, whose results are the environment's answers.
  The theorems of a single
  reconcile run it alone, against an arbitrary
  trace: what other processes do between its calls shows in the answers of the environment. The
  label map of a machine set's template, which its machines share until they are stored, is copied.
\<close>

end
